(* ===== verification/Prelude.thy ===== *)
theory Prelude
  imports Main "HOL-Library.Word"
begin

text \<open>
  Shared vocabulary of the development: the C types of the x86-64 Linux ABI the
  sources are compiled for, the outcomes a C statement can have beside a value, byte
  buffers with bounds-checked copies, the little-endian layout of integers in memory and
  NUL-terminated strings.  Nothing here models a file of the repository; it is the
  part of C and its library that the sources use.
\<close>

named_theorems res_simps \<open>evaluation of sequenced outcomes\<close>
named_theorems buf_simps \<open>bounds-checked buffer accesses that succeed\<close>

section \<open>C types\<close>

text \<open>
  \<open>sizeof(int) = sizeof(mode_t) = 4\<close>, \<open>sizeof(size_t) = sizeof(ssize_t) =
  sizeof(off_t) = 8\<close>, \<open>sizeof(struct stat) = 144\<close>.  Signed types are words read
  with \<^const>\<open>sint\<close>.  A \<open>cstr\<close> is the content of a C string without its
  terminator.
\<close>

type_synonym byte = "8 word"
type_synonym cint = "32 word"
type_synonym mode_t = "32 word"
type_synonym size_t = "64 word"
type_synonym ssize_t = "64 word"
type_synonym off_t = "64 word"
type_synonym cstr = "byte list"
type_synonym ptr = nat

abbreviation (input) NULL :: ptr where "NULL \<equiv> 0"
abbreviation (input) INT_MAX :: cint where "INT_MAX \<equiv> 0x7FFFFFFF"

definition sizeof_stat :: nat where
  "sizeof_stat = 144"

text \<open>A string literal of the source, as the bytes of a C string.\<close>

definition cstring :: "string \<Rightarrow> cstr" where
  "cstring s = map of_char s"

section \<open>Outcomes\<close>

text \<open>
  What can happen to a C statement beside producing a value: the undefined behaviours
  the sources can run into, and \<open>Hang\<close>, a blocking call that never returns.
\<close>

datatype fault =
    OutOfBounds      \<comment> \<open>a read or write outside the object\<close>
  | NullCall         \<comment> \<open>a call through a null function pointer\<close>
  | SignedOverflow   \<comment> \<open>signed arithmetic out of range\<close>
  | BadFree          \<comment> \<open>\<open>free\<close> of a pointer that is not a live block\<close>
  | MissingVarArg    \<comment> \<open>\<open>va_arg\<close> with no argument left\<close>
  | Hang             \<comment> \<open>a blocking call that never returns\<close>

type_synonym 'a res = "fault + 'a"

definition ebind :: "'a res \<Rightarrow> ('a \<Rightarrow> 'b res) \<Rightarrow> 'b res" where
  "ebind m k = (case m of Inl e \<Rightarrow> Inl e | Inr x \<Rightarrow> k x)"

lemma ebind_Inr [simp, res_simps]: "ebind (Inr x) k = k x"
  by (simp add: ebind_def)

lemma ebind_Inl [simp, res_simps]: "ebind (Inl e) k = Inl e"
  by (simp add: ebind_def)

lemma ebind_assoc: "ebind (ebind m f) g = ebind m (\<lambda>x. ebind (f x) g)"
  by (simp add: ebind_def split: sum.split)

lemma ebind_eq_Inr: "ebind m k = Inr y \<longleftrightarrow> (\<exists>x. m = Inr x \<and> k x = Inr y)"
  by (cases m) auto

lemma ebind_cong [fundef_cong]:
  "m = m' \<Longrightarrow> (\<And>x. m' = Inr x \<Longrightarrow> k x = k' x) \<Longrightarrow> ebind m k = ebind m' k'"
  by (cases m') auto

text \<open>Every value a computation can return satisfies \<open>P\<close>.\<close>

definition holds :: "'a res \<Rightarrow> ('a \<Rightarrow> bool) \<Rightarrow> bool" where
  "holds m P \<longleftrightarrow> (\<forall>x. m = Inr x \<longrightarrow> P x)"

lemma holdsI: "(\<And>x. m = Inr x \<Longrightarrow> P x) \<Longrightarrow> holds m P"
  by (simp add: holds_def)

lemma holdsD: "holds m P \<Longrightarrow> m = Inr x \<Longrightarrow> P x"
  by (simp add: holds_def)

lemma holds_Inr [simp]: "holds (Inr x) P = P x"
  and holds_Inl [simp]: "holds (Inl e) P"
  by (simp_all add: holds_def)

lemma holds_ebind [simp]: "holds (ebind m k) P = holds m (\<lambda>x. holds (k x) P)"
  by (cases m) simp_all

lemma holds_mono: "holds m P \<Longrightarrow> (\<And>x. P x \<Longrightarrow> Q x) \<Longrightarrow> holds m Q"
  by (simp add: holds_def)

section \<open>Byte buffers\<close>

text \<open>Reading \<open>n\<close> bytes at offset \<open>i\<close>, and overwriting at offset \<open>i\<close>.\<close>

definition slice :: "byte list \<Rightarrow> nat \<Rightarrow> nat \<Rightarrow> byte list res" where
  "slice buf i n = (if i + n \<le> length buf then Inr (take n (drop i buf)) else Inl OutOfBounds)"

definition overwrite :: "byte list \<Rightarrow> nat \<Rightarrow> byte list \<Rightarrow> byte list res" where
  "overwrite buf i bs =
     (if i + length bs \<le> length buf
      then Inr (take i buf @ bs @ drop (i + length bs) buf) else Inl OutOfBounds)"

text \<open>A sequence of \<open>memcpy\<close> calls into one buffer: (offset, bytes) pairs, in order.\<close>

primrec writes :: "byte list \<Rightarrow> (nat \<times> byte list) list \<Rightarrow> byte list res" where
  "writes buf [] = Inr buf"
| "writes buf (w # ws) = ebind (overwrite buf (fst w) (snd w)) (\<lambda>buf'. writes buf' ws)"

text \<open>
  What a kernel call given a buffer and its size stores into it: at most the buffer's
  length, from the front.
\<close>

definition put_prefix :: "byte list \<Rightarrow> byte list \<Rightarrow> byte list" where
  "put_prefix bs buf = take (length buf) bs @ drop (length bs) buf"

lemma length_put_prefix [simp]: "length (put_prefix bs buf) = length buf"
  by (auto simp: put_prefix_def min_def)

lemma put_prefix_Nil [simp]: "put_prefix [] buf = buf"
  by (simp add: put_prefix_def)

lemma put_prefix_full [simp]: "length bs = length buf \<Longrightarrow> put_prefix bs buf = bs"
  by (simp add: put_prefix_def)

lemma take_put_prefix: "length bs \<le> length buf \<Longrightarrow> take (length bs) (put_prefix bs buf) = bs"
  by (simp add: put_prefix_def)

lemma drop_put_prefix:
  "length bs \<le> length buf \<Longrightarrow> drop (length bs) (put_prefix bs buf) = drop (length bs) buf"
  by (simp add: put_prefix_def)

lemma slice_mid [buf_simps]:
  "i = length pre \<Longrightarrow> n = length bs \<Longrightarrow> slice (pre @ bs @ post) i n = Inr bs"
  by (simp add: slice_def)

lemma slice_front [buf_simps]: "n = length bs \<Longrightarrow> slice (bs @ post) 0 n = Inr bs"
  by (simp add: slice_def)

lemma slice_back [buf_simps]:
  "i = length pre \<Longrightarrow> n = length bs \<Longrightarrow> slice (pre @ bs) i n = Inr bs"
  by (simp add: slice_def)

lemma slice_all [buf_simps]: "n = length bs \<Longrightarrow> slice bs 0 n = Inr bs"
  by (simp add: slice_def)

lemma slice_oob: "length buf < i + n \<Longrightarrow> slice buf i n = Inl OutOfBounds"
  by (simp add: slice_def)

lemma length_slice: "slice buf i n = Inr bs \<Longrightarrow> length bs = n"
  by (auto simp: slice_def split: if_splits)

lemma length_overwrite: "overwrite buf i bs = Inr buf' \<Longrightarrow> length buf' = length buf"
  by (auto simp: overwrite_def split: if_splits)

lemma length_writes: "writes buf ws = Inr buf' \<Longrightarrow> length buf' = length buf"
  by (induction ws arbitrary: buf) (auto simp: ebind_eq_Inr dest: length_overwrite)

text \<open>
  Copies laid end to end from \<open>i\<close> on: the buffer keeps its first \<open>i\<close> bytes and
  then holds the copied bytes in order, whatever it held before.
\<close>

primrec contiguous :: "nat \<Rightarrow> (nat \<times> byte list) list \<Rightarrow> bool" where
  "contiguous i [] = True"
| "contiguous i (w # ws) = (fst w = i \<and> contiguous (i + length (snd w)) ws)"

lemma writes_contiguous:
  assumes "contiguous i ws" and "i + length (concat (map snd ws)) = length buf"
  shows "writes buf ws = Inr (take i buf @ concat (map snd ws))"
  using assms
proof (induction ws arbitrary: i buf)
  case Nil
  then show ?case by simp
next
  case (Cons w ws)
  obtain bs where w: "w = (i, bs)" using Cons.prems(1) by (cases w) auto
  let ?buf = "take i buf @ bs @ drop (i + length bs) buf"
  from Cons.prems w have fits: "i + length bs \<le> length buf" by simp
  from fits have len: "length ?buf = length buf" by simp
  have "writes ?buf ws = Inr (take (i + length bs) ?buf @ concat (map snd ws))"
    by (rule Cons.IH) (use Cons.prems w len in \<open>simp_all add: add.assoc\<close>)
  with fits w show ?case by (simp add: overwrite_def)
qed

text \<open>A buffer filled from its start to its end is exactly what was copied into it.\<close>

lemma writes_fill:
  "contiguous 0 ws \<Longrightarrow> length (concat (map snd ws)) = length buf \<Longrightarrow>
   writes buf ws = Inr (concat (map snd ws))"
  using writes_contiguous [of 0 ws buf] by simp

section \<open>Integers in memory\<close>

text \<open>The little-endian image of an integer, and the integer a run of bytes denotes.\<close>

primrec le_bytes :: "nat \<Rightarrow> int \<Rightarrow> byte list" where
  "le_bytes 0 k = []"
| "le_bytes (Suc n) k = word_of_int k # le_bytes n (k div 256)"

primrec of_le :: "byte list \<Rightarrow> int" where
  "of_le [] = 0"
| "of_le (b # bs) = uint b + 256 * of_le bs"

lemma length_le_bytes [simp]: "length (le_bytes n k) = n"
  by (induction n arbitrary: k) auto

lemma of_le_le_bytes: "of_le (le_bytes n k) = k mod 256 ^ n"
proof (induction n arbitrary: k)
  case 0
  then show ?case by simp
next
  case (Suc n)
  have "of_le (le_bytes (Suc n) k) = k mod 256 + 256 * (k div 256 mod 256 ^ n)"
    by (simp add: Suc.IH uint_word_of_int)
  also have "\<dots> = k mod 256 ^ Suc n"
    by (simp add: zmod_zmult2_eq add.commute)
  finally show ?case .
qed

definition le32 :: "32 word \<Rightarrow> byte list" where
  "le32 w = le_bytes 4 (uint w)"

definition le64 :: "64 word \<Rightarrow> byte list" where
  "le64 w = le_bytes 8 (uint w)"

definition ld32 :: "byte list \<Rightarrow> 32 word" where
  "ld32 bs = word_of_int (of_le bs)"

definition ld64 :: "byte list \<Rightarrow> 64 word" where
  "ld64 bs = word_of_int (of_le bs)"

text \<open>
  The contract of \<open>memcpy(buf, &x, sizeof(x))\<close> and its inverse, for one type of the
  C program: a fixed size, and loading what was stored gives the value back.
\<close>

locale codec =
  fixes width :: nat
    and enc :: "'a \<Rightarrow> byte list"
    and dec :: "byte list \<Rightarrow> 'a"
  assumes length_enc [simp]: "length (enc x) = width"
    and dec_enc [simp]: "dec (enc x) = x"
begin

lemma enc_inject: "enc x = enc y \<longleftrightarrow> x = y"
  using dec_enc by metis

lemma slice_enc: "i = length pre \<Longrightarrow> slice (pre @ enc x @ post) i width = Inr (enc x)"
  by (rule slice_mid) simp_all

lemma slice_enc_end: "i = length pre \<Longrightarrow> slice (pre @ enc x) i width = Inr (enc x)"
  by (rule slice_back) simp_all

lemma dec_take: "dec (take width (enc x @ post)) = x"
  by simp

lemma enc_append_inject: "enc x @ xs = enc y @ ys \<longleftrightarrow> x = y \<and> xs = ys"
  by (auto simp: enc_inject)

lemma enc_not_Nil: "0 < width \<Longrightarrow> enc x \<noteq> []"
  using length_enc [of x] by (metis less_nat_zero_code list.size(3))

end

lemma uint_mod_pow: "m = 2 ^ LENGTH('a) \<Longrightarrow> uint (x :: 'a::len word) mod m = uint x"
  by (simp add: uint_lt2p)

interpretation c32: codec 4 le32 ld32
  by unfold_locales (simp_all add: le32_def ld32_def of_le_le_bytes uint_mod_pow)

interpretation c64: codec 8 le64 ld64
  by unfold_locales (simp_all add: le64_def ld64_def of_le_le_bytes uint_mod_pow)

lemma le_not_Nil [simp]: "le32 x \<noteq> []" "le64 y \<noteq> []"
  by (simp_all add: c32.enc_not_Nil c64.enc_not_Nil)

section \<open>C strings\<close>

text \<open>The byte at index \<open>i\<close> of a string (0 at the terminator), and its memory image.\<close>

definition char_at :: "cstr \<Rightarrow> nat \<Rightarrow> byte" where
  "char_at s i = (if i < length s then s ! i else 0)"

definition is_cstr :: "byte list \<Rightarrow> bool" where
  "is_cstr s = list_all (\<lambda>b. b \<noteq> 0) s"

definition strlen :: "cstr \<Rightarrow> size_t" where
  "strlen s = of_nat (length s)"

text \<open>The string that starts at the front of a run of memory; reading on past the end
  of the object when it holds no terminator is out of bounds.\<close>

definition string_in :: "byte list \<Rightarrow> cstr res" where
  "string_in bs =
     (if (0::byte) \<in> set bs then Inr (takeWhile (\<lambda>b. b \<noteq> 0) bs) else Inl OutOfBounds)"

lemma string_in_append [buf_simps]: "is_cstr s \<Longrightarrow> string_in (s @ 0 # rest) = Inr s"
  by (auto simp: string_in_def is_cstr_def list_all_iff takeWhile_append)

lemma is_cstr_Cons [simp]: "is_cstr (b # s) \<longleftrightarrow> b \<noteq> 0 \<and> is_cstr s"
  by (simp add: is_cstr_def)

lemma is_cstr_Nil [simp]: "is_cstr []"
  by (simp add: is_cstr_def)

text \<open>A natural number in decimal.\<close>

definition digit :: "int \<Rightarrow> byte" where
  "digit n = word_of_int (48 + n)"

fun decimal :: "nat \<Rightarrow> cstr" where
  "decimal n = (if n < 10 then [digit (int n)] else decimal (n div 10) @ [digit (int (n mod 10))])"

declare decimal.simps [simp del]

section \<open>Signed arithmetic\<close>

text \<open>\<open>a - b\<close> on \<open>int\<close>: undefined when the difference does not fit.\<close>

definition int_sub :: "cint \<Rightarrow> cint \<Rightarrow> cint res" where
  "int_sub a b =
     (if sint a - sint b \<in> {- (2 ^ 31) ..< 2 ^ 31} then Inr (a - b) else Inl SignedOverflow)"

lemma sint_int_sub: "int_sub a b = Inr c \<Longrightarrow> sint c = sint a - sint b"
proof -
  assume "int_sub a b = Inr c"
  then have c: "c = a - b" and r: "- (2 ^ 31) \<le> sint a - sint b" "sint a - sint b < 2 ^ 31"
    by (auto simp: int_sub_def split: if_splits)
  have "sint (a - b) = signed_take_bit 31 (sint a - sint b)"
    by (simp add: sint_word_ariths)
  then show ?thesis
    using r c by (simp add: signed_take_bit_int_eq_self)
qed

lemma int_sub_INT_MAX: "0 \<le> sint a \<Longrightarrow> int_sub INT_MAX a = Inr (INT_MAX - a)"
  using sint_lt [of a] by (simp add: int_sub_def)

lemma int_sub_INT_MAX_neg: "sint a < 0 \<Longrightarrow> int_sub INT_MAX a = Inl SignedOverflow"
  by (simp add: int_sub_def)

lemma sint_of_nat_nonneg: "n < 2 ^ 63 \<Longrightarrow> 0 \<le> sint (of_nat n :: 64 word)"
  by (simp add: sint_uint unsigned_of_nat signed_take_bit_int_eq_self take_bit_nat_eq_self)

lemma unat_of_nat64: "n < 2 ^ 64 \<Longrightarrow> unat (of_nat n :: 64 word) = n"
  by (simp add: unsigned_of_nat take_bit_nat_eq_self)

end
