(* ===== verification/Machine.thy ===== *)
theory Machine
  imports Prelude
begin

text \<open>
  The machine both programs run on.  A process is a heap of malloc'ed blocks, a log of
  what it printed to \<open>stderr\<close> and the world outside it.  The kernel, the C library's
  environment lookup and the network are not part of the repository: they are the fields
  of the record \<open>os\<close>, a parameter of every definition that calls them, over an
  arbitrary type \<open>'w\<close> of worlds.
\<close>

named_theorems mem_simps \<open>heap operations on live blocks\<close>

section \<open>The operating system, a parameter\<close>

text \<open>
  The twelve file operations.  A call takes the world and returns its result and the next
  world; \<open>f_read\<close>, \<open>f_stat\<close> and \<open>f_fstat\<close> also return the bytes the
  kernel stores from the front of the caller's buffer.  \<open>f_open\<close> gets a mode only
  when the caller passes one.
\<close>

record 'w files =
  f_open :: "cstr \<Rightarrow> cint \<Rightarrow> mode_t option \<Rightarrow> 'w \<Rightarrow> cint \<times> 'w"
  f_close :: "cint \<Rightarrow> 'w \<Rightarrow> cint \<times> 'w"
  f_read :: "cint \<Rightarrow> size_t \<Rightarrow> 'w \<Rightarrow> (ssize_t \<times> byte list) \<times> 'w"
  f_write :: "cint \<Rightarrow> byte list \<Rightarrow> 'w \<Rightarrow> ssize_t \<times> 'w"
  f_lseek :: "cint \<Rightarrow> off_t \<Rightarrow> cint \<Rightarrow> 'w \<Rightarrow> off_t \<times> 'w"
  f_truncate :: "cstr \<Rightarrow> off_t \<Rightarrow> 'w \<Rightarrow> cint \<times> 'w"
  f_ftruncate :: "cint \<Rightarrow> off_t \<Rightarrow> 'w \<Rightarrow> cint \<times> 'w"
  f_stat :: "cstr \<Rightarrow> 'w \<Rightarrow> (cint \<times> byte list) \<times> 'w"
  f_fstat :: "cint \<Rightarrow> 'w \<Rightarrow> (cint \<times> byte list) \<times> 'w"
  f_fsync :: "cint \<Rightarrow> 'w \<Rightarrow> cint \<times> 'w"
  f_rename :: "cstr \<Rightarrow> cstr \<Rightarrow> 'w \<Rightarrow> cint \<times> 'w"
  f_unlink :: "cstr \<Rightarrow> 'w \<Rightarrow> cint \<times> 'w"

text \<open>
  The rest of what the programs call.  \<open>os_malloc\<close> fails (\<open>None\<close>) or gives the
  indeterminate content of the new block; \<open>os_stack\<close> is the indeterminate content of
  an automatic array.  \<open>os_recv\<close> returns its result and the bytes received, and is
  \<open>None\<close> when the call never returns.
\<close>

record 'w os = "'w files" +
  os_malloc :: "size_t \<Rightarrow> 'w \<Rightarrow> (nat \<Rightarrow> byte) option \<times> 'w"
  os_stack :: "'w \<Rightarrow> nat \<Rightarrow> byte"
  os_getenv :: "string \<Rightarrow> cstr option"
  os_inet_addr :: "cstr \<Rightarrow> 32 word"
  os_socket :: "'w \<Rightarrow> cint \<times> 'w"
  os_setsockopt :: "cint \<Rightarrow> 'w \<Rightarrow> cint \<times> 'w"
  os_connect :: "cint \<Rightarrow> 16 word \<Rightarrow> 32 word \<Rightarrow> 'w \<Rightarrow> cint \<times> 'w"
  os_bind :: "cint \<Rightarrow> 16 word \<Rightarrow> 32 word \<Rightarrow> 'w \<Rightarrow> cint \<times> 'w"
  os_listen :: "cint \<Rightarrow> cint \<Rightarrow> 'w \<Rightarrow> cint \<times> 'w"
  os_accept :: "cint \<Rightarrow> 'w \<Rightarrow> cint \<times> 'w"
  os_send :: "cint \<Rightarrow> byte list \<Rightarrow> 'w \<Rightarrow> ssize_t \<times> 'w"
  os_recv :: "cint \<Rightarrow> size_t \<Rightarrow> 'w \<Rightarrow> ((ssize_t \<times> byte list) \<times> 'w) option"
  os_shutdown :: "cint \<Rightarrow> 'w \<Rightarrow> cint \<times> 'w"
  os_pthread_create :: "'w \<Rightarrow> cint \<times> 'w"
  os_pthread_join :: "'w \<Rightarrow> cint \<times> 'w"

section \<open>Processes\<close>

record 'w proc =
  heap :: "ptr \<Rightarrow> byte list option"
  hnext :: ptr
  errlog :: "string list"
  world :: 'w

text \<open>Addresses from \<open>hnext\<close> on have never been handed out; \<open>NULL\<close> never is.\<close>

definition wf_heap :: "('w, 'z) proc_scheme \<Rightarrow> bool" where
  "wf_heap st \<longleftrightarrow> 0 < hnext st \<and> (\<forall>p. p = NULL \<or> hnext st \<le> p \<longrightarrow> heap st p = None)"

text \<open>A system call made by a process, and \<open>fprintf(stderr, "<what>: ...")\<close>.\<close>

definition sys :: "('w \<Rightarrow> 'a \<times> 'w) \<Rightarrow> ('w, 'z) proc_scheme \<Rightarrow> 'a \<times> ('w, 'z) proc_scheme" where
  "sys f st = (let (r, w) = f (world st) in (r, st\<lparr>world := w\<rparr>))"

definition perr :: "string \<Rightarrow> ('w, 'z) proc_scheme \<Rightarrow> ('w, 'z) proc_scheme" where
  "perr what st = st\<lparr>errlog := errlog st @ [what]\<rparr>"

definition malloc :: "'w os \<Rightarrow> size_t \<Rightarrow> ('w, 'z) proc_scheme \<Rightarrow> ptr \<times> ('w, 'z) proc_scheme" where
  "malloc os n st =
     (case os_malloc os n (world st) of
        (None, w) \<Rightarrow> (NULL, st\<lparr>world := w\<rparr>)
      | (Some g, w) \<Rightarrow>
          (hnext st,
           st\<lparr>heap := (heap st)(hnext st \<mapsto> map g [0..<unat n]),
              hnext := Suc (hnext st), world := w\<rparr>))"

definition free :: "ptr \<Rightarrow> ('w, 'z) proc_scheme \<Rightarrow> ('w, 'z) proc_scheme res" where
  "free p st =
     (if p = NULL then Inr st
      else case heap st p of
        None \<Rightarrow> Inl BadFree
      | Some _ \<Rightarrow> Inr (st\<lparr>heap := (heap st)(p := None)\<rparr>))"

text \<open>The block a pointer refers to, reads from it, and a run of copies into it.\<close>

definition block :: "ptr \<Rightarrow> ('w, 'z) proc_scheme \<Rightarrow> byte list res" where
  "block p st = (case heap st p of None \<Rightarrow> Inl OutOfBounds | Some b \<Rightarrow> Inr b)"

definition load :: "ptr \<Rightarrow> nat \<Rightarrow> nat \<Rightarrow> ('w, 'z) proc_scheme \<Rightarrow> byte list res" where
  "load p i n st = ebind (block p st) (\<lambda>b. slice b i n)"

definition load_string :: "ptr \<Rightarrow> nat \<Rightarrow> ('w, 'z) proc_scheme \<Rightarrow> cstr res" where
  "load_string p i st =
     ebind (block p st) (\<lambda>b. if i \<le> length b then string_in (drop i b) else Inl OutOfBounds)"

definition stores ::
  "ptr \<Rightarrow> (nat \<times> byte list) list \<Rightarrow> ('w, 'z) proc_scheme \<Rightarrow> ('w, 'z) proc_scheme res" where
  "stores p ws st =
     ebind (block p st) (\<lambda>b. ebind (writes b ws) (\<lambda>b'. Inr (st\<lparr>heap := (heap st)(p \<mapsto> b')\<rparr>)))"

text \<open>An automatic array of \<open>n\<close> bytes, not initialised.\<close>

definition stack_array :: "'w os \<Rightarrow> nat \<Rightarrow> ('w, 'z) proc_scheme \<Rightarrow> byte list" where
  "stack_array os n st = map (os_stack os (world st)) [0..<n]"

text \<open>Requests for up to \<open>lim\<close> bytes are granted, and granting them is no event in
  the world.\<close>

definition alloc_ok :: "'w os \<Rightarrow> nat \<Rightarrow> bool" where
  "alloc_ok os lim \<longleftrightarrow> (\<forall>n w. unat n \<le> lim \<longrightarrow> (\<exists>g. os_malloc os n w = (Some g, w)))"

lemma alloc_okD: "alloc_ok os lim \<Longrightarrow> unat n \<le> lim \<Longrightarrow> \<exists>g. os_malloc os n w = (Some g, w)"
  by (simp add: alloc_ok_def)

section \<open>Facts\<close>

lemma length_stack_array [simp]: "length (stack_array os n st) = n"
  by (simp add: stack_array_def)

lemma sys_fields [simp]:
  "fst (sys f st) = fst (f (world st))"
  "heap (snd (sys f st)) = heap st"
  "hnext (snd (sys f st)) = hnext st"
  "errlog (snd (sys f st)) = errlog st"
  "world (snd (sys f st)) = snd (f (world st))"
  by (simp_all add: sys_def split: prod.split)

lemma sys_eq: "sys f st = (fst (f (world st)), st\<lparr>world := snd (f (world st))\<rparr>)"
  by (simp add: sys_def split: prod.split)

lemma perr_fields [simp]:
  "heap (perr what st) = heap st" "hnext (perr what st) = hnext st"
  "world (perr what st) = world st" "errlog (perr what st) = errlog st @ [what]"
  by (simp_all add: perr_def)

lemma wf_heap_fresh: "wf_heap st \<Longrightarrow> heap st (hnext st) = None"
  and wf_heap_NULL: "wf_heap st \<Longrightarrow> heap st NULL = None"
  and wf_heap_pos: "wf_heap st \<Longrightarrow> 0 < hnext st"
  by (auto simp: wf_heap_def)

lemma wf_heap_live: "wf_heap st \<Longrightarrow> heap st p = Some b \<Longrightarrow> 0 < p \<and> p < hnext st"
  unfolding wf_heap_def by (metis gr0I not_less option.distinct(1))

lemma wf_heap_cong:
  "heap st' = heap st \<Longrightarrow> hnext st' = hnext st \<Longrightarrow> wf_heap st' = wf_heap st"
  by (simp add: wf_heap_def)

lemma wf_heap_sys [simp]: "wf_heap (snd (sys f st)) = wf_heap st"
  and wf_heap_perr [simp]: "wf_heap (perr what st) = wf_heap st"
  by (simp_all add: wf_heap_def)

lemma wf_heap_malloc:
  assumes "malloc os n st = (p, st')" and "wf_heap st"
  shows "wf_heap st'"
  using assms by (auto simp: malloc_def wf_heap_def split: prod.splits option.splits)

lemma wf_heap_free:
  assumes "free p st = Inr st'" and "wf_heap st"
  shows "wf_heap st'"
  using assms by (auto simp: free_def wf_heap_def split: if_splits option.splits)

lemma malloc_cases [consumes 1, case_names fail ok]:
  assumes "malloc os n st = (p, st')"
  obtains w where "os_malloc os n (world st) = (None, w)" "p = NULL" "st' = st\<lparr>world := w\<rparr>"
  | g w where "os_malloc os n (world st) = (Some g, w)" "p = hnext st"
      "st' = st\<lparr>heap := (heap st)(hnext st \<mapsto> map g [0..<unat n]),
                hnext := Suc (hnext st), world := w\<rparr>"
  using assms by (auto simp: malloc_def split: prod.splits option.splits)

lemma free_NULL [simp, mem_simps]: "free NULL st = Inr st"
  by (simp add: free_def)

lemma free_live [mem_simps]:
  "p \<noteq> NULL \<Longrightarrow> heap st p = Some b \<Longrightarrow> free p st = Inr (st\<lparr>heap := (heap st)(p := None)\<rparr>)"
  by (simp add: free_def)

lemma free_fresh [mem_simps]:
  "p \<noteq> NULL \<Longrightarrow> heap st = h(p \<mapsto> b) \<Longrightarrow> h p = None \<Longrightarrow> free p st = Inr (st\<lparr>heap := h\<rparr>)"
  by (simp add: free_def fun_upd_idem)

lemma block_live [mem_simps]: "heap st p = Some b \<Longrightarrow> block p st = Inr b"
  by (simp add: block_def)

lemma load_live [mem_simps]: "heap st p = Some b \<Longrightarrow> load p i n st = slice b i n"
  by (simp add: load_def block_live)

lemma load_string_live [mem_simps]:
  "heap st p = Some (pre @ s @ 0 # post) \<Longrightarrow> i = length pre \<Longrightarrow> is_cstr s \<Longrightarrow>
   load_string p i st = Inr s"
  by (simp add: load_string_def block_live string_in_append)

lemma stores_live [mem_simps]:
  "heap st p = Some b \<Longrightarrow> writes b ws = Inr b' \<Longrightarrow>
   stores p ws st = Inr (st\<lparr>heap := (heap st)(p \<mapsto> b')\<rparr>)"
  by (simp add: stores_def block_live)

text \<open>A fresh block filled end to end holds exactly the bytes copied into it.\<close>

lemma stores_fill [mem_simps]:
  "heap st p = Some b \<Longrightarrow> contiguous 0 ws \<Longrightarrow> length (concat (map snd ws)) = length b \<Longrightarrow>
   stores p ws st = Inr (st\<lparr>heap := (heap st)(p \<mapsto> concat (map snd ws))\<rparr>)"
  by (rule stores_live) (auto intro: writes_fill)

text \<open>Freeing twice is always caught.\<close>

lemma double_free:
  assumes "free p st = Inr st'" and "p \<noteq> NULL"
  shows "free p st' = Inl BadFree"
  using assms by (auto simp: free_def split: option.splits)

end
