(* ===== verification/Wire.thy ===== *)
theory Wire
  imports Machine
begin

text \<open>
  The wire format the two programs share: the function codes (\<open>enum function\<close> of
  both \<open>c/rpc_stubs.c\<close> and \<open>c/server.c\<close>), the calls a request can carry, the
  payload and the frame of a call, the reference decoder \<open>parse\<close>, and the abstract
  server \<open>exec\<close> with the response payload of a call's result.  The stubs and the
  request handler are proved against these in their own theories.
\<close>

named_theorems wire_simps \<open>layout of payloads and responses\<close>

section \<open>Function codes\<close>

datatype func =
    OPEN | CLOSE | READ | WRITE | LSEEK | TRUNCATE | FTRUNCATE | STAT | FSTAT | FSYNC
  | RENAME | UNLINK

text \<open>The value of an enumerator, and the \<open>case\<close> label a code byte selects
  (\<open>None\<close>: the \<open>default\<close> label).\<close>

fun func_code :: "func \<Rightarrow> byte" where
  "func_code OPEN = 0"
| "func_code CLOSE = 1"
| "func_code READ = 2"
| "func_code WRITE = 3"
| "func_code LSEEK = 4"
| "func_code TRUNCATE = 5"
| "func_code FTRUNCATE = 6"
| "func_code STAT = 7"
| "func_code FSTAT = 8"
| "func_code FSYNC = 9"
| "func_code RENAME = 10"
| "func_code UNLINK = 11"

definition all_funcs :: "func list" where
  "all_funcs =
     [OPEN, CLOSE, READ, WRITE, LSEEK, TRUNCATE, FTRUNCATE, STAT, FSTAT, FSYNC, RENAME, UNLINK]"

definition func_of_code :: "byte \<Rightarrow> func option" where
  "func_of_code b = List.find (\<lambda>f. func_code f = b) all_funcs"

lemma func_of_code_code [simp]: "func_of_code (func_code f) = Some f"
  by (cases f) (simp_all add: func_of_code_def all_funcs_def)

lemma func_of_code_default: "11 < uint b \<Longrightarrow> func_of_code b = None"
  by (auto simp: func_of_code_def all_funcs_def find_None_iff)

text \<open>Enumerators are ordered by their codes.\<close>

instantiation func :: linorder
begin

definition less_eq_func :: "func \<Rightarrow> func \<Rightarrow> bool" where
  "less_eq_func f g \<longleftrightarrow> func_code f \<le> func_code g"

definition less_func :: "func \<Rightarrow> func \<Rightarrow> bool" where
  "less_func f g \<longleftrightarrow> func_code f < func_code g"

instance
proof
  fix f g h :: func
  show "f < g \<longleftrightarrow> f \<le> g \<and> \<not> g \<le> f"
    by (auto simp: less_eq_func_def less_func_def)
  show "f \<le> f" by (simp add: less_eq_func_def)
  show "f \<le> h" if "f \<le> g" and "g \<le> h"
    using that by (simp add: less_eq_func_def)
  show "f = g" if "f \<le> g" and "g \<le> f"
    using that func_of_code_code by (metis less_eq_func_def order_antisym option.inject)
  show "f \<le> g \<or> g \<le> f" by (auto simp: less_eq_func_def)
qed

end

section \<open>Calls and their payloads\<close>

definition O_CREAT :: cint where "O_CREAT = 0x40"

text \<open>
  One call with the arguments that travel.  Paths are as the server sees them (without the
  leading slashes); descriptors are as the client sees them.
\<close>

datatype call =
    Open cstr cint "mode_t option"
  | Close cint
  | Read cint size_t
  | Write cint "byte list"
  | Lseek cint off_t cint
  | Truncate cstr off_t
  | Ftruncate cint off_t
  | Stat cstr
  | Fstat cint
  | Fsync cint
  | Rename cstr cstr
  | Unlink cstr

fun call_func :: "call \<Rightarrow> func" where
  "call_func (Open _ _ _) = OPEN"
| "call_func (Close _) = CLOSE"
| "call_func (Read _ _) = READ"
| "call_func (Write _ _) = WRITE"
| "call_func (Lseek _ _ _) = LSEEK"
| "call_func (Truncate _ _) = TRUNCATE"
| "call_func (Ftruncate _ _) = FTRUNCATE"
| "call_func (Stat _) = STAT"
| "call_func (Fstat _) = FSTAT"
| "call_func (Fsync _) = FSYNC"
| "call_func (Rename _ _) = RENAME"
| "call_func (Unlink _) = UNLINK"

text \<open>The argument bytes; strings carry their terminator, \<open>write\<close> puts the count last.\<close>

fun call_args :: "call \<Rightarrow> byte list" where
  "call_args (Open path oflag mode) =
     path @ [0] @ le32 oflag @ (case mode of None \<Rightarrow> [] | Some m \<Rightarrow> le32 m)"
| "call_args (Close fd) = le32 fd"
| "call_args (Read fd nbyte) = le32 fd @ le64 nbyte"
| "call_args (Write fd bs) = le32 fd @ bs @ le64 (of_nat (length bs))"
| "call_args (Lseek fd offset whence) = le32 fd @ le64 offset @ le32 whence"
| "call_args (Truncate path len) = path @ [0] @ le64 len"
| "call_args (Ftruncate fd len) = le32 fd @ le64 len"
| "call_args (Stat path) = path @ [0]"
| "call_args (Fstat fd) = le32 fd"
| "call_args (Fsync fd) = le32 fd"
| "call_args (Rename old new) = old @ [0] @ new @ [0]"
| "call_args (Unlink path) = path @ [0]"

text \<open>\<open>[function code (1 byte) || function arguments]\<close>, and the request buffer
  \<open>[payload size (8 bytes) || payload]\<close>.\<close>

definition payload_of :: "call \<Rightarrow> byte list" where
  "payload_of c = func_code (call_func c) # call_args c"

definition frame :: "byte list \<Rightarrow> byte list" where
  "frame pl = le64 (of_nat (length pl)) @ pl"

text \<open>
  Well-formed calls: strings hold no NUL, a mode travels exactly with the flag word
  \<open>O_CREAT\<close>, and no object is larger than the address space allows.
\<close>

definition addressable :: "byte list \<Rightarrow> bool" where
  "addressable bs \<longleftrightarrow> length bs < 2 ^ 60"

lemma unat_path_size:
  "addressable s \<Longrightarrow> unat (strlen s) = length s"
  "addressable s \<Longrightarrow> unat (strlen s + 1) = Suc (length s)"
  "addressable s \<Longrightarrow> s \<noteq> [] \<Longrightarrow> unat (strlen s - 1) = length s - 1"
proof -
  assume s: "addressable s"
  then show "unat (strlen s) = length s"
    by (simp add: strlen_def addressable_def unat_of_nat64)
  have e: "strlen s + 1 = of_nat (Suc (length s))" by (simp add: strlen_def)
  show "unat (strlen s + 1) = Suc (length s)"
    unfolding e by (rule unat_of_nat64) (use s in \<open>simp add: addressable_def\<close>)
  show "unat (strlen s - 1) = length s - 1" if "s \<noteq> []"
  proof -
    have e: "strlen s - 1 = of_nat (length s - 1)"
      using that by (cases s) (simp_all add: strlen_def)
    show ?thesis
      unfolding e by (rule unat_of_nat64) (use s in \<open>simp add: addressable_def\<close>)
  qed
qed

fun wf_call :: "call \<Rightarrow> bool" where
  "wf_call (Open path oflag mode) \<longleftrightarrow>
     is_cstr path \<and> addressable path \<and> (mode \<noteq> None \<longleftrightarrow> oflag = O_CREAT)"
| "wf_call (Write _ bs) \<longleftrightarrow> addressable bs"
| "wf_call (Truncate path _) \<longleftrightarrow> is_cstr path \<and> addressable path"
| "wf_call (Stat path) \<longleftrightarrow> is_cstr path \<and> addressable path"
| "wf_call (Rename old new) \<longleftrightarrow> is_cstr old \<and> is_cstr new \<and> addressable old \<and> addressable new"
| "wf_call (Unlink path) \<longleftrightarrow> is_cstr path \<and> addressable path"
| "wf_call _ \<longleftrightarrow> True"

text \<open>The descriptor a call names.\<close>

fun call_fd :: "call \<Rightarrow> cint option" where
  "call_fd (Close fd) = Some fd"
| "call_fd (Read fd _) = Some fd"
| "call_fd (Write fd _) = Some fd"
| "call_fd (Lseek fd _ _) = Some fd"
| "call_fd (Ftruncate fd _) = Some fd"
| "call_fd (Fstat fd) = Some fd"
| "call_fd (Fsync fd) = Some fd"
| "call_fd _ = None"

section \<open>Reference decoder\<close>

text \<open>Splitting off a terminated string.\<close>

fun take_string :: "byte list \<Rightarrow> (cstr \<times> byte list) option" where
  "take_string [] = None"
| "take_string (b # bs) =
     (if b = 0 then Some ([], bs)
      else map_option (\<lambda>(s, rest). (b # s, rest)) (take_string bs))"

definition on_string :: "byte list \<Rightarrow> (cstr \<Rightarrow> byte list \<Rightarrow> call option) \<Rightarrow> call option" where
  "on_string bs k = (case take_string bs of None \<Rightarrow> None | Some (s, rest) \<Rightarrow> k s rest)"

definition exactly :: "nat \<Rightarrow> byte list \<Rightarrow> call \<Rightarrow> call option" where
  "exactly n bs c = (if length bs = n then Some c else None)"

fun parse_args :: "func \<Rightarrow> byte list \<Rightarrow> call option" where
  "parse_args OPEN bs = on_string bs (\<lambda>path rest.
     let oflag = ld32 (take 4 rest) in
     if oflag = O_CREAT
     then exactly 8 rest (Open path oflag (Some (ld32 (drop 4 rest))))
     else exactly 4 rest (Open path oflag None))"
| "parse_args CLOSE bs = exactly 4 bs (Close (ld32 bs))"
| "parse_args READ bs = exactly 12 bs (Read (ld32 (take 4 bs)) (ld64 (drop 4 bs)))"
| "parse_args WRITE bs =
     (let n = length bs - 12; body = take n (drop 4 bs) in
      if 12 \<le> length bs \<and> ld64 (drop (4 + n) bs) = of_nat n
      then Some (Write (ld32 (take 4 bs)) body) else None)"
| "parse_args LSEEK bs =
     exactly 16 bs (Lseek (ld32 (take 4 bs)) (ld64 (take 8 (drop 4 bs))) (ld32 (drop 12 bs)))"
| "parse_args TRUNCATE bs = on_string bs (\<lambda>path rest. exactly 8 rest (Truncate path (ld64 rest)))"
| "parse_args FTRUNCATE bs = exactly 12 bs (Ftruncate (ld32 (take 4 bs)) (ld64 (drop 4 bs)))"
| "parse_args STAT bs = on_string bs (\<lambda>path rest. exactly 0 rest (Stat path))"
| "parse_args FSTAT bs = exactly 4 bs (Fstat (ld32 bs))"
| "parse_args FSYNC bs = exactly 4 bs (Fsync (ld32 bs))"
| "parse_args RENAME bs = on_string bs (\<lambda>old rest.
     on_string rest (\<lambda>new rest'. exactly 0 rest' (Rename old new)))"
| "parse_args UNLINK bs = on_string bs (\<lambda>path rest. exactly 0 rest (Unlink path))"

definition parse :: "byte list \<Rightarrow> call option" where
  "parse pl =
     (case pl of [] \<Rightarrow> None
      | b # bs \<Rightarrow> (case func_of_code b of None \<Rightarrow> None | Some f \<Rightarrow> parse_args f bs))"

lemma take_string_append [simp]: "is_cstr s \<Longrightarrow> take_string (s @ 0 # rest) = Some (s, rest)"
  by (induction s) auto

lemma on_string_append [simp]: "is_cstr s \<Longrightarrow> on_string (s @ 0 # rest) k = k s rest"
  by (simp add: on_string_def)

lemma parse_args_call_args: "wf_call c \<Longrightarrow> parse_args (call_func c) (call_args c) = Some c"
  by (cases c) (auto simp: exactly_def Let_def split: option.splits)

lemma parse_payload_of: "wf_call c \<Longrightarrow> parse (payload_of c) = Some c"
  by (simp add: parse_def payload_of_def parse_args_call_args)

section \<open>The abstract server\<close>

text \<open>
  A descriptor of the server is shown to the client as \<open>INT_MAX - fd\<close>; errors pass
  through.  The client recognises a remote descriptor by \<open>fildes > INT_MAX / 2\<close>.
\<close>

definition to_remote :: "cint \<Rightarrow> cint" where
  "to_remote fd = (if 0 \<le> sint fd then INT_MAX - fd else fd)"

definition to_local :: "cint \<Rightarrow> cint" where
  "to_local fd = INT_MAX - fd"

definition is_remote_fd :: "cint \<Rightarrow> bool" where
  "is_remote_fd fd \<longleftrightarrow> sint fd > sint INT_MAX div 2"

datatype result =
    RInt cint
  | RLong "64 word"
  | RRead ssize_t "byte list"
  | RStat cint "byte list"

text \<open>The call itself, made directly on the server's files.\<close>

fun exec :: "('w, 'z) files_scheme \<Rightarrow> call \<Rightarrow> 'w \<Rightarrow> result \<times> 'w" where
  "exec F (Open path oflag mode) w = (let (fd, w) = f_open F path oflag mode w in (RInt (to_remote fd), w))"
| "exec F (Close fd) w = (let (rc, w) = f_close F (to_local fd) w in (RInt rc, w))"
| "exec F (Read fd nbyte) w = (let ((rc, bs), w) = f_read F (to_local fd) nbyte w in (RRead rc bs, w))"
| "exec F (Write fd bs) w = (let (rc, w) = f_write F (to_local fd) bs w in (RLong rc, w))"
| "exec F (Lseek fd offset whence) w =
     (let (off, w) = f_lseek F (to_local fd) offset whence w in (RLong off, w))"
| "exec F (Truncate path len) w = (let (rc, w) = f_truncate F path len w in (RInt rc, w))"
| "exec F (Ftruncate fd len) w = (let (rc, w) = f_ftruncate F (to_local fd) len w in (RInt rc, w))"
| "exec F (Stat path) w = (let ((rc, bs), w) = f_stat F path w in (RStat rc bs, w))"
| "exec F (Fstat fd) w = (let ((rc, bs), w) = f_fstat F (to_local fd) w in (RStat rc bs, w))"
| "exec F (Fsync fd) w = (let (rc, w) = f_fsync F (to_local fd) w in (RInt rc, w))"
| "exec F (Rename old new) w = (let (rc, w) = f_rename F old new w in (RInt rc, w))"
| "exec F (Unlink path) w = (let (rc, w) = f_unlink F path w in (RInt rc, w))"

text \<open>The same operations as a program on the server's machine would make them.\<close>

fun direct :: "('w, 'z) files_scheme \<Rightarrow> call \<Rightarrow> 'w \<Rightarrow> result \<times> 'w" where
  "direct F (Open path oflag mode) w = (let (fd, w) = f_open F path oflag mode w in (RInt fd, w))"
| "direct F (Close fd) w = (let (rc, w) = f_close F fd w in (RInt rc, w))"
| "direct F (Read fd nbyte) w = (let ((rc, bs), w) = f_read F fd nbyte w in (RRead rc bs, w))"
| "direct F (Write fd bs) w = (let (rc, w) = f_write F fd bs w in (RLong rc, w))"
| "direct F (Lseek fd offset whence) w = (let (off, w) = f_lseek F fd offset whence w in (RLong off, w))"
| "direct F (Truncate path len) w = (let (rc, w) = f_truncate F path len w in (RInt rc, w))"
| "direct F (Ftruncate fd len) w = (let (rc, w) = f_ftruncate F fd len w in (RInt rc, w))"
| "direct F (Stat path) w = (let ((rc, bs), w) = f_stat F path w in (RStat rc bs, w))"
| "direct F (Fstat fd) w = (let ((rc, bs), w) = f_fstat F fd w in (RStat rc bs, w))"
| "direct F (Fsync fd) w = (let (rc, w) = f_fsync F fd w in (RInt rc, w))"
| "direct F (Rename old new) w = (let (rc, w) = f_rename F old new w in (RInt rc, w))"
| "direct F (Unlink path) w = (let (rc, w) = f_unlink F path w in (RInt rc, w))"

text \<open>A call of the client in terms of the server's descriptors, and back.\<close>

fun localise :: "call \<Rightarrow> call" where
  "localise (Close fd) = Close (to_local fd)"
| "localise (Read fd n) = Read (to_local fd) n"
| "localise (Write fd bs) = Write (to_local fd) bs"
| "localise (Lseek fd off wh) = Lseek (to_local fd) off wh"
| "localise (Ftruncate fd n) = Ftruncate (to_local fd) n"
| "localise (Fstat fd) = Fstat (to_local fd)"
| "localise (Fsync fd) = Fsync (to_local fd)"
| "localise c = c"

fun globalise :: "call \<Rightarrow> result \<Rightarrow> result" where
  "globalise (Open _ _ _) (RInt fd) = RInt (to_remote fd)"
| "globalise _ r = r"

lemma exec_direct:
  "exec F c w = (let (r, w') = direct F (localise c) w in (globalise c r, w'))"
  by (cases c) (auto simp: Let_def split: prod.split)

text \<open>
  The response payload of a result; \<open>old\<close> is what the server's buffer held before the
  kernel stored into it.
\<close>

fun reply :: "byte list \<Rightarrow> result \<Rightarrow> byte list" where
  "reply old (RInt r) = le32 r"
| "reply old (RLong r) = le64 r"
| "reply old (RRead r bs) = le64 r @ put_prefix bs old"
| "reply old (RStat r bs) = le32 r @ put_prefix bs old"

text \<open>The size of the buffer the call's result is stored into, and of its response.\<close>

fun result_buf :: "call \<Rightarrow> nat" where
  "result_buf (Read _ nbyte) = unat nbyte"
| "result_buf (Stat _) = sizeof_stat"
| "result_buf (Fstat _) = sizeof_stat"
| "result_buf _ = 0"

fun reply_size :: "call \<Rightarrow> nat" where
  "reply_size (Read _ nbyte) = 8 + unat nbyte"
| "reply_size (Write _ _) = 8"
| "reply_size (Lseek _ _ _) = 8"
| "reply_size (Stat _) = 4 + sizeof_stat"
| "reply_size (Fstat _) = 4 + sizeof_stat"
| "reply_size _ = 4"

lemma length_reply: "length old = result_buf c \<Longrightarrow> length (reply old (fst (exec F c w))) = reply_size c"
  by (cases c) (auto split: prod.split)

section \<open>Descriptors\<close>

lemma uint_INT_MAX_minus:
  assumes "0 \<le> sint (fd :: cint)"
  shows "sint (INT_MAX - fd) = 2147483647 - sint fd"
  using sint_int_sub [OF int_sub_INT_MAX [OF assms]] by simp

lemma to_local_to_remote: "0 \<le> sint fd \<Longrightarrow> to_local (to_remote fd) = fd"
  by (simp add: to_local_def to_remote_def)

lemma to_remote_is_remote:
  "0 \<le> sint fd \<Longrightarrow> is_remote_fd (to_remote fd) \<longleftrightarrow> sint fd \<le> 1073741823"
  by (auto simp: is_remote_fd_def to_remote_def uint_INT_MAX_minus)

lemma remote_fd_nonneg: "is_remote_fd fd \<Longrightarrow> 0 \<le> sint fd"
  by (simp add: is_remote_fd_def)

lemma to_local_bounds: "is_remote_fd fd \<Longrightarrow> 0 \<le> sint (to_local fd) \<and> sint (to_local fd) \<le> 1073741823"
  using sint_lt [of fd]
  by (auto simp: to_local_def uint_INT_MAX_minus remote_fd_nonneg) (simp add: is_remote_fd_def)

end
