(* ===== verification/Connection.thy ===== *)
theory Connection
  imports Wire
begin

text \<open>
  The client's connection layer, \<open>c/rpc_stubs.c\<close> lines 16 to 184: the library's
  static state, the lazily resolved pointers to the real functions,
  \<open>connect_to_server\<close>, \<open>send_data\<close>, \<open>recv_data\<close> and
  \<open>recv_data_buf\<close>.  The locale \<open>transport\<close> is what the stubs rely on: a
  kernel on which one whole exchange with the server succeeds.
\<close>

section \<open>State of the stub library\<close>

text \<open>
  The file-scope variables: \<open>real f\<close> holds when the pointer to the real function
  \<open>f\<close> is not null; \<open>sin_port\<close> and \<open>s_addr\<close> are the fields of
  \<open>connection\<close> that vary.
\<close>

record 'w stubs = "'w proc" +
  real :: "func \<Rightarrow> bool"
  host_string :: "cstr option"
  port_number :: "16 word"
  sock :: cint
  sin_port :: "16 word"
  s_addr :: "32 word"

definition HOSTNAME :: cstr where "HOSTNAME = cstring ''127.0.0.1''"
definition PORT_NUMBER :: cstr where "PORT_NUMBER = cstring ''5000''"

text \<open>\<open>if (real_f == NULL) real_f = dlsym(RTLD_NEXT, "f");\<close> and a call through the
  pointer.\<close>

definition resolve :: "func \<Rightarrow> 'w stubs \<Rightarrow> 'w stubs" where
  "resolve f st = st\<lparr>real := (real st)(f := True)\<rparr>"

definition call_real :: "func \<Rightarrow> ('w \<Rightarrow> 'a \<times> 'w) \<Rightarrow> 'w stubs \<Rightarrow> ('a \<times> 'w stubs) res" where
  "call_real f op st = (if real st f then Inr (sys op st) else Inl NullCall)"

section \<open>Library functions\<close>

text \<open>\<open>atoi\<close>: white space, an optional sign, digits; undefined when the value is no
  \<open>int\<close>.\<close>

definition isspace :: "byte \<Rightarrow> bool" where
  "isspace b \<longleftrightarrow> b = 32 \<or> 9 \<le> b \<and> b \<le> 13"

definition isdigit :: "byte \<Rightarrow> bool" where
  "isdigit b \<longleftrightarrow> 48 \<le> b \<and> b \<le> 57"

definition digits_value :: "byte list \<Rightarrow> int" where
  "digits_value ds = foldl (\<lambda>n d. 10 * n + (uint d - 48)) 0 ds"

definition atoi :: "cstr \<Rightarrow> cint res" where
  "atoi s =
     (let s = dropWhile isspace s;
          neg = (s \<noteq> [] \<and> hd s = 45);
          s = (if s \<noteq> [] \<and> (hd s = 45 \<or> hd s = 43) then tl s else s);
          n = digits_value (takeWhile isdigit s);
          v = (if neg then - n else n)
      in if v \<in> {- (2 ^ 31) ..< 2 ^ 31} then Inr (word_of_int v) else Inl SignedOverflow)"

text \<open>A number in decimal is read back.\<close>

lemma uint_digit: "0 \<le> n \<Longrightarrow> n < 10 \<Longrightarrow> uint (digit n) = 48 + n"
  by (simp only: digit_def uint_word_of_int) simp

lemma decimal_digits: "\<forall>b \<in> set (decimal n). 48 \<le> uint b \<and> uint b \<le> 57"
proof (induction n rule: decimal.induct)
  case (1 n)
  show ?case by (subst decimal.simps) (use 1 in \<open>auto simp: uint_digit\<close>)
qed

lemma decimal_not_Nil: "decimal n \<noteq> []"
  by (subst decimal.simps) simp

lemma digits_value_decimal: "digits_value (decimal n) = int n"
proof (induction n rule: decimal.induct)
  case (1 n)
  have "10 * int (n div 10) + int (n mod 10) = int n" by (metis mult_div_mod_eq of_nat_add of_nat_mult of_nat_numeral)
  then show ?case by (subst decimal.simps) (use 1 in \<open>auto simp: digits_value_def uint_digit\<close>)
qed

lemma atoi_decimal:
  assumes "n < 2 ^ 31"
  shows "atoi (decimal n) = Inr (of_nat n)"
proof -
  have b: "\<not> isspace b \<and> isdigit b \<and> b \<noteq> 45 \<and> b \<noteq> 43" if "b \<in> set (decimal n)" for b
    using bspec [OF decimal_digits that] by (auto simp: isspace_def isdigit_def word_le_def)
  have s: "dropWhile isspace (decimal n) = decimal n" "takeWhile isdigit (decimal n) = decimal n"
    using b by (auto simp: dropWhile_eq_self_iff takeWhile_eq_all_conv decimal_not_Nil)
  have "hd (decimal n) \<noteq> 45" "hd (decimal n) \<noteq> 43"
    using b [OF hd_in_set [OF decimal_not_Nil]] by auto
  then show ?thesis
    using assms by (simp add: atoi_def s digits_value_decimal Let_def)
qed

definition htons :: "16 word \<Rightarrow> 16 word" where
  "htons x = word_of_int (uint x mod 256 * 256 + uint x div 256)"

lemma htons_htons: "htons (htons x) = x"
proof -
  define hi lo where "hi = uint x div 256" and "lo = uint x mod 256"
  have x: "uint x = 256 * hi + lo" by (simp add: hi_def lo_def)
  have "uint x < 65536" using uint_lt2p [of x] by simp
  then have hi: "0 \<le> hi" "hi < 256" by (simp_all add: hi_def pos_imp_zdiv_nonneg_iff)
  have lo: "0 \<le> lo" "lo < 256" by (simp_all add: lo_def)
  from hi lo have "take_bit 16 (lo * 256 + hi) = lo * 256 + hi"
    by (simp add: take_bit_int_eq_self)
  then have r: "uint (htons x) = lo * 256 + hi"
    by (simp only: htons_def uint_word_of_int_eq hi_def [symmetric] lo_def [symmetric])
       (simp add: take_bit_eq_mod)
  from hi have "(lo * 256 + hi) mod 256 = hi" "(lo * 256 + hi) div 256 = lo"
    by simp_all
  then have "htons (htons x) = word_of_int (hi * 256 + lo)"
    by (subst htons_def) (simp add: r)
  then show ?thesis using x by (metis mult.commute word_of_int_uint)
qed

section \<open>connect\_to\_server\<close>

text \<open>Lines 75 to 85: the endpoint is looked up until a non-zero port is known.\<close>

definition rpc_port :: "'w os \<Rightarrow> cint res" where
  "rpc_port os = atoi (case os_getenv os ''RPC_PORT'' of None \<Rightarrow> PORT_NUMBER | Some s \<Rightarrow> s)"

definition lookup_endpoint :: "'w os \<Rightarrow> 'w stubs \<Rightarrow> 'w stubs res" where
  "lookup_endpoint os st =
     (if host_string st = None \<or> port_number st = 0 then
        (let st = st\<lparr>host_string :=
               Some (case os_getenv os ''RPC_HOST'' of None \<Rightarrow> HOSTNAME | Some h \<Rightarrow> h)\<rparr>
         in ebind (rpc_port os) (\<lambda>n. Inr (st\<lparr>port_number := ucast n\<rparr>)))
      else Inr st)"

definition connect_to_server :: "'w os \<Rightarrow> 'w stubs \<Rightarrow> (cint \<times> 'w stubs) res" where
  "connect_to_server os st =
     ebind (lookup_endpoint os st) (\<lambda>st.
     let st = resolve CLOSE st;
         (fd, st) = sys (os_socket os) st;
         st = st\<lparr>sock := fd\<rparr> in
     if sint (sock st) < 0 then Inr (-1, perr ''socket'' st)
     else let (rc, st) = sys (os_setsockopt os (sock st)) st in
     if sint rc < 0 then
       ebind (call_real CLOSE (f_close os (sock st)) (perr ''setsockopt'' st)) (\<lambda>(_, st). Inr (-1, st))
     else
       let st = st\<lparr>sin_port := htons (port_number st),
                   s_addr := os_inet_addr os (case host_string st of None \<Rightarrow> [] | Some h \<Rightarrow> h)\<rparr>;
           (rc, st) = sys (os_connect os (sock st) (sin_port st) (s_addr st)) st in
     if sint rc < 0 then
       ebind (call_real CLOSE (f_close os (sock st)) (perr ''connect'' st)) (\<lambda>(_, st). Inr (-1, st))
     else Inr (0, st))"

section \<open>send\_data, recv\_data, recv\_data\_buf\<close>

definition send_data :: "'w os \<Rightarrow> byte list \<Rightarrow> size_t \<Rightarrow> 'w stubs \<Rightarrow> (cint \<times> 'w stubs) res" where
  "send_data os buf buf_size st =
     ebind (connect_to_server os st) (\<lambda>(status, st).
     if sint status < 0 then Inr (-1, st)
     else ebind (slice buf 0 (unat buf_size)) (\<lambda>bs.
     let (sent, st) = sys (os_send os (sock st) bs) st in
     if sint sent < 0 then
       ebind (call_real CLOSE (f_close os (sock st)) (perr ''send'' st)) (\<lambda>(_, st). Inr (-1, st))
     else Inr (0, st)))"

text \<open>
  Receiving into an array: the buffer is returned with the bytes that arrived stored from
  its front.  How many bytes arrived is not looked at.
\<close>

definition recv_data_buf ::
  "'w os \<Rightarrow> byte list \<Rightarrow> size_t \<Rightarrow> 'w stubs \<Rightarrow> (cint \<times> byte list \<times> 'w stubs) res" where
  "recv_data_buf os buf bytes_to_read st =
     (if length buf < unat bytes_to_read then Inl OutOfBounds
      else case os_recv os (sock st) bytes_to_read (world st) of
        None \<Rightarrow> Inl Hang
      | Some ((got, bs), w) \<Rightarrow>
          (let st = st\<lparr>world := w\<rparr> in
           if sint got < 0 then
             ebind (call_real CLOSE (f_close os (sock st)) (perr ''recv'' st))
               (\<lambda>(_, st). Inr (-1, buf, st))
           else
             let buf = put_prefix (take (unat bytes_to_read) bs) buf in
             ebind (call_real CLOSE (f_close os (sock st)) st) (\<lambda>(rc, st).
             if sint rc < 0 then Inr (-1, buf, perr ''close'' st) else Inr (0, buf, st))))"

text \<open>The same body receiving into a malloc'ed block.\<close>

definition recv_data :: "'w os \<Rightarrow> ptr \<Rightarrow> size_t \<Rightarrow> 'w stubs \<Rightarrow> (cint \<times> 'w stubs) res" where
  "recv_data os buf bytes_to_read st =
     ebind (block buf st) (\<lambda>b.
     ebind (recv_data_buf os b bytes_to_read st) (\<lambda>(status, b, st).
     Inr (status, st\<lparr>heap := (heap st)(buf \<mapsto> b)\<rparr>)))"

text \<open>
  The statements every stub but \<open>read\<close> repeats: send the request, give up when that
  fails, receive \<open>n\<close> bytes into an array, give up when that fails.
\<close>

definition transact ::
  "'w os \<Rightarrow> byte list \<Rightarrow> size_t \<Rightarrow> nat \<Rightarrow> 'w stubs \<Rightarrow> (byte list option \<times> 'w stubs) res" where
  "transact os request request_size n st =
     ebind (send_data os request request_size st) (\<lambda>(status, st).
     if sint status < 0 then Inr (None, st)
     else ebind (recv_data_buf os (stack_array os n st) (of_nat n) st) (\<lambda>(status, response, st).
     if sint status < 0 then Inr (None, st) else Inr (Some response, st)))"

section \<open>What the connection layer leaves alone\<close>

text \<open>The heap is not touched; the pointer to the real \<open>close\<close> stays resolved.\<close>

definition keeps :: "'w stubs \<Rightarrow> 'w stubs \<Rightarrow> bool" where
  "keeps st st' \<longleftrightarrow>
     heap st' = heap st \<and> hnext st' = hnext st \<and> (\<forall>f. real st f \<longrightarrow> real st' f)"

lemma keeps_refl [simp]: "keeps st st"
  by (simp add: keeps_def)

lemma keeps_trans: "keeps st st' \<Longrightarrow> keeps st' st'' \<Longrightarrow> keeps st st''"
  by (simp add: keeps_def)

lemma resolve_fields [simp]:
  "heap (resolve f st) = heap st" "hnext (resolve f st) = hnext st"
  "errlog (resolve f st) = errlog st" "world (resolve f st) = world st"
  "real (resolve f st) = (real st)(f := True)" "sock (resolve f st) = sock st"
  "host_string (resolve f st) = host_string st" "port_number (resolve f st) = port_number st"
  by (simp_all add: resolve_def)

lemma sys_stub_fields [simp]:
  "real (snd (sys f st)) = real st" "sock (snd (sys f st)) = sock st"
  "host_string (snd (sys f st)) = host_string st" "port_number (snd (sys f st)) = port_number st"
  "sin_port (snd (sys f st)) = sin_port st" "s_addr (snd (sys f st)) = s_addr st"
  by (simp_all add: sys_def split: prod.split)

lemma perr_stub_fields [simp]:
  "real (perr what st) = real st" "sock (perr what st) = sock st"
  by (simp_all add: perr_def)

lemma lookup_endpoint_keeps:
  "lookup_endpoint os st = Inr st' \<Longrightarrow> keeps st st' \<and> errlog st' = errlog st \<and> world st' = world st"
  by (auto simp: lookup_endpoint_def keeps_def Let_def ebind_eq_Inr split: if_splits)

lemma connect_to_server_keeps:
  assumes "connect_to_server os st = Inr (rc, st')"
  shows "keeps st st' \<and> real st' CLOSE \<and> rc \<in> {0, -1}"
  using assms
  by (auto simp: connect_to_server_def ebind_eq_Inr Let_def call_real_def sys_eq keeps_def
        dest!: lookup_endpoint_keeps split: if_splits)

text \<open>The endpoint of a first connection, which later ones keep.\<close>

lemma rpc_port_number:
  assumes "case os_getenv os ''RPC_PORT'' of None \<Rightarrow> n = 5000 | Some s \<Rightarrow> s = decimal n" and "n < 2 ^ 31"
  shows "rpc_port os = Inr (of_nat n)"
proof (cases "os_getenv os ''RPC_PORT''")
  case None
  have "PORT_NUMBER = decimal 5000"
    by (simp add: PORT_NUMBER_def cstring_def of_char_def decimal.simps digit_def)
  then show ?thesis using assms None atoi_decimal [of 5000] by (simp add: rpc_port_def)
next
  case (Some s)
  then show ?thesis using assms atoi_decimal by (simp add: rpc_port_def)
qed

lemma connect_endpoint:
  assumes h: "host_string st = None"
    and p: "case os_getenv os ''RPC_PORT'' of None \<Rightarrow> n = 5000 | Some s \<Rightarrow> s = decimal n"
    and n: "0 < n" "n < 65536"
    and calls: "os_socket os (world st) = (fd, w1)" "0 \<le> sint fd"
      "os_setsockopt os fd w1 = (rc, w2)" "0 \<le> sint rc"
      "os_connect os fd (htons (of_nat n)) (os_inet_addr os
         (case os_getenv os ''RPC_HOST'' of None \<Rightarrow> HOSTNAME | Some h \<Rightarrow> h)) w2 = (rc', w3)" "0 \<le> sint rc'"
  shows "\<exists>st'. connect_to_server os st = Inr (0, st') \<and> world st' = w3 \<and> sock st' = fd \<and>
    (\<forall>os'. lookup_endpoint os' st' = Inr st')"
proof -
  have r: "rpc_port os = Inr (of_nat n)" using rpc_port_number [OF p] n by simp
  have u: "ucast (of_nat n :: cint) = (of_nat n :: 16 word)"
    using n by (intro word_uint_eqI) (simp add: unsigned_ucast_eq unsigned_of_nat take_bit_nat_eq_self)
  have "(of_nat n :: 16 word) \<noteq> 0"
    using n by (simp add: word_of_nat_eq_0_iff) (metis nat_dvd_not_less numeral_eq_Suc)
  then show ?thesis
    using h r u calls by (simp add: connect_to_server_def lookup_endpoint_def sys_eq Let_def)
qed

lemma send_data_keeps:
  assumes "send_data os buf n st = Inr (rc, st')"
  shows "keeps st st' \<and> real st' CLOSE \<and> rc \<in> {0, -1}"
  using assms
  by (auto simp: send_data_def ebind_eq_Inr Let_def call_real_def sys_eq keeps_def
        dest!: connect_to_server_keeps split: if_splits)

lemma recv_data_buf_keeps:
  assumes "recv_data_buf os buf n st = Inr (rc, buf', st')"
  shows "keeps st st' \<and> length buf' = length buf \<and> rc \<in> {0, -1}"
  using assms
  by (auto simp: recv_data_buf_def ebind_eq_Inr Let_def call_real_def sys_eq keeps_def
        split: if_splits option.splits prod.splits)

lemma transact_keeps:
  assumes "transact os req k n st = Inr (r, st')"
  shows "keeps st st'"
  using assms
  by (auto simp: transact_def ebind_eq_Inr split: if_splits
        dest!: send_data_keeps recv_data_buf_keeps intro: keeps_trans)

section \<open>The transport the stubs rely on\<close>

text \<open>
  A kernel and a peer on which a whole exchange succeeds.  In a world \<open>w\<close> with
  \<open>up w\<close>, the calls of the connection layer succeed one after the other and lead
  through \<open>conn w\<close>, \<open>sent req w\<close> and \<open>recvd req w\<close> to the world in which the peer
  has served the request \<open>req\<close>; \<open>serve req w\<close> is its answer and that last
  world.  \<open>good req w\<close> says which requests are delivered and answered in one piece.
\<close>

locale transport =
  fixes os :: "'w os"
    and up :: "'w \<Rightarrow> bool"
    and good :: "byte list \<Rightarrow> 'w \<Rightarrow> bool"
    and fd :: "'w \<Rightarrow> cint"
    and conn :: "'w \<Rightarrow> 'w"
    and sent :: "byte list \<Rightarrow> 'w \<Rightarrow> 'w"
    and recvd :: "byte list \<Rightarrow> 'w \<Rightarrow> 'w"
    and serve :: "byte list \<Rightarrow> 'w \<Rightarrow> byte list \<times> 'w"
  assumes port_ok: "\<exists>n. rpc_port os = Inr n"
    and fd_ok: "up w \<Longrightarrow> 0 \<le> sint (fd w)"
    and socket_ok: "up w \<Longrightarrow> os_socket os w = (fd w, w)"
    and setsockopt_ok: "up w \<Longrightarrow> os_setsockopt os (fd w) w = (0, w)"
    and connect_ok: "up w \<Longrightarrow> os_connect os (fd w) p a w = (0, conn w)"
    and send_ok: "up w \<Longrightarrow> good req w \<Longrightarrow>
      os_send os (fd w) req (conn w) = (of_nat (length req), sent req w)"
    and recv_ok: "up w \<Longrightarrow> good req w \<Longrightarrow> n = of_nat (length (fst (serve req w))) \<Longrightarrow>
      os_recv os (fd w) n (sent req w) = Some ((n, fst (serve req w)), recvd req w)"
    and close_ok: "up w \<Longrightarrow> good req w \<Longrightarrow>
      f_close os (fd w) (recvd req w) = (0, snd (serve req w))"
    and good_size: "good req w \<Longrightarrow>
      length req < 2 ^ 63 \<and> length (fst (serve req w)) < 2 ^ 63"
begin

lemma lookup_endpoint_ok:
  "\<exists>st'. lookup_endpoint os st = Inr st' \<and> keeps st st' \<and> errlog st' = errlog st \<and>
         world st' = world st"
  using port_ok by (auto simp: lookup_endpoint_def keeps_def Let_def)

lemma connect_to_server_ok:
  assumes "up (world st)"
  shows "\<exists>st'. connect_to_server os st = Inr (0, st') \<and> keeps st st' \<and> errlog st' = errlog st \<and>
               real st' CLOSE \<and> sock st' = fd (world st) \<and> world st' = conn (world st)"
proof -
  obtain s where "lookup_endpoint os st = Inr s" "keeps st s" "errlog s = errlog st"
    and w: "world s = world st"
    using lookup_endpoint_ok by blast
  then show ?thesis
    using assms fd_ok [OF assms]
    by (simp add: connect_to_server_def sys_eq Let_def socket_ok setsockopt_ok connect_ok keeps_def)
qed

lemma send_data_ok:
  assumes "up (world st)" and "good req (world st)" and n: "unat n = length req"
  shows "\<exists>st'. send_data os req n st = Inr (0, st') \<and> keeps st st' \<and> errlog st' = errlog st \<and>
               real st' CLOSE \<and> sock st' = fd (world st) \<and> world st' = sent req (world st)"
proof -
  obtain s where "connect_to_server os st = Inr (0, s)" "keeps st s" "errlog s = errlog st"
    "real s CLOSE" "sock s = fd (world st)" "world s = conn (world st)"
    using connect_to_server_ok [OF assms(1)] by blast
  moreover have "0 \<le> sint (of_nat (length req) :: 64 word)"
    using good_size [OF assms(2)] by (simp add: sint_of_nat_nonneg)
  ultimately show ?thesis
    using assms by (simp add: send_data_def slice_all sys_eq send_ok keeps_def)
qed

lemma recv_data_buf_ok:
  assumes "up w" and "good req w" and "world st = sent req w" and "sock st = fd w"
    and "real st CLOSE" and "length buf = length (fst (serve req w))" and "unat n = length buf"
  shows "\<exists>st'. recv_data_buf os buf n st = Inr (0, fst (serve req w), st') \<and> keeps st st' \<and>
               errlog st' = errlog st \<and> world st' = snd (serve req w)"
proof -
  have n: "n = of_nat (length (fst (serve req w)))"
    using assms(6,7) by (metis of_nat_unat ucast_id)
  have "0 \<le> sint n"
    unfolding n using good_size [OF assms(2)] by (simp add: sint_of_nat_nonneg)
  then show ?thesis
    using assms recv_ok [OF assms(1,2) n]
    by (simp add: recv_data_buf_def Let_def call_real_def sys_eq close_ok keeps_def)
qed

lemma transact_ok:
  assumes "up (world st)" and "good req (world st)" and "unat k = length req"
    and "n = length (fst (serve req (world st)))"
  shows "\<exists>st'. transact os req k n st = Inr (Some (fst (serve req (world st))), st') \<and>
               keeps st st' \<and> errlog st' = errlog st \<and> world st' = snd (serve req (world st))"
proof -
  obtain s where s: "send_data os req k st = Inr (0, s)" "keeps st s" "errlog s = errlog st"
    "real s CLOSE" "sock s = fd (world st)" "world s = sent req (world st)"
    using send_data_ok [OF assms(1-3)] by blast
  have k: "unat (of_nat n :: size_t) = n"
    using good_size [OF assms(2)] assms(4) by (simp add: unat_of_nat64)
  obtain t where "recv_data_buf os (stack_array os n s) (of_nat n) s =
      Inr (0, fst (serve req (world st)), t)" "keeps s t" "errlog t = errlog s"
    "world t = snd (serve req (world st))"
    using recv_data_buf_ok [OF assms(1,2) s(6,5,4), of "stack_array os n s" "of_nat n"] k assms(4)
    by auto
  then show ?thesis
    using s by (auto simp: transact_def intro: keeps_trans)
qed

end

end
