(* ===== verification/Stubs.thy ===== *)
theory Stubs
  imports Connection
begin

text \<open>
  The twelve interposed functions of \<open>c/rpc_stubs.c\<close>, lines 186 to 771.  Each
  resolves the real function, decides from its path or descriptor whether the call is
  remote, marshals the arguments into a request buffer, exchanges it with the server and
  unmarshals the response; otherwise it calls the real function.  \<open>issue\<close> makes a
  call through its stub, so that what holds of all twelve is stated once.
\<close>

section \<open>Shared statements\<close>

text \<open>\<open>path[0] == '/' && path[1] == '/'\<close> and \<open>fildes > INT_MAX / 2\<close> decide.\<close>

definition remote_path :: "cstr \<Rightarrow> bool" where
  "remote_path path \<longleftrightarrow> char_at path 0 = 47 \<and> char_at path 1 = 47"

text \<open>\<open>memcpy(..., path + 2, n)\<close>: \<open>n\<close> bytes from index 2 of the string's array.\<close>

definition path_tail :: "cstr \<Rightarrow> size_t \<Rightarrow> byte list res" where
  "path_tail path n = slice (path @ [0]) 2 (unat n)"

text \<open>
  A request in a malloc'ed buffer (\<open>open\<close>, \<open>write\<close>, \<open>truncate\<close>,
  \<open>stat\<close>, \<open>rename\<close>, \<open>unlink\<close>): allocate, copy, exchange, and
  \<open>free\<close> at the label \<open>cleanup\<close>.  \<open>None\<close> stands for the early exits.
\<close>

definition heap_call ::
  "'w os \<Rightarrow> size_t \<Rightarrow> (nat \<times> byte list) list res \<Rightarrow> nat \<Rightarrow> 'w stubs \<Rightarrow>
   (byte list option \<times> 'w stubs) res" where
  "heap_call os request_payload_size copies n st =
     (let (request_buf, st) = malloc os (8 + request_payload_size) st in
      if request_buf = NULL then ebind (free request_buf (perr ''malloc'' st)) (\<lambda>st. Inr (None, st))
      else
        ebind copies (\<lambda>ws.
        ebind (stores request_buf ws st) (\<lambda>st.
        ebind (block request_buf st) (\<lambda>req.
        ebind (transact os req (8 + request_payload_size) n st) (\<lambda>(response, st).
        ebind (free request_buf st) (\<lambda>st. Inr (response, st)))))))"

text \<open>A request in an array of \<open>8 + args_size\<close> bytes (\<open>close\<close>, \<open>lseek\<close>,
  \<open>ftruncate\<close>, \<open>fstat\<close>, \<open>fsync\<close>).\<close>

definition stack_call ::
  "'w os \<Rightarrow> nat \<Rightarrow> (nat \<times> byte list) list \<Rightarrow> nat \<Rightarrow> 'w stubs \<Rightarrow>
   (byte list option \<times> 'w stubs) res" where
  "stack_call os args_size copies n st =
     ebind (writes (stack_array os (8 + args_size) st) copies) (\<lambda>req.
     transact os req (8 + of_nat args_size) n st)"

text \<open>\<open>memcpy(&x, response_payload, sizeof(x))\<close>, or the initial \<open>-1\<close>.\<close>

definition int_result :: "byte list option \<Rightarrow> cint" where
  "int_result response = (case response of None \<Rightarrow> -1 | Some r \<Rightarrow> ld32 r)"

definition long_result :: "byte list option \<Rightarrow> 64 word" where
  "long_result response = (case response of None \<Rightarrow> -1 | Some r \<Rightarrow> ld64 r)"

section \<open>The stubs\<close>

definition open_stub ::
  "'w os \<Rightarrow> cstr \<Rightarrow> cint \<Rightarrow> mode_t option \<Rightarrow> 'w stubs \<Rightarrow> (cint \<times> 'w stubs) res" where
  "open_stub os path oflag vararg st =
     (let st = resolve OPEN st in
      ebind (if oflag = O_CREAT
             then (case vararg of None \<Rightarrow> Inl MissingVarArg | Some m \<Rightarrow> Inr (Some m))
             else Inr None) (\<lambda>mode.
      if remote_path path then
        let path_size = strlen path - 1;
            request_payload_size =
              (if oflag = O_CREAT then 1 + path_size + 4 + 4 else 1 + path_size + 4) in
        ebind (heap_call os request_payload_size
                 (ebind (path_tail path path_size) (\<lambda>tail. Inr
                   ([(0, le64 request_payload_size),
                     (8, [func_code OPEN]),
                     (9, tail),
                     (9 + unat path_size, le32 oflag)] @
                    (case mode of None \<Rightarrow> [] | Some m \<Rightarrow> [(9 + unat path_size + 4, le32 m)]))))
                 4 st) (\<lambda>(response, st).
        Inr (int_result response, st))
      else call_real OPEN (f_open os path oflag mode) st))"

definition close_stub :: "'w os \<Rightarrow> cint \<Rightarrow> 'w stubs \<Rightarrow> (cint \<times> 'w stubs) res" where
  "close_stub os fildes st =
     (let st = resolve CLOSE st in
      if is_remote_fd fildes then
        ebind (stack_call os 5
                 [(0, le64 5), (8, [func_code CLOSE]), (9, le32 fildes)] 4 st) (\<lambda>(response, st).
        Inr (int_result response, st))
      else call_real CLOSE (f_close os fildes) st)"

text \<open>
  \<open>buf\<close> is the caller's array; it is returned as the call leaves it.  First the part
  of \<open>read\<close> that runs once the request is sent (lines 324 to 338 and
  \<open>cleanup\<close>).
\<close>

definition read_answer ::
  "'w os \<Rightarrow> byte list \<Rightarrow> size_t \<Rightarrow> 'w stubs \<Rightarrow> ((ssize_t \<times> byte list) \<times> 'w stubs) res" where
  "read_answer os buf nbyte st =
     (let response_payload_size = 8 + nbyte;
          (response_payload, st) = malloc os response_payload_size st in
      if response_payload = NULL then
        ebind (free response_payload (perr ''malloc'' st)) (\<lambda>st. Inr ((-1, buf), st))
      else
        ebind (recv_data os response_payload response_payload_size st) (\<lambda>(status, st).
        if sint status < 0 then ebind (free response_payload st) (\<lambda>st. Inr ((-1, buf), st))
        else
          ebind (load response_payload 0 8 st) (\<lambda>r.
          ebind (load response_payload 8 (unat nbyte) st) (\<lambda>bs.
          ebind (overwrite buf 0 bs) (\<lambda>buf.
          ebind (free response_payload st) (\<lambda>st. Inr ((ld64 r, buf), st)))))))"

definition read_stub ::
  "'w os \<Rightarrow> cint \<Rightarrow> byte list \<Rightarrow> size_t \<Rightarrow> 'w stubs \<Rightarrow> ((ssize_t \<times> byte list) \<times> 'w stubs) res" where
  "read_stub os fildes buf nbyte st =
     (let st = resolve READ st in
      if is_remote_fd fildes then
        ebind (writes (stack_array os 21 st)
                 [(0, le64 13), (8, [func_code READ]), (9, le32 fildes), (13, le64 nbyte)]) (\<lambda>req.
        ebind (send_data os req 21 st) (\<lambda>(status, st).
        if sint status < 0 then Inr ((-1, buf), st) else read_answer os buf nbyte st))
      else
        ebind (call_real READ (f_read os fildes nbyte) st) (\<lambda>((io_retval, bs), st).
        Inr ((io_retval, put_prefix (take (unat nbyte) bs) buf), st)))"

definition write_stub ::
  "'w os \<Rightarrow> cint \<Rightarrow> byte list \<Rightarrow> size_t \<Rightarrow> 'w stubs \<Rightarrow> (ssize_t \<times> 'w stubs) res" where
  "write_stub os fildes buf nbyte st =
     (let st = resolve WRITE st in
      if is_remote_fd fildes then
        let request_payload_size = 1 + 4 + nbyte + 8 in
        ebind (heap_call os request_payload_size
                 (ebind (slice buf 0 (unat nbyte)) (\<lambda>bs. Inr
                   [(0, le64 request_payload_size),
                    (8, [func_code WRITE]),
                    (9, le32 fildes),
                    (13, bs),
                    (13 + unat nbyte, le64 nbyte)])) 8 st) (\<lambda>(response, st).
        Inr (long_result response, st))
      else
        ebind (slice buf 0 (unat nbyte)) (\<lambda>bs. call_real WRITE (f_write os fildes bs) st))"

definition lseek_stub ::
  "'w os \<Rightarrow> cint \<Rightarrow> off_t \<Rightarrow> cint \<Rightarrow> 'w stubs \<Rightarrow> (off_t \<times> 'w stubs) res" where
  "lseek_stub os fildes offset whence st =
     (let st = resolve LSEEK st in
      if is_remote_fd fildes then
        ebind (stack_call os 17
                 [(0, le64 17), (8, [func_code LSEEK]), (9, le32 fildes), (13, le64 offset),
                  (21, le32 whence)] 8 st) (\<lambda>(response, st).
        Inr (long_result response, st))
      else call_real LSEEK (f_lseek os fildes offset whence) st)"

definition truncate_stub :: "'w os \<Rightarrow> cstr \<Rightarrow> off_t \<Rightarrow> 'w stubs \<Rightarrow> (cint \<times> 'w stubs) res" where
  "truncate_stub os path len st =
     (let st = resolve TRUNCATE st in
      if remote_path path then
        let path_size = strlen path - 1;
            request_payload_size = 1 + path_size + 8 in
        ebind (heap_call os request_payload_size
                 (ebind (path_tail path path_size) (\<lambda>tail. Inr
                   [(0, le64 request_payload_size),
                    (8, [func_code TRUNCATE]),
                    (9, tail),
                    (9 + unat path_size, le64 len)])) 4 st) (\<lambda>(response, st).
        Inr (int_result response, st))
      else call_real TRUNCATE (f_truncate os path len) st)"

definition ftruncate_stub :: "'w os \<Rightarrow> cint \<Rightarrow> off_t \<Rightarrow> 'w stubs \<Rightarrow> (cint \<times> 'w stubs) res" where
  "ftruncate_stub os fildes len st =
     (let st = resolve FTRUNCATE st in
      if is_remote_fd fildes then
        ebind (stack_call os 13
                 [(0, le64 13), (8, [func_code FTRUNCATE]), (9, le32 fildes), (13, le64 len)] 4 st)
          (\<lambda>(response, st). Inr (int_result response, st))
      else call_real FTRUNCATE (f_ftruncate os fildes len) st)"

text \<open>\<open>memcpy\<close> of the error code and of the \<open>struct stat\<close> out of a response;
  \<open>statbuf\<close> is the caller's object and is returned as the call leaves it.\<close>

definition stat_result :: "byte list option \<Rightarrow> byte list \<Rightarrow> (cint \<times> byte list) res" where
  "stat_result response statbuf =
     (case response of
        None \<Rightarrow> Inr (-1, statbuf)
      | Some r \<Rightarrow>
          ebind (slice r 0 4) (\<lambda>code.
          ebind (slice r 4 sizeof_stat) (\<lambda>bs.
          ebind (overwrite statbuf 0 bs) (\<lambda>statbuf. Inr (ld32 code, statbuf)))))"

definition stat_stub ::
  "'w os \<Rightarrow> cstr \<Rightarrow> byte list \<Rightarrow> 'w stubs \<Rightarrow> ((cint \<times> byte list) \<times> 'w stubs) res" where
  "stat_stub os path statbuf st =
     (let st = resolve STAT st in
      if remote_path path then
        let path_size = strlen path - 1;
            request_payload_size = 1 + path_size in
        ebind (heap_call os request_payload_size
                 (ebind (path_tail path path_size) (\<lambda>tail. Inr
                   [(0, le64 request_payload_size), (8, [func_code STAT]), (9, tail)]))
                 (4 + sizeof_stat) st) (\<lambda>(response, st).
        ebind (stat_result response statbuf) (\<lambda>r. Inr (r, st)))
      else
        ebind (call_real STAT (f_stat os path) st) (\<lambda>((error_code, bs), st).
        Inr ((error_code, put_prefix (take sizeof_stat bs) statbuf), st)))"

definition fstat_stub ::
  "'w os \<Rightarrow> cint \<Rightarrow> byte list \<Rightarrow> 'w stubs \<Rightarrow> ((cint \<times> byte list) \<times> 'w stubs) res" where
  "fstat_stub os fildes statbuf st =
     (let st = resolve FSTAT st in
      if is_remote_fd fildes then
        ebind (stack_call os 5
                 [(0, le64 5), (8, [func_code FSTAT]), (9, le32 fildes)] (4 + sizeof_stat) st)
          (\<lambda>(response, st). ebind (stat_result response statbuf) (\<lambda>r. Inr (r, st)))
      else
        ebind (call_real FSTAT (f_fstat os fildes) st) (\<lambda>((error_code, bs), st).
        Inr ((error_code, put_prefix (take sizeof_stat bs) statbuf), st)))"

definition fsync_stub :: "'w os \<Rightarrow> cint \<Rightarrow> 'w stubs \<Rightarrow> (cint \<times> 'w stubs) res" where
  "fsync_stub os fildes st =
     (let st = resolve FSYNC st in
      if is_remote_fd fildes then
        ebind (stack_call os 5
                 [(0, le64 5), (8, [func_code FSYNC]), (9, le32 fildes)] 4 st) (\<lambda>(response, st).
        Inr (int_result response, st))
      else call_real FSYNC (f_fsync os fildes) st)"

definition rename_stub :: "'w os \<Rightarrow> cstr \<Rightarrow> cstr \<Rightarrow> 'w stubs \<Rightarrow> (cint \<times> 'w stubs) res" where
  "rename_stub os old new st =
     (let st = resolve RENAME st in
      if remote_path old then
        let old_size = strlen old - 1;
            new_size = strlen new - 1;
            request_payload_size = 1 + old_size + new_size in
        ebind (heap_call os request_payload_size
                 (ebind (path_tail old old_size) (\<lambda>old_tail.
                  ebind (path_tail new new_size) (\<lambda>new_tail. Inr
                   [(0, le64 request_payload_size),
                    (8, [func_code RENAME]),
                    (9, old_tail),
                    (9 + unat old_size, new_tail)]))) 4 st) (\<lambda>(response, st).
        Inr (int_result response, st))
      else call_real RENAME (f_rename os old new) st)"

definition unlink_stub :: "'w os \<Rightarrow> cstr \<Rightarrow> 'w stubs \<Rightarrow> (cint \<times> 'w stubs) res" where
  "unlink_stub os path st =
     (let st = resolve UNLINK st in
      if remote_path path then
        let path_size = strlen path - 1;
            request_payload_size = 1 + path_size in
        ebind (heap_call os request_payload_size
                 (ebind (path_tail path path_size) (\<lambda>tail. Inr
                   [(0, le64 request_payload_size), (8, [func_code UNLINK]), (9, tail)])) 4 st)
          (\<lambda>(response, st). Inr (int_result response, st))
      else call_real UNLINK (f_unlink os path) st)"

section \<open>Any call through its stub\<close>

definition lift_result ::
  "('a \<Rightarrow> result) \<Rightarrow> ('a \<times> 'w stubs) res \<Rightarrow> (result \<times> 'w stubs) res" where
  "lift_result f m = ebind m (\<lambda>(r, st). Inr (f r, st))"

text \<open>
  A client call with its arguments as the program passes them: \<open>Open path oflag m\<close> is
  \<open>open(path, oflag)\<close> or \<open>open(path, oflag, m)\<close>.  \<open>ub\<close> is the array
  \<open>read\<close>, \<open>stat\<close> and \<open>fstat\<close> fill, as the caller has it.
\<close>

fun issue :: "'w os \<Rightarrow> byte list \<Rightarrow> call \<Rightarrow> 'w stubs \<Rightarrow> (result \<times> 'w stubs) res" where
  "issue os ub (Open path oflag m) st = lift_result RInt (open_stub os path oflag m st)"
| "issue os ub (Close fd) st = lift_result RInt (close_stub os fd st)"
| "issue os ub (Read fd n) st = lift_result (\<lambda>(r, b). RRead r b) (read_stub os fd ub n st)"
| "issue os ub (Write fd bs) st =
     lift_result RLong (write_stub os fd bs (of_nat (length bs)) st)"
| "issue os ub (Lseek fd off wh) st = lift_result RLong (lseek_stub os fd off wh st)"
| "issue os ub (Truncate path n) st = lift_result RInt (truncate_stub os path n st)"
| "issue os ub (Ftruncate fd n) st = lift_result RInt (ftruncate_stub os fd n st)"
| "issue os ub (Stat path) st = lift_result (\<lambda>(r, b). RStat r b) (stat_stub os path ub st)"
| "issue os ub (Fstat fd) st = lift_result (\<lambda>(r, b). RStat r b) (fstat_stub os fd ub st)"
| "issue os ub (Fsync fd) st = lift_result RInt (fsync_stub os fd st)"
| "issue os ub (Rename old new) st = lift_result RInt (rename_stub os old new st)"
| "issue os ub (Unlink path) st = lift_result RInt (unlink_stub os path st)"

text \<open>Which calls go to the server, and the call the server is asked to make: paths lose
  their first two characters, and a mode travels only with the flag word \<open>O_CREAT\<close>.\<close>

fun remote_call :: "call \<Rightarrow> bool" where
  "remote_call (Open path _ _) = remote_path path"
| "remote_call (Close fd) = is_remote_fd fd"
| "remote_call (Read fd _) = is_remote_fd fd"
| "remote_call (Write fd _) = is_remote_fd fd"
| "remote_call (Lseek fd _ _) = is_remote_fd fd"
| "remote_call (Truncate path _) = remote_path path"
| "remote_call (Ftruncate fd _) = is_remote_fd fd"
| "remote_call (Stat path) = remote_path path"
| "remote_call (Fstat fd) = is_remote_fd fd"
| "remote_call (Fsync fd) = is_remote_fd fd"
| "remote_call (Rename old _) = remote_path old"
| "remote_call (Unlink path) = remote_path path"

fun server_call :: "call \<Rightarrow> call" where
  "server_call (Open path oflag m) = Open (drop 2 path) oflag (if oflag = O_CREAT then m else None)"
| "server_call (Truncate path n) = Truncate (drop 2 path) n"
| "server_call (Stat path) = Stat (drop 2 path)"
| "server_call (Rename old new) = Rename (drop 2 old) (drop 2 new)"
| "server_call (Unlink path) = Unlink (drop 2 path)"
| "server_call c = c"

text \<open>
  Arguments a caller may pass: C strings and arrays that fit in memory, a mode with
  \<open>O_CREAT\<close>, a buffer of the size the call fills, and for a remote \<open>rename\<close> a
  new name of two characters or more.
\<close>

fun wf_args :: "byte list \<Rightarrow> call \<Rightarrow> bool" where
  "wf_args ub (Open path oflag m) \<longleftrightarrow>
     is_cstr path \<and> addressable path \<and> (oflag = O_CREAT \<longrightarrow> m \<noteq> None)"
| "wf_args ub (Read fd n) \<longleftrightarrow> addressable ub \<and> length ub = unat n"
| "wf_args ub (Write fd bs) \<longleftrightarrow> addressable bs"
| "wf_args ub (Truncate path n) \<longleftrightarrow> is_cstr path \<and> addressable path"
| "wf_args ub (Stat path) \<longleftrightarrow> is_cstr path \<and> addressable path \<and> length ub = sizeof_stat"
| "wf_args ub (Fstat fd) \<longleftrightarrow> length ub = sizeof_stat"
| "wf_args ub (Rename old new) \<longleftrightarrow>
     is_cstr old \<and> is_cstr new \<and> addressable old \<and> addressable new \<and>
     (remote_path old \<longrightarrow> 2 \<le> length new)"
| "wf_args ub (Unlink path) \<longleftrightarrow> is_cstr path \<and> addressable path"
| "wf_args ub _ \<longleftrightarrow> True"

text \<open>A mode is passed only where \<open>open\<close> looks for one: with the flag word
  \<open>O_CREAT\<close> and no other.\<close>

fun mode_kept :: "call \<Rightarrow> bool" where
  "mode_kept (Open _ oflag m) \<longleftrightarrow> (m \<noteq> None \<longrightarrow> oflag = O_CREAT)"
| "mode_kept _ \<longleftrightarrow> True"

end
