(* ===== verification/Stubs_Correct.thy ===== *)
theory Stubs_Correct
  imports Stubs
begin

text \<open>
  Correctness of the stubs: on every path they give back the heap they were given; a local
  call is exactly the real call; a remote call sends the frame of the call it was asked to
  make and returns what the answer encodes (in the locale \<open>rpc_client\<close>, over any
  transport); with proper arguments no stub runs into undefined behaviour.
\<close>

section \<open>The heap is given back\<close>

lemma transact_heap:
  "holds (transact os req k n st) (\<lambda>(r, st'). heap st' = heap st \<and> hnext st' = hnext st)"
  by (auto simp: holds_def keeps_def dest!: transact_keeps)

text \<open>The heap is \<open>h\<close> and one more block at \<open>p\<close>.\<close>

definition extra :: "(ptr \<Rightarrow> byte list option) \<Rightarrow> ptr \<Rightarrow> 'w stubs \<Rightarrow> bool" where
  "extra h p st \<longleftrightarrow> p \<noteq> NULL \<and> h p = None \<and> (\<exists>b. heap st = h(p \<mapsto> b))"

lemma malloc_extra:
  assumes "malloc os n st = (p, s)" and "wf_heap st"
  shows "p = NULL \<Longrightarrow> heap s = heap st" and "p \<noteq> NULL \<Longrightarrow> extra (heap st) p s"
  using assms wf_heap_pos [OF assms(2)] wf_heap_fresh [OF assms(2)]
  by (auto elim!: malloc_cases simp: extra_def)

lemma extra_stores: "extra h p st \<Longrightarrow> holds (stores p ws st) (extra h p)"
  by (auto simp: extra_def holds_def stores_def block_def ebind_eq_Inr split: option.splits)

lemma extra_transact:
  "extra h p st \<Longrightarrow> holds (transact os req k n st) (\<lambda>(r, st'). extra h p st')"
  using transact_heap by (fastforce simp: holds_def extra_def)

lemma recv_data_buf_heap:
  "holds (recv_data_buf os b n st) (\<lambda>(r, b', st'). heap st' = heap st)"
  by (auto simp: holds_def keeps_def dest!: recv_data_buf_keeps)

lemma extra_recv_data:
  "extra h p st \<Longrightarrow> holds (recv_data os p n st) (\<lambda>(r, st'). extra h p st')"
  unfolding recv_data_def holds_ebind
  by (rule holdsI, rule holds_mono [OF recv_data_buf_heap]) (auto simp: extra_def)

lemma extra_free: "extra h p st \<Longrightarrow> holds (free p st) (\<lambda>st'. heap st' = h)"
  by (auto simp: extra_def free_fresh)

lemma heap_call_heap:
  assumes wf: "wf_heap st"
  shows "holds (heap_call os k copies n st) (\<lambda>(r, st'). heap st' = heap st)"
proof -
  obtain p s where m: "malloc os (8 + k) st = (p, s)" by fastforce
  have "holds (ebind copies (\<lambda>ws. ebind (stores p ws s) (\<lambda>st. ebind (block p st) (\<lambda>req.
      ebind (transact os req (8 + k) n st) (\<lambda>(r, st). ebind (free p st) (\<lambda>st. Inr (r, st)))))))
      (\<lambda>(r, st'). heap st' = heap st)" if "p \<noteq> NULL"
    unfolding holds_ebind
    by (rule holdsI, rule holds_mono [OF extra_stores [OF malloc_extra(2) [OF m wf that]]], rule holdsI,
        rule holds_mono [OF extra_transact]) (auto dest: extra_free)
  then show ?thesis
    using m malloc_extra(1) [OF m wf] by (auto simp: heap_call_def Let_def)
qed

lemma stack_call_heap:
  "holds (stack_call os k ws n st) (\<lambda>(r, st'). heap st' = heap st)"
  unfolding stack_call_def holds_ebind
  by (rule holdsI, rule holds_mono [OF transact_heap]) auto

lemma call_real_heap:
  "holds (call_real f op st) (\<lambda>(r, st'). heap st' = heap st)"
  by (simp add: call_real_def sys_eq)

lemma send_data_heap:
  "holds (send_data os buf n st) (\<lambda>(r, st'). heap st' = heap st \<and> hnext st' = hnext st)"
  by (auto simp: holds_def keeps_def dest!: send_data_keeps)

lemma wf_heap_resolve [simp]: "wf_heap (resolve f st) = wf_heap st"
  by (simp add: wf_heap_def)

lemma read_answer_heap:
  assumes wf: "wf_heap st"
  shows "holds (read_answer os ub n st) (\<lambda>(r, st'). heap st' = heap st)"
proof -
  obtain p s where m: "malloc os (8 + n) st = (p, s)" by fastforce
  have "holds (recv_data os p (8 + n) s) (\<lambda>(rc, st). extra (heap st0) p st)"
    if "p \<noteq> NULL" "st0 = st" for st0
    using extra_recv_data [OF malloc_extra(2) [OF m wf that(1)]] that(2) by simp
  then show ?thesis
    using m malloc_extra(1) [OF m wf]
    by (auto simp: read_answer_def Let_def intro!: holdsI [of "load _ _ _ _"] holdsI [of "overwrite _ _ _"]
        dest!: extra_free elim!: holds_mono)
qed

lemma read_stub_heap:
  assumes wf: "wf_heap st"
  shows "holds (read_stub os fd ub n st) (\<lambda>(r, st'). heap st' = heap st)"
proof -
  have "holds (send_data os req 21 (resolve READ st)) (\<lambda>(status, s).
      holds (if sint status < 0 then Inr ((-1, ub), s) else read_answer os ub n s)
        (\<lambda>(r, st'). heap st' = heap st))" for req
    by (rule holds_mono [OF send_data_heap])
       (use wf in \<open>auto simp: wf_heap_def intro!: holds_mono [OF read_answer_heap]\<close>)
  then show ?thesis
    by (auto simp: read_stub_def Let_def call_real_def sys_eq case_prod_unfold simp del: writes.simps
        intro!: holdsI [of "writes _ _"])
qed

lemmas stub_defs =
  open_stub_def close_stub_def write_stub_def lseek_stub_def truncate_stub_def
  ftruncate_stub_def stat_stub_def fstat_stub_def fsync_stub_def rename_stub_def unlink_stub_def

text \<open>A result together with a state whose heap is \<open>h\<close>.\<close>

definition with_heap :: "(ptr \<Rightarrow> byte list option) \<Rightarrow> 'a \<times> 'w stubs \<Rightarrow> bool" where
  "with_heap h = (\<lambda>(r, st). heap st = h)"

lemma with_heap_Pair [simp]: "with_heap h (r, st) \<longleftrightarrow> heap st = h"
  by (simp add: with_heap_def)

lemma with_heap_bind:
  assumes "holds m (with_heap h)" and "\<And>r s. heap s = h \<Longrightarrow> holds (k (r, s)) (with_heap h)"
  shows "holds (ebind m k) (with_heap h)"
  using assms by (cases m) auto

lemma with_heap_ignore:
  "(\<And>x. m = Inr x \<Longrightarrow> holds (k x) (with_heap h)) \<Longrightarrow> holds (ebind m k) (with_heap h)"
  by (cases m) auto

lemma with_heap_parts:
  "wf_heap st \<Longrightarrow> h = heap st \<Longrightarrow> holds (heap_call os k copies n (resolve f st)) (with_heap h)"
  "h = heap st \<Longrightarrow> holds (stack_call os k' ws n' (resolve f' st)) (with_heap h)"
  "h = heap st \<Longrightarrow> holds (call_real f'' op (resolve g st)) (with_heap h)"
  "wf_heap st \<Longrightarrow> h = heap st \<Longrightarrow> holds (read_stub os fd ub nb st) (with_heap h)"
  using heap_call_heap [of "resolve f st"] stack_call_heap [of os k' ws n' "resolve f' st"]
    call_real_heap [of f'' op "resolve g st"] read_stub_heap [of st]
  by (simp_all add: with_heap_def)

lemma issue_heap:
  assumes "wf_heap st"
  shows "holds (issue os ub c st) (\<lambda>(r, st'). heap st' = heap st)"
proof -
  have "holds (issue os ub c st) (with_heap (heap st))"
    using assms
    by (cases c)
       (auto simp: lift_result_def stub_defs Let_def simp del: holds_ebind
         intro!: with_heap_bind with_heap_parts split: option.split
         intro: with_heap_ignore)
  then show ?thesis by (simp add: with_heap_def)
qed

section \<open>Local calls\<close>

text \<open>What a call hands to the real function, and how its results reach the caller's
  array.\<close>

fun passed :: "call \<Rightarrow> call" where
  "passed (Open path oflag m) = Open path oflag (if oflag = O_CREAT then m else None)"
| "passed c = c"

fun into_buffer :: "byte list \<Rightarrow> call \<Rightarrow> result \<Rightarrow> result" where
  "into_buffer ub (Read _ n) (RRead r bs) = RRead r (put_prefix (take (unat n) bs) ub)"
| "into_buffer ub (Stat _) (RStat r bs) = RStat r (put_prefix (take sizeof_stat bs) ub)"
| "into_buffer ub (Fstat _) (RStat r bs) = RStat r (put_prefix (take sizeof_stat bs) ub)"
| "into_buffer ub _ r = r"

lemma passed_kept: "mode_kept c \<Longrightarrow> passed c = c"
  by (cases c) auto

lemma issue_local:
  assumes "\<not> remote_call c" and "wf_args ub c"
  shows "issue os ub c st =
    (let (r, w) = direct os (passed c) (world st) in
     Inr (into_buffer ub c r, (resolve (call_func c) st)\<lparr>world := w\<rparr>))"
proof (cases c)
  case (Write fd bs)
  then have "unat (of_nat (length bs) :: size_t) = length bs"
    using assms(2) by (simp add: addressable_def unat_of_nat64)
  then show ?thesis
    using assms Write
    by (simp add: write_stub_def lift_result_def call_real_def sys_eq slice_all split: prod.split)
qed (use assms in \<open>auto simp: stub_defs read_stub_def lift_result_def call_real_def sys_eq
      split: prod.split option.split\<close>)

section \<open>No undefined behaviour\<close>

text \<open>The two outcomes that do not depend on the code under proof: the server never
  answers, or \<open>RPC_PORT\<close> is no \<open>int\<close>.\<close>

definition safe :: "'w os \<Rightarrow> 'a res \<Rightarrow> bool" where
  "safe os m \<longleftrightarrow> (\<forall>e. m = Inl e \<longrightarrow> e = Hang \<or> rpc_port os = Inl e)"

lemma safe_simps [simp]: "safe os (Inr x)" "safe os (Inl Hang)"
  by (simp_all add: safe_def)

lemma safe_ebind: "safe os m \<Longrightarrow> (\<And>x. m = Inr x \<Longrightarrow> safe os (k x)) \<Longrightarrow> safe os (ebind m k)"
  by (cases m) (auto simp: safe_def)

lemma rpc_port_safe: "safe os (rpc_port os)"
  by (simp add: safe_def)

lemma lookup_endpoint_safe: "safe os (lookup_endpoint os st)"
  by (auto simp: lookup_endpoint_def Let_def intro!: safe_ebind rpc_port_safe)

lemma connect_to_server_safe: "safe os (connect_to_server os st)"
  by (auto simp: connect_to_server_def Let_def sys_eq call_real_def intro!: safe_ebind lookup_endpoint_safe)

lemma send_data_safe: "unat k \<le> length req \<Longrightarrow> safe os (send_data os req k st)"
  by (auto simp: send_data_def slice_def Let_def sys_eq call_real_def
      dest: connect_to_server_keeps intro!: safe_ebind connect_to_server_safe)

lemma recv_data_buf_safe:
  "unat n \<le> length b \<Longrightarrow> real st CLOSE \<Longrightarrow> safe os (recv_data_buf os b n st)"
  by (auto simp: recv_data_buf_def Let_def sys_eq call_real_def intro!: safe_ebind split: option.split)

lemma transact_safe:
  assumes "unat k \<le> length req" and "n < 2 ^ 64"
  shows "safe os (transact os req k n st)"
  using assms
  by (auto simp: transact_def unat_of_nat64 dest!: send_data_keeps
      intro!: safe_ebind send_data_safe recv_data_buf_safe)

lemma stack_call_safe:
  assumes "contiguous 0 ws" and "length (concat (map snd ws)) = 8 + k" and "k < 2 ^ 32" and "n < 2 ^ 64"
  shows "safe os (stack_call os k ws n st)"
proof -
  have "unat (8 + of_nat k :: size_t) = 8 + k"
    using unat_of_nat64 [of "8 + k"] assms(3) by simp
  then show ?thesis
    using assms by (simp add: stack_call_def writes_fill transact_safe)
qed

lemma heap_call_safe:
  assumes wf: "wf_heap st" and ws: "contiguous 0 ws" "length (concat (map snd ws)) = unat (8 + k)"
    and n: "n < 2 ^ 64"
  shows "safe os (heap_call os k (Inr ws) n st)"
proof -
  obtain p s where m: "malloc os (8 + k) st = (p, s)" by fastforce
  show ?thesis
    using m
  proof (cases rule: malloc_cases)
    case (fail w)
    then show ?thesis using m by (simp add: heap_call_def)
  next
    case (ok g w)
    let ?req = "concat (map snd ws)"
    let ?s = "s\<lparr>heap := (heap s)(p \<mapsto> ?req)\<rparr>"
    have b: "stores p ws s = Inr ?s"
      using ok ws by (simp add: stores_def block_def writes_fill)
    have "safe os (ebind (transact os ?req (8 + k) n ?s) (\<lambda>(r, st). ebind (free p st) (\<lambda>st. Inr (r, st))))"
    proof (rule safe_ebind)
      fix x assume x: "transact os ?req (8 + k) n ?s = Inr x"
      have "heap (snd x) = (heap s)(p \<mapsto> ?req)"
        using holdsD [OF transact_heap x] by auto
      then show "safe os (case x of (r, st) \<Rightarrow> ebind (free p st) (\<lambda>st. Inr (r, st)))"
        by (cases x) (simp add: free_def)
    qed (use ws n in \<open>simp add: transact_safe\<close>)
    then show ?thesis
      using m ok(2) wf_heap_pos [OF wf] b by (simp add: heap_call_def block_live)
  qed
qed

section \<open>Marshalling\<close>

text \<open>A list of copies lays out the frame of a call in a buffer of \<open>8 + k\<close> bytes.\<close>

definition marshals :: "size_t \<Rightarrow> (nat \<times> byte list) list \<Rightarrow> call \<Rightarrow> bool" where
  "marshals k ws c \<longleftrightarrow>
     contiguous 0 ws \<and> concat (map snd ws) = frame (payload_of c) \<and>
     unat (8 + k) = length (frame (payload_of c))"

lemma marshalsI:
  assumes "k = of_nat (length (payload_of c))" and "length (payload_of c) < 2 ^ 63"
    and "contiguous 0 ws" and "concat (map snd ws) = le64 k @ payload_of c"
  shows "marshals k ws c"
proof -
  have "unat (8 + k) = 8 + length (payload_of c)"
    using assms(1,2) unat_of_nat64 [of "8 + length (payload_of c)"] by simp
  then show ?thesis using assms by (simp add: marshals_def frame_def)
qed

lemma two_characters:
  "strlen (a # b # s) - 1 = 1 + of_nat (length s)"
  "addressable (a # b # s) \<Longrightarrow> unat (1 + of_nat (length s) :: size_t) = Suc (length s)"
  "addressable (a # b # s) \<Longrightarrow> path_tail (a # b # s) (1 + of_nat (length s)) = Inr (s @ [0])"
proof -
  show "strlen (a # b # s) - 1 = 1 + of_nat (length s)" by (simp add: strlen_def)
  assume l: "addressable (a # b # s)"
  show u: "unat (1 + of_nat (length s) :: size_t) = Suc (length s)"
    using unat_of_nat64 [of "Suc (length s)"] l by (simp add: addressable_def)
  show "path_tail (a # b # s) (1 + of_nat (length s)) = Inr (s @ [0])"
    using u by (simp add: path_tail_def slice_def)
qed

lemma two_characters_cases:
  assumes "2 \<le> length path"
  obtains a b s where "path = a # b # s"
  using assms by (metis One_nat_def Suc_1 Suc_le_length_iff)

lemma remote_path_length: "remote_path path \<Longrightarrow> 2 \<le> length path"
  by (auto simp: remote_path_def char_at_def split: if_splits)

lemma remote_path_cases:
  assumes "remote_path path"
  obtains a b s where "path = a # b # s"
  using two_characters_cases [OF remote_path_length [OF assms]] .

lemma payload_bound:
  assumes "wf_call c"
  shows "length (payload_of c) < 2 ^ 63"
  using assms by (cases c) (auto simp: payload_of_def addressable_def split: option.split)

lemma wf_server_call: "wf_args ub c \<Longrightarrow> wf_call (server_call c)"
proof -
  have d: "is_cstr (drop n s)" if "is_cstr s" for n and s :: cstr
    using that by (auto simp: is_cstr_def list_all_iff dest: in_set_dropD)
  have l: "addressable (drop n s)" if "addressable s" for n s
    using that by (auto simp: addressable_def)
  assume "wf_args ub c"
  then show ?thesis by (cases c) (auto simp: d l)
qed

text \<open>
  Each stub on a remote call, as one exchange of the frame of \<open>server_call\<close>: through
  the heap for six of them, through an array for the others but \<open>read\<close>.
\<close>

abbreviation (input) int_call ::
  "'w os \<Rightarrow> call \<Rightarrow> size_t \<Rightarrow> (nat \<times> byte list) list \<Rightarrow> 'w stubs \<Rightarrow> (cint \<times> 'w stubs) res" where
  "int_call os c k ws st \<equiv>
     ebind (heap_call os k (Inr ws) 4 (resolve (call_func c) st)) (\<lambda>(r, st). Inr (int_result r, st))"

lemma open_remote:
  assumes "c = Open path oflag m" and "remote_call c" and "wf_args ub c"
  shows "\<exists>k ws. marshals k ws (server_call c) \<and> open_stub os path oflag m st = int_call os c k ws st"
proof -
  obtain x y s where p: "path = x # y # s"
    using assms by (auto elim: remote_path_cases)
  have len: "addressable (x # y # s)" using assms p by simp
  note t = two_characters(1) two_characters(2,3) [OF len]
  note b = payload_bound [OF wf_server_call [OF assms(3)]]
  let ?k = "of_nat (length (payload_of (server_call c))) :: size_t"
  let ?ws = "[(0, le64 ?k), (8, [0]), (9, s @ [0]), (9 + Suc (length s), le32 oflag)] @
    (if oflag = O_CREAT then [(9 + Suc (length s) + 4, le32 (the m))] else [])"
  have "marshals ?k ?ws (server_call c)"
    using b p assms(1,3) by (intro marshalsI) (auto simp: payload_of_def)
  moreover have "open_stub os path oflag m st = int_call os c ?k ?ws st"
    using assms by (auto simp: open_stub_def p t payload_of_def Let_def add.commute)
  ultimately show ?thesis by blast
qed

lemma truncate_remote:
  assumes "c = Truncate path n" and "remote_call c" and "wf_args ub c"
  shows "\<exists>k ws. marshals k ws (server_call c) \<and> truncate_stub os path n st = int_call os c k ws st"
proof -
  obtain x y s where p: "path = x # y # s"
    using assms by (auto elim: remote_path_cases)
  have len: "addressable (x # y # s)" using assms p by simp
  note t = two_characters(1) two_characters(2,3) [OF len]
  note b = payload_bound [OF wf_server_call [OF assms(3)]]
  let ?k = "of_nat (length (payload_of (server_call c))) :: size_t"
  let ?ws = "[(0, le64 ?k), (8, [5]), (9, s @ [0]), (9 + Suc (length s), le64 n)]"
  have "marshals ?k ?ws (server_call c)"
    using b p assms(1) by (intro marshalsI) (auto simp: payload_of_def)
  moreover have "truncate_stub os path n st = int_call os c ?k ?ws st"
    using assms by (simp add: truncate_stub_def p t payload_of_def Let_def add.commute)
  ultimately show ?thesis by blast
qed

lemma unlink_remote:
  assumes "c = Unlink path" and "remote_call c" and "wf_args ub c"
  shows "\<exists>k ws. marshals k ws (server_call c) \<and> unlink_stub os path st = int_call os c k ws st"
proof -
  obtain x y s where p: "path = x # y # s"
    using assms by (auto elim: remote_path_cases)
  have len: "addressable (x # y # s)" using assms p by simp
  note t = two_characters(1) two_characters(2,3) [OF len]
  note b = payload_bound [OF wf_server_call [OF assms(3)]]
  let ?k = "of_nat (length (payload_of (server_call c))) :: size_t"
  let ?ws = "[(0, le64 ?k), (8, [11]), (9, s @ [0])]"
  have "marshals ?k ?ws (server_call c)"
    using b p assms(1) by (intro marshalsI) (auto simp: payload_of_def)
  moreover have "unlink_stub os path st = int_call os c ?k ?ws st"
    using assms by (simp add: unlink_stub_def p t payload_of_def Let_def add.commute)
  ultimately show ?thesis by blast
qed

lemma rename_remote:
  assumes "c = Rename old new" and "remote_call c" and "wf_args ub c"
  shows "\<exists>k ws. marshals k ws (server_call c) \<and> rename_stub os old new st = int_call os c k ws st"
proof -
  obtain x y s x' y' s' where p: "old = x # y # s" "new = x' # y' # s'"
    using assms by (auto elim!: two_characters_cases remote_path_cases)
  have len: "addressable (x # y # s)" "addressable (x' # y' # s')" using assms p by simp_all
  note t = two_characters(1) two_characters(2,3) [OF len(1)] two_characters(2,3) [OF len(2)]
  note b = payload_bound [OF wf_server_call [OF assms(3)]]
  let ?k = "of_nat (length (payload_of (server_call c))) :: size_t"
  let ?ws = "[(0, le64 ?k), (8, [10]), (9, s @ [0]), (9 + Suc (length s), s' @ [0])]"
  have "marshals ?k ?ws (server_call c)"
    using b p assms(1) by (intro marshalsI) (auto simp: payload_of_def)
  moreover have "rename_stub os old new st = int_call os c ?k ?ws st"
    using assms by (simp add: rename_stub_def p t payload_of_def Let_def algebra_simps)
  ultimately show ?thesis by blast
qed

lemma stat_remote:
  assumes "c = Stat path" and "remote_call c" and "wf_args ub c"
  shows "\<exists>k ws. marshals k ws (server_call c) \<and> stat_stub os path ub st =
    ebind (heap_call os k (Inr ws) (4 + sizeof_stat) (resolve STAT st))
      (\<lambda>(r, st). ebind (stat_result r ub) (\<lambda>r. Inr (r, st)))"
proof -
  obtain x y s where p: "path = x # y # s"
    using assms by (auto elim: remote_path_cases)
  have len: "addressable (x # y # s)" using assms p by simp
  note t = two_characters(1) two_characters(2,3) [OF len]
  note b = payload_bound [OF wf_server_call [OF assms(3)]]
  let ?k = "of_nat (length (payload_of (server_call c))) :: size_t"
  let ?ws = "[(0, le64 ?k), (8, [7]), (9, s @ [0])]"
  have "marshals ?k ?ws (server_call c)"
    using b p assms(1) by (intro marshalsI) (auto simp: payload_of_def)
  moreover have "stat_stub os path ub st =
    ebind (heap_call os ?k (Inr ?ws) (4 + sizeof_stat) (resolve STAT st))
      (\<lambda>(r, st). ebind (stat_result r ub) (\<lambda>r. Inr (r, st)))"
    using assms by (simp add: stat_stub_def p t payload_of_def Let_def add.commute)
  ultimately show ?thesis by blast
qed

lemma write_remote:
  assumes "c = Write fd bs" and "remote_call c" and "wf_args ub c"
  shows "\<exists>k ws. marshals k ws (server_call c) \<and> write_stub os fd bs (of_nat (length bs)) st =
    ebind (heap_call os k (Inr ws) 8 (resolve WRITE st)) (\<lambda>(r, st). Inr (long_result r, st))"
proof -
  note b = payload_bound [OF wf_server_call [OF assms(3)]]
  have n: "unat (of_nat (length bs) :: size_t) = length bs"
    using assms by (simp add: addressable_def unat_of_nat64)
  let ?k = "of_nat (length (payload_of (server_call c))) :: size_t"
  let ?ws = "[(0, le64 ?k), (8, [3]), (9, le32 fd), (13, bs), (13 + length bs, le64 (of_nat (length bs)))]"
  have "marshals ?k ?ws (server_call c)"
    using b assms(1) by (intro marshalsI) (auto simp: payload_of_def)
  moreover have "write_stub os fd bs (of_nat (length bs)) st =
    ebind (heap_call os ?k (Inr ?ws) 8 (resolve WRITE st)) (\<lambda>(r, st). Inr (long_result r, st))"
    using assms by (simp add: write_stub_def n slice_all payload_of_def Let_def add.commute)
  ultimately show ?thesis by blast
qed

text \<open>The copies of the five stubs that marshal into an array.\<close>

lemma array_requests:
  "stack_call os 5 [(0, le64 5), (8, [1]), (9, le32 fd)] n st =
     transact os (frame (payload_of (Close fd))) 13 n st"
  "stack_call os 17 [(0, le64 17), (8, [4]), (9, le32 fd), (13, le64 off), (21, le32 wh)] n st =
     transact os (frame (payload_of (Lseek fd off wh))) 25 n st"
  "stack_call os 13 [(0, le64 13), (8, [6]), (9, le32 fd), (13, le64 len)] n st =
     transact os (frame (payload_of (Ftruncate fd len))) 21 n st"
  "stack_call os 5 [(0, le64 5), (8, [8]), (9, le32 fd)] n st =
     transact os (frame (payload_of (Fstat fd))) 13 n st"
  "stack_call os 5 [(0, le64 5), (8, [9]), (9, le32 fd)] n st =
     transact os (frame (payload_of (Fsync fd))) 13 n st"
  by (simp_all add: stack_call_def writes_fill frame_def payload_of_def del: writes.simps)

lemma read_request:
  "writes (stack_array os 21 st) [(0, le64 13), (8, [2]), (9, le32 fd), (13, le64 nb)] =
     Inr (frame (payload_of (Read fd nb)))"
  by (subst writes_fill) (simp_all add: frame_def payload_of_def)

section \<open>Safety of the stubs\<close>

lemma transact_length:
  assumes "transact os req k n st = Inr (Some b, st')"
  shows "length b = n"
  using assms by (auto simp: transact_def ebind_eq_Inr dest!: recv_data_buf_keeps split: if_splits)

lemma heap_call_length:
  assumes "heap_call os k ws n st = Inr (Some b, st')"
  shows "length b = n"
  using assms
  by (auto simp: heap_call_def ebind_eq_Inr Let_def dest!: transact_length split: if_splits prod.splits)

lemma stat_result_safe:
  assumes "length ub = sizeof_stat" and "\<And>b. r = Some b \<Longrightarrow> length b = 4 + sizeof_stat"
  shows "safe os (stat_result r ub)"
  using assms by (cases r) (simp_all add: stat_result_def slice_def overwrite_def)

lemma marshals_safe:
  assumes "marshals k ws c" and "wf_heap st" and "n < 2 ^ 64"
  shows "safe os (heap_call os k (Inr ws) n st)"
  using assms by (intro heap_call_safe) (simp_all add: marshals_def)

lemma recv_data_safe:
  assumes "heap st p = Some b" and "unat n \<le> length b" and "real st CLOSE"
  shows "safe os (recv_data os p n st)"
    and "holds (recv_data os p n st) (\<lambda>(r, s). \<exists>b'. length b' = length b \<and> heap s = (heap st)(p \<mapsto> b'))"
  using assms recv_data_buf_safe [of n b st os]
  by (auto simp: recv_data_def block_live keeps_def holds_def ebind_eq_Inr
      intro!: safe_ebind dest!: recv_data_buf_keeps)

lemma read_answer_safe:
  assumes wf: "wf_heap st" and "addressable ub" "length ub = unat n" and c: "real st CLOSE"
  shows "safe os (read_answer os ub n st)"
proof -
  have n8: "unat (8 + n) = 8 + unat n"
    using assms(2,3) by (simp add: addressable_def unat_word_ariths)
  obtain p s where m: "malloc os (8 + n) st = (p, s)" by fastforce
  show ?thesis
    using m
  proof (cases rule: malloc_cases)
    case (fail w)
    then show ?thesis using m by (simp add: read_answer_def)
  next
    case (ok g w)
    have h: "heap s p = Some (map g [0..<unat (8 + n)])" "real s CLOSE" using ok c by simp_all
    have tail: "safe os (if sint rc < 0 then ebind (free p t) (\<lambda>st. Inr ((-1, ub), st))
        else ebind (load p 0 8 t) (\<lambda>r. ebind (load p 8 (unat n) t) (\<lambda>bs.
          ebind (overwrite ub 0 bs) (\<lambda>ub. ebind (free p t) (\<lambda>st. Inr ((ld64 r, ub), st))))))"
      if "recv_data os p (8 + n) s = Inr (rc, t)" for rc t
      using holdsD [OF recv_data_safe(2) [OF h(1) _ h(2)] that] n8 assms(3)
      by (auto simp: free_def load_def block_def slice_def overwrite_def)
    show ?thesis
      using m ok(2) wf_heap_pos [OF wf] recv_data_safe(1) [OF h(1) _ h(2)] tail
      by (auto simp: read_answer_def Let_def intro!: safe_ebind)
  qed
qed

lemma read_stub_safe:
  assumes "wf_heap st" and "wf_args ub (Read fd n)"
  shows "safe os (read_stub os fd ub n st)"
proof -
  have len: "unat (21 :: size_t) \<le> length (frame (payload_of (Read fd n)))"
    by (simp add: frame_def payload_of_def)
  have "safe os (if sint rc < 0 then Inr ((-1, ub), s) else read_answer os ub n s)"
    if "send_data os req k (resolve READ st) = Inr (rc, s)" for req k rc s
  proof -
    have "wf_heap s" "real s CLOSE"
      using send_data_keeps [OF that] assms(1) by (auto simp: keeps_def wf_heap_def)
    then show ?thesis using read_answer_safe assms(2) by auto
  qed
  then show ?thesis
    using send_data_safe [OF len]
    by (auto simp: read_stub_def read_request Let_def call_real_def sys_eq
        simp del: writes.simps intro!: safe_ebind split: prod.split)
qed

lemma issue_safe:
  assumes wf: "wf_heap st" and a: "wf_args ub c"
  shows "safe os (issue os ub c st)"
proof (cases "remote_call c")
  case False
  then show ?thesis by (simp add: issue_local [OF False a] split: prod.split)
next
  case True
  have wf': "wf_heap (resolve f st)" for f using wf by simp
  note heap = marshals_safe [OF _ wf']
  have t: "safe os (transact os (frame (payload_of d)) k n s)"
    if "unat k = length (frame (payload_of d))" "n < 2 ^ 64" for d k n s
    using that by (simp add: transact_safe)
  have l: "unat (13 :: size_t) = 13" "unat (21 :: size_t) = 21" "unat (25 :: size_t) = 25" by simp_all
  show ?thesis
  proof (cases c)
    case (Read fd n)
    then show ?thesis using read_stub_safe [OF wf] a by (auto simp: lift_result_def intro!: safe_ebind)
  next
    case (Open path oflag m)
    then show ?thesis using open_remote [OF Open True a, of os st] heap
      by (auto simp: lift_result_def intro!: safe_ebind)
  next
    case (Truncate path n)
    then show ?thesis using truncate_remote [OF Truncate True a, of os st] heap
      by (auto simp: lift_result_def intro!: safe_ebind)
  next
    case (Unlink path)
    then show ?thesis using unlink_remote [OF Unlink True a, of os st] heap
      by (auto simp: lift_result_def intro!: safe_ebind)
  next
    case (Rename old new)
    then show ?thesis using rename_remote [OF Rename True a, of os st] heap
      by (auto simp: lift_result_def intro!: safe_ebind)
  next
    case (Write fd bs)
    then show ?thesis using write_remote [OF Write True a, of os st] heap
      by (auto simp: lift_result_def intro!: safe_ebind)
  next
    case (Stat path)
    then show ?thesis using stat_remote [OF Stat True a, of os st] heap a
      by (auto simp: lift_result_def sizeof_stat_def dest!: heap_call_length
          intro!: safe_ebind stat_result_safe)
  next
    case (Fstat fd)
    then show ?thesis using True a
      by (auto simp: lift_result_def fstat_stub_def array_requests sizeof_stat_def frame_def payload_of_def
          dest: transact_length intro!: safe_ebind stat_result_safe transact_safe)
  qed (use True in \<open>auto simp: lift_result_def stub_defs array_requests frame_def payload_of_def
      intro!: safe_ebind transact_safe\<close>)
qed

section \<open>Remote calls over a transport\<close>

text \<open>What a stub makes of a response of the right size.\<close>

fun unmarshal :: "call \<Rightarrow> byte list \<Rightarrow> result" where
  "unmarshal (Read _ _) r = RRead (ld64 (take 8 r)) (drop 8 r)"
| "unmarshal (Write _ _) r = RLong (ld64 r)"
| "unmarshal (Lseek _ _ _) r = RLong (ld64 r)"
| "unmarshal (Stat _) r = RStat (ld32 (take 4 r)) (drop 4 r)"
| "unmarshal (Fstat _) r = RStat (ld32 (take 4 r)) (drop 4 r)"
| "unmarshal _ r = RInt (ld32 r)"

text \<open>Back in the caller: the heap and the error log as before, the world as given.\<close>

definition arrives :: "'w stubs \<Rightarrow> 'w stubs \<Rightarrow> 'w \<Rightarrow> bool" where
  "arrives st st' w \<longleftrightarrow>
     wf_heap st' \<and> heap st' = heap st \<and> errlog st' = errlog st \<and> world st' = w"

locale rpc_client = transport os up good fd conn sent recvd serve
  for os :: "'w os" and up good fd conn sent recvd serve +
  fixes lim :: nat
  assumes mem: "alloc_ok os lim" and lim_size: "lim < 2 ^ 63"
begin

lemma heap_call_answer:
  assumes wf: "wf_heap st" and m: "marshals k ws c" and u: "up (world st)"
    and g: "good (frame (payload_of c)) (world st)" and l: "length (frame (payload_of c)) \<le> lim"
    and n: "n = length (fst (serve (frame (payload_of c)) (world st)))"
  shows "\<exists>st'. heap_call os k (Inr ws) n st =
      Inr (Some (fst (serve (frame (payload_of c)) (world st))), st') \<and>
    arrives st st' (snd (serve (frame (payload_of c)) (world st)))"
proof -
  let ?req = "frame (payload_of c)" and ?p = "hnext st"
  have ws: "contiguous 0 ws" "concat (map snd ws) = ?req" "unat (8 + k) = length ?req"
    using m by (simp_all add: marshals_def)
  obtain h where h: "os_malloc os (8 + k) (world st) = (Some h, world st)"
    using alloc_okD [OF mem, of "8 + k" "world st"] l ws(3) by auto
  let ?s = "st\<lparr>heap := (heap st)(?p \<mapsto> ?req), hnext := Suc ?p\<rparr>"
  have b: "stores ?p ws (st\<lparr>heap := (heap st)(?p \<mapsto> map h [0..<unat (8 + k)]), hnext := Suc ?p\<rparr>) = Inr ?s"
    using ws by (simp add: stores_def block_def writes_fill)
  obtain t where t: "transact os ?req (8 + k) n ?s = Inr (Some (fst (serve ?req (world st))), t)"
      "keeps ?s t" "errlog t = errlog st" "world t = snd (serve ?req (world st))"
    using transact_ok [of ?s ?req "8 + k" n] u g ws(3) n by auto
  have f: "free ?p t = Inr (t\<lparr>heap := heap st\<rparr>)"
    using t(2) wf wf_heap_fresh wf_heap_pos by (intro free_fresh) (auto simp: keeps_def)
  have "wf_heap (t\<lparr>heap := heap st\<rparr>)"
    using t(2) wf by (auto simp: keeps_def wf_heap_def)
  moreover have "heap_call os k (Inr ws) n st =
      Inr (Some (fst (serve ?req (world st))), t\<lparr>heap := heap st\<rparr>)"
    using h wf_heap_pos [OF wf] b t(1) f by (simp add: heap_call_def malloc_def block_live)
  ultimately show ?thesis using t by (simp add: arrives_def)
qed

lemma transact_answer:
  assumes wf: "wf_heap st" and u: "up (world st)" and g: "good req (world st)"
    and k: "unat k = length req" and n: "n = length (fst (serve req (world st)))"
  shows "\<exists>st'. transact os req k n st = Inr (Some (fst (serve req (world st))), st') \<and>
    arrives st st' (snd (serve req (world st)))"
  using transact_ok [OF u g k n] wf by (fastforce simp: arrives_def keeps_def wf_heap_def)

lemma read_answer_ok:
  assumes wf: "wf_heap st" and u: "up w" and g: "good req w" and st: "world st = sent req w"
      "sock st = fd w" "real st CLOSE"
    and ub: "length ub = unat n" and len: "length (fst (serve req w)) = 8 + unat n" "8 + unat n \<le> lim"
  shows "\<exists>st'. read_answer os ub n st =
      Inr ((ld64 (take 8 (fst (serve req w))), drop 8 (fst (serve req w))), st') \<and>
    arrives st st' (snd (serve req w))"
proof -
  have n8: "unat (8 + n) = 8 + unat n"
    using len(2) lim_size by (simp add: unat_word_ariths)
  let ?p = "hnext st" and ?r = "fst (serve req w)"
  obtain h where h: "os_malloc os (8 + n) (world st) = (Some h, world st)"
    using alloc_okD [OF mem, of "8 + n" "world st"] len(2) n8 by auto
  let ?b = "map h [0..<unat (8 + n)]"
  let ?s = "st\<lparr>heap := (heap st)(?p \<mapsto> ?b), hnext := Suc ?p\<rparr>"
  obtain t where t: "recv_data_buf os ?b (8 + n) ?s = Inr (0, ?r, t)" "keeps ?s t"
      "errlog t = errlog st" "world t = snd (serve req w)"
    using recv_data_buf_ok [OF u g, of ?s ?b "8 + n"] st len(1) n8 by auto
  let ?t = "t\<lparr>heap := (heap t)(?p \<mapsto> ?r)\<rparr>"
  have r: "recv_data os ?p (8 + n) ?s = Inr (0, ?t)"
    using t(1) by (simp add: recv_data_def block_def)
  have f: "free ?p ?t = Inr (t\<lparr>heap := heap st\<rparr>)"
    using t(2) wf_heap_fresh [OF wf] wf_heap_pos [OF wf]
    by (simp add: keeps_def free_def fun_upd_idem)
  have "read_answer os ub n st = Inr ((ld64 (take 8 ?r), drop 8 ?r), t\<lparr>heap := heap st\<rparr>)"
    using h wf_heap_pos [OF wf] r f len(1) ub
    by (simp add: read_answer_def malloc_def load_def block_def slice_def overwrite_def)
  moreover have "wf_heap (t\<lparr>heap := heap st\<rparr>)"
    using t(2) wf by (auto simp: keeps_def wf_heap_def)
  ultimately show ?thesis using t by (simp add: arrives_def)
qed

lemma read_remote:
  assumes wf: "wf_heap st" and u: "up (world st)" and f: "is_remote_fd f"
    and g: "good (frame (payload_of (Read f n))) (world st)"
    and ub: "length ub = unat n"
    and len: "length (fst (serve (frame (payload_of (Read f n))) (world st))) = 8 + unat n"
      "8 + unat n \<le> lim"
  shows "\<exists>st'. issue os ub (Read f n) st =
      Inr (unmarshal (Read f n) (fst (serve (frame (payload_of (Read f n))) (world st))), st') \<and>
    arrives st st' (snd (serve (frame (payload_of (Read f n))) (world st)))"
proof -
  let ?req = "frame (payload_of (Read f n))" and ?st = "resolve READ st"
  have k: "unat (21 :: size_t) = length ?req" by (simp add: frame_def payload_of_def)
  obtain s where s: "send_data os ?req 21 ?st = Inr (0, s)" "keeps ?st s" "errlog s = errlog st"
      "real s CLOSE" "sock s = fd (world st)" "world s = sent ?req (world st)"
    using send_data_ok [of ?st ?req 21] u g k by auto
  have "wf_heap s" "heap s = heap st" using s(2) wf by (simp_all add: keeps_def wf_heap_def)
  then obtain t where "read_answer os ub n s =
      Inr ((ld64 (take 8 (fst (serve ?req (world st)))), drop 8 (fst (serve ?req (world st)))), t)"
      "arrives s t (snd (serve ?req (world st)))"
    using read_answer_ok [OF _ u g s(6,5,4) ub len] by blast
  then show ?thesis
    using f s(1,3) \<open>heap s = heap st\<close>
    by (auto simp: lift_result_def read_stub_def read_request arrives_def simp del: writes.simps)
qed

text \<open>Every remote call: the frame of \<open>server_call c\<close> goes out, the answer comes back.\<close>

lemma issue_remote:
  assumes wf: "wf_heap st" and u: "up (world st)" and r: "remote_call c" and a: "wf_args ub c"
    and g: "good (frame (payload_of (server_call c))) (world st)"
    and l: "length (frame (payload_of (server_call c))) \<le> lim" "reply_size (server_call c) \<le> lim"
    and n: "length (fst (serve (frame (payload_of (server_call c))) (world st))) = reply_size (server_call c)"
  shows "\<exists>st'. issue os ub c st =
      Inr (unmarshal c (fst (serve (frame (payload_of (server_call c))) (world st))), st') \<and>
    arrives st st' (snd (serve (frame (payload_of (server_call c))) (world st)))"
proof -
  let ?req = "frame (payload_of (server_call c))"
  have wf': "wf_heap (resolve f st)" for f using wf by simp
  have arr: "arrives (resolve f st) t w = arrives st t w" for f t w by (simp add: arrives_def)
  note heap = heap_call_answer [OF wf', unfolded resolve_fields, OF _ u g l(1)]
  note array = transact_answer [OF wf', unfolded resolve_fields, OF u g]
  show ?thesis
  proof (cases c)
    case (Read f k)
    then show ?thesis using read_remote [OF wf u, of f k ub] r a g l n by simp
  next
    case (Open path oflag m)
    then show ?thesis using open_remote [OF Open r a, of os st] heap [of _ _ 4 OPEN] n
      by (fastforce simp: lift_result_def int_result_def arr)
  next
    case (Truncate path k)
    then show ?thesis using truncate_remote [OF Truncate r a, of os st] heap [of _ _ 4 TRUNCATE] n
      by (fastforce simp: lift_result_def int_result_def arr)
  next
    case (Unlink path)
    then show ?thesis using unlink_remote [OF Unlink r a, of os st] heap [of _ _ 4 UNLINK] n
      by (fastforce simp: lift_result_def int_result_def arr)
  next
    case (Rename old new)
    then show ?thesis using rename_remote [OF Rename r a, of os st] heap [of _ _ 4 RENAME] n
      by (fastforce simp: lift_result_def int_result_def arr)
  next
    case (Write f bs)
    then show ?thesis using write_remote [OF Write r a, of os st] heap [of _ _ 8 WRITE] n
      by (fastforce simp: lift_result_def long_result_def arr)
  next
    case (Stat path)
    then show ?thesis using stat_remote [OF Stat r a, of os st] heap [of _ _ "4 + sizeof_stat" STAT] n a
      by (fastforce simp: lift_result_def stat_result_def slice_def overwrite_def arr sizeof_stat_def)
  next
    case (Fstat f)
    then show ?thesis using array [of 13 "4 + sizeof_stat" FSTAT] n a r
      by (fastforce simp: lift_result_def fstat_stub_def array_requests stat_result_def slice_def
          overwrite_def arr sizeof_stat_def frame_def payload_of_def)
  next
    case (Close f)
    then show ?thesis using array [of 13 4 CLOSE] n r
      by (fastforce simp: lift_result_def close_stub_def array_requests int_result_def arr
          frame_def payload_of_def)
  next
    case (Fsync f)
    then show ?thesis using array [of 13 4 FSYNC] n r
      by (fastforce simp: lift_result_def fsync_stub_def array_requests int_result_def arr
          frame_def payload_of_def)
  next
    case (Ftruncate f k)
    then show ?thesis using array [of 21 4 FTRUNCATE] n r
      by (fastforce simp: lift_result_def ftruncate_stub_def array_requests int_result_def arr
          frame_def payload_of_def)
  next
    case (Lseek f off wh)
    then show ?thesis using array [of 25 8 LSEEK] n r
      by (fastforce simp: lift_result_def lseek_stub_def array_requests long_result_def arr
          frame_def payload_of_def)
  qed
qed

end

end
