(* ===== verification/Handler.thy ===== *)
theory Handler
  imports Wire
begin

text \<open>
  The request handler of the server, \<open>client_handler\<close> of \<open>c/server.c\<close>
  (lines 19 to 366): one definition per \<open>case\<close> of its \<open>switch\<close>, the dispatch
  on the function code, and the common end that sends the response, closes the connection
  and frees what was allocated.
\<close>

section \<open>Arguments and local variables\<close>

text \<open>\<open>struct thread_arg\<close>.\<close>

record thread_arg =
  payload :: ptr
  arg_size :: size_t
  client_socket :: cint

text \<open>The locals the code after the \<open>switch\<close> reads.\<close>

record locals =
  response_payload :: ptr
  response_payload_size :: size_t
  buf :: ptr
  statbuf :: ptr

definition init_locals :: locals where
  "init_locals = \<lparr>response_payload = NULL, response_payload_size = 0, buf = NULL, statbuf = NULL\<rparr>"

text \<open>How a \<open>case\<close> ends: \<open>break\<close>, or \<open>goto cleanup\<close>.\<close>

datatype flow = Break | Cleanup

type_synonym 'w handled = "(flow \<times> locals \<times> 'w proc) res"

text \<open>The statements every \<open>case\<close> ends with: allocate the response payload, give up
  when that fails, copy the results into it.\<close>

definition respond :: "'w os \<Rightarrow> size_t \<Rightarrow> (nat \<times> byte list) list \<Rightarrow> locals \<Rightarrow> 'w proc \<Rightarrow> 'w handled" where
  "respond os n copies l st =
     (let (p, st) = malloc os n st;
          l = l\<lparr>response_payload := p, response_payload_size := n\<rparr> in
      if p = NULL then Inr (Cleanup, l, perr ''malloc'' st)
      else ebind (stores p copies st) (\<lambda>st. Inr (Break, l, st)))"

text \<open>\<open>memcpy(&fildes, payload + sizeof(unsigned char), sizeof(int))\<close> and the
  \<open>INT_MAX - fildes\<close> of the calls that follow.\<close>

definition load_fd :: "ptr \<Rightarrow> 'w proc \<Rightarrow> cint res" where
  "load_fd p st = ebind (load p 1 4 st) (\<lambda>bs. int_sub INT_MAX (ld32 bs))"

section \<open>The cases\<close>

definition handle_open :: "'w os \<Rightarrow> ptr \<Rightarrow> 'w proc \<Rightarrow> 'w handled" where
  "handle_open os p st =
     ebind (load_string p 1 st) (\<lambda>path.
     let path_size = strlen path + 1 in
     ebind (load p (1 + unat path_size) 4 st) (\<lambda>bs.
     let oflag = ld32 bs in
     ebind (if oflag = O_CREAT
            then ebind (load p (1 + unat path_size + 4) 4 st) (\<lambda>bs. Inr (Some (ld32 bs)))
            else Inr None) (\<lambda>mode.
     let (fildes, st) = sys (f_open os path oflag mode) st in
     ebind (if 0 \<le> sint fildes then int_sub INT_MAX fildes else Inr fildes) (\<lambda>fildes.
     respond os 4 [(0, le32 fildes)] init_locals st))))"

definition handle_close :: "'w os \<Rightarrow> ptr \<Rightarrow> 'w proc \<Rightarrow> 'w handled" where
  "handle_close os p st =
     ebind (load_fd p st) (\<lambda>fildes.
     let (error_code, st) = sys (f_close os fildes) st in
     respond os 4 [(0, le32 error_code)] init_locals st)"

definition handle_read :: "'w os \<Rightarrow> ptr \<Rightarrow> 'w proc \<Rightarrow> 'w handled" where
  "handle_read os p st =
     ebind (load p 1 4 st) (\<lambda>fd_bytes.
     ebind (load p 5 8 st) (\<lambda>bs.
     let nbyte = ld64 bs;
         (b, st) = malloc os nbyte st;
         l = init_locals\<lparr>buf := b\<rparr> in
     if b = NULL then Inr (Cleanup, l, perr ''malloc'' st)
     else
       ebind (int_sub INT_MAX (ld32 fd_bytes)) (\<lambda>fildes.
       let ((io_retval, data), st) = sys (f_read os fildes nbyte) st in
       ebind (block b st) (\<lambda>old.
       let content = put_prefix data old in
       ebind (stores b [(0, content)] st) (\<lambda>st.
       respond os (8 + nbyte) [(0, le64 io_retval), (8, content)] l st)))))"

definition handle_write :: "'w os \<Rightarrow> ptr \<Rightarrow> size_t \<Rightarrow> 'w proc \<Rightarrow> 'w handled" where
  "handle_write os p payload_size st =
     ebind (load p 1 4 st) (\<lambda>fd_bytes.
     ebind (if uint payload_size < 8 then Inl OutOfBounds else load p (unat payload_size - 8) 8 st) (\<lambda>bs.
     let nbyte = ld64 bs;
         (b, st) = malloc os (payload_size - 1 - 4 - 8) st;
         l = init_locals\<lparr>buf := b\<rparr> in
     if b = NULL then Inr (Cleanup, l, perr ''malloc'' st)
     else
       ebind (load p 5 (unat nbyte) st) (\<lambda>data.
       ebind (stores b [(0, data)] st) (\<lambda>st.
       ebind (int_sub INT_MAX (ld32 fd_bytes)) (\<lambda>fildes.
       ebind (load b 0 (unat nbyte) st) (\<lambda>data.
       let (io_retval, st) = sys (f_write os fildes data) st in
       respond os 8 [(0, le64 io_retval)] l st))))))"

definition handle_lseek :: "'w os \<Rightarrow> ptr \<Rightarrow> 'w proc \<Rightarrow> 'w handled" where
  "handle_lseek os p st =
     ebind (load p 5 8 st) (\<lambda>offset.
     ebind (load p 13 4 st) (\<lambda>whence.
     ebind (load_fd p st) (\<lambda>fildes.
     let (resulting_offset, st) = sys (f_lseek os fildes (ld64 offset) (ld32 whence)) st in
     respond os 8 [(0, le64 resulting_offset)] init_locals st)))"

definition handle_truncate :: "'w os \<Rightarrow> ptr \<Rightarrow> 'w proc \<Rightarrow> 'w handled" where
  "handle_truncate os p st =
     ebind (load_string p 1 st) (\<lambda>path.
     let path_size = strlen path + 1 in
     ebind (load p (1 + unat path_size) 8 st) (\<lambda>len.
     let (error_code, st) = sys (f_truncate os path (ld64 len)) st in
     respond os 4 [(0, le32 error_code)] init_locals st))"

definition handle_ftruncate :: "'w os \<Rightarrow> ptr \<Rightarrow> 'w proc \<Rightarrow> 'w handled" where
  "handle_ftruncate os p st =
     ebind (load p 5 8 st) (\<lambda>len.
     ebind (load_fd p st) (\<lambda>fildes.
     let (error_code, st) = sys (f_ftruncate os fildes (ld64 len)) st in
     respond os 4 [(0, le32 error_code)] init_locals st))"

text \<open>The statements \<open>STAT\<close> and \<open>FSTAT\<close> share once the file is named: a
  \<open>struct stat\<close> for the kernel to fill, and a response that carries it.\<close>

definition stat_into ::
  "'w os \<Rightarrow> ('w \<Rightarrow> (cint \<times> byte list) \<times> 'w) res \<Rightarrow> 'w proc \<Rightarrow> 'w handled" where
  "stat_into os call st =
     (let (sb, st) = malloc os (of_nat sizeof_stat) st;
          l = init_locals\<lparr>statbuf := sb\<rparr> in
      if sb = NULL then Inr (Cleanup, l, perr ''malloc'' st)
      else
        ebind call (\<lambda>call.
        let ((error_code, data), st) = sys call st in
        ebind (block sb st) (\<lambda>old.
        let content = put_prefix data old in
        ebind (stores sb [(0, content)] st) (\<lambda>st.
        respond os (of_nat (4 + sizeof_stat)) [(0, le32 error_code), (4, content)] l st))))"

definition handle_stat :: "'w os \<Rightarrow> ptr \<Rightarrow> 'w proc \<Rightarrow> 'w handled" where
  "handle_stat os p st =
     stat_into os (ebind (load_string p 1 st) (\<lambda>path. Inr (f_stat os path))) st"

definition handle_fstat :: "'w os \<Rightarrow> ptr \<Rightarrow> 'w proc \<Rightarrow> 'w handled" where
  "handle_fstat os p st =
     ebind (load p 1 4 st) (\<lambda>bs.
     stat_into os (ebind (int_sub INT_MAX (ld32 bs)) (\<lambda>fildes. Inr (f_fstat os fildes))) st)"

definition handle_fsync :: "'w os \<Rightarrow> ptr \<Rightarrow> 'w proc \<Rightarrow> 'w handled" where
  "handle_fsync os p st =
     ebind (load_fd p st) (\<lambda>fildes.
     let (error_code, st) = sys (f_fsync os fildes) st in
     respond os 4 [(0, le32 error_code)] init_locals st)"

definition handle_rename :: "'w os \<Rightarrow> ptr \<Rightarrow> 'w proc \<Rightarrow> 'w handled" where
  "handle_rename os p st =
     ebind (load_string p 1 st) (\<lambda>old.
     ebind (load_string p (1 + unat (strlen old) + 1) st) (\<lambda>new.
     let (error_code, st) = sys (f_rename os old new) st in
     respond os 4 [(0, le32 error_code)] init_locals st))"

definition handle_unlink :: "'w os \<Rightarrow> ptr \<Rightarrow> 'w proc \<Rightarrow> 'w handled" where
  "handle_unlink os p st =
     ebind (load_string p 1 st) (\<lambda>path.
     let (error_code, st) = sys (f_unlink os path) st in
     respond os 4 [(0, le32 error_code)] init_locals st)"

section \<open>Dispatch, response, clean-up\<close>

definition handle_case :: "'w os \<Rightarrow> func option \<Rightarrow> ptr \<Rightarrow> size_t \<Rightarrow> 'w proc \<Rightarrow> 'w handled" where
  "handle_case os f p payload_size st =
     (case f of
        Some OPEN \<Rightarrow> handle_open os p st
      | Some CLOSE \<Rightarrow> handle_close os p st
      | Some READ \<Rightarrow> handle_read os p st
      | Some WRITE \<Rightarrow> handle_write os p payload_size st
      | Some LSEEK \<Rightarrow> handle_lseek os p st
      | Some TRUNCATE \<Rightarrow> handle_truncate os p st
      | Some FTRUNCATE \<Rightarrow> handle_ftruncate os p st
      | Some STAT \<Rightarrow> handle_stat os p st
      | Some FSTAT \<Rightarrow> handle_fstat os p st
      | Some FSYNC \<Rightarrow> handle_fsync os p st
      | Some RENAME \<Rightarrow> handle_rename os p st
      | Some UNLINK \<Rightarrow> handle_unlink os p st
      | None \<Rightarrow> Inr (Cleanup, init_locals, perr ''Unsupported function'' st))"

text \<open>Lines 346 to 358: \<open>send\<close>, \<open>shutdown\<close>, \<open>close\<close>, each failure a
  \<open>goto cleanup\<close>.\<close>

definition send_response :: "'w os \<Rightarrow> cint \<Rightarrow> locals \<Rightarrow> 'w proc \<Rightarrow> 'w proc res" where
  "send_response os sk l st =
     ebind (load (response_payload l) 0 (unat (response_payload_size l)) st) (\<lambda>bs.
     let (sent, st) = sys (os_send os sk bs) st in
     if sint sent < 0 then Inr (perr ''send'' st)
     else let (rc, st) = sys (os_shutdown os sk) st in
     if sint rc < 0 then Inr (perr ''shutdown'' st)
     else let (rc, st) = sys (f_close os sk) st in
     if sint rc < 0 then Inr (perr ''close'' st)
     else Inr st)"

definition cleanup :: "ptr \<Rightarrow> locals \<Rightarrow> 'w proc \<Rightarrow> 'w proc res" where
  "cleanup p l st =
     ebind (free (response_payload l) st) (\<lambda>st.
     ebind (free (buf l) st) (\<lambda>st.
     ebind (free (statbuf l) st) (\<lambda>st.
     free p st)))"

definition client_handler :: "'w os \<Rightarrow> thread_arg \<Rightarrow> 'w proc \<Rightarrow> 'w proc res" where
  "client_handler os args st =
     (let p = payload args; payload_size = arg_size args; sk = client_socket args in
      ebind (load p 0 1 st) (\<lambda>bs.
      ebind (handle_case os (func_of_code (hd bs)) p payload_size st) (\<lambda>(flow, l, st).
      ebind (case flow of Break \<Rightarrow> send_response os sk l st | Cleanup \<Rightarrow> Inr st) (\<lambda>st.
      cleanup p l st))))"

end
