(* ===== verification/Server_Main.thy ===== *)
theory Server_Main
  imports Handler Connection
begin

text \<open>
  \<open>main\<close> and \<open>signal_handler\<close> of \<open>c/server.c\<close> (lines 373 to 496): start-up,
  one iteration of the accept loop, one \<open>pthread_join\<close> of the inner loop, and the
  threads it creates.  A thread first copies the fields of the shared variable
  \<open>argument\<close> (lines 65 to 70) and then runs the rest of \<open>client_handler\<close>;
  \<open>act\<close> gives each of these its turn, and \<open>step\<close> is the relation of all
  interleavings.
\<close>

section \<open>State\<close>

text \<open>A thread: created, its arguments copied, or returned.\<close>

datatype tstate = Created | Fetched thread_arg | Finished

text \<open>Where \<open>main\<close> stands: in the outer loop, in the join loop, or the process has
  ended.\<close>

datatype phase = Accepting | Joining | Exited

text \<open>
  The locals of \<open>main\<close> that live across iterations (\<open>payload_size_buf\<close> is one
  of them: it is not cleared), the static \<open>server_socket\<close>, and the threads by
  number; \<open>thread_id\<close> holds \<open>None\<close> where it was never written.
\<close>

record 'w server = "'w proc" +
  server_socket :: cint
  thread_index :: nat
  thread_id :: "nat option list"
  payload_size_buf :: "byte list"
  argument :: thread_arg
  threads :: "tstate list"
  phase :: phase

definition as_proc :: "'w server \<Rightarrow> 'w proc" where
  "as_proc st = \<lparr>heap = heap st, hnext = hnext st, errlog = errlog st, world = world st\<rparr>"

definition with_proc :: "'w server \<Rightarrow> 'w proc \<Rightarrow> 'w server" where
  "with_proc st p = st\<lparr>heap := heap p, hnext := hnext p, errlog := errlog p, world := world p\<rparr>"

section \<open>Start-up and end\<close>

text \<open>The label \<open>cleanup\<close> of \<open>main\<close>, and the handler of \<open>SIGINT\<close>.\<close>

definition main_cleanup :: "'w os \<Rightarrow> 'w server \<Rightarrow> 'w server" where
  "main_cleanup os st =
     (let (rc, st) = sys (f_close os (server_socket st)) st;
          st = (if sint rc < 0 then perr ''close'' st else st)
      in st\<lparr>phase := Exited\<rparr>)"

definition signal_handler :: "'w os \<Rightarrow> 'w server \<Rightarrow> 'w server" where
  "signal_handler os st =
     (let (rc, st) = sys (f_close os (server_socket st)) st;
          st = (if sint rc < 0 then perr ''close'' st else st)
      in st\<lparr>phase := Exited\<rparr>)"

definition INADDR_ANY :: "32 word" where "INADDR_ANY = 0"

definition server_port :: "'w os \<Rightarrow> (16 word) res" where
  "server_port os =
     (case os_getenv os ''RPC_PORT'' of
        None \<Rightarrow> Inr 5000
      | Some s \<Rightarrow> ebind (atoi s) (\<lambda>n. Inr (ucast n)))"

text \<open>\<open>st\<close> holds the indeterminate initial values of the locals.\<close>

definition server_start :: "'w os \<Rightarrow> 'w server \<Rightarrow> 'w server res" where
  "server_start os st =
     ebind (server_port os) (\<lambda>port_number.
     let (fd, st) = sys (os_socket os) st;
         st = st\<lparr>server_socket := fd\<rparr> in
     if sint fd < 0 then Inr ((perr ''socket'' st)\<lparr>phase := Exited\<rparr>)
     else let (rc, st) = sys (os_setsockopt os fd) st in
     if sint rc < 0 then Inr ((perr ''setsockopt'' st)\<lparr>phase := Exited\<rparr>)
     else let (rc, st) = sys (os_bind os fd (htons port_number) INADDR_ANY) st in
     if sint rc < 0 then Inr (main_cleanup os (perr ''bind'' st))
     else let (rc, st) = sys (os_listen os fd INT_MAX) st in
     if sint rc < 0 then Inr (main_cleanup os (perr ''listen'' st))
     else Inr (st\<lparr>thread_index := 0, phase := Accepting\<rparr>))"

section \<open>The accept loop\<close>

text \<open>Lines 468 to 481: store the argument, create the thread in the next slot, and go to
  the join loop when 50 slots are used.\<close>

definition spawn :: "'w os \<Rightarrow> thread_arg \<Rightarrow> 'w server \<Rightarrow> 'w server res" where
  "spawn os a st =
     (let i = thread_index st;
          st = st\<lparr>argument := a, thread_index := Suc i\<rparr> in
      if length (thread_id st) \<le> i then Inl OutOfBounds
      else let (rc, st) = sys (os_pthread_create os) st in
      if rc \<noteq> 0 then Inr (main_cleanup os (perr ''pthread_create'' st))
      else
        let st = st\<lparr>thread_id := (thread_id st)[i := Some (length (threads st))],
                    threads := threads st @ [Created]\<rparr> in
        if 50 \<le> thread_index st then Inr (st\<lparr>thread_index := 0, phase := Joining\<rparr>)
        else Inr st)"

text \<open>Lines 454 to 477: a block of the announced size, the payload into it, the thread.  A
  \<open>recv\<close> that never returns blocks \<open>main\<close>.\<close>

definition take_request :: "'w os \<Rightarrow> cint \<Rightarrow> size_t \<Rightarrow> 'w server \<Rightarrow> 'w server res" where
  "take_request os sk payload_size st =
     (let (p, st) = malloc os payload_size st in
      if p = NULL then Inr (main_cleanup os (perr ''malloc'' st))
      else case os_recv os sk payload_size (world st) of
        None \<Rightarrow> Inl Hang
      | Some ((got, bs), w) \<Rightarrow>
          let st = st\<lparr>world := w\<rparr> in
          if sint got < 0 then Inr (main_cleanup os (perr ''recv'' st))
          else
            ebind (block p st) (\<lambda>old.
            ebind (stores p [(0, put_prefix (take (unat payload_size) bs) old)] st) (\<lambda>st.
            spawn os \<lparr>payload = p, arg_size = payload_size, client_socket = sk\<rparr> st)))"

text \<open>Lines 441 to 452: accept, and the payload's size.\<close>

definition main_iteration :: "'w os \<Rightarrow> 'w server \<Rightarrow> 'w server res" where
  "main_iteration os st =
     (let (sk, st) = sys (os_accept os (server_socket st)) st in
      if sint sk < 0 then Inr (main_cleanup os (perr ''accept'' st))
      else case os_recv os sk 8 (world st) of
        None \<Rightarrow> Inl Hang
      | Some ((got, bs), w) \<Rightarrow>
          let st = st\<lparr>world := w\<rparr> in
          if sint got < 0 then Inr (main_cleanup os (perr ''recv'' st))
          else
            let st = st\<lparr>payload_size_buf := put_prefix (take 8 bs) (payload_size_buf st)\<rparr> in
            take_request os sk (ld64 (payload_size_buf st)) st)"

text \<open>Lines 481 to 487: one round of the join loop.\<close>

definition join_iteration :: "'w os \<Rightarrow> 'w server \<Rightarrow> 'w server" where
  "join_iteration os st =
     (let st = st\<lparr>thread_index := Suc (thread_index st)\<rparr>;
          (rc, st) = sys (os_pthread_join os) st in
      if rc \<noteq> 0 then main_cleanup os (perr ''pthread_join'' st)
      else if 50 \<le> thread_index st then st\<lparr>thread_index := 0, phase := Accepting\<rparr>
      else st)"

text \<open>The thread the next \<open>pthread_join\<close> waits for; a slot that was never written is
  not a thread.\<close>

definition join_target :: "'w server \<Rightarrow> tstate option res" where
  "join_target st =
     (if length (thread_id st) \<le> thread_index st then Inl OutOfBounds
      else case thread_id st ! thread_index st of
        None \<Rightarrow> Inl OutOfBounds
      | Some t \<Rightarrow> Inr (if t < length (threads st) then Some (threads st ! t) else None))"

section \<open>Turns\<close>

datatype action = Main | Fetch nat | Run nat | Interrupt

text \<open>Lines 65 to 69, the copy of the argument, as one turn: copies torn by an assignment of
  \<open>main\<close> between two of the three reads are left out.\<close>

definition fetch :: "nat \<Rightarrow> 'w server \<Rightarrow> 'w server" where
  "fetch t st = st\<lparr>threads := (threads st)[t := Fetched (argument st)]\<rparr>"

definition run_thread :: "'w os \<Rightarrow> nat \<Rightarrow> thread_arg \<Rightarrow> 'w server \<Rightarrow> 'w server res" where
  "run_thread os t a st =
     ebind (client_handler os a (as_proc st)) (\<lambda>p.
     Inr ((with_proc st p)\<lparr>threads := (threads st)[t := Finished]\<rparr>))"

text \<open>What a turn does; \<open>None\<close> when it cannot be taken (a thread that is not there or
  not at that point, \<open>main\<close> waiting for a thread, the process gone).\<close>

definition main_turn :: "'w os \<Rightarrow> 'w server \<Rightarrow> 'w server res option" where
  "main_turn os st =
     (case phase st of
        Accepting \<Rightarrow> Some (main_iteration os st)
      | Joining \<Rightarrow>
          (case join_target st of
             Inl e \<Rightarrow> Some (Inl e)
           | Inr t \<Rightarrow> if t = Some Finished then Some (Inr (join_iteration os st)) else None)
      | Exited \<Rightarrow> None)"

definition thread_at :: "nat \<Rightarrow> 'w server \<Rightarrow> tstate option" where
  "thread_at t st = (if t < length (threads st) then Some (threads st ! t) else None)"

fun act :: "'w os \<Rightarrow> action \<Rightarrow> 'w server \<Rightarrow> 'w server res option" where
  "act os Main st = main_turn os st"
| "act os (Fetch t) st =
     (if phase st \<noteq> Exited \<and> thread_at t st = Some Created then Some (Inr (fetch t st)) else None)"
| "act os (Run t) st =
     (if phase st = Exited then None
      else case thread_at t st of
        Some (Fetched a) \<Rightarrow> Some (run_thread os t a st)
      | _ \<Rightarrow> None)"
| "act os Interrupt st = (if phase st = Exited then None else Some (Inr (signal_handler os st)))"

text \<open>A schedule: the turns in the order they are taken.\<close>

fun schedule :: "'w os \<Rightarrow> action list \<Rightarrow> 'w server \<Rightarrow> 'w server res option" where
  "schedule os [] st = Some (Inr st)"
| "schedule os (a # as) st =
     (case act os a st of
        None \<Rightarrow> None
      | Some (Inl e) \<Rightarrow> Some (Inl e)
      | Some (Inr st') \<Rightarrow> schedule os as st')"

text \<open>All interleavings.\<close>

inductive step :: "'w os \<Rightarrow> 'w server \<Rightarrow> 'w server \<Rightarrow> bool" for os :: "'w os" where
  accept: "phase st = Accepting \<Longrightarrow> main_iteration os st = Inr st' \<Longrightarrow> step os st st'"
| join: "phase st = Joining \<Longrightarrow> join_target st = Inr (Some Finished) \<Longrightarrow>
    step os st (join_iteration os st)"
| fetch: "phase st \<noteq> Exited \<Longrightarrow> thread_at t st = Some Created \<Longrightarrow> step os st (fetch t st)"
| run: "phase st \<noteq> Exited \<Longrightarrow> thread_at t st = Some (Fetched a) \<Longrightarrow>
    run_thread os t a st = Inr st' \<Longrightarrow> step os st st'"
| interrupt: "phase st \<noteq> Exited \<Longrightarrow> step os st (signal_handler os st)"

inductive reachable :: "'w os \<Rightarrow> 'w server \<Rightarrow> 'w server \<Rightarrow> bool" for os :: "'w os" where
  start: "reachable os st st"
| more: "reachable os st st' \<Longrightarrow> step os st' st'' \<Longrightarrow> reachable os st st''"

lemma step_act: "step os st st' \<longleftrightarrow> (\<exists>a. act os a st = Some (Inr st'))"
proof
  assume "step os st st'"
  then show "\<exists>a. act os a st = Some (Inr st')"
  proof cases
    case accept
    then have "act os Main st = Some (Inr st')" by (simp add: main_turn_def)
    then show ?thesis ..
  next
    case join
    then have "act os Main st = Some (Inr st')" by (simp add: main_turn_def)
    then show ?thesis ..
  next
    case (fetch t)
    then have "act os (Fetch t) st = Some (Inr st')" by simp
    then show ?thesis ..
  next
    case (run t a)
    then have "act os (Run t) st = Some (Inr st')" by simp
    then show ?thesis ..
  next
    case interrupt
    then have "act os Interrupt st = Some (Inr st')" by simp
    then show ?thesis ..
  qed
next
  assume "\<exists>a. act os a st = Some (Inr st')"
  then obtain a where "act os a st = Some (Inr st')" ..
  then show "step os st st'"
    by (cases a) (auto simp: main_turn_def intro: step.intros
        split: phase.splits sum.splits if_splits option.splits tstate.splits)
qed

end
