(* ===== verification/Handler_Correct.thy ===== *)
theory Handler_Correct
  imports Handler
begin

text \<open>
  Correctness of the request handler: what it allocates it frees on every path, on a
  well-formed payload it makes exactly the call the payload encodes and answers with that
  call's result, and what it does with payloads no client of this repository sends.
\<close>

section \<open>Ownership of what a case allocates\<close>

text \<open>
  \<open>owned l h st\<close>: beside the blocks of \<open>h\<close>, the heap holds exactly the non-null
  ones among the three pointers that \<open>cleanup\<close> frees, and these differ.
\<close>

definition pointers :: "locals \<Rightarrow> ptr list" where
  "pointers l = filter (\<lambda>q. q \<noteq> NULL) [response_payload l, buf l, statbuf l]"

definition owned :: "locals \<Rightarrow> (ptr \<Rightarrow> byte list option) \<Rightarrow> 'w proc \<Rightarrow> bool" where
  "owned l h st \<longleftrightarrow>
     wf_heap st \<and> distinct (pointers l) \<and>
     (\<forall>q \<in> set (pointers l). h q = None \<and> heap st q \<noteq> None) \<and>
     (\<forall>q. q \<notin> set (pointers l) \<longrightarrow> heap st q = h q)"

text \<open>A response of the announced size is ready to be sent.\<close>

definition response_ready :: "locals \<Rightarrow> 'w proc \<Rightarrow> bool" where
  "response_ready l st \<longleftrightarrow>
     (\<exists>bs. heap st (response_payload l) = Some bs \<and> length bs = unat (response_payload_size l))"

lemma init_locals_fields [simp]:
  "response_payload init_locals = NULL" "buf init_locals = NULL" "statbuf init_locals = NULL"
  by (simp_all add: init_locals_def)

lemma owned_init: "wf_heap st \<Longrightarrow> owned init_locals (heap st) st"
  by (simp add: owned_def pointers_def)

lemma owned_cong:
  "owned l h st \<Longrightarrow> heap st' = heap st \<Longrightarrow> hnext st' = hnext st \<Longrightarrow> owned l h st'"
  by (simp add: owned_def wf_heap_def)

lemma owned_sys: "owned l h st \<Longrightarrow> owned l h (snd (sys f st))"
  and owned_world: "owned l h st \<Longrightarrow> owned l h (st\<lparr>world := w\<rparr>)"
  and owned_perr: "owned l h st \<Longrightarrow> owned l h (perr what st)"
  by (auto elim: owned_cong)

text \<open>One more block, held in one more pointer.\<close>

lemma owned_alloc:
  assumes o: "owned l h st" and m: "malloc os n st = (p, st')"
    and ps: "p = NULL \<Longrightarrow> set (pointers l') = set (pointers l) \<and> distinct (pointers l')"
      "p \<noteq> NULL \<Longrightarrow> set (pointers l') = insert p (set (pointers l)) \<and>
        (p \<notin> set (pointers l) \<longrightarrow> distinct (pointers l'))"
  shows "owned l' h st'"
proof -
  have wf: "wf_heap st" using o by (simp add: owned_def)
  show ?thesis
    using m
  proof (cases rule: malloc_cases)
    case (fail w)
    then show ?thesis using o ps(1) by (auto simp: owned_def wf_heap_def)
  next
    case (ok g w)
    from wf have new: "heap st p = None" "p \<noteq> NULL"
      by (simp_all add: ok wf_heap_fresh wf_heap_pos)
    with o have notin: "p \<notin> set (pointers l)" by (auto simp: owned_def)
    with o new have "h p = None" by (auto simp: owned_def)
    moreover have "wf_heap st'" using wf_heap_malloc [OF m wf] .
    ultimately show ?thesis
      using o ok(2,3) ps(2) [OF new(2)] notin by (auto simp: owned_def)
  qed
qed

lemma owned_store:
  assumes o: "owned l h st" and p: "p \<in> set (pointers l)"
  shows "holds (stores p ws st) (owned l h)"
proof (rule holdsI)
  fix st' assume "stores p ws st = Inr st'"
  then obtain b where b: "st' = st\<lparr>heap := (heap st)(p \<mapsto> b)\<rparr>"
    by (auto simp: stores_def block_def ebind_eq_Inr split: option.splits)
  obtain b0 where "heap st p = Some b0" "wf_heap st"
    using o p by (auto simp: owned_def)
  then have "wf_heap st'"
    using wf_heap_live by (fastforce simp: b wf_heap_def)
  then show "owned l h st'" using o p by (auto simp: owned_def b)
qed

text \<open>What every \<open>case\<close> leaves for the code after the \<open>switch\<close>.\<close>

definition case_post :: "(ptr \<Rightarrow> byte list option) \<Rightarrow> flow \<times> locals \<times> 'w proc \<Rightarrow> bool" where
  "case_post h = (\<lambda>(fl, l, st). owned l h st \<and> (fl = Break \<longrightarrow> response_ready l st))"

lemma respond_post:
  assumes o: "owned l h st" and n: "response_payload l = NULL"
  shows "holds (respond os n ws l st) (case_post h)"
proof -
  obtain p s where m: "malloc os n st = (p, s)" by fastforce
  let ?l = "l\<lparr>response_payload := p, response_payload_size := n\<rparr>"
  have d: "distinct (pointers l)" using o by (simp add: owned_def)
  have a: "owned ?l h s"
    by (rule owned_alloc [OF o m]) (use n d in \<open>auto simp: pointers_def\<close>)
  show ?thesis
  proof (cases "p = NULL")
    case True
    then show ?thesis using m a by (simp add: respond_def case_post_def owned_perr)
  next
    case False
    have "holds (stores p ws s) (response_ready ?l)"
      using m False
      by (auto simp: holds_def response_ready_def malloc_def stores_def block_def ebind_eq_Inr
            dest!: length_writes split: option.splits prod.splits)
    moreover have "holds (stores p ws s) (owned ?l h)"
      by (rule owned_store [OF a]) (simp add: False pointers_def)
    ultimately have "holds (stores p ws s) (\<lambda>x. owned ?l h x \<and> response_ready ?l x)"
      by (simp add: holds_def)
    then show ?thesis using m False by (simp add: respond_def case_post_def)
  qed
qed

lemma respond_init_post:
  "wf_heap st \<Longrightarrow> h = heap st \<Longrightarrow> holds (respond os n ws init_locals st) (case_post h)"
  by (simp add: respond_post owned_init)

lemmas simple_case_defs =
  handle_open_def handle_close_def handle_lseek_def handle_truncate_def handle_ftruncate_def
  handle_fsync_def handle_rename_def handle_unlink_def

lemma wf_heap_world [simp]: "wf_heap (st\<lparr>world := w\<rparr>) = wf_heap st"
  by (simp add: wf_heap_def)

lemma simple_case_post:
  assumes "wf_heap st"
  shows "holds (handle_open os p st) (case_post (heap st))"
    "holds (handle_close os p st) (case_post (heap st))"
    "holds (handle_lseek os p st) (case_post (heap st))"
    "holds (handle_truncate os p st) (case_post (heap st))"
    "holds (handle_ftruncate os p st) (case_post (heap st))"
    "holds (handle_fsync os p st) (case_post (heap st))"
    "holds (handle_rename os p st) (case_post (heap st))"
    "holds (handle_unlink os p st) (case_post (heap st))"
  by (simp_all add: simple_case_defs Let_def sys_eq holdsI respond_init_post assms)

text \<open>A block for the kernel to fill, in \<open>buf\<close> or \<open>statbuf\<close>.\<close>

lemma owned_buf:
  "wf_heap st \<Longrightarrow> malloc os n st = (b, s) \<Longrightarrow> owned (init_locals\<lparr>buf := b\<rparr>) (heap st) s"
  by (rule owned_alloc [OF owned_init]) (auto simp: pointers_def)

lemma owned_statbuf:
  "wf_heap st \<Longrightarrow> malloc os n st = (b, s) \<Longrightarrow> owned (init_locals\<lparr>statbuf := b\<rparr>) (heap st) s"
  by (rule owned_alloc [OF owned_init]) (auto simp: pointers_def)

lemma store_then:
  assumes "owned l h st" and "p \<in> set (pointers l)" and "\<And>st'. owned l h st' \<Longrightarrow> holds (k st') Q"
  shows "holds (stores p ws st) (\<lambda>st'. holds (k st') Q)"
  by (rule holds_mono [OF owned_store [OF assms(1,2)]]) (rule assms(3))

lemma cleanup_post: "owned l h s \<Longrightarrow> case_post h (Cleanup, l, perr what s)"
  by (simp add: case_post_def owned_perr)

lemma alloc_post:
  "owned l h s \<Longrightarrow> (b \<noteq> NULL \<Longrightarrow> holds k (case_post h)) \<Longrightarrow>
   holds (if b = NULL then Inr (Cleanup, l, perr ''malloc'' s) else k) (case_post h)"
  by (simp add: cleanup_post)

text \<open>The kernel fills the block \<open>b\<close>, and the response carries it.\<close>

lemma fill_post:
  assumes "owned l h s" and "b \<in> set (pointers l)" and "response_payload l = NULL"
  shows "holds (let ((r, data), st) = sys f s in
       ebind (block b st) (\<lambda>old. let content = put_prefix data old in
       ebind (stores b [(0, content)] st) (\<lambda>st.
       respond os n (copies r content) l st))) (case_post h)"
  using assms
  by (auto simp: sys_eq Let_def split: prod.split
      intro!: holdsI [of "block _ _"] store_then owned_world respond_post)

lemma handle_read_post:
  assumes wf: "wf_heap st"
  shows "holds (handle_read os p st) (case_post (heap st))"
proof -
  have "holds (if b = NULL then Inr (Cleanup, init_locals\<lparr>buf := b\<rparr>, perr ''malloc'' s)
     else ebind (int_sub INT_MAX fd) (\<lambda>fildes.
       let ((io_retval, data), st) = sys (f_read os fildes n) s in
       ebind (block b st) (\<lambda>old. let content = put_prefix data old in
       ebind (stores b [(0, content)] st) (\<lambda>st.
       respond os (8 + n) [(0, le64 io_retval), (8, content)] (init_locals\<lparr>buf := b\<rparr>) st))))
     (case_post (heap st))"
    if "malloc os n st = (b, s)" for n b s fd
    by (rule alloc_post [OF owned_buf [OF wf that]], unfold holds_ebind, rule holdsI)
       (rule fill_post [OF owned_buf [OF wf that]], simp_all add: pointers_def)
  then show ?thesis
    unfolding handle_read_def
    by (auto simp: Let_def split: prod.split intro!: holdsI [of "load _ _ _ _"])
qed

lemma handle_write_post:
  assumes wf: "wf_heap st"
  shows "holds (handle_write os p k st) (case_post (heap st))"
proof -
  have "holds (if b = NULL then Inr (Cleanup, init_locals\<lparr>buf := b\<rparr>, perr ''malloc'' s)
     else ebind (load p 5 n s) (\<lambda>data.
       ebind (stores b [(0, data)] s) (\<lambda>st.
       ebind (int_sub INT_MAX fd) (\<lambda>fildes.
       ebind (load b 0 n st) (\<lambda>data.
       let (io_retval, st) = sys (f_write os fildes data) st in
       respond os 8 [(0, le64 io_retval)] (init_locals\<lparr>buf := b\<rparr>) st)))))
     (case_post (heap st))"
    if "malloc os (k - 1 - 4 - 8) st = (b, s)" for n b s fd
    using owned_buf [OF wf that]
    by (auto simp: Let_def sys_eq pointers_def
        intro!: cleanup_post holdsI [of "load _ _ _ _"] holdsI [of "int_sub _ _"]
          holds_mono [OF owned_store] respond_post owned_world)
  then show ?thesis
    unfolding handle_write_def
    by (auto simp: Let_def split: prod.split intro!: holdsI [of "load _ _ _ _"])
qed

lemma stat_into_post:
  assumes wf: "wf_heap st"
  shows "holds (stat_into os call st) (case_post (heap st))"
proof -
  have "holds (if b = NULL then Inr (Cleanup, init_locals\<lparr>statbuf := b\<rparr>, perr ''malloc'' s)
     else ebind call (\<lambda>call.
        let ((error_code, data), st) = sys call s in
        ebind (block b st) (\<lambda>old. let content = put_prefix data old in
        ebind (stores b [(0, content)] st) (\<lambda>st.
        respond os n [(0, le32 error_code), (4, content)] (init_locals\<lparr>statbuf := b\<rparr>) st))))
     (case_post (heap st))"
    if "malloc os (of_nat sizeof_stat) st = (b, s)" for b s n
    by (rule alloc_post [OF owned_statbuf [OF wf that]], unfold holds_ebind, rule holdsI)
       (rule fill_post [OF owned_statbuf [OF wf that]], simp_all add: pointers_def)
  then show ?thesis
    unfolding stat_into_def by (auto simp: Let_def split: prod.split)
qed

lemma handle_case_post:
  assumes "wf_heap st"
  shows "holds (handle_case os f p k st) (case_post (heap st))"
  using assms
  by (auto simp: handle_case_def simple_case_post handle_read_post handle_write_post stat_into_post
      handle_stat_def handle_fstat_def cleanup_post owned_init
      split: option.split func.split intro!: holdsI [of "load _ _ _ _"])

section \<open>Clean-up\<close>

primrec free_all :: "ptr list \<Rightarrow> 'w proc \<Rightarrow> 'w proc res" where
  "free_all [] st = Inr st"
| "free_all (q # qs) st = ebind (free q st) (free_all qs)"

lemma free_all_live:
  assumes "distinct (filter (\<lambda>q. q \<noteq> NULL) qs)"
    and "\<forall>q \<in> set qs. q \<noteq> NULL \<longrightarrow> heap st q \<noteq> None"
  shows "free_all qs st =
    Inr (st\<lparr>heap := \<lambda>q. if q \<in> set qs \<and> q \<noteq> NULL then None else heap st q\<rparr>)"
  using assms
proof (induction qs arbitrary: st)
  case Nil
  then show ?case by simp
next
  case (Cons q qs)
  show ?case
  proof (cases "q = NULL")
    case True
    have "(\<lambda>x. if x \<in> set (q # qs) \<and> x \<noteq> NULL then None else heap st x) =
        (\<lambda>x. if x \<in> set qs \<and> x \<noteq> NULL then None else heap st x)"
      using True by auto
    with True Cons show ?thesis by simp
  next
    case False
    with Cons.prems obtain b where b: "heap st q = Some b" by auto
    let ?st = "st\<lparr>heap := (heap st)(q := None)\<rparr>"
    have "free_all qs ?st =
        Inr (?st\<lparr>heap := \<lambda>q. if q \<in> set qs \<and> q \<noteq> NULL then None else heap ?st q\<rparr>)"
      by (rule Cons.IH) (use Cons.prems False in \<open>auto split: if_splits\<close>)
    moreover have "(\<lambda>x. if x \<in> set qs \<and> x \<noteq> NULL then None else heap ?st x) =
        (\<lambda>x. if x \<in> set (q # qs) \<and> x \<noteq> NULL then None else heap st x)"
      using False by auto
    ultimately show ?thesis
      using b False by (simp add: free_live)
  qed
qed

lemma cleanup_owned:
  assumes o: "owned l h st" and p: "h p = Some b" "p \<noteq> NULL"
  shows "cleanup p l st = Inr (st\<lparr>heap := h(p := None)\<rparr>)"
proof -
  let ?qs = "[response_payload l, buf l, statbuf l]"
  have c: "cleanup p l st = ebind (free_all ?qs st) (free p)"
    by (simp add: cleanup_def ebind_assoc)
  have "(\<lambda>q. if q \<in> set ?qs \<and> q \<noteq> NULL then None else heap st q) = h"
    using o by (fastforce simp: owned_def pointers_def)
  then have "free_all ?qs st = Inr (st\<lparr>heap := h\<rparr>)"
    using o by (subst free_all_live) (auto simp: owned_def pointers_def)
  then show ?thesis using p by (simp add: c free_live)
qed

lemma send_response_heap:
  "holds (send_response os sk l st) (\<lambda>st'. heap st' = heap st \<and> hnext st' = hnext st)"
  by (auto simp: send_response_def sys_eq Let_def intro!: holdsI [of "load _ _ _ _"])

lemma client_handler_heap:
  assumes wf: "wf_heap st"
  shows "holds (client_handler os args st)
    (\<lambda>st'. heap st' = (heap st)(payload args := None) \<and> wf_heap st')"
proof (rule holdsI)
  fix st' assume "client_handler os args st = Inr st'"
  then obtain bs fl l s1 s2 where bs: "load (payload args) 0 1 st = Inr bs"
    and h: "handle_case os (func_of_code (hd bs)) (payload args) (arg_size args) st = Inr (fl, l, s1)"
    and s: "(case fl of Break \<Rightarrow> send_response os (client_socket args) l s1 | Cleanup \<Rightarrow> Inr s1) = Inr s2"
    and c: "cleanup (payload args) l s2 = Inr st'"
    by (auto simp: client_handler_def Let_def ebind_eq_Inr)
  have o: "owned l (heap st) s1"
    using holdsD [OF handle_case_post [OF wf] h] by (simp add: case_post_def)
  have "heap s2 = heap s1 \<and> hnext s2 = hnext s1"
    using s by (cases fl) (auto dest: holdsD [OF send_response_heap])
  then have o2: "owned l (heap st) s2" using o by (auto elim: owned_cong)
  obtain b where b: "heap st (payload args) = Some b"
    using bs by (auto simp: load_def block_def split: option.splits)
  have "payload args \<noteq> NULL" using wf_heap_live [OF wf b] by simp
  then have st': "st' = s2\<lparr>heap := (heap st)(payload args := None)\<rparr>"
    using c cleanup_owned [OF o2 b] by simp
  have "heap st q = None" if "heap s2 q = None" for q
    using o2 that by (cases "q \<in> set (pointers l)") (auto simp: owned_def)
  moreover have "wf_heap s2" using o2 by (simp add: owned_def)
  ultimately have "wf_heap st'" by (auto simp: st' wf_heap_def)
  with st' show "heap st' = (heap st)(payload args := None) \<and> wf_heap st'" by simp
qed

section \<open>A well-formed request\<close>

lemma respond_ok:
  assumes "alloc_ok os lim" and "unat n \<le> lim" and "contiguous 0 ws"
    and "length (concat (map snd ws)) = unat n" and "wf_heap st"
  shows "respond os n ws l st =
    Inr (Break, l\<lparr>response_payload := hnext st, response_payload_size := n\<rparr>,
      st\<lparr>heap := (heap st)(hnext st \<mapsto> concat (map snd ws)), hnext := Suc (hnext st)\<rparr>)"
proof -
  obtain g where "os_malloc os n (world st) = (Some g, world st)"
    using assms(1,2) by (auto simp: alloc_ok_def)
  then show ?thesis
    using assms(3-5) wf_heap_pos [OF assms(5)]
    by (simp add: respond_def malloc_def stores_def block_def writes_fill Let_def)
qed

text \<open>What the \<open>case\<close> of a call leaves when all goes well.\<close>

definition answered ::
  "'w os \<Rightarrow> call \<Rightarrow> byte list \<Rightarrow> 'w proc \<Rightarrow> 'w handled \<Rightarrow> bool" where
  "answered os c old st m \<longleftrightarrow>
     (\<exists>l st'. m = Inr (Break, l, st') \<and>
        heap st' (response_payload l) = Some (reply old (fst (exec os c (world st)))) \<and>
        unat (response_payload_size l) = reply_size c \<and>
        world st' = snd (exec os c (world st)) \<and> errlog st' = errlog st)"

lemmas request_simps =
  payload_of_def load_live load_string_def block_live slice_def string_in_append Let_def sys_eq
  int_sub_INT_MAX answered_def respond_ok to_local_def to_remote_def

lemma drop_exact: "n = length xs \<Longrightarrow> drop n (xs @ ys) = ys"
  by simp

lemma drop_open_mode: "drop (6 + length path) (b # path @ 0 # le32 f @ bs) = bs"
  using drop_exact [of "6 + length path" "b # path @ [0] @ le32 f" bs] by simp

lemma answered_simple:
  assumes "alloc_ok os lim" and "8 \<le> lim" and "wf_heap st" and "heap st p = Some (payload_of c)"
    and "wf_call c" and "\<forall>fd. call_fd c = Some fd \<longrightarrow> 0 \<le> sint fd"
  shows "c = Open path oflag mode \<Longrightarrow> answered os c [] st (handle_open os p st)"
    and "c = Close fd \<Longrightarrow> answered os c [] st (handle_close os p st)"
    and "c = Lseek fd off wh \<Longrightarrow> answered os c [] st (handle_lseek os p st)"
    and "c = Truncate path len \<Longrightarrow> answered os c [] st (handle_truncate os p st)"
    and "c = Ftruncate fd len \<Longrightarrow> answered os c [] st (handle_ftruncate os p st)"
    and "c = Fsync fd \<Longrightarrow> answered os c [] st (handle_fsync os p st)"
    and "c = Rename old new \<Longrightarrow> answered os c [] st (handle_rename os p st)"
    and "c = Unlink path \<Longrightarrow> answered os c [] st (handle_unlink os p st)"
proof -
  have four: "4 \<le> lim" using assms(2) by simp
  note r = respond_ok [OF assms(1)] request_simps load_fd_def unat_path_size assms(2-4) four
  show "answered os c [] st (handle_open os p st)" if c: "c = Open path oflag mode"
    using assms(5) c by (cases mode) (simp_all add: handle_open_def r drop_open_mode split: prod.split)
  show "answered os c [] st (handle_close os p st)" if c: "c = Close fd"
    using assms(6) c by (simp add: handle_close_def r split: prod.split)
  show "answered os c [] st (handle_lseek os p st)" if c: "c = Lseek fd off wh"
    using assms(6) c by (simp add: handle_lseek_def r split: prod.split)
  show "answered os c [] st (handle_truncate os p st)" if c: "c = Truncate path len"
    using assms(5) c by (simp add: handle_truncate_def r split: prod.split)
  show "answered os c [] st (handle_ftruncate os p st)" if c: "c = Ftruncate fd len"
    using assms(6) c by (simp add: handle_ftruncate_def r split: prod.split)
  show "answered os c [] st (handle_fsync os p st)" if c: "c = Fsync fd"
    using assms(6) c by (simp add: handle_fsync_def r split: prod.split)
  show "answered os c [] st (handle_rename os p st)" if c: "c = Rename old new"
    using assms(5) c by (simp add: handle_rename_def r split: prod.split)
  show "answered os c [] st (handle_unlink os p st)" if c: "c = Unlink path"
    using assms(5) c by (simp add: handle_unlink_def r split: prod.split)
qed

lemma malloc_ok:
  assumes "alloc_ok os lim" and "unat n \<le> lim"
  obtains old where "length old = unat n"
    and "malloc os n st =
      (hnext st, st\<lparr>heap := (heap st)(hnext st \<mapsto> old), hnext := Suc (hnext st)\<rparr>)"
proof -
  obtain g where "os_malloc os n (world st) = (Some g, world st)"
    using assms by (auto simp: alloc_ok_def)
  then show ?thesis
    by (intro that [of "map g [0..<unat n]"]) (simp_all add: malloc_def)
qed

lemma wf_heap_alloc:
  "wf_heap st \<Longrightarrow>
   wf_heap (st\<lparr>hnext := Suc (hnext st), world := w, heap := (heap st)(hnext st \<mapsto> b)\<rparr>)"
  "wf_heap st \<Longrightarrow>
   wf_heap (st\<lparr>hnext := Suc (hnext st), heap := (heap st)(hnext st \<mapsto> b)\<rparr>)"
  by (auto simp: wf_heap_def)

lemma answered_read:
  assumes "alloc_ok os lim" and "unat n + 8 \<le> lim" and "lim < 2 ^ 63" and "wf_heap st"
    and "heap st p = Some (payload_of (Read fd n))" and "0 \<le> sint fd"
  shows "\<exists>old. length old = unat n \<and> answered os (Read fd n) old st (handle_read os p st)"
proof -
  have n8: "unat (8 + n) = unat n + 8"
    using assms(2,3) by (simp add: unat_word_ariths)
  obtain old where old: "length old = unat n"
    and m: "malloc os n st =
      (hnext st, st\<lparr>heap := (heap st)(hnext st \<mapsto> old), hnext := Suc (hnext st)\<rparr>)"
    using malloc_ok [OF assms(1), of n st] assms(2) by auto
  have p: "p \<noteq> hnext st" using wf_heap_fresh [OF assms(4)] assms(5) by auto
  show ?thesis
    using assms(4-6) wf_heap_pos [OF assms(4)] old p n8 assms(2)
    by (intro exI [of _ old])
       (simp add: handle_read_def request_simps m stores_def overwrite_def respond_ok [OF assms(1)]
          wf_heap_alloc split: prod.split)
qed

lemma answered_write:
  assumes "alloc_ok os lim" and "length bs + 13 \<le> lim" and "lim < 2 ^ 63" and "wf_heap st"
    and "heap st p = Some (payload_of (Write fd bs))" and "0 \<le> sint fd" and "addressable bs"
    and k: "k = of_nat (length (payload_of (Write fd bs)))"
  shows "answered os (Write fd bs) [] st (handle_write os p k st)"
proof -
  have k13: "k = of_nat (length bs) + 13"
    by (simp add: k payload_of_def add.commute)
  have n: "unat (of_nat (length bs) :: size_t) = length bs"
    using assms(2,3) by (simp add: unat_of_nat64)
  have ku: "unat k = length bs + 13" "uint k = int (length bs + 13)"
    using assms(2,3) n by (simp_all add: k13 unat_word_ariths uint_nat)
  obtain old where old: "length old = length bs"
    and m: "malloc os (of_nat (length bs)) st =
      (hnext st, st\<lparr>heap := (heap st)(hnext st \<mapsto> old), hnext := Suc (hnext st)\<rparr>)"
    using malloc_ok [OF assms(1), of "of_nat (length bs)" st] assms(2) n by auto
  have p: "p \<noteq> hnext st" using wf_heap_fresh [OF assms(4)] assms(5) by auto
  have pl: "payload_of (Write fd bs) = (3 # le32 fd @ bs) @ le64 (of_nat (length bs))"
    by (simp add: payload_of_def)
  have tail: "drop (5 + length bs) (payload_of (Write fd bs)) = le64 (of_nat (length bs))"
    unfolding pl by (rule drop_exact) simp
  have mid: "take (length bs) (drop 5 (payload_of (Write fd bs))) = bs"
    by (simp add: payload_of_def)
  have len: "length (payload_of (Write fd bs)) = length bs + 13"
    by (simp add: payload_of_def)
  have head: "take 4 (drop (Suc 0) (payload_of (Write fd bs))) = le32 fd"
    by (simp add: payload_of_def)
  have r: "8 \<le> lim" "k - 13 = of_nat (length bs)"
    using assms(2) by (simp_all add: k13)
  show ?thesis
    using assms(4-6) wf_heap_pos [OF assms(4)] old p n ku m r
    by (simp add: handle_write_def load_live slice_def Let_def sys_eq int_sub_INT_MAX answered_def
          to_local_def stores_def block_live overwrite_def respond_ok [OF assms(1)] wf_heap_alloc
          head mid tail len split: prod.split)
qed

lemma answered_stat_into:
  assumes "alloc_ok os lim" and "148 \<le> lim" and "wf_heap st"
    and e: "\<And>w. exec os c w = (let ((r, bs), w) = call w in (RStat r bs, w))"
    and "reply_size c = 148"
  shows "\<exists>old. length old = sizeof_stat \<and> answered os c old st (stat_into os (Inr call) st)"
proof -
  have lim: "144 \<le> lim" using assms(2) by simp
  obtain old where old: "length old = 144"
    and m: "malloc os 144 st =
      (hnext st, st\<lparr>heap := (heap st)(hnext st \<mapsto> old), hnext := Suc (hnext st)\<rparr>)"
    using malloc_ok [OF assms(1), of 144 st] lim by auto
  show ?thesis
    using assms(2,3,5) wf_heap_pos [OF assms(3)] old m
    by (intro exI [of _ old])
       (simp add: stat_into_def sizeof_stat_def e answered_def Let_def sys_eq block_def stores_def
          overwrite_def respond_ok [OF assms(1)] wf_heap_alloc split: prod.split)
qed

lemma stat_into_call:
  "handle_stat os p st = stat_into os (Inr (f_stat os path)) st"
  if "heap st p = Some (payload_of (Stat path))" "is_cstr path"
  using that by (simp add: handle_stat_def request_simps)

lemma fstat_into_call:
  "handle_fstat os p st = stat_into os (Inr (f_fstat os (to_local fd))) st"
  if "heap st p = Some (payload_of (Fstat fd))" "0 \<le> sint fd"
  using that by (simp add: handle_fstat_def request_simps)

text \<open>Every well-formed request is answered with the result of the call it encodes.\<close>

lemma handle_case_answered:
  assumes a: "alloc_ok os lim" and lim: "length (payload_of c) \<le> lim" "reply_size c \<le> lim"
      "148 \<le> lim" "lim < 2 ^ 63"
    and st: "wf_heap st" "heap st p = Some (payload_of c)"
    and c: "wf_call c" "\<forall>fd. call_fd c = Some fd \<longrightarrow> 0 \<le> sint fd"
    and k: "k = of_nat (length (payload_of c))"
  shows "\<exists>old. length old = result_buf c \<and>
    answered os c old st (handle_case os (Some (call_func c)) p k st)"
proof -
  have l8: "8 \<le> lim" using lim(3) by simp
  note simple = answered_simple [OF a l8 st c]
  show ?thesis
  proof (cases c)
    case (Read fd n)
    then show ?thesis
      using answered_read [OF a, of n st p fd] lim st c by (simp add: handle_case_def)
  next
    case (Write fd bs)
    then show ?thesis
      using answered_write [OF a, of bs st p fd k] lim st c k
      by (simp add: handle_case_def payload_of_def)
  next
    case (Stat path)
    then show ?thesis
      using answered_stat_into [OF a lim(3) st(1), of c "f_stat os path"] st c
      by (simp add: handle_case_def stat_into_call sizeof_stat_def)
  next
    case (Fstat fd)
    then show ?thesis
      using answered_stat_into [OF a lim(3) st(1), of c "f_fstat os (to_local fd)"] st c
      by (simp add: handle_case_def fstat_into_call sizeof_stat_def)
  qed (use simple in \<open>simp_all add: handle_case_def\<close>)
qed

section \<open>The whole handler\<close>

text \<open>What the end of the handler does to the world: \<open>send\<close>, \<open>shutdown\<close> and
  \<open>close\<close>, each only after the one before it succeeded.\<close>

definition conclude :: "'w os \<Rightarrow> cint \<Rightarrow> byte list \<Rightarrow> 'w \<Rightarrow> 'w" where
  "conclude os sk bs w =
     (let (sent, w) = os_send os sk bs w in
      if sint sent < 0 then w
      else let (rc, w) = os_shutdown os sk w in
      if sint rc < 0 then w
      else snd (f_close os sk w))"

lemma send_response_world:
  assumes "heap st (response_payload l) = Some bs" and "length bs = unat (response_payload_size l)"
  shows "\<exists>st'. send_response os sk l st = Inr st' \<and> world st' = conclude os sk bs (world st) \<and>
    heap st' = heap st \<and> hnext st' = hnext st"
  using assms
  by (auto simp: send_response_def load_live slice_def sys_eq Let_def conclude_def perr_def
      split: prod.split)

lemma client_handler_serves:
  assumes a: "alloc_ok os lim" and lim: "length (payload_of c) \<le> lim" "reply_size c \<le> lim"
      "148 \<le> lim" "lim < 2 ^ 63"
    and st: "wf_heap st" "heap st (payload args) = Some (payload_of c)"
      "arg_size args = of_nat (length (payload_of c))"
    and c: "wf_call c" "\<forall>fd. call_fd c = Some fd \<longrightarrow> 0 \<le> sint fd"
  shows "\<exists>old st'. length old = result_buf c \<and> client_handler os args st = Inr st' \<and>
    heap st' = (heap st)(payload args := None) \<and> wf_heap st' \<and>
    (let (r, w) = exec os c (world st) in
     world st' = conclude os (client_socket args) (reply old r) w)"
proof -
  obtain r w where rw: "exec os c (world st) = (r, w)" by fastforce
  obtain old l s where old: "length old = result_buf c"
    and h: "handle_case os (Some (call_func c)) (payload args) (arg_size args) st = Inr (Break, l, s)"
    and resp: "heap s (response_payload l) = Some (reply old r)" "unat (response_payload_size l) = reply_size c"
    and w: "world s = w"
    using handle_case_answered [OF a lim st(1,2) c st(3)] rw by (auto simp: answered_def)
  have len: "length (reply old r) = unat (response_payload_size l)"
    using length_reply [OF old, of os "world st"] rw resp(2) by simp
  obtain t where t: "send_response os (client_socket args) l s = Inr t"
      "world t = conclude os (client_socket args) (reply old r) w" "heap t = heap s" "hnext t = hnext s"
    using send_response_world [where st = s, OF resp(1) len] w by auto
  have "owned l (heap st) s"
    using holdsD [OF handle_case_post [OF st(1)] h] by (simp add: case_post_def)
  then have "owned l (heap st) t" using t by (auto elim: owned_cong)
  then have cl: "cleanup (payload args) l t = Inr (t\<lparr>heap := (heap st)(payload args := None)\<rparr>)"
    using st wf_heap_live by (intro cleanup_owned) auto
  have hd: "load (payload args) 0 1 st = Inr [func_code (call_func c)]"
    using st(2) by (simp add: load_live slice_def payload_of_def)
  have "client_handler os args st = Inr (t\<lparr>heap := (heap st)(payload args := None)\<rparr>)"
    using hd h t(1) cl by (simp add: client_handler_def Let_def)
  then show ?thesis
    using old t(2) rw holdsD [OF client_handler_heap [OF st(1)], of os args] by auto
qed

end
