(* ===== verification/Server_Inv.thy ===== *)
theory Server_Inv
  imports Server_Main Handler_Correct
begin

text \<open>
  Invariants of the server's threads.  Under every interleaving the slots of
  \<open>thread_id\<close> stay in bounds, at most 50 threads are alive and \<open>main\<close> cannot wait
  for a thread that is not there.  When every thread copies its argument before the next
  connection is accepted, the heap holds exactly the payloads of the live threads; when
  two threads copy the same argument, the second one uses a freed payload.
\<close>

section \<open>The slots of the thread table\<close>

text \<open>The slots whose threads have not been joined, and the threads still alive.\<close>

definition used_slots :: "'w server \<Rightarrow> nat set" where
  "used_slots st = (if phase st = Joining then {thread_index st..<50} else {0..<thread_index st})"

definition live :: "'w server \<Rightarrow> nat set" where
  "live st = {t. t < length (threads st) \<and> threads st ! t \<noteq> Finished}"

definition slots_inv :: "'w server \<Rightarrow> bool" where
  "slots_inv st \<longleftrightarrow>
     wf_heap st \<and>
     (phase st \<noteq> Exited \<longrightarrow>
        length (thread_id st) = 60 \<and> length (payload_size_buf st) = 8 \<and> thread_index st < 50 \<and>
        (\<forall>i \<in> used_slots st. \<exists>t < length (threads st). thread_id st ! i = Some t) \<and>
        (\<forall>t \<in> live st. \<exists>i \<in> used_slots st. thread_id st ! i = Some t))"

lemma slot_of_live:
  assumes "slots_inv st" and "phase st \<noteq> Exited" and "t \<in> live st"
  obtains i where "i \<in> used_slots st" "thread_id st ! i = Some t"
  using assms by (auto simp: slots_inv_def)

lemma exited_inv [simp]: "phase st = Exited \<Longrightarrow> slots_inv st = wf_heap st"
  by (simp add: slots_inv_def)

lemma cleanup_exits [simp]:
  "phase (main_cleanup os st) = Exited" "phase (signal_handler os st) = Exited"
  by (simp_all add: main_cleanup_def signal_handler_def sys_eq Let_def)

lemma cleanup_heap [simp]:
  "heap (main_cleanup os st) = heap st" "hnext (main_cleanup os st) = hnext st"
  "heap (signal_handler os st) = heap st" "hnext (signal_handler os st) = hnext st"
  by (simp_all add: main_cleanup_def signal_handler_def sys_eq Let_def)

lemma wf_heap_cleanup [simp]:
  "wf_heap (main_cleanup os st) = wf_heap st" "wf_heap (signal_handler os st) = wf_heap st"
  by (simp_all add: wf_heap_def)

text \<open>What an iteration of \<open>main\<close> does when it does not give up: one block more, and
  one thread more that is told about it.\<close>

definition enlisted :: "'w server \<Rightarrow> 'w server \<Rightarrow> bool" where
  "enlisted st st' \<longleftrightarrow>
     threads st' = threads st @ [Created] \<and>
     thread_id st' = (thread_id st)[thread_index st := Some (length (threads st))] \<and>
     length (payload_size_buf st') = length (payload_size_buf st) \<and>
     (thread_index st', phase st') =
       (if 50 \<le> Suc (thread_index st) then (0, Joining) else (Suc (thread_index st), phase st))"

definition spawned :: "'w server \<Rightarrow> 'w server \<Rightarrow> bool" where
  "spawned st st' \<longleftrightarrow>
     enlisted st st' \<and> heap st (payload (argument st')) = None \<and> payload (argument st') \<noteq> NULL \<and>
     (\<exists>b. heap st' = (heap st)(payload (argument st') \<mapsto> b))"

lemma spawn_post:
  assumes "thread_index st < length (thread_id st)" and "wf_heap st"
  shows "\<exists>st'. spawn os a st = Inr st' \<and> wf_heap st' \<and>
    (phase st' = Exited \<or> heap st' = heap st \<and> argument st' = a \<and> enlisted st st')"
  using assms by (auto simp: spawn_def enlisted_def sys_eq Let_def wf_heap_def)

text \<open>The result of an iteration: blocked for ever, ended, or one thread more.\<close>

definition iterated :: "'w server \<Rightarrow> 'w server res \<Rightarrow> bool" where
  "iterated st m \<longleftrightarrow>
     m = Inl Hang \<or> (\<exists>st'. m = Inr st' \<and> wf_heap st' \<and> (phase st' = Exited \<or> spawned st st'))"

lemma iterated_gave_up: "wf_heap s \<Longrightarrow> iterated st (Inr (main_cleanup os (perr what s)))"
  by (simp add: iterated_def)

lemma iterated_Hang: "iterated st (Inl Hang)"
  by (simp add: iterated_def)

lemma iterated_same:
  assumes "iterated st m" and "heap st' = heap st" "threads st' = threads st"
    "thread_id st' = thread_id st" "thread_index st' = thread_index st" "phase st' = phase st"
    "length (payload_size_buf st') = length (payload_size_buf st)"
  shows "iterated st' m"
  using assms by (auto simp: iterated_def spawned_def enlisted_def)

lemma take_request_post:
  assumes i: "thread_index st < length (thread_id st)" and wf: "wf_heap st"
  shows "iterated st (take_request os sk k st)"
proof -
  obtain p s where m: "malloc os k st = (p, s)" by fastforce
  from m show ?thesis
  proof (cases rule: malloc_cases)
    case (fail w)
    then show ?thesis using m wf by (simp add: take_request_def iterated_gave_up)
  next
    case (ok g w)
    have wf': "wf_heap s" using wf_heap_malloc [OF m wf] .
    have fresh: "p \<noteq> NULL" "heap st p = None"
      using ok wf_heap_pos [OF wf] wf_heap_fresh [OF wf] by auto
    let ?b = "map g [0..<unat k]"
    have "iterated st (spawn os a (s\<lparr>world := w', heap := (heap s)(p \<mapsto> b)\<rparr>))"
      if "payload a = p" for w' b a
    proof -
      let ?s = "s\<lparr>world := w', heap := (heap s)(p \<mapsto> b)\<rparr>"
      have "wf_heap ?s" using wf' ok fresh(1) by (auto simp: wf_heap_def)
      then show ?thesis
        using spawn_post [of ?s os a] i ok fresh that
        by (auto simp: iterated_def spawned_def enlisted_def)
    qed
    then show ?thesis
      using m ok fresh wf'
      by (auto simp: take_request_def Let_def iterated_gave_up iterated_Hang block_def stores_def
          overwrite_def split: option.split prod.split)
  qed
qed

lemma main_iteration_post:
  assumes "slots_inv st" and "phase st = Accepting"
  shows "iterated st (main_iteration os st)"
proof -
  have "iterated st (take_request os sk k (st\<lparr>world := w, payload_size_buf := put_prefix b (payload_size_buf st)\<rparr>))"
    for sk k w b
    by (rule iterated_same [OF take_request_post]) (use assms in \<open>auto simp: slots_inv_def wf_heap_def\<close>)
  then show ?thesis
    using assms
    by (auto simp: main_iteration_def sys_eq Let_def slots_inv_def iterated_gave_up iterated_Hang
        split: option.split prod.split)
qed

section \<open>Every turn keeps the invariant\<close>

lemma live_append: "threads st' = threads st @ [Created] \<Longrightarrow> live st' = insert (length (threads st)) (live st)"
  by (auto simp: live_def nth_append)

lemma spawned_inv:
  assumes "slots_inv st" and "phase st = Accepting" and "spawned st st'" and "wf_heap st'"
  shows "slots_inv st'"
proof -
  let ?n = "thread_index st"
  have n: "?n < 50" "length (thread_id st) = 60" using assms(1,2) by (simp_all add: slots_inv_def)
  have ti: "thread_id st' = (thread_id st)[?n := Some (length (threads st))]"
    and ts: "threads st' = threads st @ [Created]"
    using assms(3) by (simp_all add: spawned_def enlisted_def)
  have u: "used_slots st' = insert ?n (used_slots st)" "?n \<notin> used_slots st"
    using assms(2,3) n by (auto simp: used_slots_def spawned_def enlisted_def split: if_splits)
  have "\<exists>t < length (threads st'). thread_id st' ! i = Some t" if "i \<in> used_slots st'" for i
    using that u n assms(1,2) by (fastforce simp: ti ts slots_inv_def nth_list_update)
  moreover have "\<exists>i \<in> used_slots st'. thread_id st' ! i = Some t" if "t \<in> live st'" for t
    using that u n assms(1,2) by (fastforce simp: ti live_append [OF ts] slots_inv_def nth_list_update)
  ultimately show ?thesis
    using assms n by (auto simp: slots_inv_def ti spawned_def enlisted_def split: if_splits)
qed

text \<open>Turns that leave \<open>main\<close> where it is, and finish or move one thread.\<close>

lemma thread_turn_inv:
  assumes "slots_inv st" and "wf_heap st'" and "threads st' = (threads st)[t := x]"
    and "thread_at t st \<noteq> Some Finished" "thread_at t st \<noteq> None"
    and "thread_id st' = thread_id st" "thread_index st' = thread_index st" "phase st' = phase st"
      "payload_size_buf st' = payload_size_buf st"
  shows "slots_inv st'"
proof -
  have "live st' \<subseteq> live st"
    using assms(3-5) by (auto simp: live_def thread_at_def nth_list_update split: if_splits)
  then show ?thesis
    using assms by (fastforce simp: slots_inv_def used_slots_def)
qed

lemma join_inv:
  assumes "slots_inv st" and "phase st = Joining" and "join_target st = Inr (Some Finished)"
  shows "slots_inv (join_iteration os st)"
proof -
  let ?i = "thread_index st"
  obtain t where t: "thread_id st ! ?i = Some t" "t < length (threads st)" "threads st ! t = Finished"
    using assms(3) by (auto simp: join_target_def split: if_splits option.splits)
  have "\<exists>i \<in> {Suc ?i..<50}. thread_id st ! i = Some u" if u: "u \<in> live st" for u
  proof -
    obtain i where i: "i \<in> {?i..<50}" "thread_id st ! i = Some u"
      using slot_of_live [OF assms(1) _ u] assms(2) by (auto simp: used_slots_def)
    with u t have "i \<noteq> ?i" by (auto simp: live_def)
    with i show ?thesis by (intro bexI [of _ i]) auto
  qed
  then have l: "\<forall>u \<in> live st. \<exists>i \<in> {Suc ?i..<50}. thread_id st ! i = Some u" by blast
  have same: "live (st\<lparr>thread_index := n, world := w, phase := ph\<rparr>) = live st"
    "live (st\<lparr>world := w, thread_index := n, phase := ph\<rparr>) = live st"
    "live (st\<lparr>world := w, thread_index := n\<rparr>) = live st"
    "live (st\<lparr>thread_index := n, world := w\<rparr>) = live st" for n w ph
    by (simp_all add: live_def)
  show ?thesis
    using assms(1,2) l
    by (auto simp: join_iteration_def sys_eq Let_def slots_inv_def used_slots_def same wf_heap_def)
qed

lemma run_thread_post:
  assumes "wf_heap st" and "run_thread os t a st = Inr st'"
  shows "heap st' = (heap st)(payload a := None)" "wf_heap st'"
    "threads st' = (threads st)[t := Finished]" "thread_id st' = thread_id st"
    "thread_index st' = thread_index st" "phase st' = phase st" "argument st' = argument st"
    "payload_size_buf st' = payload_size_buf st"
proof -
  obtain p where p: "client_handler os a (as_proc st) = Inr p"
    and st': "st' = (with_proc st p)\<lparr>threads := (threads st)[t := Finished]\<rparr>"
    using assms(2) by (auto simp: run_thread_def ebind_eq_Inr)
  have "wf_heap (as_proc st)" using assms(1) by (simp add: as_proc_def wf_heap_def)
  from holdsD [OF client_handler_heap [OF this] p]
  have h: "heap p = (heap st)(payload a := None)" and wf: "wf_heap p"
    by (simp_all add: as_proc_def)
  have eq: "heap st' = heap p" "hnext st' = hnext p" by (simp_all add: st' with_proc_def)
  from eq(1) h show "heap st' = (heap st)(payload a := None)" by simp
  from wf wf_heap_cong [OF eq] show "wf_heap st'" by simp
qed (use assms(2) in \<open>auto simp: run_thread_def ebind_eq_Inr with_proc_def\<close>)

lemma step_inv:
  assumes "step os st st'" and "slots_inv st"
  shows "slots_inv st'"
  using assms
proof cases
  case accept
  then have "wf_heap st' \<and> (phase st' = Exited \<or> spawned st st')"
    using main_iteration_post [of st os] assms(2) by (simp add: iterated_def)
  then show ?thesis using spawned_inv [OF assms(2) accept(1)] by auto
next
  case join
  then show ?thesis using join_inv [OF assms(2)] by simp
next
  case (fetch t)
  then show ?thesis
    using assms(2) by (intro thread_turn_inv [OF assms(2)]) (auto simp: fetch_def slots_inv_def wf_heap_def)
next
  case (run t a)
  have "wf_heap st" using assms(2) by (simp add: slots_inv_def)
  from run_thread_post [OF this run(3)] run(2) show ?thesis
    by (intro thread_turn_inv [OF assms(2), of _ t Finished]) auto
next
  case interrupt
  then show ?thesis using assms(2) by (simp add: slots_inv_def)
qed

lemma reachable_inv: "reachable os st st' \<Longrightarrow> slots_inv st \<Longrightarrow> slots_inv st'"
  by (induction rule: reachable.induct) (auto intro: step_inv)

lemma start_inv:
  assumes "server_start os st = Inr st'" and "wf_heap st" and "live st = {}"
    and "length (thread_id st) = 60" "length (payload_size_buf st) = 8"
  shows "slots_inv st'"
  using assms
  by (auto simp: server_start_def ebind_eq_Inr sys_eq Let_def slots_inv_def wf_heap_def
      used_slots_def live_def split: if_splits)

section \<open>What the invariant gives\<close>

lemma live_bounded:
  assumes "slots_inv st" and "phase st \<noteq> Exited"
  shows "card (live st) \<le> 50"
proof -
  have "Some ` live st \<subseteq> (\<lambda>i. thread_id st ! i) ` used_slots st"
    using slot_of_live [OF assms] by (metis (mono_tags, lifting) image_iff image_subsetI)
  moreover have "finite (used_slots st)" "card (used_slots st) \<le> 50"
    using assms by (auto simp: used_slots_def slots_inv_def)
  ultimately have "card (Some ` live st) \<le> 50"
    by (meson card_image_le card_mono finite_imageI order_trans)
  then show ?thesis by (simp add: card_image)
qed

text \<open>The only thing that can go wrong in \<open>main\<close> is that it blocks for ever.\<close>

lemma main_turn_faults:
  assumes "slots_inv st" and "main_turn os st = Some (Inl e)"
  shows "e = Hang"
proof (cases "phase st")
  case Accepting
  then show ?thesis
    using main_iteration_post [OF assms(1), of os] assms(2) by (auto simp: main_turn_def iterated_def)
next
  case Joining
  then have "thread_index st \<in> used_slots st" "thread_index st < length (thread_id st)"
    using assms(1) by (simp_all add: slots_inv_def used_slots_def)
  then obtain t where "thread_id st ! thread_index st = Some t"
    using assms(1) Joining by (auto simp: slots_inv_def)
  then show ?thesis
    using assms Joining by (auto simp: main_turn_def join_target_def slots_inv_def split: if_splits)
next
  case Exited
  then show ?thesis using assms(2) by (simp add: main_turn_def)
qed

text \<open>While \<open>main\<close> waits in the join loop, the thread it waits for has a turn to take.\<close>

lemma join_progress:
  assumes "slots_inv st" and "phase st = Joining"
  shows "(\<exists>st'. main_turn os st = Some (Inr st')) \<or>
    (\<exists>t. thread_id st ! thread_index st = Some t \<and>
       (act os (Fetch t) st \<noteq> None \<or> act os (Run t) st \<noteq> None))"
proof -
  have "thread_index st \<in> used_slots st" using assms by (simp add: slots_inv_def used_slots_def)
  then obtain t where "thread_id st ! thread_index st = Some t" "t < length (threads st)"
    using assms by (auto simp: slots_inv_def)
  then show ?thesis
    using assms
    by (cases "threads st ! t") (auto simp: main_turn_def join_target_def slots_inv_def thread_at_def)
qed

section \<open>Faults of a handler\<close>

text \<open>Reading outside the payload and \<open>INT_MAX - fildes\<close> are all that can go wrong
  before the clean-up, and the clean-up itself cannot.\<close>

definition input_fault :: "'a res \<Rightarrow> bool" where
  "input_fault m \<longleftrightarrow> (\<forall>e. m = Inl e \<longrightarrow> e = OutOfBounds \<or> e = SignedOverflow)"

lemma input_fault_simps [simp]:
  "input_fault (Inr x)" "input_fault (Inl OutOfBounds)" "input_fault (Inl SignedOverflow)"
  by (simp_all add: input_fault_def)

lemma input_fault_ebind [intro!]:
  "input_fault m \<Longrightarrow> (\<And>x. m = Inr x \<Longrightarrow> input_fault (k x)) \<Longrightarrow> input_fault (ebind m k)"
  by (cases m) (auto simp: input_fault_def)

lemma input_fault_writes: "input_fault (writes b ws)"
  by (induction ws arbitrary: b) (auto simp: overwrite_def)

lemma input_fault_mem [simp]:
  "input_fault (block p st)" "input_fault (load p i n st)" "input_fault (load_string p i st)"
  "input_fault (stores p ws st)" "input_fault (int_sub a b)" "input_fault (load_fd p st)"
  by (auto simp: block_def load_def load_string_def stores_def int_sub_def load_fd_def slice_def
      string_in_def split: option.split intro: input_fault_writes)

lemma input_fault_respond [simp]: "input_fault (respond os n ws l st)"
  by (auto simp: respond_def Let_def split: prod.split)

lemma input_fault_stat_into [intro!]: "input_fault call \<Longrightarrow> input_fault (stat_into os call st)"
  by (auto simp: stat_into_def Let_def split: prod.split)

lemma input_fault_case: "input_fault (handle_case os f p k st)"
  by (auto simp: handle_case_def simple_case_defs handle_read_def handle_write_def handle_stat_def
      handle_fstat_def Let_def split: option.split func.split prod.split)

lemma client_handler_faults:
  assumes wf: "wf_heap st" and live: "heap st (payload args) = Some b"
  shows "input_fault (client_handler os args st)"
proof -
  have tail: "input_fault (ebind (case fl of Break \<Rightarrow> send_response os sk l s | Cleanup \<Rightarrow> Inr s)
      (cleanup (payload args) l))"
    if "case_post (heap st) (fl, l, s)" for sk fl l s
  proof (rule input_fault_ebind)
    show "input_fault (case fl of Break \<Rightarrow> send_response os sk l s | Cleanup \<Rightarrow> Inr s)"
      by (auto simp: send_response_def Let_def sys_eq split: flow.split)
    fix s' assume "(case fl of Break \<Rightarrow> send_response os sk l s | Cleanup \<Rightarrow> Inr s) = Inr s'"
    then have "heap s' = heap s \<and> hnext s' = hnext s"
      by (auto split: flow.splits dest: holdsD [OF send_response_heap])
    then have "owned l (heap st) s'" using that by (auto simp: case_post_def elim: owned_cong)
    then have "cleanup (payload args) l s' = Inr (s'\<lparr>heap := (heap st)(payload args := None)\<rparr>)"
      by (rule cleanup_owned) (use live wf_heap_live [OF wf live] in auto)
    then show "input_fault (cleanup (payload args) l s')" by simp
  qed
  show ?thesis
    using holdsD [OF handle_case_post [OF wf]]
    by (auto simp: client_handler_def Let_def intro!: input_fault_case tail)
qed

section \<open>Who owns the payloads\<close>

text \<open>The argument a live thread has copied or is about to copy, and its block.\<close>

definition pending :: "'w server \<Rightarrow> nat \<Rightarrow> ptr" where
  "pending st t = payload (case threads st ! t of Fetched a \<Rightarrow> a | _ \<Rightarrow> argument st)"

definition payloads_inv :: "'w server \<Rightarrow> bool" where
  "payloads_inv st \<longleftrightarrow> inj_on (pending st) (live st) \<and> dom (heap st) = pending st ` live st"

text \<open>A step in which no connection is accepted while a thread has still to copy its
  argument.\<close>

definition prompt_step :: "'w os \<Rightarrow> 'w server \<Rightarrow> 'w server \<Rightarrow> bool" where
  "prompt_step os st st' \<longleftrightarrow>
     step os st st' \<and> (length (threads st') \<noteq> length (threads st) \<longrightarrow> Created \<notin> set (threads st))"

inductive prompt_reachable :: "'w os \<Rightarrow> 'w server \<Rightarrow> 'w server \<Rightarrow> bool" for os :: "'w os" where
  start: "prompt_reachable os st st"
| more: "prompt_reachable os st st' \<Longrightarrow> prompt_step os st' st'' \<Longrightarrow> prompt_reachable os st st''"

lemma payloads_cong:
  assumes "payloads_inv st" and "heap st' = heap st" "live st' = live st"
    and "\<And>t. t \<in> live st \<Longrightarrow> pending st' t = pending st t"
  shows "payloads_inv st'"
  using assms by (auto simp: payloads_inv_def inj_on_def)

lemma spawned_payloads:
  assumes p: "payloads_inv st" and s: "spawned st st'" and c: "Created \<notin> set (threads st)"
  shows "payloads_inv st'"
proof -
  let ?n = "length (threads st)"
  have ts: "threads st' = threads st @ [Created]" using s by (simp add: spawned_def enlisted_def)
  have l: "live st' = insert ?n (live st)" using live_append [OF ts] .
  have old: "pending st' t = pending st t" if "t \<in> live st" for t
  proof -
    have "t < ?n" using that by (simp add: live_def)
    then have "threads st ! t \<in> set (threads st)" by simp
    with c have "threads st ! t \<noteq> Created" by auto
    then show ?thesis
      using that \<open>t < ?n\<close> by (cases "threads st ! t") (auto simp: pending_def ts nth_append live_def)
  qed
  have new: "pending st' ?n = payload (argument st')" by (simp add: pending_def ts)
  have h: "heap st (payload (argument st')) = None"
    "dom (heap st') = insert (payload (argument st')) (dom (heap st))"
    using s by (auto simp: spawned_def)
  have "payload (argument st') \<notin> pending st ` live st" using p h(1) by (auto simp: payloads_inv_def)
  moreover have "?n \<notin> live st" by (simp add: live_def)
  moreover have "pending st' ` live st = pending st ` live st" using old by (intro image_cong) auto
  moreover have "inj_on (pending st') (live st)"
    using p old by (auto simp: payloads_inv_def inj_on_def)
  ultimately show ?thesis
    using p h(2) new by (auto simp: payloads_inv_def l)
qed

lemma run_payloads:
  assumes wf: "wf_heap st" and p: "payloads_inv st" and t: "thread_at t st = Some (Fetched a)"
    and r: "run_thread os t a st = Inr st'"
  shows "payloads_inv st'"
proof -
  note post = run_thread_post [OF wf r]
  have tl: "t \<in> live st" "pending st t = payload a"
    using t by (auto simp: thread_at_def live_def pending_def split: if_splits)
  have l: "live st' = live st - {t}"
    using post(3) tl(1) by (auto simp: live_def nth_list_update split: if_splits)
  have "pending st' u = pending st u" if "u \<noteq> t" for u
    using that post(3,7) by (simp add: pending_def split: tstate.split)
  then have e: "pending st' u = pending st u" if "u \<in> live st'" for u using that l by auto
  have i: "inj_on (pending st) (live st)" using p by (simp add: payloads_inv_def)
  have "pending st' ` live st' = pending st ` (live st - {t})"
    unfolding l by (rule image_cong) (use e l in auto)
  also have "\<dots> = pending st ` live st - {payload a}"
    using inj_on_image_set_diff [OF i, of "live st" "{t}"] tl by simp
  finally have "dom (heap st') = pending st' ` live st'"
    using p post(1) by (auto simp: payloads_inv_def)
  moreover have "inj_on (pending st') (live st')"
    using inj_on_subset [OF i, of "live st'"] e l by (auto simp: inj_on_def)
  ultimately show ?thesis by (simp add: payloads_inv_def)
qed

lemma prompt_step_payloads:
  assumes s: "prompt_step os st st'" and i: "slots_inv st"
    and p: "payloads_inv st" and ph: "phase st' \<noteq> Exited"
  shows "payloads_inv st'"
  using s [unfolded prompt_step_def, THEN conjunct1]
proof cases
  case accept
  then have sp: "spawned st st'" using main_iteration_post [OF i, of os] ph by (auto simp: iterated_def)
  then show ?thesis
    using s by (intro spawned_payloads [OF p sp]) (auto simp: prompt_step_def spawned_def enlisted_def)
next
  case join
  show ?thesis
    using ph unfolding join(1)
    by (intro payloads_cong [OF p])
       (auto simp: join_iteration_def sys_eq Let_def live_def pending_def split: if_splits tstate.split)
next
  case (fetch t)
  then show ?thesis
    by (intro payloads_cong [OF p])
       (auto simp: fetch_def live_def pending_def thread_at_def nth_list_update
         split: if_splits tstate.split)
next
  case (run t a)
  then show ?thesis using run_payloads [OF _ p run(2,3)] i by (simp add: slots_inv_def)
next
  case interrupt
  then show ?thesis using ph by simp
qed

lemma prompt_reachable_payloads:
  assumes "prompt_reachable os st st'" and "slots_inv st" and "payloads_inv st"
  shows "slots_inv st' \<and> (phase st' \<noteq> Exited \<longrightarrow> payloads_inv st')"
  using assms
proof (induction rule: prompt_reachable.induct)
  case (start st)
  then show ?case by simp
next
  case (more st st' st'')
  then have s: "step os st' st''" "slots_inv st'" by (auto simp: prompt_step_def)
  then have "phase st' \<noteq> Exited" by (auto elim: step.cases)
  then show ?case using more s step_inv prompt_step_payloads by blast
qed

section \<open>Two threads with one argument\<close>

text \<open>When two threads have copied the same argument and one of them has returned, the
  other one reads a payload that is gone.\<close>

lemma shared_argument_fault:
  assumes "wf_heap st" and "run_thread os t a st = Inr st'"
    and "thread_at u st = Some (Fetched a)" "u \<noteq> t" and "phase st \<noteq> Exited"
  shows "act os (Run u) st' = Some (Inl OutOfBounds)"
proof -
  note post = run_thread_post [OF assms(1,2)]
  have "thread_at u st' = Some (Fetched a)"
    using assms(3,4) post(3) by (auto simp: thread_at_def split: if_splits)
  then show ?thesis
    using post(1,6) assms(5)
    by (simp add: run_thread_def client_handler_def load_def block_def as_proc_def Let_def)
qed

text \<open>That is what happens when \<open>main\<close> accepts twice before the first copy.\<close>

lemma race_after_two_accepts:
  assumes inv: "slots_inv st"
    and sch: "schedule os [Main, Main, Fetch t, Fetch (Suc t), Run t] st = Some (Inr st')"
  shows "act os (Run (Suc t)) st' = Some (Inl OutOfBounds)"
proof -
  obtain s1 where m1: "main_turn os st = Some (Inr s1)"
    using sch by (auto split: option.splits sum.splits)
  obtain s2 where m2: "main_turn os s1 = Some (Inr s2)"
    using sch m1 by (auto split: option.splits sum.splits)
  have sch2: "schedule os [Fetch t, Fetch (Suc t), Run t] s2 = Some (Inr st')"
    using sch m1 m2 by simp
  have i1: "slots_inv s1" using step_inv step_act [of os st s1] m1 inv by (metis act.simps(1))
  have i2: "slots_inv s2" using step_inv step_act [of os s1 s2] m2 i1 by (metis act.simps(1))
  have p2: "phase s2 \<noteq> Exited" using sch2 by (auto split: if_splits)
  define s4 where "s4 = fetch (Suc t) (fetch t s2)"
  have a: "thread_at t s4 = Some (Fetched (argument s2))" "thread_at (Suc t) s4 = Some (Fetched (argument s2))"
    and r: "run_thread os t (argument s2) s4 = Inr st'"
    using sch2 p2
    by (auto simp: s4_def fetch_def thread_at_def split: if_splits option.splits sum.splits)
  have "wf_heap s4" "phase s4 \<noteq> Exited"
    using i2 p2 by (simp_all add: s4_def fetch_def slots_inv_def wf_heap_def)
  then show ?thesis using shared_argument_fault [OF _ r a(2)] by simp
qed

end
