(* ===== verification/Loopback.thy ===== *)
theory Loopback
  imports Stubs_Correct Server_Inv
begin

text \<open>
  The two programs joined: a client process with the stub library, a server process, and
  between them a network that carries one connection at a time.  The server is the one of
  \<open>c/server.c\<close> as modelled in \<open>Server_Main\<close>; it takes its turns while the
  client waits in \<open>recv\<close>.  The file systems of both machines, the memory each process
  can get, the content of fresh memory and the largest piece the network delivers at once
  are parameters.  The client's view of all this is a \<open>transport\<close>, so what
  \<open>Stubs_Correct\<close> proves of the stubs and \<open>Handler_Correct\<close> of the handler meet
  here.
\<close>

section \<open>The setting\<close>

record ('l, 'f) setting =
  local_files :: "'l files"
  remote_files :: "'f files"
  seg :: nat
  avail :: nat
  junk :: "nat \<Rightarrow> byte"
  csk :: cint
  ssk :: cint

text \<open>The server's side of the network, beside its files.\<close>

record 'f net =
  fs :: 'f
  waiting :: bool
  inq :: "byte list"
  outq :: "byte list"
  shut :: bool

definition on_fs :: "('f \<Rightarrow> 'a \<times> 'f) \<Rightarrow> 'f net \<Rightarrow> 'a \<times> 'f net" where
  "on_fs f n = (let (r, x) = f (fs n) in (r, n\<lparr>fs := x\<rparr>))"

definition grant :: "('l, 'f) setting \<Rightarrow> size_t \<Rightarrow> 'w \<Rightarrow> (nat \<Rightarrow> byte) option \<times> 'w" where
  "grant S k w = (if unat k \<le> avail S then Some (junk S) else None, w)"

text \<open>How many bytes one \<open>recv\<close> of \<open>k\<close> bytes takes off a queue.\<close>

definition piece :: "('l, 'f) setting \<Rightarrow> size_t \<Rightarrow> byte list \<Rightarrow> nat" where
  "piece S k q = min (min (unat k) (seg S)) (length q)"

definition server_os :: "('l, 'f) setting \<Rightarrow> 'f net os" where
  "server_os S = (let F = remote_files S in
    \<lparr>f_open = \<lambda>path oflag m. on_fs (f_open F path oflag m),
     f_close = \<lambda>fd. if fd = ssk S then (\<lambda>n. (0, n\<lparr>shut := True\<rparr>)) else on_fs (f_close F fd),
     f_read = \<lambda>fd k. on_fs (f_read F fd k),
     f_write = \<lambda>fd bs. on_fs (f_write F fd bs),
     f_lseek = \<lambda>fd off wh. on_fs (f_lseek F fd off wh),
     f_truncate = \<lambda>path k. on_fs (f_truncate F path k),
     f_ftruncate = \<lambda>fd k. on_fs (f_ftruncate F fd k),
     f_stat = \<lambda>path. on_fs (f_stat F path),
     f_fstat = \<lambda>fd. on_fs (f_fstat F fd),
     f_fsync = \<lambda>fd. on_fs (f_fsync F fd),
     f_rename = \<lambda>old new. on_fs (f_rename F old new),
     f_unlink = \<lambda>path. on_fs (f_unlink F path),
     os_malloc = grant S,
     os_stack = \<lambda>n. junk S,
     os_getenv = \<lambda>_. None,
     os_inet_addr = \<lambda>_. 0,
     os_socket = \<lambda>n. (0, n),
     os_setsockopt = \<lambda>_ n. (0, n),
     os_connect = \<lambda>_ _ _ n. (-1, n),
     os_bind = \<lambda>_ _ _ n. (0, n),
     os_listen = \<lambda>_ _ n. (0, n),
     os_accept = \<lambda>_ n. if waiting n then (ssk S, n\<lparr>waiting := False\<rparr>) else (-1, n),
     os_send = \<lambda>_ bs n. (of_nat (length bs), n\<lparr>outq := outq n @ bs\<rparr>),
     os_recv = \<lambda>_ k n.
       (let m = piece S k (inq n) in
        if m = 0 \<and> k \<noteq> 0 then None
        else Some ((of_nat m, take m (inq n)), n\<lparr>inq := drop m (inq n)\<rparr>)),
     os_shutdown = \<lambda>_ n. (0, n\<lparr>shut := True\<rparr>),
     os_pthread_create = \<lambda>n. (0, n),
     os_pthread_join = \<lambda>n. (0, n)\<rparr>)"

text \<open>The turns of the server for one connection: \<open>main\<close> accepts it and creates a
  thread, the thread runs, and when the table is full \<open>main\<close> joins all its threads.\<close>

definition serve_connection :: "'w os \<Rightarrow> 'w server \<Rightarrow> 'w server res" where
  "serve_connection os sv =
     ebind (main_iteration os sv) (\<lambda>s.
     if phase s = Exited then Inr s
     else case schedule os [Fetch (length (threads sv)), Run (length (threads sv))] s of
       None \<Rightarrow> Inl Hang
     | Some (Inl e) \<Rightarrow> Inl e
     | Some (Inr s) \<Rightarrow>
         if phase s = Joining then
           (case schedule os (replicate 50 Main) s of None \<Rightarrow> Inl Hang | Some r \<Rightarrow> r)
         else Inr s)"

text \<open>The client's world: its own files and the server.\<close>

record ('l, 'f) lan =
  lfs :: 'l
  peer :: "'f net server"

definition on_lfs :: "('l \<Rightarrow> 'a \<times> 'l) \<Rightarrow> ('l, 'f) lan \<Rightarrow> 'a \<times> ('l, 'f) lan" where
  "on_lfs f w = (let (r, x) = f (lfs w) in (r, w\<lparr>lfs := x\<rparr>))"

definition on_net :: "('f net \<Rightarrow> 'f net) \<Rightarrow> ('l, 'f) lan \<Rightarrow> ('l, 'f) lan" where
  "on_net f w = w\<lparr>peer := (peer w)\<lparr>world := f (world (peer w))\<rparr>\<rparr>"

text \<open>Waiting for an answer: the server works on the queued connection.  \<open>None\<close> when
  it never gets anywhere; a server that runs into undefined behaviour is gone.\<close>

definition pump :: "('l, 'f) setting \<Rightarrow> ('l, 'f) lan \<Rightarrow> ('l, 'f) lan option" where
  "pump S w =
     (if waiting (world (peer w)) then
        (case serve_connection (server_os S) (peer w) of
           Inr s \<Rightarrow> Some (w\<lparr>peer := s\<rparr>)
         | Inl e \<Rightarrow> if e = Hang then None else Some (w\<lparr>peer := (peer w)\<lparr>phase := Exited\<rparr>\<rparr>))
      else Some w)"

definition client_recv ::
  "('l, 'f) setting \<Rightarrow> size_t \<Rightarrow> ('l, 'f) lan \<Rightarrow> ((ssize_t \<times> byte list) \<times> ('l, 'f) lan) option" where
  "client_recv S k w =
     (case pump S w of
        None \<Rightarrow> None
      | Some w \<Rightarrow>
          let q = outq (world (peer w)); m = piece S k q in
          if phase (peer w) = Exited then Some ((-1, []), w)
          else if m = 0 \<and> k \<noteq> 0 \<and> \<not> shut (world (peer w)) then None
          else Some ((of_nat m, take m q), on_net (\<lambda>n. n\<lparr>outq := drop m q\<rparr>) w))"

definition client_os :: "('l, 'f) setting \<Rightarrow> ('l, 'f) lan os" where
  "client_os S = (let F = local_files S in
    \<lparr>f_open = \<lambda>path oflag m. on_lfs (f_open F path oflag m),
     f_close = \<lambda>fd. if fd = csk S then (\<lambda>w. (0, w)) else on_lfs (f_close F fd),
     f_read = \<lambda>fd k. on_lfs (f_read F fd k),
     f_write = \<lambda>fd bs. on_lfs (f_write F fd bs),
     f_lseek = \<lambda>fd off wh. on_lfs (f_lseek F fd off wh),
     f_truncate = \<lambda>path k. on_lfs (f_truncate F path k),
     f_ftruncate = \<lambda>fd k. on_lfs (f_ftruncate F fd k),
     f_stat = \<lambda>path. on_lfs (f_stat F path),
     f_fstat = \<lambda>fd. on_lfs (f_fstat F fd),
     f_fsync = \<lambda>fd. on_lfs (f_fsync F fd),
     f_rename = \<lambda>old new. on_lfs (f_rename F old new),
     f_unlink = \<lambda>path. on_lfs (f_unlink F path),
     os_malloc = grant S,
     os_stack = \<lambda>w. junk S,
     os_getenv = \<lambda>_. None,
     os_inet_addr = \<lambda>_. 0,
     os_socket = \<lambda>w. (csk S, w),
     os_setsockopt = \<lambda>_ w. (0, w),
     os_connect = \<lambda>_ _ _ w.
       if phase (peer w) = Exited then (-1, w)
       else (0, on_net (\<lambda>n. n\<lparr>waiting := True, inq := [], outq := [], shut := False\<rparr>) w),
     os_bind = \<lambda>_ _ _ w. (-1, w),
     os_listen = \<lambda>_ _ w. (-1, w),
     os_accept = \<lambda>_ w. (-1, w),
     os_send = \<lambda>_ bs w. (of_nat (length bs), on_net (\<lambda>n. n\<lparr>inq := inq n @ bs\<rparr>) w),
     os_recv = \<lambda>_ k. client_recv S k,
     os_shutdown = \<lambda>_ w. (0, w),
     os_pthread_create = \<lambda>w. (-1, w),
     os_pthread_join = \<lambda>w. (-1, w)\<rparr>)"

section \<open>The server serves\<close>

text \<open>A server between two connections.\<close>

definition idle :: "'f net server \<Rightarrow> bool" where
  "idle sv \<longleftrightarrow> slots_inv sv \<and> live sv = {} \<and> phase sv = Accepting"

text \<open>Calls the setting can carry: within the memory and the pieces the network
  delivers, and not meant for the connection's own descriptor.\<close>

definition fits :: "('l, 'f) setting \<Rightarrow> call \<Rightarrow> bool" where
  "fits S c \<longleftrightarrow>
     (case call_fd c of None \<Rightarrow> True | Some fd \<Rightarrow> to_local fd \<noteq> ssk S) \<and>
     length (payload_of c) \<le> seg S \<and> length (frame (payload_of c)) \<le> avail S \<and>
     reply_size c \<le> seg S \<and> reply_size c \<le> avail S"

definition carries :: "('l, 'f) setting \<Rightarrow> call \<Rightarrow> bool" where
  "carries S c \<longleftrightarrow>
     wf_call c \<and> (case call_fd c of None \<Rightarrow> True | Some fd \<Rightarrow> 0 \<le> sint fd) \<and> fits S c"

definition sane :: "('l, 'f) setting \<Rightarrow> bool" where
  "sane S \<longleftrightarrow>
     8 \<le> seg S \<and> 148 \<le> avail S \<and> avail S < 2 ^ 60 \<and> 0 \<le> sint (csk S) \<and> 0 \<le> sint (ssk S)"

lemma server_os_sel [simp]:
  "os_malloc (server_os S) = grant S"
  "f_close (server_os S) fd =
     (if fd = ssk S then (\<lambda>n. (0, n\<lparr>shut := True\<rparr>)) else on_fs (f_close (remote_files S) fd))"
  "os_accept (server_os S) fd n = (if waiting n then (ssk S, n\<lparr>waiting := False\<rparr>) else (-1, n))"
  "os_send (server_os S) fd bs n = (of_nat (length bs), n\<lparr>outq := outq n @ bs\<rparr>)"
  "os_shutdown (server_os S) fd n = (0, n\<lparr>shut := True\<rparr>)"
  "os_pthread_create (server_os S) n = (0, n)"
  "os_pthread_join (server_os S) n = (0, n)"
  "os_recv (server_os S) fd k n =
     (let m = piece S k (inq n) in
      if m = 0 \<and> k \<noteq> 0 then None
      else Some ((of_nat m, take m (inq n)), n\<lparr>inq := drop m (inq n)\<rparr>))"
  by (simp_all add: server_os_def Let_def)

lemma grant_ok: "alloc_ok (server_os S) (avail S)" "alloc_ok (client_os S) (avail S)"
  by (simp_all add: alloc_ok_def grant_def client_os_def Let_def)

lemma exec_server_os:
  assumes "case call_fd c of None \<Rightarrow> True | Some fd \<Rightarrow> to_local fd \<noteq> ssk S"
  shows "exec (server_os S) c n =
    (let (r, x) = exec (remote_files S) c (fs n) in (r, n\<lparr>fs := x\<rparr>))"
  using assms
  by (cases c) (auto simp: server_os_def Let_def on_fs_def split: prod.split)

text \<open>A framed payload is taken in whole.\<close>

lemma piece_all [simp]: "length q \<le> seg S \<Longrightarrow> unat k = length q \<Longrightarrow> piece S k q = length q"
  by (simp add: piece_def)

lemma take_request_ok:
  fixes sv :: "'f net server"
  assumes "wf_heap sv" and "inq (world sv) = pl" and "unat k = length pl"
    and "length pl \<le> seg S" "length pl \<le> avail S" "length pl < 2 ^ 63"
  shows "take_request (server_os S) sk k sv =
    spawn (server_os S) \<lparr>payload = hnext sv, arg_size = k, client_socket = sk\<rparr>
      (sv\<lparr>hnext := Suc (hnext sv), world := (world sv)\<lparr>inq := []\<rparr>, heap := (heap sv)(hnext sv \<mapsto> pl)\<rparr>)"
proof -
  have k: "k = of_nat (length pl)" using assms(3) by (metis of_nat_unat ucast_id)
  have "pl = [] \<longleftrightarrow> k = 0" using assms(3) by (auto simp: unat_eq_0)
  then show ?thesis
    using assms wf_heap_pos [OF assms(1)] sint_of_nat_nonneg [of "length pl"]
    by (auto simp: take_request_def malloc_def grant_def Let_def block_def stores_def overwrite_def k)
qed

lemma main_iteration_ok:
  assumes "sane S" and "idle sv" and "waiting (world sv)" and "inq (world sv) = frame pl"
    and "length pl \<le> seg S" "length pl \<le> avail S"
  shows "main_iteration (server_os S) sv =
    spawn (server_os S)
      \<lparr>payload = hnext sv, arg_size = of_nat (length pl), client_socket = ssk S\<rparr>
      (sv\<lparr>payload_size_buf := le64 (of_nat (length pl)), hnext := Suc (hnext sv),
          world := (world sv)\<lparr>waiting := False, inq := []\<rparr>,
          heap := (heap sv)(hnext sv \<mapsto> pl)\<rparr>)"
proof -
  have p8: "piece S 8 (le64 x @ pl) = 8" for x
    using assms(1) by (simp add: piece_def sane_def)
  have small: "length pl < 2 ^ 60" using assms(1,6) by (simp add: sane_def)
  let ?sv = "sv\<lparr>world := (world sv)\<lparr>waiting := False, inq := pl\<rparr>, payload_size_buf := le64 (of_nat (length pl))\<rparr>"
  have "take_request (server_os S) (ssk S) (of_nat (length pl)) ?sv =
    spawn (server_os S) \<lparr>payload = hnext sv, arg_size = of_nat (length pl), client_socket = ssk S\<rparr>
      (?sv\<lparr>hnext := Suc (hnext sv), world := (world ?sv)\<lparr>inq := []\<rparr>, heap := (heap sv)(hnext sv \<mapsto> pl)\<rparr>)"
    using take_request_ok [of ?sv pl "of_nat (length pl)" S "ssk S"] assms small
    by (simp add: idle_def slots_inv_def wf_heap_def unat_of_nat64)
  then show ?thesis
    using assms p8
    by (simp add: main_iteration_def sys_eq frame_def Let_def sane_def idle_def slots_inv_def)
qed

text \<open>\<open>main\<close> joins threads that have all returned.\<close>

lemma joined:
  assumes "slots_inv sv" and "phase sv = Joining" and "live sv = {}" and "k = 50 - thread_index sv"
  shows "schedule (server_os S) (replicate k Main) sv =
    Some (Inr (sv\<lparr>thread_index := 0, phase := Accepting\<rparr>))"
  using assms
proof (induction k arbitrary: sv)
  case 0
  then show ?case by (simp add: slots_inv_def)
next
  case (Suc k)
  let ?i = "thread_index sv"
  have i: "?i < 50" "?i \<in> used_slots sv" "length (thread_id sv) = 60"
    using Suc.prems by (simp_all add: slots_inv_def used_slots_def)
  then obtain t where t: "thread_id sv ! ?i = Some t" "t < length (threads sv)"
    using Suc.prems(1,2) by (auto simp: slots_inv_def)
  then have f: "threads sv ! t = Finished" using Suc.prems(3) by (auto simp: live_def)
  have jt: "join_target sv = Inr (Some Finished)"
    using i t f by (simp add: join_target_def)
  let ?s = "join_iteration (server_os S) sv"
  have "act (server_os S) Main sv = Some (Inr ?s)"
    using Suc.prems(2) jt by (simp add: main_turn_def)
  moreover have "schedule (server_os S) (replicate k Main) ?s =
      Some (Inr (sv\<lparr>thread_index := 0, phase := Accepting\<rparr>))"
  proof (cases k)
    case 0
    then show ?thesis using Suc.prems i by (simp add: join_iteration_def sys_eq Let_def)
  next
    case (Suc j)
    have "slots_inv ?s" using join_inv [OF Suc.prems(1,2) jt] .
    moreover have s: "?s = sv\<lparr>thread_index := Suc ?i\<rparr>"
      using Suc Suc.prems i by (simp add: join_iteration_def sys_eq Let_def)
    moreover have "live ?s = {}" using Suc.prems(3) by (simp add: s live_def)
    moreover have "k = 50 - thread_index ?s" using Suc.prems(4) by (simp add: s)
    ultimately show ?thesis
      using Suc.IH [of ?s] Suc.prems(2) by simp
  qed
  ultimately show ?case by simp
qed

text \<open>The server's state once the handler of request \<open>c\<close> is about to run.\<close>

lemma accepted:
  assumes S: "sane S" and sv: "idle sv" "waiting (world sv)" "inq (world sv) = frame (payload_of c)"
    and c: "carries S c"
  shows "\<exists>s. main_iteration (server_os S) sv = Inr s \<and> phase s \<noteq> Exited \<and>
    (phase s = Joining \<longrightarrow> thread_index s = 0) \<and>
    threads s = threads sv @ [Created] \<and> heap s = (heap sv)(hnext sv \<mapsto> payload_of c) \<and>
    hnext s = Suc (hnext sv) \<and> world s = (world sv)\<lparr>waiting := False, inq := []\<rparr> \<and>
    argument s = \<lparr>payload = hnext sv, arg_size = of_nat (length (payload_of c)), client_socket = ssk S\<rparr>"
proof -
  have pl: "length (payload_of c) \<le> seg S" "length (payload_of c) \<le> avail S"
    using c by (simp_all add: carries_def fits_def frame_def)
  have "thread_index sv < length (thread_id sv)" "phase sv = Accepting"
    using sv(1) by (auto simp: idle_def slots_inv_def)
  then show ?thesis
    unfolding main_iteration_ok [OF S sv pl]
    by (simp add: spawn_def sys_eq Let_def)
qed

lemma conclude_server_os [simp]:
  "length bs < 2 ^ 63 \<Longrightarrow> conclude (server_os S) (ssk S) bs n = n\<lparr>outq := outq n @ bs, shut := True\<rparr>"
  using sint_of_nat_nonneg [of "length bs"] by (simp add: conclude_def)

lemma handled:
  assumes S: "sane S" and c: "carries S c" and st: "wf_heap st" "heap st (payload a) = Some (payload_of c)"
    and a: "arg_size a = of_nat (length (payload_of c))" "client_socket a = ssk S"
  shows "\<exists>old p. length old = result_buf c \<and> client_handler (server_os S) a st = Inr p \<and>
    (let (r, x) = exec (remote_files S) c (fs (world st)) in
     world p = (world st)\<lparr>fs := x, outq := outq (world st) @ reply old r, shut := True\<rparr>)"
proof -
  obtain r x where rx: "exec (remote_files S) c (fs (world st)) = (r, x)" by fastforce
  have fd: "\<forall>fd. call_fd c = Some fd \<longrightarrow> 0 \<le> sint fd"
    and nc: "case call_fd c of None \<Rightarrow> True | Some fd \<Rightarrow> to_local fd \<noteq> ssk S"
    using c by (auto simp: carries_def fits_def split: option.splits)
  have e: "exec (server_os S) c (world st) = (r, (world st)\<lparr>fs := x\<rparr>)"
    using exec_server_os [OF nc] rx by simp
  have len: "length (payload_of c) \<le> avail S" "reply_size c \<le> avail S" "148 \<le> avail S"
    "avail S < 2 ^ 63" and wf: "wf_call c"
    using c S by (simp_all add: carries_def fits_def sane_def frame_def)
  obtain old p where old: "length old = result_buf c" and p: "client_handler (server_os S) a st = Inr p"
    and w: "world p = conclude (server_os S) (ssk S) (reply old r) ((world st)\<lparr>fs := x\<rparr>)"
    using client_handler_serves [OF grant_ok(1) len st a(1) wf fd] a(2) e by auto
  have "length (reply old r) < 2 ^ 63"
    using length_reply [OF old, of "server_os S" "world st"] e len by simp
  then show ?thesis using old p w rx by auto
qed

lemma serve_connection_ok:
  assumes S: "sane S" and sv: "idle sv" "waiting (world sv)" "inq (world sv) = frame (payload_of c)"
    and c: "carries S c"
  shows "\<exists>old sv'. length old = result_buf c \<and> serve_connection (server_os S) sv = Inr sv' \<and>
    idle sv' \<and> heap sv' = heap sv \<and>
    (let (r, x) = exec (remote_files S) c (fs (world sv)) in
     world sv' = (world sv)\<lparr>fs := x, waiting := False, inq := [],
       outq := outq (world sv) @ reply old r, shut := True\<rparr>)"
proof -
  let ?os = "server_os S" and ?n = "length (threads sv)" and ?w = "(world sv)\<lparr>waiting := False, inq := []\<rparr>"
  have inv: "slots_inv sv" "phase sv = Accepting" "live sv = {}" "wf_heap sv"
    using sv(1) by (simp_all add: idle_def slots_inv_def)
  obtain s1 where m: "main_iteration ?os sv = Inr s1" and ph: "phase s1 \<noteq> Exited"
      "phase s1 = Joining \<longrightarrow> thread_index s1 = 0"
    and s1: "threads s1 = threads sv @ [Created]" "heap s1 = (heap sv)(hnext sv \<mapsto> payload_of c)"
      "world s1 = ?w"
    and a: "payload (argument s1) = hnext sv" "arg_size (argument s1) = of_nat (length (payload_of c))"
      "client_socket (argument s1) = ssk S"
    using accepted [OF S sv c] by auto
  define s2 where "s2 = fetch ?n s1"
  have t1: "thread_at ?n s1 = Some Created" by (simp add: thread_at_def s1)
  have s2: "threads s2 = threads sv @ [Fetched (argument s1)]" "heap s2 = heap s1" "world s2 = ?w"
    "phase s2 = phase s1" "thread_index s2 = thread_index s1"
    by (simp_all add: s2_def fetch_def s1)
  have i1: "slots_inv s1" using step_inv [OF step.accept [OF inv(2) m] inv(1)] .
  have i2: "slots_inv s2" unfolding s2_def using step_inv [OF step.fetch [OF ph(1) t1] i1] .
  then have wf2: "wf_heap s2" "wf_heap (as_proc s2)" by (simp_all add: slots_inv_def as_proc_def wf_heap_def)
  obtain old p where old: "length old = result_buf c"
    and p: "client_handler ?os (argument s1) (as_proc s2) = Inr p"
    and w: "let (r, x) = exec (remote_files S) c (fs (world sv)) in
      world p = ?w\<lparr>fs := x, outq := outq (world sv) @ reply old r, shut := True\<rparr>"
    using handled [OF S c wf2(2), of "argument s1"] a s1 s2 by (auto simp: as_proc_def)
  define s3 where "s3 = (with_proc s2 p)\<lparr>threads := (threads s2)[?n := Finished]\<rparr>"
  have r3: "run_thread ?os ?n (argument s1) s2 = Inr s3" by (simp add: run_thread_def p s3_def)
  have t2: "thread_at ?n s2 = Some (Fetched (argument s1))" by (simp add: thread_at_def s2)
  note post = run_thread_post [OF wf2(1) r3]
  have i3: "slots_inv s3"
    by (rule step_inv [OF step.run [OF _ t2 r3] i2]) (use ph s2 in simp)
  have l3: "live s3 = {}"
    using inv(3) post(3) by (auto simp: live_def s2 nth_append split: if_splits)
  have h3: "heap s3 = heap sv" using post(1) wf_heap_fresh [OF inv(4)] by (simp add: s2 s1 a fun_upd_idem)
  have w3: "world s3 = world p" by (simp add: s3_def with_proc_def)
  let ?s = "if phase s3 = Joining then s3\<lparr>thread_index := 0, phase := Accepting\<rparr> else s3"
  have "serve_connection ?os sv = Inr ?s"
    using m ph t1 t2 r3 s2 post(5,6) joined [OF i3 _ l3, of 50 S]
    by (simp add: serve_connection_def s2_def [symmetric])
  moreover have "idle ?s"
    using i3 l3 ph(1) s2(4) post(6)
    by (cases "phase s1") (auto simp: idle_def slots_inv_def used_slots_def live_def wf_heap_def)
  ultimately show ?thesis
    using old h3 w w3 by (intro exI [of _ old] exI [of _ ?s]) (auto split: prod.splits)
qed

section \<open>The transport\<close>

definition net_up :: "('l, 'f) setting \<Rightarrow> ('l, 'f) lan \<Rightarrow> bool" where
  "net_up S w \<longleftrightarrow> sane S \<and> idle (peer w)"

definition net_good :: "('l, 'f) setting \<Rightarrow> byte list \<Rightarrow> ('l, 'f) lan \<Rightarrow> bool" where
  "net_good S req w \<longleftrightarrow> net_up S w \<and> (\<exists>c. carries S c \<and> req = frame (payload_of c))"

definition net_conn :: "('l, 'f) lan \<Rightarrow> ('l, 'f) lan" where
  "net_conn w = on_net (\<lambda>n. n\<lparr>waiting := True, inq := [], outq := [], shut := False\<rparr>) w"

definition net_sent :: "byte list \<Rightarrow> ('l, 'f) lan \<Rightarrow> ('l, 'f) lan" where
  "net_sent req w = on_net (\<lambda>n. n\<lparr>waiting := True, inq := req, outq := [], shut := False\<rparr>) w"

definition net_served :: "('l, 'f) setting \<Rightarrow> byte list \<Rightarrow> ('l, 'f) lan \<Rightarrow> ('l, 'f) lan" where
  "net_served S req w = (case pump S (net_sent req w) of None \<Rightarrow> w | Some w' \<Rightarrow> w')"

definition net_recvd :: "('l, 'f) setting \<Rightarrow> byte list \<Rightarrow> ('l, 'f) lan \<Rightarrow> ('l, 'f) lan" where
  "net_recvd S req w = on_net (\<lambda>n. n\<lparr>outq := []\<rparr>) (net_served S req w)"

definition net_serve :: "('l, 'f) setting \<Rightarrow> byte list \<Rightarrow> ('l, 'f) lan \<Rightarrow> byte list \<times> ('l, 'f) lan" where
  "net_serve S req w = (outq (world (peer (net_served S req w))), net_recvd S req w)"

lemma on_net_fields [simp]:
  "lfs (on_net f w) = lfs w" "world (peer (on_net f w)) = f (world (peer w))"
  "phase (peer (on_net f w)) = phase (peer w)" "heap (peer (on_net f w)) = heap (peer w)"
  "idle (peer (on_net f w)) = idle (peer w)"
  by (simp_all add: on_net_def idle_def slots_inv_def live_def used_slots_def wf_heap_def)

text \<open>The whole service of a request that fits.\<close>

lemma net_served_ok:
  assumes u: "net_up S w" and c: "carries S c"
  shows "\<exists>old. length old = result_buf c \<and> idle (peer (net_served S (frame (payload_of c)) w)) \<and>
    pump S (net_sent (frame (payload_of c)) w) = Some (net_served S (frame (payload_of c)) w) \<and>
    lfs (net_served S (frame (payload_of c)) w) = lfs w \<and>
    (let (r, x) = exec (remote_files S) c (fs (world (peer w))) in
     world (peer (net_served S (frame (payload_of c)) w)) =
       \<lparr>fs = x, waiting = False, inq = [], outq = reply old r, shut = True\<rparr>)"
proof -
  let ?w = "net_sent (frame (payload_of c)) w"
  have w: "idle (peer ?w)" "waiting (world (peer ?w))" "inq (world (peer ?w)) = frame (payload_of c)"
    "fs (world (peer ?w)) = fs (world (peer w))" "outq (world (peer ?w)) = []" "lfs ?w = lfs w"
    using u by (simp_all add: net_up_def net_sent_def)
  have S: "sane S" using u by (simp add: net_up_def)
  obtain old s where "length old = result_buf c" "serve_connection (server_os S) (peer ?w) = Inr s"
    "idle s" "let (r, x) = exec (remote_files S) c (fs (world (peer w))) in
     world s = (world (peer ?w))\<lparr>fs := x, waiting := False, inq := [], outq := reply old r, shut := True\<rparr>"
    using serve_connection_ok [OF S w(1-3) c] w(4,5) by auto
  then show ?thesis
    using w by (intro exI [of _ old]) (auto simp: net_served_def pump_def split: prod.splits)
qed

lemma reply_length_ok:
  assumes "net_up S w" and "carries S c"
  shows "length (outq (world (peer (net_served S (frame (payload_of c)) w)))) = reply_size c"
proof -
  obtain old where "length old = result_buf c" "let (r, x) = exec (remote_files S) c (fs (world (peer w))) in
     world (peer (net_served S (frame (payload_of c)) w)) =
       \<lparr>fs = x, waiting = False, inq = [], outq = reply old r, shut = True\<rparr>"
    using net_served_ok [OF assms] by blast
  then show ?thesis
    using length_reply [of old c "remote_files S" "fs (world (peer w))"] by (auto split: prod.splits)
qed

interpretation lb: rpc_client "client_os S" "net_up S" "net_good S" "\<lambda>w. csk S" net_conn
  "net_sent" "net_recvd S" "net_serve S" "min (avail S) (2 ^ 60)"
  for S :: "('l, 'f) setting"
proof
  fix req :: "byte list" and w :: "('l, 'f) lan" and p :: "16 word" and a :: "32 word" and n :: "size_t"
  show "\<exists>n. rpc_port (client_os S) = Inr n"
    by (simp add: rpc_port_def client_os_def Let_def PORT_NUMBER_def cstring_def atoi_def
        isspace_def isdigit_def digits_value_def of_char_def)
  show "0 \<le> sint (csk S)" if "net_up S w" using that by (simp add: net_up_def sane_def)
  show "os_socket (client_os S) w = (csk S, w)" "os_setsockopt (client_os S) (csk S) w = (0, w)"
    by (simp_all add: client_os_def Let_def)
  show "os_connect (client_os S) (csk S) p a w = (0, net_conn w)" if "net_up S w"
    using that by (simp add: client_os_def Let_def net_up_def idle_def net_conn_def)
  show "os_send (client_os S) (csk S) req (net_conn w) = (word_of_nat (length req), net_sent req w)"
    by (simp add: client_os_def Let_def net_conn_def net_sent_def on_net_def)
  show "f_close (client_os S) (csk S) (net_recvd S req w) = (0, snd (net_serve S req w))"
    by (simp add: client_os_def Let_def net_serve_def)
  show "alloc_ok (client_os S) (min (avail S) (2 ^ 60))"
    using grant_ok(2) [of S] by (simp add: alloc_ok_def)
  show "min (avail S) (2 ^ 60) < 2 ^ 63" by simp
  assume "net_good S req w"
  then obtain c where u: "net_up S w" and c: "carries S c" and req: "req = frame (payload_of c)"
    by (auto simp: net_good_def)
  have f: "reply_size c \<le> seg S" "reply_size c \<le> avail S" "length req \<le> avail S" "avail S < 2 ^ 60"
    using c u by (simp_all add: carries_def fits_def req net_up_def sane_def)
  show "length req < 2 ^ 63 \<and> length (fst (net_serve S req w)) < 2 ^ 63"
    using reply_length_ok [OF u c] f by (simp add: net_serve_def req)
  show "os_recv (client_os S) (csk S) n (net_sent req w) = Some ((n, fst (net_serve S req w)), net_recvd S req w)"
    if n: "n = word_of_nat (length (fst (net_serve S req w)))"
  proof -
    let ?q = "outq (world (peer (net_served S req w)))"
    have q: "length ?q = reply_size c" using reply_length_ok [OF u c] by (simp add: req)
    then have "unat n = length ?q" using f n by (simp add: net_serve_def unat_of_nat64)
    moreover have "reply_size c \<noteq> 0" by (cases c) simp_all
    moreover obtain "pump S (net_sent req w) = Some (net_served S req w)" "idle (peer (net_served S req w))"
      using net_served_ok [OF u c] req by auto
    ultimately show ?thesis
      using q f n
      by (simp add: client_os_def Let_def client_recv_def net_serve_def net_recvd_def idle_def)
  qed
qed

section \<open>A remote call, end to end\<close>

lemma remote_fds: "remote_call c \<Longrightarrow> case call_fd (server_call c) of None \<Rightarrow> True | Some fd \<Rightarrow> 0 \<le> sint fd"
  by (cases c) (auto intro: remote_fd_nonneg)

text \<open>What the caller gets of a result: the bytes the server's kernel stored, and behind
  them what the server's buffer held before.\<close>

fun delivered :: "byte list \<Rightarrow> result \<Rightarrow> result" where
  "delivered old (RRead r bs) = RRead r (put_prefix bs old)"
| "delivered old (RStat r bs) = RStat r (put_prefix bs old)"
| "delivered old r = r"

lemma unmarshal_reply:
  "unmarshal c (reply old (fst (exec F (server_call c) x))) = delivered old (fst (exec F (server_call c) x))"
  by (cases c) (auto split: prod.split)

lemma globalise_server_call: "globalise (server_call c) r = globalise c r"
  by (cases c; cases r) simp_all

lemma result_buf_server_call: "result_buf (server_call c) = result_buf c"
  by (cases c) simp_all

definition server_fs :: "('l, 'f) lan stubs \<Rightarrow> 'f" where
  "server_fs st = fs (world (peer (world st)))"

text \<open>A client state between two calls.\<close>

definition ready :: "('l, 'f) setting \<Rightarrow> ('l, 'f) lan stubs \<Rightarrow> bool" where
  "ready S st \<longleftrightarrow> wf_heap st \<and> net_up S (world st)"

lemma remote_issue:
  assumes st: "ready S st" and c: "remote_call c" "wf_args ub c" "fits S (server_call c)"
  shows "\<exists>old st'. length old = result_buf c \<and>
    (let (r, x) = direct (remote_files S) (localise (server_call c)) (server_fs st) in
     issue (client_os S) ub c st = Inr (delivered old (globalise c r), st') \<and> server_fs st' = x) \<and>
    ready S st' \<and> heap st' = heap st \<and> errlog st' = errlog st \<and> lfs (world st') = lfs (world st)"
proof -
  let ?c = "server_call c" and ?w = "world st"
  let ?req = "frame (payload_of ?c)"
  have wf: "wf_heap st" and u: "net_up S ?w" using st by (simp_all add: ready_def)
  have cs: "carries S ?c"
    using wf_server_call [OF c(2)] remote_fds [OF c(1)] c(3) by (simp add: carries_def)
  have g: "net_good S ?req ?w" using u cs by (auto simp: net_good_def)
  have lim: "length ?req \<le> min (avail S) (2 ^ 60)" "reply_size ?c \<le> min (avail S) (2 ^ 60)"
    using cs u by (simp_all add: carries_def fits_def net_up_def sane_def)
  have n: "length (fst (net_serve S ?req ?w)) = reply_size ?c"
    using reply_length_ok [OF u cs] by (simp add: net_serve_def)
  obtain st' where st': "issue (client_os S) ub c st = Inr (unmarshal c (fst (net_serve S ?req ?w)), st')"
    "arrives st st' (snd (net_serve S ?req ?w))"
    using lb.issue_remote [OF wf u c(1,2) g lim n] by blast
  obtain r x where rx: "direct (remote_files S) (localise ?c) (server_fs st) = (r, x)" by fastforce
  have e: "exec (remote_files S) ?c (fs (world (peer ?w))) = (globalise c r, x)"
    using rx by (simp add: exec_direct server_fs_def globalise_server_call)
  obtain old where old: "length old = result_buf c" "idle (peer (net_served S ?req ?w))"
    "lfs (net_served S ?req ?w) = lfs ?w"
    "world (peer (net_served S ?req ?w)) =
       \<lparr>fs = x, waiting = False, inq = [], outq = reply old (globalise c r), shut = True\<rparr>"
    using net_served_ok [OF u cs] e by (auto simp: result_buf_server_call)
  have "unmarshal c (fst (net_serve S ?req ?w)) = delivered old (globalise c r)"
    using unmarshal_reply [of c old "remote_files S" "fs (world (peer ?w))"] e old(4)
    by (simp add: net_serve_def)
  then show ?thesis
    using st' old rx u
    by (intro exI [of _ old] exI [of _ st'])
       (simp add: arrives_def ready_def server_fs_def net_serve_def net_recvd_def net_up_def)
qed

end
