(* ===== verification/Calendar.thy ===== *)
theory Calendar
  imports Prelude
begin

text \<open>
  The two library functions with which \<open>c/remote.c\<close>, \<open>c/local.c\<close> and
  \<open>c/winlocal.c\<close> print a modification time: \<open>gmtime\<close>, and \<open>strftime\<close> with the
  format \<open>"%a, %d %b %Y %X GMT"\<close> in the C locale.  The date \<open>gmtime\<close> gives is the
  one of the proleptic Gregorian calendar, and the line always fits into \<open>date[64]\<close>.
\<close>

section \<open>Days and years\<close>

text \<open>The days before the first of January of year \<open>z + 1\<close>, counted from year 1.\<close>

definition days_before :: "int \<Rightarrow> int" where
  "days_before z = 365 * z + z div 4 - z div 100 + z div 400"

definition leap :: "int \<Rightarrow> bool" where
  "leap y \<longleftrightarrow> y mod 4 = 0 \<and> (y mod 100 \<noteq> 0 \<or> y mod 400 = 0)"

definition EPOCH :: int where "EPOCH = 719162"

text \<open>The year that holds day \<open>d\<close>: the mean length of a year gives it or the one
  before.\<close>

definition year_of :: "int \<Rightarrow> int" where
  "year_of d = (let z = 400 * d div 146097 in if days_before (z + 1) \<le> d then z + 2 else z + 1)"

definition month_lengths :: "int \<Rightarrow> int list" where
  "month_lengths y = [31, if leap y then 29 else 28, 31, 30, 31, 30, 31, 31, 30, 31, 30, 31]"

text \<open>The month and the day in it, from the day of the year.\<close>

fun split_months :: "int list \<Rightarrow> int \<Rightarrow> int \<times> int" where
  "split_months [] n = (0, n)"
| "split_months (m # ms) n = (if n < m then (0, n) else let (k, r) = split_months ms (n - m) in (k + 1, r))"

section \<open>gmtime and strftime\<close>

record tm =
  tm_sec :: int
  tm_min :: int
  tm_hour :: int
  tm_mday :: int
  tm_mon :: int
  tm_year :: int
  tm_wday :: int

text \<open>\<open>None\<close> when the year does not fit into \<open>int\<close>: \<open>gmtime\<close> returns a null
  pointer.\<close>

definition gmtime :: "64 word \<Rightarrow> tm option" where
  "gmtime t =
     (let s = sint t mod 86400; d = sint t div 86400 + EPOCH;
          y = year_of d; (mon, day) = split_months (month_lengths y) (d - days_before (y - 1)) in
      if y - 1900 \<in> {- (2 ^ 31) ..< 2 ^ 31} then
        Some \<lparr>tm_sec = s mod 60, tm_min = s div 60 mod 60, tm_hour = s div 3600, tm_mday = day + 1,
          tm_mon = mon, tm_year = y - 1900, tm_wday = (d + 1) mod 7\<rparr>
      else None)"

text \<open>Two digits, and a decimal of any size with its sign.\<close>

definition two_digits :: "int \<Rightarrow> cstr" where
  "two_digits n = [digit (n div 10), digit (n mod 10)]"

definition signed_decimal :: "int \<Rightarrow> cstr" where
  "signed_decimal n = (if n < 0 then [45] else []) @ decimal (nat \<bar>n\<bar>)"

definition day_names :: "cstr list" where
  "day_names = map cstring [''Sun'', ''Mon'', ''Tue'', ''Wed'', ''Thu'', ''Fri'', ''Sat'']"

definition month_names :: "cstr list" where
  "month_names = map cstring [''Jan'', ''Feb'', ''Mar'', ''Apr'', ''May'', ''Jun'', ''Jul'', ''Aug'', ''Sep'',
     ''Oct'', ''Nov'', ''Dec'']"

definition format_date :: "tm \<Rightarrow> cstr" where
  "format_date t = day_names ! nat (tm_wday t) @ cstring '', '' @ two_digits (tm_mday t) @ cstring '' '' @
     month_names ! nat (tm_mon t) @ cstring '' '' @ signed_decimal (1900 + tm_year t) @ cstring '' '' @
     two_digits (tm_hour t) @ [58] @ two_digits (tm_min t) @ [58] @ two_digits (tm_sec t) @ cstring '' GMT''"

text \<open>\<open>strftime(date, n, ...)\<close>: the string, or no string at all when it and its
  terminator do not fit.\<close>

definition strftime :: "nat \<Rightarrow> tm \<Rightarrow> cstr option" where
  "strftime n t = (if length (format_date t) < n then Some (format_date t) else None)"

text \<open>The two calls one after the other, into \<open>char date[64]\<close>, and the string read from
  it: a null pointer is dereferenced, and a \<open>date\<close> nothing was stored into is read.\<close>

definition date_line :: "64 word \<Rightarrow> cstr res" where
  "date_line t =
     (case gmtime t of
        None \<Rightarrow> Inl OutOfBounds
      | Some tm \<Rightarrow> (case strftime 64 tm of None \<Rightarrow> Inl OutOfBounds | Some s \<Rightarrow> Inr s))"

section \<open>Correctness\<close>

lemma div_bounds: "0 < k \<Longrightarrow> k * (x div k) \<le> x \<and> x < k * (x div k) + k" for k x :: int
  using mult_div_mod_eq [of k x] pos_mod_bound [of k x] pos_mod_sign [of k x] by linarith

lemma days_before_leap: "days_before (z + 1) = days_before z + (if leap (z + 1) then 366 else 365)"
proof -
  have d: "(z + 1) div k = z div k + (if (z + 1) mod k = 0 then 1 else 0)" if "1 < k" for k :: int
  proof (cases "z mod k + 1 = k")
    case True
    then show ?thesis using that by (simp add: div_add1_eq [of z 1 k] mod_add_eq [of z k 1, symmetric])
  next
    case False
    then have "z mod k + 1 < k" "0 \<le> z mod k" using that pos_mod_bound [of k z] by (linarith, simp)
    then have "(z mod k + 1) mod k = z mod k + 1" "(z mod k + 1) div k = 0" "z mod k + 1 \<noteq> 0" by simp_all
    then show ?thesis
      using that by (simp add: div_add1_eq [of z 1 k] mod_add_eq [of z k 1, symmetric])
  qed
  have m: "x mod 400 = 0 \<Longrightarrow> x mod 100 = 0" "x mod 100 = 0 \<Longrightarrow> x mod 4 = 0" for x :: int
    using mod_mod_cancel [of 100 400 x] mod_mod_cancel [of 4 100 x] by (simp_all only: mod_0) simp_all
  have sum: "365 * (z + 1) + a' - b' + c' =
      365 * z + a - b + c + (if p \<and> (\<not> q \<or> r) then 366 else 365)"
    if "r \<Longrightarrow> q" "q \<Longrightarrow> p" "a' = a + (if p then 1 else 0)" "b' = b + (if q then 1 else 0)"
      "c' = c + (if r then 1 else 0)" for a b c a' b' c' :: int and p q r
    using that by (cases p; cases q; cases r) simp_all
  have "1 < (4 :: int)" "1 < (100 :: int)" "1 < (400 :: int)" by simp_all
  from sum [OF m(1) m(2) d [OF this(1)] d [OF this(2)] d [OF this(3)]] show ?thesis
    unfolding days_before_def leap_def by assumption
qed

lemma year_of_bounds: "days_before (year_of d - 1) \<le> d \<and> d < days_before (year_of d)"
proof -
  define z where "z = 400 * d div 146097"
  have z: "146097 * z \<le> 400 * d" "400 * d < 146097 * z + 146097"
    unfolding z_def using div_bounds [of 146097 "400 * d"] by simp_all
  have b: "400 * days_before k \<le> 146097 * k + 396" "146097 * k - 699 \<le> 400 * days_before k" for k
  proof -
    have "4 * a \<le> k \<and> k < 4 * a + 4 \<Longrightarrow> 100 * b \<le> k \<and> k < 100 * b + 100 \<Longrightarrow>
        400 * c \<le> k \<and> k < 400 * c + 400 \<Longrightarrow>
        400 * (365 * k + a - b + c) \<le> 146097 * k + 396 \<and>
        146097 * k - 699 \<le> 400 * (365 * k + a - b + c)" for a b c :: int
      by (simp add: algebra_simps)
    from this [OF div_bounds div_bounds div_bounds]
    show "400 * days_before k \<le> 146097 * k + 396" "146097 * k - 699 \<le> 400 * days_before k"
      by (simp_all add: days_before_def)
  qed
  have "days_before z \<le> d" using b(1) [of z] z by linarith
  moreover have "d < days_before (z + 2)" using b(2) [of "z + 2"] z by (simp add: algebra_simps)
  ultimately show ?thesis
    by (simp add: year_of_def z_def [symmetric] Let_def add.commute)
qed

lemma split_months:
  assumes "split_months ms n = (k, r)" and "0 \<le> n" and "n < sum_list ms"
  shows "0 \<le> k \<and> nat k < length ms \<and> 0 \<le> r \<and> r < ms ! nat k \<and> sum_list (take (nat k) ms) + r = n"
  using assms
proof (induction ms n arbitrary: k rule: split_months.induct)
  case (2 m ms n)
  show ?case
  proof (cases "n < m")
    case False
    obtain k' where k': "split_months ms (n - m) = (k', r)" "k = k' + 1"
      using 2(2) False by (auto split: prod.splits)
    then show ?thesis using 2(1) [OF False k'(1)] 2(3,4) False by (auto simp: nat_add_distrib)
  qed (use 2 in auto)
qed auto

text \<open>The inverse of \<open>gmtime\<close>: the seconds since the epoch of a date.\<close>

definition timegm :: "tm \<Rightarrow> int" where
  "timegm t =
     (let y = tm_year t + 1900;
          d = days_before (y - 1) + sum_list (take (nat (tm_mon t)) (month_lengths y)) + tm_mday t - 1 in
      (d - EPOCH) * 86400 + tm_hour t * 3600 + tm_min t * 60 + tm_sec t)"

definition valid_tm :: "tm \<Rightarrow> bool" where
  "valid_tm t \<longleftrightarrow> 0 \<le> tm_sec t \<and> tm_sec t < 60 \<and> 0 \<le> tm_min t \<and> tm_min t < 60 \<and> 0 \<le> tm_hour t \<and>
     tm_hour t < 24 \<and> 0 \<le> tm_mon t \<and> tm_mon t < 12 \<and> 1 \<le> tm_mday t \<and>
     tm_mday t \<le> month_lengths (tm_year t + 1900) ! nat (tm_mon t) \<and> 0 \<le> tm_wday t \<and> tm_wday t < 7 \<and>
     - (2 ^ 31) \<le> tm_year t \<and> tm_year t < 2 ^ 31"

lemma sum_month_lengths: "sum_list (month_lengths y) = (if leap y then 366 else 365)"
  by (simp add: month_lengths_def)

lemma seconds_of_day:
  "0 \<le> s \<Longrightarrow> s < 86400 \<Longrightarrow> s div 3600 * 3600 + s div 60 mod 60 * 60 + s mod 60 = s"
  "0 \<le> s \<Longrightarrow> s < 86400 \<Longrightarrow> 0 \<le> s div 3600 \<and> s div 3600 < 24" for s :: int
proof -
  have "s div 3600 = s div 60 div 60" by (simp add: zdiv_zmult2_eq [of 60 s 60, symmetric])
  then show "s div 3600 * 3600 + s div 60 mod 60 * 60 + s mod 60 = s"
    using mult_div_mod_eq [of 60 s] mult_div_mod_eq [of 60 "s div 60"] by linarith
qed auto

lemma gmtime_correct:
  assumes "gmtime t = Some tm"
  shows "valid_tm tm \<and> timegm tm = sint t"
proof -
  define s d where "s = sint t mod 86400" and "d = sint t div 86400 + EPOCH"
  define y where "y = year_of d"
  obtain mon day where m: "split_months (month_lengths y) (d - days_before (y - 1)) = (mon, day)"
    by fastforce
  have tm: "tm = \<lparr>tm_sec = s mod 60, tm_min = s div 60 mod 60, tm_hour = s div 3600, tm_mday = day + 1,
      tm_mon = mon, tm_year = y - 1900, tm_wday = (d + 1) mod 7\<rparr>"
    and y: "- (2 ^ 31) \<le> y - 1900" "y - 1900 < 2 ^ 31"
    using assms m unfolding gmtime_def Let_def s_def [symmetric] d_def [symmetric] y_def [symmetric]
    by (auto split: if_splits)
  have s: "0 \<le> s" "s < 86400" by (simp_all add: s_def)
  have "d - days_before (y - 1) < sum_list (month_lengths y)" "0 \<le> d - days_before (y - 1)"
    using year_of_bounds [of d] days_before_leap [of "y - 1"] by (simp_all add: y_def sum_month_lengths)
  note mon = split_months [OF m this(2,1)]
  have "sint t = (d - EPOCH) * 86400 + s" by (simp add: s_def d_def)
  then have "timegm tm = sint t"
    using mon seconds_of_day(1) [OF s] by (simp add: timegm_def tm Let_def)
  moreover have "length (month_lengths y) = 12" by (simp add: month_lengths_def)
  then have "valid_tm tm" using mon s y seconds_of_day(2) [OF s] by (auto simp: valid_tm_def tm)
  ultimately show ?thesis by simp
qed

lemma length_decimal: "n < 10 ^ Suc k \<Longrightarrow> length (decimal n) \<le> Suc k"
proof (induction k arbitrary: n)
  case 0
  then show ?case by (subst decimal.simps) simp
next
  case (Suc k)
  then have "n div 10 < 10 ^ Suc k" by (simp add: div_less_iff_less_mult)
  from Suc.IH [OF this] show ?case by (subst decimal.simps) simp
qed

lemma format_date_length:
  assumes "valid_tm t"
  shows "length (format_date t) < 64"
proof -
  have "length (day_names ! i) = 3" if "i < 7" for i
  proof -
    have "length day_names = 7" "\<forall>x \<in> set day_names. length x = 3" by (simp_all add: day_names_def cstring_def)
    with that show ?thesis by simp
  qed
  moreover have "length (month_names ! i) = 3" if "i < 12" for i
  proof -
    have "length month_names = 12" "\<forall>x \<in> set month_names. length x = 3"
      by (simp_all add: month_names_def cstring_def)
    with that show ?thesis by simp
  qed
  moreover have "length (signed_decimal (1900 + tm_year t)) \<le> 11"
  proof -
    have "nat \<bar>1900 + tm_year t\<bar> < 10 ^ Suc 9" using assms by (auto simp: valid_tm_def nat_less_iff)
    from length_decimal [OF this] show ?thesis by (auto simp: signed_decimal_def abs_if split: if_splits)
  qed
  moreover have "nat (tm_wday t) < 7" "nat (tm_mon t) < 12" using assms by (auto simp: valid_tm_def)
  ultimately show ?thesis
    by (simp add: format_date_def two_digits_def cstring_def)
qed

text \<open>The array is always large enough.\<close>

lemma date_line_eq:
  "date_line t = (case gmtime t of None \<Rightarrow> Inl OutOfBounds | Some tm \<Rightarrow> Inr (format_date tm))"
proof (cases "gmtime t")
  case (Some tm)
  then show ?thesis
    using format_date_length gmtime_correct [OF Some] by (simp add: date_line_def strftime_def)
qed (simp add: date_line_def)

text \<open>A billion years around the epoch are printed.\<close>

lemma gmtime_defined:
  assumes "\<bar>sint t\<bar> < 2 ^ 55"
  shows "\<exists>tm. gmtime t = Some tm"
proof -
  define d where "d = sint t div 86400 + EPOCH"
  have "86400 * (sint t div 86400) \<le> sint t" "sint t < 86400 * (sint t div 86400) + 86400"
    using div_bounds [of 86400 "sint t"] by simp_all
  then have d: "\<bar>d\<bar> < 2 ^ 39" using assms by (simp add: d_def EPOCH_def abs_less_iff)
  have "146097 * (400 * d div 146097) \<le> 400 * d" "400 * d < 146097 * (400 * d div 146097) + 146097"
    using div_bounds [of 146097 "400 * d"] by simp_all
  then have "\<bar>400 * d div 146097\<bar> < 2 ^ 31 - 2000" using d by (simp add: abs_less_iff)
  then have "year_of d - 1900 \<in> {- (2 ^ 31) ..< 2 ^ 31}"
    by (auto simp: year_of_def Let_def)
  then show ?thesis unfolding gmtime_def Let_def d_def [symmetric] by (auto split: prod.split)
qed

end
