(* ===== verification/Programs.thy ===== *)
theory Programs
  imports Loopback Calendar
begin

text \<open>
  Whole client programs over the stubs.  A program is a tree of calls whose next step may
  depend on the result of the last one; \<open>run\<close> makes its calls through the stubs of one
  process, \<open>behaves\<close> says what comes of it in terms of the files of the two machines: each
  call is made on one of them as the stubs pass it on, and its result brought back as the stubs
  bring it back.  \<open>remote_main\<close> is \<open>c/remote.c\<close>, the
  program of the repository that works on remote files, and \<open>local_main\<close> is
  \<open>c/local.c\<close>, which does the same to local ones and lists a directory.
\<close>

section \<open>Programs and their two meanings\<close>

text \<open>What the programs print: a file size, a modification time, the lines \<open>"%ld %s"\<close>, and the entries of
  a directory.\<close>

datatype printed =
    File_size "64 word" | Modified cstr | Status_line ssize_t cstr | Directory cstr | Regular cstr

text \<open>\<open>Abort\<close> is a statement with undefined behaviour.\<close>

datatype prog =
    Return
  | Abort fault
  | Print printed prog
  | Call "byte list" call "result \<Rightarrow> prog"

primrec run :: "'w os \<Rightarrow> prog \<Rightarrow> 'w stubs \<Rightarrow> (printed list \<times> 'w stubs) res" where
  "run os Return st = Inr ([], st)"
| "run os (Abort e) st = Inl e"
| "run os (Print v p) st = ebind (run os p st) (\<lambda>(vs, st). Inr (v # vs, st))"
| "run os (Call ub c k) st = ebind (issue os ub c st) (\<lambda>(r, st). run os (k r) st)"

text \<open>
  One call on the two machines: a remote one is made on the server's files with the
  server's descriptors and paths, and what it returns is brought back, with arbitrary bytes
  behind those the server stored; a local one is made on the client's files.  A mode is
  passed on only with the flag word \<open>O_CREAT\<close> (\<open>server_call\<close>, \<open>passed\<close>).
\<close>

definition outcome ::
  "('l, 'f) setting \<Rightarrow> byte list \<Rightarrow> call \<Rightarrow> 'l \<Rightarrow> 'f \<Rightarrow> result \<Rightarrow> 'l \<Rightarrow> 'f \<Rightarrow> bool" where
  "outcome S ub c l x r l' x' \<longleftrightarrow>
     (if remote_call c then
        l' = l \<and>
        (\<exists>old. length old = result_buf c \<and>
           (let (v, y) = direct (remote_files S) (localise (server_call c)) x in
            r = delivered old (globalise c v) \<and> x' = y))
      else
        x' = x \<and>
        (let (v, m) = direct (local_files S) (passed c) l in r = into_buffer ub c v \<and> l' = m))"

inductive behaves ::
  "('l, 'f) setting \<Rightarrow> prog \<Rightarrow> 'l \<Rightarrow> 'f \<Rightarrow> printed list \<Rightarrow> 'l \<Rightarrow> 'f \<Rightarrow> bool"
  for S :: "('l, 'f) setting" where
  return: "behaves S Return l x [] l x"
| print: "behaves S p l x vs l' x' \<Longrightarrow> behaves S (Print v p) l x (v # vs) l' x'"
| call: "outcome S ub c l x r l' x' \<Longrightarrow> behaves S (k r) l' x' vs l'' x'' \<Longrightarrow>
    behaves S (Call ub c k) l x vs l'' x''"

inductive_simps behaves_Return: "behaves S Return l x vs l' x'"
inductive_simps behaves_Print: "behaves S (Print v p) l x vs l' x'"
inductive_simps behaves_Call: "behaves S (Call ub c k) l x vs l' x'"

lemmas behaves_simps = behaves_Return behaves_Print behaves_Call

text \<open>Programs that pass valid arguments, stay within the setting and leave the socket of
  the stubs alone, whatever their calls return.\<close>

definition valid_call :: "('l, 'f) setting \<Rightarrow> byte list \<Rightarrow> call \<Rightarrow> bool" where
  "valid_call S ub c \<longleftrightarrow>
     wf_args ub c \<and> (if remote_call c then fits S (server_call c) else call_fd c \<noteq> Some (csk S))"

primrec valid :: "('l, 'f) setting \<Rightarrow> prog \<Rightarrow> 'l \<Rightarrow> 'f \<Rightarrow> bool" where
  "valid S Return l x \<longleftrightarrow> True"
| "valid S (Abort e) l x \<longleftrightarrow> False"
| "valid S (Print v p) l x \<longleftrightarrow> valid S p l x"
| "valid S (Call ub c k) l x \<longleftrightarrow>
     valid_call S ub c \<and> (\<forall>r l' x'. outcome S ub c l x r l' x' \<longrightarrow> valid S (k r) l' x')"

section \<open>The stubs implement the two machines\<close>

lemma direct_client_os:
  assumes "call_fd c \<noteq> Some (csk S)"
  shows "direct (client_os S) c w = (let (r, x) = direct (local_files S) c (lfs w) in (r, w\<lparr>lfs := x\<rparr>))"
  using assms by (cases c) (auto simp: client_os_def Let_def on_lfs_def split: prod.split)

lemma call_fd_passed [simp]: "call_fd (passed c) = call_fd c"
  by (cases c) simp_all

lemma issue_outcome:
  assumes st: "ready S st" and c: "valid_call S ub c"
  shows "\<exists>r st'. issue (client_os S) ub c st = Inr (r, st') \<and> ready S st' \<and> heap st' = heap st \<and>
    outcome S ub c (lfs (world st)) (server_fs st) r (lfs (world st')) (server_fs st')"
proof (cases "remote_call c")
  case True
  then obtain old st' where "length old = result_buf c"
    "let (r, x) = direct (remote_files S) (localise (server_call c)) (server_fs st) in
     issue (client_os S) ub c st = Inr (delivered old (globalise c r), st') \<and> server_fs st' = x"
    "ready S st'" "heap st' = heap st" "lfs (world st') = lfs (world st)"
    using remote_issue [OF st True, of ub] c by (auto simp: valid_call_def)
  then show ?thesis
    using True by (auto simp: outcome_def split: prod.splits)
next
  case False
  then have "issue (client_os S) ub c st =
    (let (r, w) = direct (client_os S) (passed c) (world st) in
     Inr (into_buffer ub c r, (resolve (call_func c) st)\<lparr>world := w\<rparr>))"
    using issue_local [OF False, of ub "client_os S" st] c by (simp add: valid_call_def)
  moreover have "call_fd (passed c) \<noteq> Some (csk S)" using c False by (simp add: valid_call_def)
  ultimately show ?thesis
    using False st
    by (auto simp: outcome_def direct_client_os Let_def ready_def net_up_def server_fs_def
        wf_heap_def split: prod.splits)
qed

lemma run_behaves:
  assumes "ready S st" and "valid S p (lfs (world st)) (server_fs st)"
  shows "\<exists>vs st'. run (client_os S) p st = Inr (vs, st') \<and> ready S st' \<and> heap st' = heap st \<and>
    behaves S p (lfs (world st)) (server_fs st) vs (lfs (world st')) (server_fs st')"
  using assms
proof (induction p arbitrary: st)
  case Return
  then show ?case by (auto intro: behaves.return)
next
  case (Abort e)
  then show ?case by simp
next
  case (Print v p)
  then obtain vs st' where "run (client_os S) p st = Inr (vs, st')" "ready S st'" "heap st' = heap st"
    "behaves S p (lfs (world st)) (server_fs st) vs (lfs (world st')) (server_fs st')"
    by fastforce
  then show ?case by (auto intro: behaves.print)
next
  case (Call ub c k)
  obtain r s where i: "issue (client_os S) ub c st = Inr (r, s)" "ready S s" "heap s = heap st"
    "outcome S ub c (lfs (world st)) (server_fs st) r (lfs (world s)) (server_fs s)"
    using issue_outcome [OF Call.prems(1), of ub c] Call.prems(2) by auto
  moreover have "valid S (k r) (lfs (world s)) (server_fs s)" using Call.prems(2) i(4) by auto
  ultimately obtain vs st' where "run (client_os S) (k r) s = Inr (vs, st')" "ready S st'"
    "heap st' = heap s" "behaves S (k r) (lfs (world s)) (server_fs s) vs (lfs (world st')) (server_fs st')"
    using Call.IH [of "k r" s] by auto
  with i show ?case by (auto intro: behaves.call)
qed

section \<open>remote.c and local.c\<close>

definition O_RDWR :: cint where "O_RDWR = 2"
definition SEEK_SET :: cint where "SEEK_SET = 0"

fun int_of :: "result \<Rightarrow> cint" where
  "int_of (RInt r) = r"
| "int_of _ = 0"

text \<open>The value and the array a \<open>read\<close> or \<open>stat\<close> leaves.\<close>

fun read_status :: "result \<Rightarrow> ssize_t" where
  "read_status (RRead r _) = r"
| "read_status _ = 0"

fun buffer_of :: "result \<Rightarrow> byte list" where
  "buffer_of (RRead _ bs) = bs"
| "buffer_of (RStat _ bs) = bs"
| "buffer_of _ = []"

text \<open>\<open>statbuf.st_size\<close>: eight bytes at offset 48 of \<open>struct stat\<close>.\<close>

definition st_size :: "byte list \<Rightarrow> 64 word" where
  "st_size sb = ld64 (take 8 (drop 48 sb))"

text \<open>\<open>statbuf.st_mtime\<close>: eight bytes at offset 88.\<close>

definition st_mtime :: "byte list \<Rightarrow> 64 word" where
  "st_mtime sb = ld64 (take 8 (drop 88 sb))"

text \<open>\<open>statbuf.st_mode\<close>: four bytes at offset 24, and the two tests on it.\<close>

definition st_mode :: "byte list \<Rightarrow> 32 word" where
  "st_mode sb = ld32 (take 4 (drop 24 sb))"

definition S_ISDIR :: "32 word \<Rightarrow> bool" where
  "S_ISDIR m \<longleftrightarrow> and m 0xF000 = 0x4000"

definition S_ISREG :: "32 word \<Rightarrow> bool" where
  "S_ISREG m \<longleftrightarrow> and m 0xF000 = 0x8000"

text \<open>The statements of both programs from the first \<open>stat\<close> to \<open>unlink\<close>;
  \<open>sb\<close> is the uninitialised \<open>statbuf\<close>, \<open>buf\<close> the 200 zero bytes, and
  \<open>rest\<close> what follows, given \<open>statbuf\<close> as it is then.\<close>

definition file_session ::
  "cstr \<Rightarrow> cstr \<Rightarrow> cstr \<Rightarrow> (byte list \<Rightarrow> prog) \<Rightarrow> byte list \<Rightarrow> prog" where
  "file_session path renamed deleted rest sb =
     Call sb (Stat path) (\<lambda>r.
     let sb = buffer_of r in
     Print (File_size (st_size sb))
     (case date_line (st_mtime sb) of Inl e \<Rightarrow> Abort e | Inr date \<Rightarrow>
     Print (Modified date)
     (Call [] (Open path O_RDWR None) (\<lambda>r.
     let fd = int_of r; buf = replicate 200 0 in
     Call (take 5 buf) (Read fd 5) (\<lambda>r.
     let buf = buffer_of r @ drop 5 buf in
     Print (Status_line (read_status r) (takeWhile (\<lambda>b. b \<noteq> 0) buf))
     (Call [] (Lseek fd 0 SEEK_SET) (\<lambda>_.
     Call (take 6 (drop 5 buf)) (Read fd 6) (\<lambda>r.
     let buf = take 5 buf @ buffer_of r @ drop 11 buf in
     Print (Status_line (read_status r) (takeWhile (\<lambda>b. b \<noteq> 0) buf))
     (Call [] (Write fd (cstring ''word'')) (\<lambda>_.
     Call [] (Ftruncate fd 30) (\<lambda>_.
     Call [] (Fsync fd) (\<lambda>_.
     Call [] (Close fd) (\<lambda>_.
     Call [] (Rename path renamed) (\<lambda>_.
     Call [] (Unlink deleted) (\<lambda>_.
     rest sb)))))))))))))))"

definition remote_main :: "byte list \<Rightarrow> prog" where
  "remote_main = file_session (cstring ''//test_file.txt'') (cstring ''//renamed_file.txt'')
     (cstring ''//deleted_file.txt'') (\<lambda>sb. Return)"

text \<open>The loop of \<open>local.c\<close> over the directory's entries.  \<open>statbuf\<close> is one variable:
  when \<open>stat\<close> fails, the tests see what the last call left.\<close>

primrec list_entries :: "byte list \<Rightarrow> cstr list \<Rightarrow> prog" where
  "list_entries sb [] = Return"
| "list_entries sb (name # names) =
     Call sb (Stat name) (\<lambda>r.
     let sb = buffer_of r;
         next_entry = list_entries sb names;
         regular = (if S_ISREG (st_mode sb) then Print (Regular name) next_entry else next_entry)
     in if S_ISDIR (st_mode sb) then Print (Directory name) regular else regular)"

text \<open>\<open>entries\<close> is what \<open>scandir\<close> found.  When it failed, \<open>n\<close> is negative, the
  loop does nothing, and \<open>free(namelist)\<close> frees a pointer nobody has set.\<close>

definition local_main :: "cstr list option \<Rightarrow> byte list \<Rightarrow> prog" where
  "local_main entries = file_session (cstring ''test_file.txt'') (cstring ''renamed_file.txt'')
     (cstring ''deleted_file.txt'')
     (\<lambda>sb. case entries of None \<Rightarrow> Abort BadFree | Some names \<Rightarrow> list_entries sb names)"

section \<open>remote.c stays within the setting\<close>

text \<open>The server's \<open>open\<close> never returns the connection's descriptor, which is in use,
  nor one beyond what the client takes for a remote descriptor.\<close>

definition fresh_fds :: "('l, 'f) setting \<Rightarrow> bool" where
  "fresh_fds S \<longleftrightarrow>
     (\<forall>path oflag m x. let fd = fst (f_open (remote_files S) path oflag m x) in
        fd \<noteq> ssk S \<and> sint fd \<le> 1073741823)"

definition roomy :: "('l, 'f) setting \<Rightarrow> bool" where
  "roomy S \<longleftrightarrow> sane S \<and> 200 \<le> seg S \<and> 200 \<le> avail S"

text \<open>A descriptor the session may use.\<close>

definition usable_fd :: "('l, 'f) setting \<Rightarrow> cint \<Rightarrow> bool" where
  "usable_fd S fd \<longleftrightarrow> (if is_remote_fd fd then to_local fd \<noteq> ssk S else fd \<noteq> csk S)"

lemma to_remote_usable:
  assumes "fd \<noteq> ssk S" and "sint fd \<le> 1073741823" and "sane S"
  shows "usable_fd S (to_remote fd)"
proof (cases "0 \<le> sint fd")
  case True
  then show ?thesis
    using assms to_remote_is_remote [OF True] to_local_to_remote [OF True] by (simp add: usable_fd_def)
next
  case False
  then have "to_remote fd = fd" by (simp add: to_remote_def)
  moreover have "\<not> is_remote_fd fd" "fd \<noteq> csk S"
    using False assms(3) remote_fd_nonneg [of fd] by (auto simp: sane_def)
  ultimately show ?thesis by (simp add: usable_fd_def)
qed

lemma session_fd_calls:
  assumes "roomy S" and "usable_fd S fd"
  shows "length ub = unat n \<Longrightarrow> unat n \<le> 100 \<Longrightarrow> valid_call S ub (Read fd n)"
    and "valid_call S ub (Lseek fd off wh)" "valid_call S ub (Write fd (cstring ''word''))"
    and "valid_call S ub (Ftruncate fd len)" "valid_call S ub (Fsync fd)" "valid_call S ub (Close fd)"
  using assms
  by (auto simp: valid_call_def fits_def usable_fd_def roomy_def payload_of_def frame_def
      addressable_def cstring_def split: if_splits)

lemma session_open:
  assumes "roomy S" and "fresh_fds S" and "remote_call (Open path oflag m)"
    and "outcome S ub (Open path oflag m) l x r l' x'"
  shows "usable_fd S (int_of r)"
proof -
  let ?c = "localise (server_call (Open path oflag m))"
  obtain fd y where fd: "f_open (remote_files S) (drop 2 path) oflag (if oflag = O_CREAT then m else None) x
      = (fd, y)" by fastforce
  then have "r = RInt (to_remote fd)" using assms(3,4) by (auto simp: outcome_def)
  moreover have "fd \<noteq> ssk S \<and> sint fd \<le> 1073741823"
    using assms(2) fd unfolding fresh_fds_def Let_def by (metis fst_conv)
  ultimately show ?thesis using to_remote_usable assms(1) by (auto simp: roomy_def)
qed

lemma remote_main_paths:
  assumes "roomy S" and "length sb = sizeof_stat"
  shows "valid_call S sb (Stat (cstring ''//test_file.txt''))"
    "valid_call S [] (Open (cstring ''//test_file.txt'') O_RDWR None)"
    "valid_call S [] (Rename (cstring ''//test_file.txt'') (cstring ''//renamed_file.txt''))"
    "valid_call S [] (Unlink (cstring ''//deleted_file.txt''))"
  using assms
  by (simp_all add: valid_call_def fits_def roomy_def payload_of_def frame_def addressable_def cstring_def
      of_char_def remote_path_def char_at_def O_RDWR_def O_CREAT_def sizeof_stat_def)

text \<open>The file is there: the server's \<open>stat\<close> fills the structure, with a date that can
  be printed.\<close>

definition dated_file :: "('l, 'f) setting \<Rightarrow> 'f \<Rightarrow> bool" where
  "dated_file S x \<longleftrightarrow>
     (let bs = snd (fst (f_stat (remote_files S) (cstring ''test_file.txt'') x)) in
      length bs = sizeof_stat \<and> gmtime (st_mtime bs) \<noteq> None)"

lemma session_stat:
  assumes "dated_file S x" and "outcome S sb (Stat (cstring ''//test_file.txt'')) l x r l' x'"
  shows "\<exists>date. date_line (st_mtime (buffer_of r)) = Inr date"
proof -
  have c: "remote_call (Stat (cstring ''//test_file.txt''))" "drop 2 (cstring ''//test_file.txt'') = cstring ''test_file.txt''"
    by (simp_all add: cstring_def of_char_def remote_path_def char_at_def)
  obtain rc bs y where f: "f_stat (remote_files S) (cstring ''test_file.txt'') x = ((rc, bs), y)"
    by (metis prod.collapse)
  then have "length bs = sizeof_stat" "gmtime (st_mtime bs) \<noteq> None"
    using assms(1) by (simp_all add: dated_file_def)
  moreover obtain old where "length old = sizeof_stat" "r = RStat rc (put_prefix bs old)"
    using assms(2) c f by (auto simp: outcome_def)
  ultimately show ?thesis by (auto simp: date_line_eq)
qed

lemma remote_main_valid:
  assumes S: "roomy S" "fresh_fds S" and sb: "length sb = sizeof_stat" and x: "dated_file S x"
  shows "valid S (remote_main sb) l x"
proof -
  note fd = session_fd_calls [OF S(1)]
  have op: "remote_call (Open (cstring ''//test_file.txt'') O_RDWR None)"
    by (simp add: cstring_def of_char_def remote_path_def char_at_def)
  have date: "valid S (case date_line (st_mtime (buffer_of r)) of Inl e \<Rightarrow> Abort e | Inr d \<Rightarrow> k d) l' x'"
    if "outcome S sb (Stat (cstring ''//test_file.txt'')) l x r l' x'" "\<And>d. valid S (k d) l' x'" for r l' x' k
    using session_stat [OF x that(1)] that(2) by auto
  show ?thesis
    unfolding remote_main_def file_session_def Let_def valid.simps
    apply (intro conjI allI impI remote_main_paths [OF S(1) sb])
    apply (erule date)
    unfolding valid.simps
    by (intro conjI allI impI remote_main_paths [OF S(1) sb] fd session_open [OF S op]) (assumption | simp)+
qed

end
