(* ===== verification/Transparent.thy ===== *)
theory Transparent
  imports Programs
begin

text \<open>
  When the stubs cannot be told from the real functions.  \<open>two_machines\<close> runs a program
  with each call made directly on one machine or the other, as if the two shared one name
  space, and nothing else: no stub, no wire, no server process, and none of the stubs'
  habits.  A program gets exactly that through the stubs as long as it passes a mode only
  with the flag word \<open>O_CREAT\<close> and its remote calls fill the arrays it gives them.
\<close>

section \<open>The ideal run\<close>

text \<open>The path without the two slashes, all other arguments as they are.\<close>

fun unslash :: "call \<Rightarrow> call" where
  "unslash (Open path oflag m) = Open (drop 2 path) oflag m"
| "unslash (Truncate path n) = Truncate (drop 2 path) n"
| "unslash (Stat path) = Stat (drop 2 path)"
| "unslash (Rename old new) = Rename (drop 2 old) (drop 2 new)"
| "unslash (Unlink path) = Unlink (drop 2 path)"
| "unslash c = c"

definition on_server :: "('l, 'f) setting \<Rightarrow> call \<Rightarrow> 'f \<Rightarrow> result \<times> 'f" where
  "on_server S c = direct (remote_files S) (localise (unslash c))"

text \<open>One call; what it stores goes to the front of the caller's array and the rest of the
  array stays as it is.\<close>

definition ideal_call ::
  "('l, 'f) setting \<Rightarrow> byte list \<Rightarrow> call \<Rightarrow> 'l \<Rightarrow> 'f \<Rightarrow> result \<times> 'l \<times> 'f" where
  "ideal_call S ub c l x =
     (if remote_call c
      then let (r, x) = on_server S c x in (into_buffer ub c (globalise c r), l, x)
      else let (r, l) = direct (local_files S) c l in (into_buffer ub c r, l, x))"

primrec two_machines ::
  "('l, 'f) setting \<Rightarrow> prog \<Rightarrow> 'l \<Rightarrow> 'f \<Rightarrow> (printed list \<times> 'l \<times> 'f) res" where
  "two_machines S Return l x = Inr ([], l, x)"
| "two_machines S (Abort e) l x = Inl e"
| "two_machines S (Print v p) l x =
     ebind (two_machines S p l x) (\<lambda>(vs, l, x). Inr (v # vs, l, x))"
| "two_machines S (Call ub c k) l x =
     (let (r, l, x) = ideal_call S ub c l x in two_machines S (k r) l x)"

section \<open>Descriptors\<close>

text \<open>A descriptor from \<open>open\<close> tells where its file is.\<close>

lemma open_outcome_typed:
  assumes "fresh_fds S" and loc: "\<And>p fl md l. \<not> is_remote_fd (fst (f_open (local_files S) p fl md l))"
    and o: "outcome S ub (Open path oflag m) l x r l' x'"
  shows "\<exists>fd. r = RInt fd \<and> (0 \<le> sint fd \<longrightarrow> (is_remote_fd fd \<longleftrightarrow> remote_path path) \<and>
    (remote_path path \<longrightarrow> to_local fd = fst (f_open (remote_files S) (drop 2 path) oflag
       (if oflag = O_CREAT then m else None) x)))"
proof (cases "remote_path path")
  case True
  let ?m = "if oflag = O_CREAT then m else None"
  obtain fd y where fd: "f_open (remote_files S) (drop 2 path) oflag ?m x = (fd, y)" by fastforce
  then have r: "r = RInt (to_remote fd)" using o True by (auto simp: outcome_def)
  have "sint fd \<le> 1073741823" using assms(1) fd unfolding fresh_fds_def Let_def by (metis fst_conv)
  moreover have "0 \<le> sint fd" if "0 \<le> sint (to_remote fd)"
    using that by (auto simp: to_remote_def split: if_splits)
  ultimately show ?thesis
    using r fd True to_remote_is_remote [of fd] to_local_to_remote [of fd] by auto
next
  case False
  obtain fd y where fd: "f_open (local_files S) path oflag (if oflag = O_CREAT then m else None) l = (fd, y)"
    by fastforce
  have "\<not> is_remote_fd fd" using loc fd by (metis fst_conv)
  then show ?thesis using o False fd by (auto simp: outcome_def)
qed

section \<open>Programs that cannot tell\<close>

text \<open>What the server stores for a call is as long as the caller's array.\<close>

definition fills :: "('l, 'f) setting \<Rightarrow> call \<Rightarrow> 'f \<Rightarrow> bool" where
  "fills S c x \<longleftrightarrow> length (buffer_of (fst (on_server S c x))) = result_buf c"

text \<open>In its ideal run the program makes valid calls, passes a mode only with the flag word
  \<open>O_CREAT\<close>, and has its arrays filled by every remote call.\<close>

primrec careful :: "('l, 'f) setting \<Rightarrow> prog \<Rightarrow> 'l \<Rightarrow> 'f \<Rightarrow> bool" where
  "careful S Return l x \<longleftrightarrow> True"
| "careful S (Abort e) l x \<longleftrightarrow> True"
| "careful S (Print v p) l x \<longleftrightarrow> careful S p l x"
| "careful S (Call ub c k) l x \<longleftrightarrow>
     valid_call S ub c \<and> mode_kept c \<and> (remote_call c \<longrightarrow> fills S c x) \<and>
     (let (r, l, x) = ideal_call S ub c l x in careful S (k r) l x)"

lemma server_call_unslash: "mode_kept c \<Longrightarrow> server_call c = unslash c"
  by (cases c) auto

lemma delivered_full:
  assumes "fst (direct F (localise (unslash c)) x) = r" and "length (buffer_of r) = result_buf c"
    and "length old = result_buf c" and "wf_args ub c"
  shows "delivered old (globalise c r) = into_buffer ub c (globalise c r)"
  using assms by (cases c) (auto split: prod.splits)

lemma outcome_ideal:
  assumes "outcome S ub c l x r l' x'" and "wf_args ub c" and "mode_kept c"
    and "remote_call c \<Longrightarrow> fills S c x"
  shows "ideal_call S ub c l x = (r, l', x')"
proof (cases "remote_call c")
  case True
  obtain v y where v: "direct (remote_files S) (localise (unslash c)) x = (v, y)" by fastforce
  obtain old where old: "length old = result_buf c" "r = delivered old (globalise c v)" "l' = l" "x' = y"
    using assms(1,3) True v by (auto simp: outcome_def server_call_unslash)
  have "delivered old (globalise c v) = into_buffer ub c (globalise c v)"
    by (rule delivered_full [OF _ _ old(1) assms(2), where F = "remote_files S" and x = x])
       (use v assms(4) [OF True] in \<open>simp_all add: fills_def on_server_def\<close>)
  with old v True show ?thesis by (simp add: ideal_call_def on_server_def)
next
  case False
  with assms(1,3) show ?thesis
    by (auto simp: outcome_def ideal_call_def passed_kept split: prod.splits)
qed

lemma run_two_machines:
  assumes "ready S st" and "careful S p (lfs (world st)) (server_fs st)"
  shows "case two_machines S p (lfs (world st)) (server_fs st) of
      Inl e \<Rightarrow> run (client_os S) p st = Inl e
    | Inr (vs, l, x) \<Rightarrow> \<exists>st'. run (client_os S) p st = Inr (vs, st') \<and> lfs (world st') = l \<and>
        server_fs st' = x \<and> ready S st' \<and> heap st' = heap st"
  using assms
proof (induction p arbitrary: st)
  case (Print v p)
  then show ?case
    using Print.IH [OF Print.prems(1)]
    by (cases "two_machines S p (lfs (world st)) (server_fs st)") auto
next
  case (Call ub c k)
  have c: "valid_call S ub c" "mode_kept c" "remote_call c \<Longrightarrow> fills S c (server_fs st)"
    using Call.prems(2) by simp_all
  obtain r s where i: "issue (client_os S) ub c st = Inr (r, s)" "ready S s" "heap s = heap st"
    "outcome S ub c (lfs (world st)) (server_fs st) r (lfs (world s)) (server_fs s)"
    using issue_outcome [OF Call.prems(1) c(1)] by blast
  have "ideal_call S ub c (lfs (world st)) (server_fs st) = (r, lfs (world s), server_fs s)"
    using outcome_ideal [OF i(4)] c by (simp add: valid_call_def)
  then show ?case
    using Call.IH [of "k r" s] Call.prems(2) i
    by (cases "two_machines S (k r) (lfs (world s)) (server_fs s)") auto
qed auto

end
