(* ===== verification/Local_Programs.thy ===== *)
theory Local_Programs
  imports Programs
begin

text \<open>
  Programs that stay on their own machine.  \<open>run_plain\<close> makes the calls without the
  stub library; a program whose calls are all local does the same with the library
  preloaded, over any kernel.  \<open>c/local.c\<close> is such a program.
\<close>

section \<open>Runs without the library\<close>

primrec run_plain :: "'w os \<Rightarrow> prog \<Rightarrow> 'w \<Rightarrow> (printed list \<times> 'w) res" where
  "run_plain os Return w = Inr ([], w)"
| "run_plain os (Abort e) w = Inl e"
| "run_plain os (Print v p) w = ebind (run_plain os p w) (\<lambda>(vs, w). Inr (v # vs, w))"
| "run_plain os (Call ub c k) w =
     (let (r, w) = direct os c w in run_plain os (k (into_buffer ub c r)) w)"

text \<open>Every call the program makes from \<open>w\<close> on is local, has valid arguments, and passes
  a mode only with the flag word \<open>O_CREAT\<close>.\<close>

definition local_call :: "byte list \<Rightarrow> call \<Rightarrow> bool" where
  "local_call ub c \<longleftrightarrow> \<not> remote_call c \<and> wf_args ub c \<and> mode_kept c"

primrec local_prog :: "'w os \<Rightarrow> prog \<Rightarrow> 'w \<Rightarrow> bool" where
  "local_prog os Return w \<longleftrightarrow> True"
| "local_prog os (Abort e) w \<longleftrightarrow> True"
| "local_prog os (Print v p) w \<longleftrightarrow> local_prog os p w"
| "local_prog os (Call ub c k) w \<longleftrightarrow>
     local_call ub c \<and> (let (r, w) = direct os c w in local_prog os (k (into_buffer ub c r)) w)"

text \<open>What the library may change in the process: the pointers it has resolved.\<close>

definition same_process :: "'w stubs \<Rightarrow> 'w stubs \<Rightarrow> bool" where
  "same_process st st' \<longleftrightarrow> (\<exists>rl w. st' = st\<lparr>real := rl, world := w\<rparr>)"

lemma same_process_refl: "same_process st st"
  unfolding same_process_def by (rule exI [of _ "real st"], rule exI [of _ "world st"]) simp

lemma same_process_trans:
  assumes "same_process st st'" and "same_process st' st''"
  shows "same_process st st''"
  using assms unfolding same_process_def by force

lemma same_process_resolve: "same_process st ((resolve f st)\<lparr>world := w\<rparr>)"
  unfolding same_process_def resolve_def by blast

lemma run_local:
  assumes "local_prog os p (world st)"
  shows "case run_plain os p (world st) of
      Inl e \<Rightarrow> run os p st = Inl e
    | Inr (vs, w) \<Rightarrow> \<exists>st'. run os p st = Inr (vs, st') \<and> world st' = w \<and> same_process st st'"
  using assms
proof (induction p arbitrary: st)
  case Return
  then show ?case by (simp add: same_process_refl)
next
  case (Abort e)
  then show ?case by simp
next
  case (Print v p)
  then show ?case
    using Print.IH [of st] by (cases "run_plain os p (world st)") auto
next
  case (Call ub c k)
  obtain r w where d: "direct os c (world st) = (r, w)" by fastforce
  have c: "\<not> remote_call c" "wf_args ub c" "passed c = c"
    using Call.prems by (simp_all add: local_call_def passed_kept)
  let ?s = "(resolve (call_func c) st)\<lparr>world := w\<rparr>" and ?r = "into_buffer ub c r"
  have i: "issue os ub c st = Inr (?r, ?s)"
    using issue_local [OF c(1,2), of os st] c(3) d by simp
  have "local_prog os (k ?r) (world ?s)" using Call.prems d by simp
  from Call.IH [OF _ this] show ?case
    using i d same_process_trans [OF same_process_resolve]
    by (cases "run_plain os (k ?r) w") fastforce+
qed

section \<open>local.c\<close>

text \<open>Entries of a directory: C strings without a slash.\<close>

definition entry_name :: "cstr \<Rightarrow> bool" where
  "entry_name s \<longleftrightarrow> is_cstr s \<and> addressable s \<and> 47 \<notin> set s"

lemma entry_not_remote: "entry_name s \<Longrightarrow> \<not> remote_path s"
  by (cases s) (auto simp: entry_name_def remote_path_def char_at_def split: if_splits)

lemma length_into_stat [simp]:
  "length (buffer_of (into_buffer ub (Stat p) (RStat r bs))) = length ub"
  by simp

lemma list_entries_local:
  assumes "length sb = sizeof_stat" and "\<forall>name \<in> set names. entry_name name"
  shows "local_prog os (list_entries sb names) w"
  using assms
proof (induction names arbitrary: sb w)
  case Nil
  then show ?case by simp
next
  case (Cons name names sb w)
  obtain r bs w' where d: "f_stat os name w = ((r, bs), w')" by (metis prod.collapse)
  let ?sb = "put_prefix (take sizeof_stat bs) sb"
  have "local_prog os (list_entries ?sb names) w'"
    using Cons by simp
  moreover have "local_call sb (Stat name)"
    using Cons.prems entry_not_remote by (auto simp: local_call_def entry_name_def)
  ultimately show ?case using d by (simp add: Let_def)
qed

text \<open>Descriptors of this machine stay below the ones taken for remote.\<close>

definition local_fds :: "'w os \<Rightarrow> bool" where
  "local_fds os \<longleftrightarrow>
     (\<forall>path oflag m w. \<not> is_remote_fd (fst (f_open os path oflag m w)))"

lemma local_paths:
  "length sb = sizeof_stat \<Longrightarrow> local_call sb (Stat (cstring ''test_file.txt''))"
  "local_call [] (Open (cstring ''test_file.txt'') O_RDWR None)"
  "local_call [] (Rename (cstring ''test_file.txt'') (cstring ''renamed_file.txt''))"
  "local_call [] (Unlink (cstring ''deleted_file.txt''))"
  by (simp_all add: local_call_def cstring_def of_char_def remote_path_def char_at_def addressable_def
      O_RDWR_def O_CREAT_def)

lemma local_fd_calls:
  assumes "\<not> is_remote_fd fd"
  shows "length ub = unat n \<Longrightarrow> unat n \<le> 100 \<Longrightarrow> local_call ub (Read fd n)"
    "local_call ub (Lseek fd off wh)" "local_call ub (Write fd (cstring ''word''))"
    "local_call ub (Ftruncate fd len)" "local_call ub (Fsync fd)" "local_call ub (Close fd)"
  using assms by (simp_all add: local_call_def addressable_def cstring_def)

lemma local_prog_stat:
  "local_prog os (Call ub (Stat path) k) w \<longleftrightarrow> local_call ub (Stat path) \<and>
     (let ((r, bs), w) = f_stat os path w in
      local_prog os (k (RStat r (put_prefix (take sizeof_stat bs) ub))) w)"
  by (simp add: Let_def split: prod.split)

lemma local_prog_open:
  "local_prog os (Call ub (Open path oflag m) k) w \<longleftrightarrow> local_call ub (Open path oflag m) \<and>
     (let (fd, w) = f_open os path oflag m w in local_prog os (k (RInt fd)) w)"
  by (simp add: Let_def split: prod.split)

text \<open>Any other call, whatever it returns.\<close>

lemma local_prog_any:
  assumes "local_call ub c" and "\<And>r w. local_prog os (k r) w"
  shows "local_prog os (Call ub c k) w"
  using assms by (simp add: split: prod.split)

lemma local_main_local:
  assumes os: "local_fds os" and sb: "length sb = sizeof_stat"
    and names: "\<forall>names. entries = Some names \<longrightarrow> (\<forall>name \<in> set names. entry_name name)"
  shows "local_prog os (local_main entries sb) w"
proof -
  have rest: "local_prog os (case entries of None \<Rightarrow> Abort BadFree | Some names \<Rightarrow> list_entries sb' names) w'"
    if "length sb' = sizeof_stat" for sb' w'
    using that names list_entries_local by (auto split: option.split)
  have fd: "f_open os path oflag m w1 = (fd, w2) \<Longrightarrow> \<not> is_remote_fd fd" for path oflag m w1 fd w2
    using os unfolding local_fds_def by (metis fst_conv)
  have buf6: "min (n - 5) 6 + (6 - (n - 5)) = (6::nat)" for n by arith
  note calls = local_fd_calls [OF fd]
  show ?thesis
    unfolding local_main_def file_session_def Let_def local_prog_stat local_prog_open local_prog.simps(3)
    by (auto simp del: local_prog.simps(4) simp: sb buf6 local_prog_open split: prod.split sum.split
        intro!: local_paths local_prog_any rest calls)
qed

section \<open>The directory listing\<close>

text \<open>The lines for an entry when \<open>statbuf\<close> holds \<open>sb\<close>.\<close>

definition entry_lines :: "byte list \<Rightarrow> cstr \<Rightarrow> printed list" where
  "entry_lines sb name =
     (if S_ISDIR (st_mode sb) then [Directory name] else []) @
     (if S_ISREG (st_mode sb) then [Regular name] else [])"

text \<open>\<open>stat_of name\<close> is what \<open>stat\<close> finds, \<open>None\<close> where it fails; a failing call
  leaves \<open>statbuf\<close> alone.\<close>

definition stats :: "'w os \<Rightarrow> (cstr \<Rightarrow> byte list option) \<Rightarrow> cstr list \<Rightarrow> bool" where
  "stats os stat_of names \<longleftrightarrow>
     (\<forall>name \<in> set names. \<forall>w. case stat_of name of
        None \<Rightarrow> f_stat os name w = ((-1, []), w)
      | Some bs \<Rightarrow> f_stat os name w = ((0, bs), w) \<and> length bs = sizeof_stat)"

text \<open>What the last successful \<open>stat\<close> of the given entries found.\<close>

definition last_found :: "(cstr \<Rightarrow> byte list option) \<Rightarrow> byte list \<Rightarrow> cstr list \<Rightarrow> byte list" where
  "last_found stat_of sb names = last (sb # List.map_filter stat_of names)"

definition listing :: "(cstr \<Rightarrow> byte list option) \<Rightarrow> byte list \<Rightarrow> cstr list \<Rightarrow> printed list" where
  "listing stat_of sb names =
     concat (map (\<lambda>i. entry_lines (last_found stat_of sb (take (Suc i) names)) (names ! i)) [0..<length names])"

lemma listing_Nil: "listing stat_of sb [] = []"
  by (simp add: listing_def)

lemma listing_Cons:
  "listing stat_of sb (name # names) =
     (let sb = (case stat_of name of None \<Rightarrow> sb | Some bs \<Rightarrow> bs) in
      entry_lines sb name @ listing stat_of sb names)"
proof -
  have "[0..<length (name # names)] = 0 # map Suc [0..<length names]"
    by (simp only: length_Cons upt_conv_Cons [of 0] zero_less_Suc map_Suc_upt)
  then show ?thesis
    by (cases "stat_of name") (simp_all add: listing_def last_found_def map_filter_simps comp_def Let_def)
qed

lemma list_entries_prints:
  assumes "stats os stat_of names" and "length sb = sizeof_stat"
  shows "run_plain os (list_entries sb names) w = Inr (listing stat_of sb names, w)"
  using assms
proof (induction names arbitrary: sb)
  case Nil
  then show ?case by (simp add: listing_def)
next
  case (Cons name names)
  have n: "stats os stat_of names" using Cons.prems(1) by (simp add: stats_def)
  show ?case
    using Cons.IH [OF n] Cons.prems
    by (cases "stat_of name") (auto simp: stats_def listing_Cons entry_lines_def Let_def)
qed

text \<open>When every \<open>stat\<close> succeeds, every entry is listed as what it is.\<close>

lemma listing_all_found:
  assumes "\<forall>name \<in> set names. stat_of name \<noteq> None"
  shows "listing stat_of sb names = concat (map (\<lambda>name. entry_lines (the (stat_of name)) name) names)"
  using assms
proof (induction names arbitrary: sb)
  case Nil
  then show ?case by (simp add: listing_def)
next
  case (Cons name names)
  then show ?case by (auto simp: listing_Cons)
qed

end
