(* ===== verification/Faults.thy ===== *)
theory Faults
  imports Stubs_Correct Server_Inv
begin

text \<open>
  What the programs do when things go wrong: the client without a server, the server with
  requests no stub of the repository would send, a request larger than the memory the
  server can get, and a remote \<open>rename\<close> to an empty name.
\<close>

section \<open>A client without a server\<close>

text \<open>No socket to be had, with a port number that can be read.\<close>

definition offline :: "'w os \<Rightarrow> bool" where
  "offline os \<longleftrightarrow> (\<forall>w. sint (fst (os_socket os w)) < 0) \<and> (\<exists>n. rpc_port os = Inr n)"

text \<open>The result a caller sees when a remote call could not be made.\<close>

fun failure :: "byte list \<Rightarrow> call \<Rightarrow> result" where
  "failure ub (Read _ _) = RRead (-1) ub"
| "failure ub (Stat _) = RStat (-1) ub"
| "failure ub (Fstat _) = RStat (-1) ub"
| "failure ub (Write _ _) = RLong (-1)"
| "failure ub (Lseek _ _ _) = RLong (-1)"
| "failure ub _ = RInt (-1)"

lemma send_data_offline:
  assumes "offline os"
  shows "\<exists>st'. send_data os req k st = Inr (-1, st') \<and> keeps st st'"
proof -
  have "\<exists>s. lookup_endpoint os st = Inr s \<and> keeps st s"
    using assms by (auto simp: offline_def lookup_endpoint_def Let_def keeps_def)
  then obtain s where "lookup_endpoint os st = Inr s" "keeps st s" by blast
  then show ?thesis
    using assms by (simp add: send_data_def connect_to_server_def sys_eq offline_def keeps_def)
qed

lemma transact_offline:
  assumes "offline os"
  shows "\<exists>st'. transact os req k n st = Inr (None, st') \<and> keeps st st'"
  using send_data_offline [OF assms, of req k st] by (auto simp: transact_def)

lemma heap_call_offline:
  assumes off: "offline os" and wf: "wf_heap st" and m: "marshals k ws c"
  shows "\<exists>st'. heap_call os k (Inr ws) n st = Inr (None, st')"
proof -
  obtain p s where a: "malloc os (8 + k) st = (p, s)" by fastforce
  from a show ?thesis
  proof (cases rule: malloc_cases)
    case (fail w)
    then show ?thesis using a by (simp add: heap_call_def)
  next
    case (ok g w)
    let ?req = "frame (payload_of c)"
    let ?s = "s\<lparr>heap := (heap s)(p \<mapsto> ?req)\<rparr>"
    have b: "stores p ws s = Inr ?s"
      using ok m by (simp add: stores_def block_def marshals_def writes_fill)
    obtain t where "transact os ?req (8 + k) n ?s = Inr (None, t)" "keeps ?s t"
      using transact_offline [OF off] by blast
    then show ?thesis
      using a b ok wf_heap_pos [OF wf] by (simp add: heap_call_def block_def free_def keeps_def)
  qed
qed

lemma issue_offline:
  assumes off: "offline os" and wf: "wf_heap st" and r: "remote_call c" and a: "wf_args ub c"
  shows "\<exists>st'. issue os ub c st = Inr (failure ub c, st')"
proof -
  have wf': "wf_heap (resolve f st)" for f using wf by simp
  have heap: "marshals k ws d \<Longrightarrow> \<exists>t. heap_call os k (Inr ws) n (resolve f st) = Inr (None, t)"
    for n f k ws d by (rule heap_call_offline [OF off wf'])
  note array = transact_offline [OF off]
  show ?thesis
  proof (cases c)
    case (Open path oflag m)
    then show ?thesis using open_remote [OF Open r a, of os st] heap [of _ _ _ 4 OPEN]
      by (fastforce simp: lift_result_def int_result_def)
  next
    case (Truncate path n)
    then show ?thesis using truncate_remote [OF Truncate r a, of os st] heap [of _ _ _ 4 TRUNCATE]
      by (fastforce simp: lift_result_def int_result_def)
  next
    case (Unlink path)
    then show ?thesis using unlink_remote [OF Unlink r a, of os st] heap [of _ _ _ 4 UNLINK]
      by (fastforce simp: lift_result_def int_result_def)
  next
    case (Rename old new)
    then show ?thesis using rename_remote [OF Rename r a, of os st] heap [of _ _ _ 4 RENAME]
      by (fastforce simp: lift_result_def int_result_def)
  next
    case (Write f bs)
    then show ?thesis using write_remote [OF Write r a, of os st] heap [of _ _ _ 8 WRITE]
      by (fastforce simp: lift_result_def long_result_def)
  next
    case (Stat path)
    then show ?thesis using stat_remote [OF Stat r a, of os st] heap [of _ _ _ "4 + sizeof_stat" STAT]
      by (fastforce simp: lift_result_def stat_result_def)
  next
    case (Read f n)
    then show ?thesis
      using r send_data_offline [OF off, of "frame (payload_of (Read f n))" 21 "resolve READ st"]
      by (auto simp: lift_result_def read_stub_def read_request simp del: writes.simps)
  next
    case (Close f)
    then show ?thesis using array [of "frame (payload_of c)" 13 4 "resolve CLOSE st"] r
      by (auto simp: lift_result_def close_stub_def array_requests int_result_def)
  next
    case (Fsync f)
    then show ?thesis using array [of "frame (payload_of c)" 13 4 "resolve FSYNC st"] r
      by (auto simp: lift_result_def fsync_stub_def array_requests int_result_def)
  next
    case (Fstat f)
    then show ?thesis using array [of "frame (payload_of c)" 13 "4 + sizeof_stat" "resolve FSTAT st"] r
      by (auto simp: lift_result_def fstat_stub_def array_requests stat_result_def)
  next
    case (Ftruncate f n)
    then show ?thesis using array [of "frame (payload_of c)" 21 4 "resolve FTRUNCATE st"] r
      by (auto simp: lift_result_def ftruncate_stub_def array_requests int_result_def)
  next
    case (Lseek f off wh)
    then show ?thesis using array [of "frame (payload_of c)" 25 8 "resolve LSEEK st"] r
      by (auto simp: lift_result_def lseek_stub_def array_requests long_result_def)
  qed
qed

section \<open>Requests no stub sends\<close>

text \<open>A function code without a \<open>case\<close>: nothing is sent, the connection stays open.\<close>

lemma unsupported_code:
  assumes "wf_heap st" and "heap st (payload args) = Some (b # bs)" and "func_of_code b = None"
  shows "client_handler os args st =
    Inr (st\<lparr>errlog := errlog st @ [''Unsupported function''], heap := (heap st)(payload args := None)\<rparr>)"
proof -
  have "payload args \<noteq> NULL" using wf_heap_live [OF assms(1,2)] by simp
  then show ?thesis
    using assms(2,3)
    by (simp add: client_handler_def load_live slice_def handle_case_def cleanup_def perr_def free_def)
qed

text \<open>An empty payload has no function code to read.\<close>

lemma empty_payload:
  assumes "heap st (payload args) = Some []"
  shows "client_handler os args st = Inl OutOfBounds"
  using assms by (simp add: client_handler_def load_live slice_def Let_def)

text \<open>A \<open>WRITE\<close> request that announces more bytes than it carries.\<close>

lemma write_overflow:
  assumes m: "alloc_ok os (length bs)" and wf: "wf_heap st"
    and p: "heap st p = Some (func_code WRITE # le32 fd @ bs @ le64 n)"
    and k: "k = of_nat (13 + length bs)" "length bs < 2 ^ 60" and n: "length bs < unat n"
  shows "handle_write os p k st = Inl OutOfBounds"
proof -
  have uk: "unat k = 13 + length bs"
    unfolding k(1) by (rule unat_of_nat64) (use k(2) in simp)
  have kb: "k - 13 = of_nat (length bs)" by (simp add: k(1))
  have ub: "unat (of_nat (length bs) :: size_t) = length bs" using k(2) by (simp add: unat_of_nat64)
  obtain old where "length old = length bs" and a: "malloc os (of_nat (length bs)) st =
      (hnext st, st\<lparr>heap := (heap st)(hnext st \<mapsto> old), hnext := Suc (hnext st)\<rparr>)"
    using malloc_ok [OF m, of "of_nat (length bs)" st] ub by auto
  let ?s = "st\<lparr>heap := (heap st)(hnext st \<mapsto> old), hnext := Suc (hnext st)\<rparr>"
  have ne: "hnext st \<noteq> p" "hnext st \<noteq> NULL" using wf_heap_live [OF wf p] by auto
  have "load p 1 4 st = Inr (le32 fd)" using p by (simp add: load_live slice_def)
  moreover have "load p (5 + length bs) 8 st = Inr (le64 n)"
    using p drop_exact [of "5 + length bs" "3 # le32 fd @ bs" "le64 n"]
    by (simp add: load_live slice_def)
  moreover have "ebind (load p 5 (unat n) ?s) (\<lambda>d. ebind (stores (hnext st) [(0, d)] ?s) h) = Inl OutOfBounds"
    for h :: "'a proc \<Rightarrow> 'b res"
    using p ne n \<open>length old = length bs\<close>
    by (auto simp: load_live slice_def stores_def block_def overwrite_def)
  moreover have "\<not> uint k < 8" using uk by (simp add: uint_nat)
  ultimately show ?thesis
    using uk kb a ne by (simp add: handle_write_def Let_def)
qed

text \<open>A request for which the server gets no memory ends the server.\<close>

lemma take_request_no_memory:
  assumes "fst (os_malloc os k (world st)) = None"
  shows "\<exists>st'. take_request os sk k st = Inr st' \<and> phase st' = Exited"
  using assms by (auto simp: take_request_def malloc_def split: prod.split)

section \<open>rename to the empty name\<close>

text \<open>\<open>strlen(new) - 1\<close> wraps, and \<open>memcpy\<close> is asked for all of memory.\<close>

lemma rename_empty:
  assumes wf: "wf_heap st" and "remote_path old"
    and m: "os_malloc os (8 + (strlen old - 1)) (world st) = (Some g, w)"
  shows "issue os ub (Rename old []) st = Inl OutOfBounds"
proof -
  have z: "strlen [] = 0" by (simp add: strlen_def)
  have n: "unat (- 1 :: size_t) = 2 ^ 64 - 1" by (simp add: unsigned_minus_1_eq_mask mask_eq_exp_minus_1)
  have "path_tail [] (- 1) = Inl OutOfBounds" unfolding path_tail_def n by (simp add: slice_def)
  then have "ebind (path_tail old (strlen old - 1)) (\<lambda>a. ebind (path_tail [] (- 1)) (F a)) =
      Inl OutOfBounds" for F :: "byte list \<Rightarrow> byte list \<Rightarrow> (nat \<times> byte list) list res"
    by (auto simp: path_tail_def slice_def)
  then show ?thesis
    using assms(2) m wf_heap_pos [OF wf]
    by (simp add: rename_stub_def Let_def z heap_call_def malloc_def lift_result_def)
qed

end
