(* ===== verification/Requests.thy ===== *)
theory Requests
  imports Faults
begin

text \<open>
  What a stub puts on the wire, over any kernel: an observer \<open>out\<close> of the world keeps
  the messages handed to \<open>send\<close>, and no other call of the connection layer changes it.
  Every remote call then hands over at most one message, the frame of its request, and a
  call that reports anything but failure has handed it over.
\<close>

definition observes :: "'w os \<Rightarrow> ('w \<Rightarrow> byte list list) \<Rightarrow> bool" where
  "observes os out \<longleftrightarrow>
     (\<forall>fd bs w. out (snd (os_send os fd bs w)) = out w @ [bs]) \<and>
     (\<forall>n w. out (snd (os_malloc os n w)) = out w) \<and>
     (\<forall>w. out (snd (os_socket os w)) = out w) \<and>
     (\<forall>fd w. out (snd (os_setsockopt os fd w)) = out w) \<and>
     (\<forall>fd p a w. out (snd (os_connect os fd p a w)) = out w) \<and>
     (\<forall>fd w. out (snd (f_close os fd w)) = out w) \<and>
     (\<forall>fd n w r w'. os_recv os fd n w = Some (r, w') \<longrightarrow> out w' = out w)"

lemma observesD:
  assumes "observes os out"
  shows "out (snd (os_send os fd bs w)) = out w @ [bs]" "out (snd (os_malloc os n w)) = out w"
    "out (snd (os_socket os w)) = out w" "out (snd (os_setsockopt os fd w)) = out w"
    "out (snd (os_connect os fd p a w)) = out w" "out (snd (f_close os fd w)) = out w"
    "os_recv os fd n w = Some (r, w') \<Longrightarrow> out w' = out w"
  using assms unfolding observes_def by blast+

text \<open>Behind \<open>ms\<close>, the message \<open>F\<close> or nothing; the message when \<open>ok\<close>.\<close>

definition posted :: "('w \<Rightarrow> byte list list) \<Rightarrow> byte list list \<Rightarrow> byte list \<Rightarrow> bool \<Rightarrow> 'w stubs \<Rightarrow> bool" where
  "posted out ms F ok st \<longleftrightarrow> out (world st) \<in> {ms, ms @ [F]} \<and> (ok \<longrightarrow> out (world st) = ms @ [F])"

lemma posted_True: "posted out ms F True st \<Longrightarrow> posted out ms F ok st"
  by (simp add: posted_def)

lemma posted_results:
  assumes "posted out ms F (r \<noteq> None) st"
  shows "posted out ms F (int_result r \<noteq> -1) st" "posted out ms F (long_result r \<noteq> -1) st"
    "holds (stat_result r ub) (\<lambda>x. posted out ms F (x \<noteq> (-1, ub)) st)"
  using assms by (cases r, simp_all add: posted_def int_result_def long_result_def stat_result_def holds_def)+

lemma posted_simps [simp]:
  "posted out ms F ok (perr what st) = posted out ms F ok st"
  "posted out ms F ok (st\<lparr>heap := h\<rparr>) = posted out ms F ok st"
  by (simp_all add: posted_def)

lemma free_posted: "posted out ms F ok st \<Longrightarrow> holds (free p st) (posted out ms F ok)"
  by (auto simp: free_def split: option.split)

lemma malloc_out: "observes os out \<Longrightarrow> malloc os n st = (p, s) \<Longrightarrow> out (world s) = out (world st)"
  using observesD(2) [of os out n "world st"] by (auto elim!: malloc_cases)

lemma connect_out:
  assumes "observes os out"
  shows "holds (connect_to_server os st) (\<lambda>(rc, st'). out (world st') = out (world st))"
  by (auto simp: connect_to_server_def Let_def sys_eq call_real_def observesD [OF assms]
      intro!: holdsI [of "lookup_endpoint _ _"] dest: lookup_endpoint_keeps)

lemma send_data_posts:
  assumes "observes os out" and "unat k = length F"
  shows "holds (send_data os F k st) (\<lambda>(rc, st'). posted out (out (world st)) F (0 \<le> sint rc) st')"
  unfolding send_data_def holds_ebind
  by (rule holds_mono [OF connect_out [OF assms(1)]])
     (auto simp: sys_eq Let_def posted_def call_real_def slice_all assms(2) observesD [OF assms(1)])

lemma recv_data_buf_out:
  assumes "observes os out"
  shows "holds (recv_data_buf os b k st) (\<lambda>(rc, b', st'). out (world st') = out (world st))"
  by (auto simp: recv_data_buf_def Let_def sys_eq call_real_def observesD(6) [OF assms]
      split: option.split dest: observesD(7) [OF assms])

lemma transact_posts:
  assumes "observes os out" and "unat k = length F"
  shows "holds (transact os F k n st) (\<lambda>(r, st'). posted out (out (world st)) F (r \<noteq> None) st')"
  unfolding transact_def holds_ebind
  by (rule holds_mono [OF send_data_posts [OF assms]])
     (auto simp: posted_def intro!: holds_mono [OF recv_data_buf_out [OF assms(1)]])

lemma heap_call_posts:
  assumes o: "observes os out" and m: "marshals k ws c"
  shows "holds (heap_call os k (Inr ws) n st)
    (\<lambda>(r, st'). posted out (out (world st)) (frame (payload_of c)) (r \<noteq> None) st')"
proof -
  let ?F = "frame (payload_of c)"
  obtain p s where a: "malloc os (8 + k) st = (p, s)" by fastforce
  have ws: "contiguous 0 ws" "concat (map snd ws) = ?F" "unat (8 + k) = length ?F"
    using m by (simp_all add: marshals_def)
  have b: "stores p ws s = Inr (s\<lparr>heap := (heap s)(p \<mapsto> ?F)\<rparr>)" if "p \<noteq> NULL"
    using a that ws by (cases rule: malloc_cases) (simp_all add: stores_def block_def writes_fill)
  have t: "holds (transact os ?F (8 + k) n (s\<lparr>heap := h\<rparr>))
      (\<lambda>(r, st'). posted out (out (world st)) ?F (r \<noteq> None) st')" for h
    using transact_posts [OF o ws(3), of n "s\<lparr>heap := h\<rparr>"] malloc_out [OF o a] by simp
  have u: "holds (ebind (transact os ?F (8 + k) n (s\<lparr>heap := h\<rparr>)) (\<lambda>(r, t). ebind (free p t) (\<lambda>t. Inr (r, t))))
      (\<lambda>(r, st'). posted out (out (world st)) ?F (r \<noteq> None) st')" for h
    unfolding holds_ebind by (rule holds_mono [OF t]) (auto dest: free_posted)
  have e: "posted out (out (world st)) ?F False s" using malloc_out [OF o a] by (simp add: posted_def)
  show ?thesis
    using a b u e by (auto simp: heap_call_def block_live simp del: holds_ebind)
qed

lemma read_answer_out:
  assumes o: "observes os out"
  shows "holds (read_answer os ub n st) (\<lambda>(r, st'). out (world st') = out (world st))"
proof -
  obtain p s where m: "malloc os (8 + n) st = (p, s)" by fastforce
  note s = malloc_out [OF o m]
  have f: "holds (free p t) (\<lambda>t'. out (world t') = out (world st))" if "out (world t) = out (world st)" for t
    using that by (auto simp: free_def split: option.split)
  have r: "holds (recv_data os p (8 + n) s) (\<lambda>(rc, t). out (world t) = out (world st))"
    using s by (auto simp: recv_data_def intro!: holdsI [of "block _ _"] holds_mono [OF recv_data_buf_out [OF o]])
  show ?thesis
    using m s by (auto simp: read_answer_def Let_def
        intro!: holds_mono [OF r] f holdsI [of "load _ _ _ _"] holdsI [of "overwrite _ _ _"])
qed

lemma issue_posts:
  assumes o: "observes os out" and r: "remote_call c" and a: "wf_args ub c"
  shows "holds (issue os ub c st)
    (\<lambda>(r, st'). posted out (out (world st)) (frame (payload_of (server_call c))) (r \<noteq> failure ub c) st')"
proof -
  note heap = heap_call_posts [OF o, where c = "server_call c" and st = "resolve f st" for f, unfolded resolve_fields]
  note array = transact_posts [OF o, where st = "resolve f st" for f, unfolded resolve_fields]
  note parts = holds_mono [OF heap] holds_mono [OF array]
  show ?thesis
  proof (cases c)
    case (Read fd n)
    have k: "unat (21 :: size_t) = length (frame (payload_of (Read fd n)))"
      by (simp add: frame_def payload_of_def)
    have "holds (read_answer os ub n s) (\<lambda>x. holds (case x of (r, s') \<Rightarrow> Inr (case r of (i, b) \<Rightarrow> RRead i b, s'))
        (\<lambda>(r, s'). posted out ms F (r \<noteq> RRead (-1) ub) s'))" if "posted out ms F True s" for ms F s
      by (rule holds_mono [OF read_answer_out [OF o]]) (use that in \<open>auto simp: posted_def\<close>)
    then show ?thesis
      using Read r
      by (auto simp: lift_result_def read_stub_def read_request Let_def simp del: writes.simps
          intro!: holds_mono [OF send_data_posts [OF o k, where st = "resolve READ st", unfolded resolve_fields]]
            intro: posted_True)
  next
    case (Open path oflag m)
    then show ?thesis using open_remote [OF Open r a, of os st]
      by (auto simp: lift_result_def intro!: parts simp: posted_results(1,2) simp del: not_None_eq)
  next
    case (Truncate path n)
    then show ?thesis using truncate_remote [OF Truncate r a, of os st]
      by (auto simp: lift_result_def intro!: parts simp: posted_results(1,2) simp del: not_None_eq)
  next
    case (Unlink path)
    then show ?thesis using unlink_remote [OF Unlink r a, of os st]
      by (auto simp: lift_result_def intro!: parts simp: posted_results(1,2) simp del: not_None_eq)
  next
    case (Rename old new)
    then show ?thesis using rename_remote [OF Rename r a, of os st]
      by (auto simp: lift_result_def intro!: parts simp: posted_results(1,2) simp del: not_None_eq)
  next
    case (Write fd bs)
    then show ?thesis using write_remote [OF Write r a, of os st]
      by (auto simp: lift_result_def intro!: parts simp: posted_results(1,2) simp del: not_None_eq)
  next
    case (Stat path)
    then show ?thesis using stat_remote [OF Stat r a, of os st]
      by (auto simp: lift_result_def intro!: parts elim!: holds_mono dest!: posted_results(3) [where ub = ub] simp del: not_None_eq)
  next
    case (Fstat fd)
    then show ?thesis using r
      by (auto simp: lift_result_def fstat_stub_def array_requests frame_def payload_of_def
          intro!: parts elim!: holds_mono dest!: posted_results(3) [where ub = ub] simp del: not_None_eq)
  qed (use r in \<open>auto simp: lift_result_def stub_defs array_requests frame_def payload_of_def
      intro!: parts simp: posted_results(1,2) simp del: not_None_eq\<close>)
qed

end
