(* ===== verification/Sockets.thy ===== *)
theory Sockets
  imports Stubs_Correct
begin

text \<open>
  What becomes of the socket a stub opens.  Every exit of the connection layer closes it,
  so a remote call that returns leaves none open, with one exception: \<open>read\<close> gives up
  between sending and receiving when it gets no memory for the response.
\<close>

text \<open>The last thing done to the world was to close the stubs' socket, or there is none.\<close>

definition released :: "'w os \<Rightarrow> 'w stubs \<Rightarrow> bool" where
  "released os st \<longleftrightarrow> sint (sock st) < 0 \<or> (\<exists>w. world st = snd (f_close os (sock st) w))"

text \<open>A call that began in \<open>w\<close> either has released its socket or got no memory before it
  opened one.\<close>

definition settled :: "'w os \<Rightarrow> 'w \<Rightarrow> 'w stubs \<Rightarrow> bool" where
  "settled os w st \<longleftrightarrow> released os st \<or> (\<exists>k. os_malloc os k w = (None, world st))"

lemma released_heap [simp]: "released os (st\<lparr>heap := h\<rparr>) = released os st"
  and settled_heap [simp]: "settled os w (st\<lparr>heap := h\<rparr>) = settled os w st"
  by (simp_all add: released_def settled_def)

lemma released_perr [simp]: "released os (perr what st) = released os st"
  by (simp add: released_def)

lemma close_released:
  assumes "sk = sock st"
  shows "holds (call_real CLOSE (f_close os sk) st) (\<lambda>(rc, st'). released os st')"
  using assms by (auto simp: call_real_def sys_eq released_def)

lemma connect_released:
  "holds (connect_to_server os st) (\<lambda>(rc, st'). rc = 0 \<or> released os st')"
  by (auto simp: connect_to_server_def Let_def sys_eq released_def call_real_def
      intro!: holdsI [of "lookup_endpoint _ _"])

lemma send_data_released:
  "holds (send_data os buf k st) (\<lambda>(rc, st'). rc = 0 \<or> released os st')"
  unfolding send_data_def holds_ebind
  by (rule holds_mono [OF connect_released])
     (auto simp: sys_eq Let_def released_def call_real_def intro!: holdsI [of "slice _ _ _"])

lemma recv_data_buf_released:
  "holds (recv_data_buf os buf k st) (\<lambda>(rc, buf', st'). released os st')"
  by (auto simp: recv_data_buf_def Let_def sys_eq split: option.split
      intro!: holds_mono [OF close_released])

lemma transact_released:
  "holds (transact os req k n st) (\<lambda>(r, st'). released os st')"
  unfolding transact_def holds_ebind
  by (rule holds_mono [OF send_data_released])
     (auto intro!: holds_mono [OF recv_data_buf_released])

lemma free_settled: "settled os w st \<Longrightarrow> holds (free p st) (settled os w)"
  by (auto simp: free_def split: option.split)

lemma settled_perr [simp]: "settled os w (perr what st) = settled os w st"
  by (simp add: settled_def)

lemma heap_call_settled:
  assumes wf: "wf_heap st"
  shows "holds (heap_call os k ws n st) (\<lambda>(r, st'). settled os (world st) st')"
proof -
  obtain p s where m: "malloc os (8 + k) st = (p, s)" by fastforce
  have f: "p = NULL \<Longrightarrow> settled os (world st) s"
    using m wf_heap_pos [OF wf] by (cases rule: malloc_cases) (auto simp: settled_def)
  have t: "holds (ebind (transact os req (8 + k) n s') (\<lambda>(r, st'). ebind (free p st') (\<lambda>st'. Inr (r, st'))))
      (\<lambda>(r, st'). settled os (world st) st')" for req s'
    unfolding holds_ebind
    by (rule holds_mono [OF transact_released])
       (auto intro!: holds_mono [OF free_settled [of os "world st"]] simp: settled_def)
  show ?thesis
    using m f t
    by (auto simp: heap_call_def simp del: holds_ebind)
       (auto intro!: holdsI [of ws] holdsI [of "stores _ _ _"] holdsI [of "block _ _"])
qed

lemma stack_call_settled:
  "holds (stack_call os k ws n st) (\<lambda>(r, st'). settled os w st')"
  by (auto simp: stack_call_def settled_def intro!: holdsI [of "writes _ _"] holds_mono [OF transact_released])

lemma issue_settled:
  assumes wf: "wf_heap st" and r: "remote_call c" and c: "\<And>fd n. c \<noteq> Read fd n"
  shows "holds (issue os ub c st) (\<lambda>(r, st'). settled os (world st) st')"
proof -
  have heap: "holds (heap_call os k ws n (resolve f st)) (\<lambda>(r, st'). settled os (world st) st')" for k ws n f
    using heap_call_settled [of "resolve f st" os k ws n] wf by simp
  note parts = holds_mono [OF heap] holds_mono [OF stack_call_settled]
  show ?thesis
    using r c
    by (cases c)
       (auto simp: lift_result_def stub_defs Let_def intro!: parts holdsI [of "stat_result _ _"]
         split: option.split)
qed

text \<open>\<open>read\<close> without memory for the response: the world after the request was sent is
  left as it is, the socket still open.\<close>

lemma read_answer_no_memory:
  assumes "os_malloc os (8 + nbyte) (world st) = (None, w)"
  shows "read_answer os ub nbyte st = Inr ((-1, ub), (perr ''malloc'' st)\<lparr>world := w\<rparr>)"
  using assms by (simp add: read_answer_def malloc_def perr_def)

text \<open>Once the request is out, this is all \<open>read\<close> does.\<close>

lemma read_no_memory:
  assumes "is_remote_fd fd" and "send_data os (frame (payload_of (Read fd n))) 21 (resolve READ st) = Inr (0, s)"
    and "os_malloc os (8 + n) (world s) = (None, w)"
  shows "issue os ub (Read fd n) st = Inr (RRead (-1) ub, (perr ''malloc'' s)\<lparr>world := w\<rparr>)"
  using assms read_answer_no_memory [OF assms(3)]
  by (simp add: read_stub_def read_request lift_result_def Let_def del: writes.simps)

section \<open>Answers that stop short\<close>

text \<open>How much of a response has arrived is not looked at: what is missing is taken from
  the array as it happened to be.\<close>

lemma transact_cut_off:
  assumes "send_data os req k st = Inr (0, s)" and n: "n < 2 ^ 64"
    and "os_recv os (sock s) (of_nat n) (world s) = Some ((got, bs), w)" and "0 \<le> sint got"
    and "f_close os (sock s) w = (rc, w')" and "0 \<le> sint rc"
  shows "transact os req k n st =
    Inr (Some (put_prefix (take n bs) (stack_array os n s)), s\<lparr>world := w'\<rparr>)"
  using assms send_data_keeps [OF assms(1)]
  by (simp add: transact_def recv_data_buf_def unat_of_nat64 [OF n] call_real_def sys_eq)

lemma fsync_cut_off:
  assumes "is_remote_fd fd" and "send_data os (frame (payload_of (Fsync fd))) 13 (resolve FSYNC st) = Inr (0, s)"
    and "os_recv os (sock s) 4 (world s) = Some ((got, bs), w)" and "0 \<le> sint got"
    and "f_close os (sock s) w = (rc, w')" and "0 \<le> sint rc"
  shows "issue os ub (Fsync fd) st =
    Inr (RInt (ld32 (put_prefix (take 4 bs) (stack_array os 4 s))), s\<lparr>world := w'\<rparr>)"
  using assms transact_cut_off [OF assms(2) _ _ assms(4-6), of 4 bs]
  by (simp add: fsync_stub_def array_requests lift_result_def int_result_def)

end
