(* ===== verification/Sd_Bus.thy ===== *)
theory Sd_Bus
  imports Prelude
begin

text \<open>
  \<open>c/sd_bus_server.c\<close>: the method \<open>Multiply\<close> and the event loop of a D-Bus
  service.  The functions of libsystemd are the fields of a record, a parameter over
  arbitrary types of buses, messages and worlds.
\<close>

text \<open>An entry of a table of methods: the name, the types of the arguments and of the result, and
  the function that serves a call.\<close>

record ('m, 'w) vtable_method =
  vt_member :: cstr
  vt_signature :: cstr
  vt_result :: cstr
  vt_handler :: "'m \<Rightarrow> 'w \<Rightarrow> (cint \<times> 'w) res"

record ('b, 'm, 'w) sdbus =
  sd_open_user :: "'w \<Rightarrow> (cint \<times> 'b) \<times> 'w"
  sd_add_object_vtable :: "'b \<Rightarrow> cstr \<Rightarrow> cstr \<Rightarrow> ('m, 'w) vtable_method list \<Rightarrow> 'w \<Rightarrow> cint \<times> 'w"
  sd_request_name :: "'b \<Rightarrow> cstr \<Rightarrow> 'w \<Rightarrow> cint \<times> 'w"
  sd_process :: "'b \<Rightarrow> 'w \<Rightarrow> cint \<times> 'w"
  sd_wait :: "'b \<Rightarrow> 'w \<Rightarrow> cint \<times> 'w"
  sd_read_xx :: "'m \<Rightarrow> 'w \<Rightarrow> (cint \<times> 64 word \<times> 64 word) \<times> 'w"
  sd_reply_x :: "'m \<Rightarrow> 64 word \<Rightarrow> 'w \<Rightarrow> cint \<times> 'w"
  sd_unref :: "'b option \<Rightarrow> 'w \<Rightarrow> 'w"

text \<open>The object path, and the name that is both the service's and the interface's.\<close>

definition OBJECT_PATH :: cstr where
  "OBJECT_PATH = cstring ''/com/example/MySimpleCalculator''"

definition SERVICE_NAME :: cstr where
  "SERVICE_NAME = cstring ''com.example.MySimpleCalculator''"

text \<open>\<open>a * b\<close> on \<open>int64_t\<close>.\<close>

definition int64_mul :: "64 word \<Rightarrow> 64 word \<Rightarrow> (64 word) res" where
  "int64_mul a b =
     (if sint a * sint b \<in> {- (2 ^ 63) ..< 2 ^ 63} then Inr (a * b) else Inl SignedOverflow)"

definition method_multiply :: "('b, 'm, 'w, 'z) sdbus_scheme \<Rightarrow> 'm \<Rightarrow> 'w \<Rightarrow> (cint \<times> 'w) res" where
  "method_multiply lib m w =
     (let ((r, a, b), w) = sd_read_xx lib m w in
      if sint r < 0 then Inr (r, w)
      else ebind (int64_mul a b) (\<lambda>p. Inr (sd_reply_x lib m p w)))"

definition MULTIPLY :: cstr where "MULTIPLY = cstring ''Multiply''"

definition my_vtable :: "('b, 'm, 'w, 'z) sdbus_scheme \<Rightarrow> ('m, 'w) vtable_method list" where
  "my_vtable lib =
     [\<lparr>vt_member = MULTIPLY, vt_signature = cstring ''xx'', vt_result = cstring ''x'',
       vt_handler = method_multiply lib\<rparr>]"

text \<open>The loop \<open>for (;;)\<close>; \<open>None\<close> when it runs for ever.\<close>

partial_function (option) event_loop :: "('b, 'm, 'w, 'z) sdbus_scheme \<Rightarrow> 'b \<Rightarrow> 'w \<Rightarrow> (cint \<times> 'w) option" where
  "event_loop lib bus w =
     (if sint (fst (sd_process lib bus w)) < 0 then Some (sd_process lib bus w)
      else if 0 < sint (fst (sd_process lib bus w)) then event_loop lib bus (snd (sd_process lib bus w))
      else
        let w = snd (sd_process lib bus w) in
        if sint (fst (sd_wait lib bus w)) < 0 then Some (sd_wait lib bus w)
        else event_loop lib bus (snd (sd_wait lib bus w)))"

definition EXIT_SUCCESS :: cint where "EXIT_SUCCESS = 0"
definition EXIT_FAILURE :: cint where "EXIT_FAILURE = 1"

definition exit_status :: "cint \<Rightarrow> cint" where
  "exit_status r = (if sint r < 0 then EXIT_FAILURE else EXIT_SUCCESS)"

text \<open>The three calls before the loop: the bus to serve, or the error and the bus as it is
  at the label \<open>finish\<close>.\<close>

definition sd_server_start ::
  "('b, 'm, 'w, 'z) sdbus_scheme \<Rightarrow> 'w \<Rightarrow> ((cint \<times> 'b option) + 'b) \<times> 'w" where
  "sd_server_start lib w =
     (let ((r, bus), w) = sd_open_user lib w in
      if sint r < 0 then (Inl (r, None), w)
      else let (r, w) = sd_add_object_vtable lib bus OBJECT_PATH SERVICE_NAME (my_vtable lib) w in
      if sint r < 0 then (Inl (r, Some bus), w)
      else let (r, w) = sd_request_name lib bus SERVICE_NAME w in
      if sint r < 0 then (Inl (r, Some bus), w) else (Inr bus, w))"

definition sd_server_main :: "('b, 'm, 'w, 'z) sdbus_scheme \<Rightarrow> 'w \<Rightarrow> (cint \<times> 'w) option" where
  "sd_server_main lib w =
     (case sd_server_start lib w of
        (Inl (r, bus), w) \<Rightarrow> Some (exit_status r, sd_unref lib bus w)
      | (Inr bus, w) \<Rightarrow>
          map_option (\<lambda>(r, w). (exit_status r, sd_unref lib (Some bus) w)) (event_loop lib bus w))"

lemma sint_int64_mul:
  assumes "int64_mul a b = Inr p"
  shows "sint p = sint a * sint b"
proof -
  have p: "p = a * b" and r: "- (2 ^ 63) \<le> sint a * sint b" "sint a * sint b < 2 ^ 63"
    using assms by (auto simp: int64_mul_def split: if_splits)
  have "sint (a * b) = signed_take_bit 63 (sint a * sint b)"
    by (simp add: sint_word_ariths)
  then show ?thesis using p r by (simp add: signed_take_bit_int_eq_self)
qed

lemma sd_server_start_fails:
  "sd_server_start lib w = (Inl (r, bus), w') \<Longrightarrow> sint r < 0"
  by (auto simp: sd_server_start_def Let_def split: prod.splits if_splits)

text \<open>The loop is left only through an error.\<close>

lemma event_loop_negative:
  assumes "event_loop lib bus w = Some (r, w')"
  shows "sint r < 0"
proof -
  have "sint (fst (r, w')) < 0"
    by (rule event_loop.raw_induct [where P = "\<lambda>lib bus w y. sint (fst y) < 0", OF _ assms])
       (auto simp: Let_def split: if_splits)
  then show ?thesis by simp
qed

end
