(* ===== verification/Sd_Client.thy ===== *)
theory Sd_Client
  imports Sd_Bus "HOL-Library.Multiset"
begin

text \<open>
  \<open>c/sd_bus_client.c\<close>: the program that calls \<open>Multiply\<close> over D-Bus.  Over any
  libsystemd, it prints what the answer holds exactly when it reports success, and it gives
  back every reference it got.
\<close>

section \<open>The program\<close>

text \<open>The functions of libsystemd only the client calls.  A null message is \<open>None\<close>.\<close>

record ('b, 'm, 'w) sdbus_client = "('b, 'm, 'w) sdbus" +
  sd_call_method :: "'b \<Rightarrow> cstr \<Rightarrow> cstr \<Rightarrow> cstr \<Rightarrow> cstr \<Rightarrow> 64 word \<Rightarrow> 64 word \<Rightarrow> 'w \<Rightarrow>
    (cint \<times> 'm option) \<times> 'w"
  sd_read_x :: "'m option \<Rightarrow> 'w \<Rightarrow> (cint \<times> 64 word) \<times> 'w"
  sd_error_free :: "'w \<Rightarrow> 'w"
  sd_message_unref :: "'m option \<Rightarrow> 'w \<Rightarrow> 'w"

text \<open>The label \<open>finish\<close>.\<close>

definition sd_client_finish ::
  "('b, 'm, 'w) sdbus_client \<Rightarrow> 'b option \<Rightarrow> 'm option \<Rightarrow> cint \<Rightarrow> 'w \<Rightarrow> cint \<times> 'w" where
  "sd_client_finish lib bus m r w =
     (exit_status r, sd_unref lib bus (sd_message_unref lib m (sd_error_free lib w)))"

text \<open>The value printed, if any, with the exit status.\<close>

definition sd_client_main ::
  "('b, 'm, 'w) sdbus_client \<Rightarrow> 'w \<Rightarrow> 64 word option \<times> cint \<times> 'w" where
  "sd_client_main lib w =
     (let ((r, bus), w) = sd_open_user lib w in
      if sint r < 0 then (None, sd_client_finish lib None None r w)
      else let ((r, m), w) = sd_call_method lib bus SERVICE_NAME OBJECT_PATH SERVICE_NAME MULTIPLY 6 7 w in
      if sint r < 0 then (None, sd_client_finish lib (Some bus) m r w)
      else let ((r, result), w) = sd_read_x lib m w in
      if sint r < 0 then (None, sd_client_finish lib (Some bus) m r w)
      else (Some result, sd_client_finish lib (Some bus) m r w))"

text \<open>A result is printed exactly when the program reports success, and it is what the answer to
  its call of \<open>Multiply\<close> holds.\<close>

lemma exit_status_success: "exit_status r = EXIT_SUCCESS \<longleftrightarrow> 0 \<le> sint r"
  by (simp add: exit_status_def EXIT_SUCCESS_def EXIT_FAILURE_def not_less)

lemma sd_client_reports:
  assumes "sd_client_main lib w = (printed, status, w')"
  shows "status = EXIT_SUCCESS \<longleftrightarrow> printed \<noteq> None"
    and "printed = Some v \<Longrightarrow> \<exists>bus r m w1 w2.
      sd_call_method lib bus SERVICE_NAME OBJECT_PATH SERVICE_NAME MULTIPLY 6 7 w1 = ((r, m), w2) \<and>
      0 \<le> sint r \<and> v = snd (fst (sd_read_x lib m w2))"
  using assms
  by (auto simp: sd_client_main_def sd_client_finish_def Let_def exit_status_success not_less
      split: prod.splits if_splits) force

section \<open>References\<close>

text \<open>What a variable holds that may be a null pointer.\<close>

definition held :: "('a \<Rightarrow> 'r) \<Rightarrow> 'a option \<Rightarrow> 'r multiset" where
  "held f x = (case x of None \<Rightarrow> {#} | Some y \<Rightarrow> {#f y#})"

lemma held_simps [simp]: "held f None = {#}" "held f (Some y) = {#f y#}"
  by (simp_all add: held_def)

text \<open>\<open>refs\<close> counts the references to buses and messages the process holds: opening a bus
  gives one, a call may give one to its answer, each \<open>unref\<close> takes the one it is given, and
  no other call changes them.\<close>

definition counts ::
  "('b, 'm, 'w) sdbus_client \<Rightarrow> ('w \<Rightarrow> ('b + 'm) multiset) \<Rightarrow> bool" where
  "counts lib refs \<longleftrightarrow>
     (\<forall>w r bus w'. sd_open_user lib w = ((r, bus), w') \<longrightarrow>
        refs w' = refs w + held Inl (if sint r < 0 then None else Some bus)) \<and>
     (\<forall>bus s p i f a b w r m w'. sd_call_method lib bus s p i f a b w = ((r, m), w') \<longrightarrow>
        refs w' = refs w + held Inr m) \<and>
     (\<forall>m w. refs (snd (sd_read_x lib m w)) = refs w) \<and>
     (\<forall>w. refs (sd_error_free lib w) = refs w) \<and>
     (\<forall>m w. refs (sd_message_unref lib m w) = refs w - held Inr m) \<and>
     (\<forall>bus w. refs (sd_unref lib bus w) = refs w - held Inl bus)"

lemma countsD:
  assumes "counts lib refs"
  shows "sd_open_user lib w = ((r, bus), w') \<Longrightarrow> refs w' = refs w + held Inl (if sint r < 0 then None else Some bus)"
    "sd_call_method lib bus s p i f a b w = ((r, m), w') \<Longrightarrow>
       refs w' = refs w + held Inr m"
    "refs (snd (sd_read_x lib m w)) = refs w" "refs (sd_error_free lib w) = refs w"
    "refs (sd_message_unref lib m w) = refs w - held Inr m"
    "refs (sd_unref lib obus w) = refs w - held Inl obus"
  using assms by (simp_all add: counts_def)

text \<open>The label \<open>finish\<close> gives back what the two variables hold.\<close>

lemma finish_refs:
  assumes "counts lib refs" and "sd_client_finish lib bus m r w = (status, w')"
  shows "refs w' = refs w - held Inr m -
    held Inl bus"
  using assms(2) by (auto simp: sd_client_finish_def countsD [OF assms(1)])

lemma sd_client_refs:
  assumes c: "counts lib refs" and r: "sd_client_main lib w = (printed, status, w')"
  shows "refs w' = refs w"
proof -
  obtain r bus w1 where o: "sd_open_user lib w = ((r, bus), w1)" by (metis prod.collapse)
  obtain r' m w2 where k: "sd_call_method lib bus SERVICE_NAME OBJECT_PATH SERVICE_NAME MULTIPLY 6 7 w1 =
      ((r', m), w2)"
    by (metis prod.collapse)
  have x: "refs (snd (sd_read_x lib m w2)) = refs w2" by (rule countsD(3) [OF c])
  note refs = countsD(1) [OF c o] countsD(2) [OF c k] x
  show ?thesis
    using r o k refs
    by (auto simp: sd_client_main_def Let_def split: prod.splits if_splits
        dest!: finish_refs [OF c])
qed

end
