(* ===== verification/Win_Hook.thy ===== *)
theory Win_Hook
  imports Prelude
begin

text \<open>
  \<open>c/winshim.c\<close>: \<open>HookIAT\<close> walks the import address table of the module it is
  loaded into and redirects one function of \<open>KERNEL32.dll\<close>; \<open>DllMain\<close> calls it
  when the library is attached, and \<open>HookedCreateFileA\<close> is what the redirected entry
  leads to.  The table is the list of import descriptors up to the one whose name is zero,
  each with its thunks up to the zero one.  What the Win32 calls return is a parameter.
\<close>

type_synonym fptr = nat

record import_desc =
  desc_name :: cstr
  first_thunk :: "fptr list"

text \<open>The process as far as the hook sees it: the table, the protection of each entry by
  descriptor and position, and the static \<open>originalCreateFileA\<close>.\<close>

record image =
  imports_of :: "import_desc list"
  protection :: "nat \<Rightarrow> nat \<Rightarrow> nat"
  originalCreateFileA :: fptr

definition KERNEL32 :: cstr where "KERNEL32 = cstring ''KERNEL32.dll''"

definition PAGE_EXECUTE_READWRITE :: nat where "PAGE_EXECUTE_READWRITE = 0x40"

text \<open>\<open>VirtualProtect(entry, ..., new, &oldProtect)\<close> is a parameter that returns the
  value stored into \<open>oldProtect\<close>; as documented, it sets the protection of the entry
  and hands out the one it had.\<close>

type_synonym protect = "nat \<Rightarrow> nat \<Rightarrow> nat \<Rightarrow> image \<Rightarrow> nat \<times> image"

definition protects :: "protect \<Rightarrow> bool" where
  "protects vp \<longleftrightarrow>
     (\<forall>i j new im. vp i j new im =
        (protection im i j,
         im\<lparr>protection := (protection im)(i := (protection im i)(j := new))\<rparr>))"

text \<open>\<open>*pFunction = ...\<close>.\<close>

definition set_thunk :: "nat \<Rightarrow> nat \<Rightarrow> fptr \<Rightarrow> image \<Rightarrow> image" where
  "set_thunk i j f im =
     (let d = imports_of im ! i in
      im\<lparr>imports_of := (imports_of im)[i := d\<lparr>first_thunk := (first_thunk d)[j := f]\<rparr>]\<rparr>)"

text \<open>Lines 41 to 44, on entry \<open>j\<close> of descriptor \<open>i\<close>, which holds \<open>f\<close>.\<close>

definition patch :: "protect \<Rightarrow> nat \<Rightarrow> nat \<Rightarrow> fptr \<Rightarrow> fptr \<Rightarrow> image \<Rightarrow> image" where
  "patch vp i j f hookFunction im =
     (let (oldProtect, im) = vp i j PAGE_EXECUTE_READWRITE im;
          im = im\<lparr>originalCreateFileA := f\<rparr>;
          im = set_thunk i j hookFunction im;
          (oldProtect, im) = vp i j oldProtect im
      in im)"

text \<open>The inner loop, from entry \<open>j\<close> on; \<open>None\<close> when it ends without a match.\<close>

fun hook_thunks :: "protect \<Rightarrow> nat \<Rightarrow> nat \<Rightarrow> fptr \<Rightarrow> fptr \<Rightarrow> fptr list \<Rightarrow> image \<Rightarrow> image option" where
  "hook_thunks vp i j target hookFunction [] im = None"
| "hook_thunks vp i j target hookFunction (f # fs) im =
     (if f = 0 then None
      else if f = target then Some (patch vp i j f hookFunction im)
      else hook_thunks vp i (Suc j) target hookFunction fs im)"

text \<open>The outer loop, from descriptor \<open>i\<close> on.\<close>

fun hook_descs :: "protect \<Rightarrow> nat \<Rightarrow> fptr \<Rightarrow> fptr \<Rightarrow> import_desc list \<Rightarrow> image \<Rightarrow> image" where
  "hook_descs vp i target hookFunction [] im = im"
| "hook_descs vp i target hookFunction (d # ds) im =
     (if desc_name d = KERNEL32 then
        (case hook_thunks vp i 0 target hookFunction (first_thunk d) im of
           Some im' \<Rightarrow> im'
         | None \<Rightarrow> hook_descs vp (Suc i) target hookFunction ds im)
      else hook_descs vp (Suc i) target hookFunction ds im)"

text \<open>\<open>gp lib name\<close> is what \<open>GetProcAddress(GetModuleHandleA(lib), name)\<close> returns.\<close>

type_synonym addresses = "cstr \<Rightarrow> cstr \<Rightarrow> fptr"

definition HookIAT :: "protect \<Rightarrow> addresses \<Rightarrow> cstr \<Rightarrow> fptr \<Rightarrow> image \<Rightarrow> image" where
  "HookIAT vp gp targetFunction hookFunction im =
     hook_descs vp 0 (gp KERNEL32 targetFunction) hookFunction (imports_of im) im"

definition DLL_PROCESS_ATTACH :: nat where "DLL_PROCESS_ATTACH = 1"

text \<open>\<open>hookedCreateFileA\<close> is the address of \<open>HookedCreateFileA\<close>.\<close>

definition DllMain :: "protect \<Rightarrow> addresses \<Rightarrow> nat \<Rightarrow> fptr \<Rightarrow> image \<Rightarrow> bool \<times> image" where
  "DllMain vp gp dwReason hookedCreateFileA im =
     (True,
      if dwReason = DLL_PROCESS_ATTACH
      then HookIAT vp gp (cstring ''CreateFileA'') hookedCreateFileA im else im)"

text \<open>A call of \<open>HookedCreateFileA\<close>: a line, then the call through the saved pointer;
  \<open>invoke f args\<close> is what the function at \<open>f\<close> does.\<close>

definition HookedCreateFileA ::
  "(cstr \<Rightarrow> 'w \<Rightarrow> cint \<times> 'w) \<Rightarrow> (fptr \<Rightarrow> 'a \<Rightarrow> 'w \<Rightarrow> 'r \<times> 'w) \<Rightarrow> image \<Rightarrow> 'a \<Rightarrow> 'w \<Rightarrow> ('r \<times> 'w) res" where
  "HookedCreateFileA puts invoke im args w =
     (let (_, w) = puts (cstring ''Hooked CreateFileA!'') w in
      if originalCreateFileA im = 0 then Inl NullCall
      else Inr (invoke (originalCreateFileA im) args w))"

section \<open>What the hook changes\<close>

text \<open>The entry the two loops stop at: the first thunk of a \<open>KERNEL32.dll\<close> descriptor
  that equals the target, before a zero one.\<close>

fun thunk_at :: "fptr \<Rightarrow> fptr list \<Rightarrow> nat option" where
  "thunk_at target [] = None"
| "thunk_at target (f # fs) =
     (if f = 0 then None else if f = target then Some 0 else map_option Suc (thunk_at target fs))"

fun entry_at :: "fptr \<Rightarrow> import_desc list \<Rightarrow> (nat \<times> nat) option" where
  "entry_at target [] = None"
| "entry_at target (d # ds) =
     (case (if desc_name d = KERNEL32 then thunk_at target (first_thunk d) else None) of
        Some j \<Rightarrow> Some (0, j)
      | None \<Rightarrow> map_option (\<lambda>(i, j). (Suc i, j)) (entry_at target ds))"

lemma hook_thunks_thunk_at:
  "hook_thunks vp i j target h fs im =
     map_option (\<lambda>k. patch vp i (j + k) target h im) (thunk_at target fs)"
  by (induction fs arbitrary: j) (auto simp: option.map_comp comp_def)

lemma hook_descs_entry_at:
  "hook_descs vp i target h ds im =
     (case entry_at target ds of None \<Rightarrow> im | Some (k, j) \<Rightarrow> patch vp (i + k) j target h im)"
  by (induction ds arbitrary: i) (auto simp: hook_thunks_thunk_at split: option.split)

lemma patch_eq:
  "protects vp \<Longrightarrow> patch vp i j f h im = set_thunk i j h (im\<lparr>originalCreateFileA := f\<rparr>)"
  by (simp add: patch_def protects_def set_thunk_def Let_def fun_eq_iff)

lemma HookIAT_eq:
  assumes "protects vp"
  shows "HookIAT vp gp f h im =
     (case entry_at (gp KERNEL32 f) (imports_of im) of
        None \<Rightarrow> im
      | Some (i, j) \<Rightarrow> set_thunk i j h (im\<lparr>originalCreateFileA := gp KERNEL32 f\<rparr>))"
  by (simp add: HookIAT_def hook_descs_entry_at patch_eq [OF assms] split: option.split)

lemma thunk_at_Some:
  "thunk_at target fs = Some j \<Longrightarrow> j < length fs \<and> fs ! j = target \<and> target \<noteq> 0"
  by (induction fs arbitrary: j) (auto split: if_splits)

lemma entry_at_Some:
  assumes "entry_at target ds = Some (i, j)"
  shows "i < length ds \<and> desc_name (ds ! i) = KERNEL32 \<and> j < length (first_thunk (ds ! i)) \<and>
    first_thunk (ds ! i) ! j = target \<and> target \<noteq> 0"
  using assms
  by (induction ds arbitrary: i)
     (auto split: option.splits if_splits dest!: thunk_at_Some)

text \<open>The entry of the import table through which a program calls.\<close>

definition imported :: "image \<Rightarrow> nat \<Rightarrow> nat \<Rightarrow> fptr" where
  "imported im i j = first_thunk (imports_of im ! i) ! j"

lemma DllMain_hooks:
  assumes "protects vp" and "entry_at (gp KERNEL32 (cstring ''CreateFileA'')) (imports_of im) = Some (i, j)"
    and im': "im' = snd (DllMain vp gp DLL_PROCESS_ATTACH h im)"
  shows "imported im' i j = h" "originalCreateFileA im' = gp KERNEL32 (cstring ''CreateFileA'')"
    "originalCreateFileA im' \<noteq> 0" "protection im' = protection im"
  using assms(2) entry_at_Some [OF assms(2)]
  by (simp_all add: im' DllMain_def HookIAT_eq [OF assms(1)] set_thunk_def imported_def Let_def)

end
