(* ===== verification/Win_Inject.thy ===== *)
theory Win_Inject
  imports Win_Hook
begin

text \<open>
  \<open>c/dll_injector.c\<close>: the program that starts \<open>local.exe\<close> suspended, makes it load
  \<open>winshim.dll\<close> through a remote thread on \<open>LoadLibraryA\<close>, and lets it go.  The
  Win32 functions are the fields of a record.  The locale \<open>loader\<close> states what they
  are documented to do to a child process, when they succeed and when they fail; what
  became of an injection is read off the results of the calls (\<open>injection\<close>).
\<close>

section \<open>The program\<close>

type_synonym handle = nat

text \<open>\<open>CreateProcessA\<close> returns success and the two handles of \<open>pi\<close>; waiting without
  a limit is \<open>None\<close> when the object is never signalled.  \<open>GetProcAddress\<close> stands for
  itself on \<open>GetModuleHandleA\<close> of its first argument.\<close>

record 'w winproc =
  CreateProcessA :: "cstr \<Rightarrow> 'w \<Rightarrow> (bool \<times> handle \<times> handle) \<times> 'w"
  VirtualAllocEx :: "handle \<Rightarrow> nat \<Rightarrow> 'w \<Rightarrow> ptr \<times> 'w"
  WriteProcessMemory :: "handle \<Rightarrow> ptr \<Rightarrow> byte list \<Rightarrow> 'w \<Rightarrow> bool \<times> 'w"
  GetProcAddress :: "cstr \<Rightarrow> cstr \<Rightarrow> 'w \<Rightarrow> fptr"
  CreateRemoteThread :: "handle \<Rightarrow> fptr \<Rightarrow> ptr \<Rightarrow> 'w \<Rightarrow> handle \<times> 'w"
  WaitForSingleObject :: "handle \<Rightarrow> 'w \<Rightarrow> 'w option"
  CloseHandle :: "handle \<Rightarrow> 'w \<Rightarrow> 'w"
  VirtualFreeEx :: "handle \<Rightarrow> ptr \<Rightarrow> 'w \<Rightarrow> 'w"
  ResumeThread :: "handle \<Rightarrow> 'w \<Rightarrow> 'w"
  win_puts :: "cstr \<Rightarrow> 'w \<Rightarrow> 'w"

definition InjectDLL :: "'w winproc \<Rightarrow> handle \<Rightarrow> cstr \<Rightarrow> 'w \<Rightarrow> 'w res" where
  "InjectDLL api hProcess dllPath w =
     (let (remoteMemory, w) = VirtualAllocEx api hProcess (length dllPath + 1) w in
      if remoteMemory = NULL then Inr (win_puts api (cstring ''VirtualAllocEx failed'') w)
      else
        let (_, w) = WriteProcessMemory api hProcess remoteMemory (dllPath @ [0]) w;
            pLoadLibrary = GetProcAddress api KERNEL32 (cstring ''LoadLibraryA'') w;
            (hThread, w) = CreateRemoteThread api hProcess pLoadLibrary remoteMemory w in
        if hThread = 0 then
          Inr (VirtualFreeEx api hProcess remoteMemory
                (win_puts api (cstring ''CreateRemoteThread failed'') w))
        else
          case WaitForSingleObject api hThread w of
            None \<Rightarrow> Inl Hang
          | Some w \<Rightarrow> Inr (VirtualFreeEx api hProcess remoteMemory (CloseHandle api hThread w)))"

definition winshim_dll :: cstr where "winshim_dll = cstring ''winshim.dll''"

definition injector_main :: "'w winproc \<Rightarrow> 'w \<Rightarrow> (cint \<times> 'w) res" where
  "injector_main api w =
     (let ((ok, hProcess, hThread), w) = CreateProcessA api (cstring ''local.exe'') w in
      if \<not> ok then Inr (1, win_puts api (cstring ''CreateProcess failed'') w)
      else ebind (InjectDLL api hProcess winshim_dll w) (\<lambda>w.
        Inr (0, CloseHandle api hThread (CloseHandle api hProcess (ResumeThread api hThread w)))))"

text \<open>Whatever fails, the last thing done with the memory of the child is to free it.\<close>

lemma InjectDLL_frees:
  assumes "InjectDLL api h path w = Inr w'" and "VirtualAllocEx api h (length path + 1) w = (p, w0)"
  shows "p = NULL \<and> w' = win_puts api (cstring ''VirtualAllocEx failed'') w0 \<or>
    p \<noteq> NULL \<and> (\<exists>w1. w' = VirtualFreeEx api h p w1)"
  using assms by (auto simp: InjectDLL_def Let_def split: prod.splits if_splits option.splits)

text \<open>Whether the library was loaded makes no difference to what \<open>main\<close> does next: the
  child is resumed and the status is success.\<close>

lemma injector_main_resumes:
  assumes "CreateProcessA api (cstring ''local.exe'') w = ((True, hp, ht), w0)"
    and "InjectDLL api hp winshim_dll w0 = Inr w1"
  shows "injector_main api w = Inr (0, CloseHandle api ht (CloseHandle api hp (ResumeThread api ht w1)))"
  using assms by (simp add: injector_main_def)

section \<open>The documented behaviour of the calls\<close>

text \<open>A child process as its parent sees it: its two handles, its memory image, what has been
  allocated in it from outside, the start address and the argument of each remote thread, and the
  image with which its own code began to run.\<close>

record 'i childproc =
  cprocess :: handle
  cthread :: handle
  cimage :: 'i
  cblocks :: "ptr \<Rightarrow> byte list option"
  cremote :: "handle \<Rightarrow> (fptr \<times> ptr) option"
  cstarted :: "'i option"

definition LoadLibraryA :: cstr where "LoadLibraryA = cstring ''LoadLibraryA''"

text \<open>
  \<open>kid w\<close> is the child, \<open>load\<close> what loading a library does to an image, \<open>gp\<close> the
  addresses of exported functions, the same in every process, and \<open>clean\<close> the image of a new
  process.  Creating the process, allocating, writing and starting a thread may fail, and then
  change nothing, a failed write excepted, after which the block holds anything; a wait may never
  return; releasing, closing and resuming what these calls gave out succeed.
\<close>

locale loader =
  fixes api :: "'w winproc"
    and kid :: "'w \<Rightarrow> 'i childproc"
    and load :: "cstr \<Rightarrow> 'i \<Rightarrow> 'i"
    and gp :: addresses
    and clean :: 'i
  assumes create: "CreateProcessA api cmd w = ((True, hp, ht), w') \<Longrightarrow>
      kid w' = \<lparr>cprocess = hp, cthread = ht, cimage = clean, cblocks = Map.empty, cremote = Map.empty,
        cstarted = None\<rparr>"
    and alloc_fail: "VirtualAllocEx api h n w = (NULL, w') \<Longrightarrow> kid w' = kid w"
    and alloc: "VirtualAllocEx api (cprocess (kid w)) n w = (p, w') \<Longrightarrow> p \<noteq> NULL \<Longrightarrow>
      cblocks (kid w) p = None \<and>
      (\<exists>bs. length bs = n \<and> kid w' = (kid w)\<lparr>cblocks := (cblocks (kid w))(p \<mapsto> bs)\<rparr>)"
    and stored: "WriteProcessMemory api (cprocess (kid w)) p new w = (ok, w') \<Longrightarrow>
      cblocks (kid w) p = Some old \<Longrightarrow> length old = length new \<Longrightarrow>
      \<exists>bs. length bs = length old \<and> (ok \<longrightarrow> bs = new) \<and>
        kid w' = (kid w)\<lparr>cblocks := (cblocks (kid w))(p \<mapsto> bs)\<rparr>"
    and address: "GetProcAddress api lib name w = gp lib name"
    and thread_fail: "CreateRemoteThread api h f p w = (0, w') \<Longrightarrow> kid w' = kid w"
    and thread: "CreateRemoteThread api (cprocess (kid w)) f p w = (t, w') \<Longrightarrow> t \<noteq> 0 \<Longrightarrow>
      kid w' = (kid w)\<lparr>cremote := (cremote (kid w))(t \<mapsto> (f, p))\<rparr>"
    and wait: "WaitForSingleObject api t w = Some w' \<Longrightarrow>
      cremote (kid w) t = Some (gp KERNEL32 LoadLibraryA, p) \<Longrightarrow>
      \<exists>im. kid w' = (kid w)\<lparr>cimage := im\<rparr> \<and>
        (\<forall>path. cblocks (kid w) p = Some (path @ [0]) \<and> is_cstr path \<longrightarrow> im = load path (cimage (kid w)))"
    and close: "kid (CloseHandle api h w) = kid w"
    and release: "kid (VirtualFreeEx api (cprocess (kid w)) p w) =
      (kid w)\<lparr>cblocks := (cblocks (kid w))(p := None)\<rparr>"
    and resume: "kid (ResumeThread api (cthread (kid w)) w) = (kid w)\<lparr>cstarted := Some (cimage (kid w))\<rparr>"
    and line: "kid (win_puts api s w) = kid w"

text \<open>What becomes of an injection, by the results of its calls.\<close>

datatype injection = No_memory | No_thread | Not_written | Written

definition injection :: "'w winproc \<Rightarrow> handle \<Rightarrow> cstr \<Rightarrow> 'w \<Rightarrow> injection" where
  "injection api h path w =
     (let (p, w) = VirtualAllocEx api h (length path + 1) w;
          (ok, w) = WriteProcessMemory api h p (path @ [0]) w;
          (t, w) = CreateRemoteThread api h (GetProcAddress api KERNEL32 LoadLibraryA w) p w in
      if p = NULL then No_memory else if t = 0 then No_thread else if ok then Written else Not_written)"

lemma InjectDLL_calls:
  assumes "VirtualAllocEx api h (length path + 1) w = (p, w1)" and "p \<noteq> NULL"
    and "WriteProcessMemory api h p (path @ [0]) w1 = (ok, w2)"
    and "CreateRemoteThread api h (GetProcAddress api KERNEL32 LoadLibraryA w2) p w2 = (t, w3)"
  shows "InjectDLL api h path w = (if t = 0
      then Inr (VirtualFreeEx api h p (win_puts api (cstring ''CreateRemoteThread failed'') w3))
      else case WaitForSingleObject api t w3 of None \<Rightarrow> Inl Hang
        | Some w \<Rightarrow> Inr (VirtualFreeEx api h p (CloseHandle api t w)))"
    and "injection api h path w = (if t = 0 then No_thread else if ok then Written else Not_written)"
  using assms by (simp_all add: InjectDLL_def injection_def LoadLibraryA_def)

context loader
begin

lemma inject_writes:
  assumes a: "VirtualAllocEx api h (length path + 1) w = (p, w1)" "p \<noteq> NULL" and h: "h = cprocess (kid w)"
  shows "\<exists>ok w2 cs. WriteProcessMemory api h p (path @ [0]) w1 = (ok, w2) \<and> cblocks (kid w) p = None \<and>
    (ok \<longrightarrow> cs = path @ [0]) \<and> kid w2 = (kid w)\<lparr>cblocks := (cblocks (kid w))(p \<mapsto> cs)\<rparr>"
proof -
  obtain bs where bs: "cblocks (kid w) p = None" "length bs = length path + 1"
      "kid w1 = (kid w)\<lparr>cblocks := (cblocks (kid w))(p \<mapsto> bs)\<rparr>"
    using alloc [of w "length path + 1" p w1] a h by auto
  obtain ok w2 where b: "WriteProcessMemory api h p (path @ [0]) w1 = (ok, w2)" by fastforce
  obtain cs where "ok \<longrightarrow> cs = path @ [0]" "kid w2 = (kid w)\<lparr>cblocks := (cblocks (kid w))(p \<mapsto> cs)\<rparr>"
    using stored [of w1 p "path @ [0]" ok w2 bs] b bs h by auto
  with b bs(1) show ?thesis by blast
qed

lemma inject:
  assumes r: "InjectDLL api h path w = Inr w'" and h: "h = cprocess (kid w)" and c: "is_cstr path"
  shows "\<exists>im rs. kid w' = (kid w)\<lparr>cimage := im, cremote := rs\<rparr> \<and>
    (case injection api h path w of
       Written \<Rightarrow> im = load path (cimage (kid w)) | Not_written \<Rightarrow> True | _ \<Rightarrow> im = cimage (kid w))"
proof -
  obtain p w1 where a: "VirtualAllocEx api h (length path + 1) w = (p, w1)" by fastforce
  show ?thesis
  proof (cases "p = NULL")
    case True
    then have "kid w' = (kid w)\<lparr>cimage := cimage (kid w), cremote := cremote (kid w)\<rparr>"
      using r a alloc_fail [of h "length path + 1" w w1] by (auto simp: InjectDLL_def line)
    moreover have "injection api h path w = No_memory"
      using a True by (simp add: injection_def split: prod.split)
    ultimately show ?thesis
      by (intro exI [of _ "cimage (kid w)"] exI [of _ "cremote (kid w)"]) simp
  next
    case False
    obtain ok w2 cs where b: "WriteProcessMemory api h p (path @ [0]) w1 = (ok, w2)" "cblocks (kid w) p = None"
        "ok \<longrightarrow> cs = path @ [0]" "kid w2 = (kid w)\<lparr>cblocks := (cblocks (kid w))(p \<mapsto> cs)\<rparr>"
      using inject_writes [OF a False h] by blast
    let ?f = "gp KERNEL32 LoadLibraryA"
    obtain t w3 where t: "CreateRemoteThread api h ?f p w2 = (t, w3)" by fastforce
    note calls = InjectDLL_calls [OF a False b(1), unfolded address, OF t]
    have free: "kid (VirtualFreeEx api h p v) = (kid v)\<lparr>cblocks := (cblocks (kid v))(p := None)\<rparr>"
      if "cprocess (kid v) = h" for v
      using release [of v p] that by simp
    show ?thesis
    proof (cases "t = 0")
      case True
      then have "kid w3 = kid w2" using thread_fail t by blast
      then have "kid w' = (kid w)\<lparr>cimage := cimage (kid w), cremote := cremote (kid w)\<rparr>"
        using r [unfolded calls(1)] True b(2,4) h free [of "win_puts api (cstring ''CreateRemoteThread failed'') w3"]
        by (auto simp: line fun_upd_idem)
      with True show ?thesis
        by (intro exI [of _ "cimage (kid w)"] exI [of _ "cremote (kid w)"]) (simp add: calls(2))
    next
      case nz: False
      then have w3: "kid w3 = (kid w2)\<lparr>cremote := (cremote (kid w2))(t \<mapsto> (?f, p))\<rparr>"
        using thread [of w2 ?f p t w3] t b(4) h by simp
      obtain w4 where w4: "WaitForSingleObject api t w3 = Some w4"
          "w' = VirtualFreeEx api h p (CloseHandle api t w4)"
        using r [unfolded calls(1)] nz by (auto split: option.splits)
      obtain im where im: "kid w4 = (kid w3)\<lparr>cimage := im\<rparr>"
          "ok \<longrightarrow> im = load path (cimage (kid w3))"
        using wait [OF w4(1), of p] w3 b(3,4) c by auto
      have "kid w' = (kid w)\<lparr>cimage := im, cremote := cremote (kid w3)\<rparr>"
        using w4(2) free [of "CloseHandle api t w4"] im(1) w3 b(2,4) h by (simp add: close fun_upd_idem)
      then show ?thesis
        using im(2) w3 b(4) nz by (auto simp: calls(2))
    qed
  qed
qed

text \<open>Nothing is left in the child, and it starts with the library loaded or as it was.\<close>

lemma injector_starts:
  assumes p: "CreateProcessA api (cstring ''local.exe'') w = ((True, hp, ht), w0)"
    and r: "injector_main api w = Inr (rc, w')"
  shows "rc = 0 \<and> cblocks (kid w') = Map.empty \<and>
    (\<exists>im. cstarted (kid w') = Some im \<and>
      (case injection api hp winshim_dll w0 of
         Written \<Rightarrow> im = load winshim_dll clean | Not_written \<Rightarrow> True | _ \<Rightarrow> im = clean))"
proof -
  have c: "is_cstr winshim_dll" by (simp add: winshim_dll_def cstring_def of_char_def)
  obtain w1 where w1: "InjectDLL api hp winshim_dll w0 = Inr w1" "rc = 0"
      "w' = CloseHandle api ht (CloseHandle api hp (ResumeThread api ht w1))"
    using p r by (auto simp: injector_main_def ebind_eq_Inr)
  note k = create [OF p]
  have k0: "hp = cprocess (kid w0)" "cimage (kid w0) = clean" using k by simp_all
  obtain im rs where im: "kid w1 = (kid w0)\<lparr>cimage := im, cremote := rs\<rparr>"
      "case injection api hp winshim_dll w0 of
         Written \<Rightarrow> im = load winshim_dll clean | Not_written \<Rightarrow> True | _ \<Rightarrow> im = clean"
    using inject [OF w1(1) k0(1) c] unfolding k0(2) by blast
  then show ?thesis using w1(2,3) k resume [of w1] by (auto simp: close)
qed

end

end
