(* ===== verification/Win_Local.thy ===== *)
theory Win_Local
  imports Win_Inject Calendar
begin

text \<open>
  \<open>c/winlocal.c\<close>, the program the injector starts: the same work on files as
  \<open>c/local.c\<close> through Win32 calls, and a directory listing.  The calls are the fields of
  a record.  A program calls \<open>CreateFileA\<close> through its import table; where that leads to the
  hook of \<open>c/winshim.c\<close>, the program does what it does without, and the hook's line appears
  once.
\<close>

section \<open>The program\<close>

text \<open>The arguments of \<open>CreateFileA\<close> that are not null: name, access, share mode,
  disposition and attributes.\<close>

type_synonym create_args = "cstr \<times> 32 word \<times> 32 word \<times> 32 word \<times> 32 word"

record find_data =
  dwFileAttributes :: "32 word"
  cFileName :: cstr

text \<open>\<open>win_stat\<close> returns its status and what \<open>st_size\<close> and \<open>st_mtime\<close> are afterwards;
  \<open>ReadFile\<close> its success, what it stores into \<open>status\<close> and what it stores into
  the buffer; the last two the data in \<open>ffd\<close>.\<close>

record 'w winfiles =
  win_stat :: "cstr \<Rightarrow> 'w \<Rightarrow> (cint \<times> 32 word \<times> 64 word) \<times> 'w"
  CreateFileA :: "create_args \<Rightarrow> 'w \<Rightarrow> (handle \<times> 'w) res"
  ReadFile :: "handle \<Rightarrow> nat \<Rightarrow> 'w \<Rightarrow> (bool \<times> 32 word \<times> byte list) \<times> 'w"
  SetFilePointer :: "handle \<Rightarrow> 32 word \<Rightarrow> 32 word \<Rightarrow> 'w \<Rightarrow> 'w"
  WriteFile :: "handle \<Rightarrow> byte list \<Rightarrow> 'w \<Rightarrow> 'w"
  SetEndOfFile :: "handle \<Rightarrow> 'w \<Rightarrow> 'w"
  FlushFileBuffers :: "handle \<Rightarrow> 'w \<Rightarrow> 'w"
  CloseFile :: "handle \<Rightarrow> 'w \<Rightarrow> 'w"
  MoveFileA :: "cstr \<Rightarrow> cstr \<Rightarrow> 'w \<Rightarrow> 'w"
  DeleteFileA :: "cstr \<Rightarrow> 'w \<Rightarrow> 'w"
  FindFirstFileA :: "cstr \<Rightarrow> 'w \<Rightarrow> (handle \<times> find_data) \<times> 'w"
  FindNextFileA :: "handle \<Rightarrow> find_data \<Rightarrow> 'w \<Rightarrow> (bool \<times> find_data) \<times> 'w"
  FindClose :: "handle \<Rightarrow> 'w \<Rightarrow> 'w"

datatype win_line =
    Win_size "32 word" | Win_modified cstr | Win_status "32 word" cstr | Win_dir cstr | Win_file cstr

definition INVALID_HANDLE_VALUE :: handle where "INVALID_HANDLE_VALUE = 2 ^ 64 - 1"
definition GENERIC_READ_WRITE :: "32 word" where "GENERIC_READ_WRITE = 0xC0000000"
definition OPEN_ALWAYS :: "32 word" where "OPEN_ALWAYS = 4"
definition FILE_ATTRIBUTE_DIRECTORY :: "32 word" where "FILE_ATTRIBUTE_DIRECTORY = 0x10"
definition FILE_ATTRIBUTE_ARCHIVE :: "32 word" where "FILE_ATTRIBUTE_ARCHIVE = 0x20"
definition FILE_ATTRIBUTE_NORMAL :: "32 word" where "FILE_ATTRIBUTE_NORMAL = 0x80"
definition FILE_BEGIN :: "32 word" where "FILE_BEGIN = 0"

text \<open>A dot, a backslash and a star.\<close>

definition search_pattern :: cstr where "search_pattern = [0x2E, 0x5C, 0x2A]"

text \<open>\<open>gmtime\<close> of this system returns a null pointer for times before 1970 and after the
  year 3000.\<close>

definition win_date_line :: "64 word \<Rightarrow> cstr res" where
  "win_date_line t = (if 0 \<le> sint t \<and> sint t \<le> 32535215999 then date_line t else Inl OutOfBounds)"

text \<open>The statements up to \<open>DeleteFileA\<close>, with the lines they print.\<close>

definition winlocal_session :: "'w winfiles \<Rightarrow> 'w \<Rightarrow> (win_line list \<times> 'w) res" where
  "winlocal_session api w =
     (let ((_, st_size, st_mtime), w) = win_stat api (cstring ''test_file.txt'') w;
          buf = replicate 200 0 in
      ebind (win_date_line st_mtime) (\<lambda>date.
      ebind (CreateFileA api (cstring ''test_file.txt'', GENERIC_READ_WRITE, 0, OPEN_ALWAYS,
          FILE_ATTRIBUTE_NORMAL) w) (\<lambda>(file, w).
      let ((_, status, bs), w) = ReadFile api file 5 w;
          buf = put_prefix (take 5 bs) (take 5 buf) @ drop 5 buf;
          line1 = Win_status status (takeWhile (\<lambda>b. b \<noteq> 0) buf);
          w = SetFilePointer api file 0 FILE_BEGIN w;
          ((_, status, bs), w) = ReadFile api file 6 w;
          buf = take 5 buf @ put_prefix (take 6 bs) (take 6 (drop 5 buf)) @ drop 11 buf;
          line2 = Win_status status (takeWhile (\<lambda>b. b \<noteq> 0) buf);
          w = WriteFile api file (cstring ''word'') w;
          w = SetFilePointer api file 30 FILE_BEGIN w;
          w = SetEndOfFile api file w;
          w = FlushFileBuffers api file w;
          w = CloseFile api file w;
          w = MoveFileA api (cstring ''test_file.txt'') (cstring ''renamed_file.txt'') w;
          w = DeleteFileA api (cstring ''deleted_file.txt'') w
      in Inr ([Win_size st_size, Win_modified date, line1, line2], w))))"

text \<open>The body of the loop, and the loop; \<open>None\<close> when \<open>FindNextFileA\<close> never fails.\<close>

definition win_entry :: "find_data \<Rightarrow> win_line list" where
  "win_entry ffd =
     (if and (dwFileAttributes ffd) FILE_ATTRIBUTE_DIRECTORY \<noteq> 0 then [Win_dir (cFileName ffd)] else []) @
     (if and (dwFileAttributes ffd) FILE_ATTRIBUTE_ARCHIVE \<noteq> 0 then [Win_file (cFileName ffd)] else [])"

partial_function (option) win_list ::
  "'w winfiles \<Rightarrow> handle \<Rightarrow> find_data \<Rightarrow> 'w \<Rightarrow> (win_line list \<times> 'w) option" where
  "win_list api file ffd w =
     (let found = FindNextFileA api file ffd w in
      if fst (fst found) then
        Option.bind (win_list api file (snd (fst found)) (snd found))
          (\<lambda>(ls, w). Some (win_entry ffd @ ls, w))
      else Some (win_entry ffd, snd found))"

definition winlocal_main :: "'w winfiles \<Rightarrow> 'w \<Rightarrow> (win_line list \<times> 'w) res option" where
  "winlocal_main api w =
     (case winlocal_session api w of
        Inl e \<Rightarrow> Some (Inl e)
      | Inr (ls, w) \<Rightarrow>
          (let ((file, ffd), w) = FindFirstFileA api search_pattern w in
           if file = INVALID_HANDLE_VALUE then Some (Inr (ls, w))
           else Option.bind (win_list api file ffd w) (\<lambda>(ls', w).
             Some (Inr (ls @ ls', FindClose api file w)))))"

section \<open>The listing\<close>

text \<open>A search hands out the entries \<open>left w\<close> one after the other and then fails.\<close>

definition enumerates :: "'w winfiles \<Rightarrow> handle \<Rightarrow> ('w \<Rightarrow> find_data list) \<Rightarrow> bool" where
  "enumerates api h left \<longleftrightarrow>
     (\<forall>ffd w. case left w of
        [] \<Rightarrow> \<not> fst (fst (FindNextFileA api h ffd w))
      | e # es \<Rightarrow> \<exists>w'. FindNextFileA api h ffd w = ((True, e), w') \<and> left w' = es)"

lemma enumerates_Nil:
  "enumerates api h left \<Longrightarrow> left w = [] \<Longrightarrow> \<not> fst (fst (FindNextFileA api h ffd w))"
  unfolding enumerates_def by (drule spec [of _ ffd], drule spec [of _ w]) simp

lemma enumerates_Cons:
  "enumerates api h left \<Longrightarrow> left w = e # es \<Longrightarrow>
     \<exists>w'. FindNextFileA api h ffd w = ((True, e), w') \<and> left w' = es"
  unfolding enumerates_def by (drule spec [of _ ffd], drule spec [of _ w]) simp

lemma win_list_lists:
  assumes h: "enumerates api h left" and "left w = es"
  shows "\<exists>w'. win_list api h ffd w = Some (concat (map win_entry (ffd # es)), w')"
  using assms(2)
proof (induction es arbitrary: ffd w)
  case Nil
  then show ?case
    using enumerates_Nil [OF h] by (subst win_list.simps) (simp add: Let_def)
next
  case (Cons e es)
  obtain w1 where w1: "FindNextFileA api h ffd w = ((True, e), w1)" "left w1 = es"
    using enumerates_Cons [OF h Cons.prems] by blast
  from Cons.IH [OF w1(2)] obtain w2 where "win_list api h e w1 = Some (concat (map win_entry (e # es)), w2)"
    by blast
  with w1 show ?case by (subst win_list.simps) simp
qed

lemma winlocal_lists:
  assumes "winlocal_session api w = Inr (ls, w1)"
    and "FindFirstFileA api search_pattern w1 = ((h, e), w2)" and "h \<noteq> INVALID_HANDLE_VALUE"
    and "enumerates api h left"
  shows "\<exists>w3. winlocal_main api w =
    Some (Inr (ls @ concat (map win_entry (e # left w2)), FindClose api h w3))"
proof -
  obtain w3 where "win_list api h e w2 = Some (concat (map win_entry (e # left w2)), w3)"
    using win_list_lists [OF assms(4) refl] by blast
  with assms(1-3) show ?thesis by (auto simp: winlocal_main_def)
qed

section \<open>The program under the hook\<close>

text \<open>A world with a console beside it, which the calls leave alone.\<close>

definition on_fst :: "('w \<Rightarrow> 'w) \<Rightarrow> 'w \<times> 'c \<Rightarrow> 'w \<times> 'c" where
  "on_fst f = (\<lambda>(w, c). (f w, c))"

definition with_fst :: "('w \<Rightarrow> 'a \<times> 'w) \<Rightarrow> 'w \<times> 'c \<Rightarrow> 'a \<times> 'w \<times> 'c" where
  "with_fst f = (\<lambda>(w, c). let (x, w) = f w in (x, w, c))"

definition beside_console :: "'w winfiles \<Rightarrow> ('w \<times> cstr list) winfiles" where
  "beside_console api =
    \<lparr>win_stat = \<lambda>p. with_fst (win_stat api p),
     CreateFileA = \<lambda>args (w, c). ebind (CreateFileA api args w) (\<lambda>(h, w). Inr (h, w, c)),
     ReadFile = \<lambda>h n. with_fst (ReadFile api h n),
     SetFilePointer = \<lambda>h n m. on_fst (SetFilePointer api h n m),
     WriteFile = \<lambda>h bs. on_fst (WriteFile api h bs),
     SetEndOfFile = \<lambda>h. on_fst (SetEndOfFile api h),
     FlushFileBuffers = \<lambda>h. on_fst (FlushFileBuffers api h),
     CloseFile = \<lambda>h. on_fst (CloseFile api h),
     MoveFileA = \<lambda>p q. on_fst (MoveFileA api p q),
     DeleteFileA = \<lambda>p. on_fst (DeleteFileA api p),
     FindFirstFileA = \<lambda>p. with_fst (FindFirstFileA api p),
     FindNextFileA = \<lambda>h ffd. with_fst (FindNextFileA api h ffd),
     FindClose = \<lambda>h. on_fst (FindClose api h)\<rparr>"

definition console_puts :: "cstr \<Rightarrow> 'w \<times> cstr list \<Rightarrow> cint \<times> 'w \<times> cstr list" where
  "console_puts s = (\<lambda>(w, c). (0, w, c @ [s]))"

text \<open>The same calls with another \<open>CreateFileA\<close>.\<close>

definition calling ::
  "(create_args \<Rightarrow> 'w \<times> cstr list \<Rightarrow> (handle \<times> 'w \<times> cstr list) res) \<Rightarrow> 'w winfiles \<Rightarrow>
   ('w \<times> cstr list) winfiles" where
  "calling f api = (beside_console api)\<lparr>CreateFileA := f\<rparr>"

text \<open>A call through entry \<open>j\<close> of descriptor \<open>i\<close> of the import table: the function at the address
  the entry holds.  That is the hook at its address \<open>hook\<close>, and what \<open>invoke\<close> says at others.\<close>

definition call_import ::
  "(fptr \<Rightarrow> create_args \<Rightarrow> 'w \<times> cstr list \<Rightarrow> handle \<times> 'w \<times> cstr list) \<Rightarrow> fptr \<Rightarrow> image \<Rightarrow> nat \<Rightarrow> nat \<Rightarrow>
   create_args \<Rightarrow> 'w \<times> cstr list \<Rightarrow> (handle \<times> 'w \<times> cstr list) res" where
  "call_import invoke hook im i j args w =
     (let f = imported im i j in
      if f = hook then HookedCreateFileA console_puts invoke im args w else Inr (invoke f args w))"

text \<open>\<open>f\<close> is \<open>CreateFileA\<close> with the lines \<open>ls\<close> on the console.\<close>

definition like_create ::
  "(create_args \<Rightarrow> 'w \<times> cstr list \<Rightarrow> (handle \<times> 'w \<times> cstr list) res) \<Rightarrow> cstr list \<Rightarrow> 'w winfiles \<Rightarrow> bool" where
  "like_create f ls api \<longleftrightarrow>
     (\<forall>args w c. \<exists>h w'. CreateFileA api args w = Inr (h, w') \<and> f args (w, c) = Inr (h, w', c @ ls))"

text \<open>The function at address \<open>a\<close> is \<open>CreateFileA\<close>, and it leaves the console alone.\<close>

definition create_at ::
  "(fptr \<Rightarrow> create_args \<Rightarrow> 'w \<times> cstr list \<Rightarrow> handle \<times> 'w \<times> cstr list) \<Rightarrow> fptr \<Rightarrow> 'w winfiles \<Rightarrow> bool" where
  "create_at invoke a api \<longleftrightarrow>
     (\<forall>args w c. \<exists>h w'. CreateFileA api args w = Inr (h, w') \<and> invoke a args (w, c) = (h, w', c))"

lemma calling_sel [simp]:
  "win_stat (calling f api) p = with_fst (win_stat api p)"
  "CreateFileA (calling f api) = f"
  "ReadFile (calling f api) h n = with_fst (ReadFile api h n)"
  "SetFilePointer (calling f api) h off m = on_fst (SetFilePointer api h off m)"
  "WriteFile (calling f api) h bs = on_fst (WriteFile api h bs)"
  "SetEndOfFile (calling f api) h = on_fst (SetEndOfFile api h)"
  "FlushFileBuffers (calling f api) h = on_fst (FlushFileBuffers api h)"
  "CloseFile (calling f api) h = on_fst (CloseFile api h)"
  "MoveFileA (calling f api) p q = on_fst (MoveFileA api p q)"
  "DeleteFileA (calling f api) p = on_fst (DeleteFileA api p)"
  "FindFirstFileA (calling f api) p = with_fst (FindFirstFileA api p)"
  "FindNextFileA (calling f api) h ffd = with_fst (FindNextFileA api h ffd)"
  "FindClose (calling f api) h = on_fst (FindClose api h)"
  by (simp_all add: calling_def beside_console_def)

lemma on_fst_pair [simp]: "on_fst f (w, c) = (f w, c)"
  and with_fst_pair [simp]: "with_fst g (w, c) = (fst (g w), snd (g w), c)"
  by (simp_all add: on_fst_def with_fst_def case_prod_beta Let_def)

definition hook_line :: cstr where "hook_line = cstring ''Hooked CreateFileA!''"

text \<open>Through an entry that leads to the real function nothing is added; through one that leads to
  the hook, its line.\<close>

lemma call_import_plain:
  assumes "create_at invoke (imported im i j) api" and "imported im i j \<noteq> hook"
  shows "like_create (call_import invoke hook im i j) [] api"
  using assms by (fastforce simp: like_create_def create_at_def call_import_def Let_def)

lemma call_import_hooked:
  assumes "create_at invoke (originalCreateFileA im) api" and "imported im i j = hook"
    and "originalCreateFileA im \<noteq> 0"
  shows "like_create (call_import invoke hook im i j) [hook_line] api"
  unfolding like_create_def
proof (intro allI)
  fix args w and c :: "cstr list"
  obtain h w' where "CreateFileA api args w = Inr (h, w')"
    "invoke (originalCreateFileA im) args (w, c @ [hook_line]) = (h, w', c @ [hook_line])"
    using assms(1) unfolding create_at_def by blast
  then show "\<exists>h w'. CreateFileA api args w = Inr (h, w') \<and>
      call_import invoke hook im i j args (w, c) = Inr (h, w', c @ [hook_line])"
    using assms(2,3) by (simp add: call_import_def HookedCreateFileA_def console_puts_def hook_line_def)
qed

lemma session_calling:
  assumes "like_create f ls api"
  shows "winlocal_session (calling f api) (w, c) =
    ebind (winlocal_session api w) (\<lambda>(x, w). Inr (x, w, c @ ls))"
proof -
  let ?args = "(cstring ''test_file.txt'', GENERIC_READ_WRITE, 0, OPEN_ALWAYS, FILE_ATTRIBUTE_NORMAL)"
  let ?w = "snd (win_stat api (cstring ''test_file.txt'') w)"
  obtain h w' where "CreateFileA api ?args ?w = Inr (h, w')" "f ?args (?w, c) = Inr (h, w', c @ ls)"
    using assms unfolding like_create_def by blast
  then show ?thesis
    by (cases "win_date_line (snd (snd (fst (win_stat api (cstring ''test_file.txt'') w))))")
       (simp_all add: winlocal_session_def Let_def case_prod_beta)
qed

lemma win_list_calling1:
  assumes "win_list api h ffd w = Some y"
  shows "win_list (calling f api) h ffd (w, c) = Some (fst y, snd y, c)"
  by (rule win_list.raw_induct [where P = "\<lambda>api h ffd w y. \<forall>c. win_list (calling f api) h ffd (w, c) =
        Some (fst y, snd y, c)", OF _ assms, rule_format])
     (subst win_list.simps, auto simp: Let_def bind_eq_Some_conv split: if_splits)

lemma win_list_calling2:
  assumes "win_list (calling f api) h ffd x = Some y"
  shows "\<exists>z. win_list api h ffd (fst x) = Some z"
proof -
  have "calling f api = calling f api \<longrightarrow> (\<exists>z. win_list api h ffd (fst x) = Some z)"
    by (rule win_list.raw_induct [where P = "\<lambda>api' h ffd x y. api' = calling f api \<longrightarrow>
          (\<exists>z. win_list api h ffd (fst x) = Some z)", OF _ assms])
       (subst win_list.simps, auto simp: Let_def bind_eq_Some_conv with_fst_def case_prod_beta split: if_splits, blast)
  then show ?thesis by simp
qed

lemma win_list_calling:
  "win_list (calling f api) h ffd (w, c) =
     map_option (\<lambda>(ls, w). (ls, w, c)) (win_list api h ffd w)"
proof (cases "win_list api h ffd w")
  case None
  then show ?thesis
    using win_list_calling2 [of f api h ffd "(w, c)"] by (cases "win_list (calling f api) h ffd (w, c)") auto
next
  case (Some y)
  from win_list_calling1 [OF this] show ?thesis using Some by (simp add: case_prod_beta)
qed

lemma winlocal_calling:
  assumes "like_create f ls api"
  shows "winlocal_main (calling f api) (w, c) =
    map_option (\<lambda>r. ebind r (\<lambda>(x, w). Inr (x, w, c @ ls))) (winlocal_main api w)"
proof (cases "winlocal_session api w")
  case (Inl e)
  then show ?thesis by (simp add: winlocal_main_def session_calling [OF assms])
next
  case (Inr y)
  obtain x w1 where y: "y = (x, w1)" by (cases y)
  obtain h e w2 where f: "FindFirstFileA api search_pattern w1 = ((h, e), w2)" by (metis prod.collapse)
  show ?thesis
    using Inr y f
    by (cases "win_list api h e w2")
       (auto simp: winlocal_main_def session_calling [OF assms] win_list_calling)
qed

end
