(* ===== verification/Example.thy ===== *)
theory Example
  imports Transparent Local_Programs Requests Sockets Sd_Client Win_Local
begin

text \<open>
  A concrete setting: both machines hold one file and its offset.  It shows that what the
  other theories assume of the operating system, the network and the server can hold, and
  the root theory evaluates its properties on it.
\<close>

section \<open>A file system of one file\<close>

record tiny =
  content :: "byte list"
  pos :: nat

definition tiny_name :: cstr where "tiny_name = cstring ''test_file.txt''"

definition tiny_files :: "tiny files" where
  "tiny_files =
    \<lparr>f_open = \<lambda>path oflag m w. if path = tiny_name then (3, w\<lparr>pos := 0\<rparr>) else (-1, w),
     f_close = \<lambda>fd w. (if fd = 3 then 0 else -1, w),
     f_read = \<lambda>fd k w.
       (let bs = take (unat k) (drop (pos w) (content w)) in
        ((of_nat (length bs), bs), w\<lparr>pos := pos w + length bs\<rparr>)),
     f_write = \<lambda>fd bs w.
       (of_nat (length bs),
        w\<lparr>content := take (pos w) (content w) @ bs @ drop (pos w + length bs) (content w),
          pos := pos w + length bs\<rparr>),
     f_lseek = \<lambda>fd off wh w. (off, w\<lparr>pos := unat off\<rparr>),
     f_truncate = \<lambda>path k w. (0, w\<lparr>content := take (unat k) (content w)\<rparr>),
     f_ftruncate = \<lambda>fd k w. (0, w\<lparr>content := take (unat k) (content w)\<rparr>),
     f_stat = \<lambda>path w. ((0, replicate 48 0 @ le64 (of_nat (length (content w))) @ replicate 88 0), w),
     f_fstat = \<lambda>fd w. ((0, replicate 48 0 @ le64 (of_nat (length (content w))) @ replicate 88 0), w),
     f_fsync = \<lambda>fd w. (0, w),
     f_rename = \<lambda>old new w. (-1, w),
     f_unlink = \<lambda>path w. (if path = tiny_name then 0 else -1, w\<lparr>content := []\<rparr>)\<rparr>"

section \<open>The setting and its initial states\<close>

definition example :: "(tiny, tiny) setting" where
  "example = \<lparr>local_files = tiny_files, remote_files = tiny_files, seg = 1000, avail = 1000,
     junk = \<lambda>_. 170, csk = 5, ssk = 4\<rparr>"

definition example_net :: "tiny net" where
  "example_net = \<lparr>fs = \<lparr>content = cstring ''hello world'', pos = 0\<rparr>, waiting = False, inq = [],
     outq = [], shut = False\<rparr>"

definition example_server :: "tiny net server" where
  "example_server = \<lparr>heap = \<lambda>_. None, hnext = 1, errlog = [], world = example_net,
     server_socket = 0, thread_index = 0, thread_id = replicate 60 None,
     payload_size_buf = replicate 8 0,
     argument = \<lparr>payload = 0, arg_size = 0, client_socket = 0\<rparr>, threads = [], phase = Accepting\<rparr>"

definition example_client :: "(tiny, tiny) lan stubs" where
  "example_client = \<lparr>heap = \<lambda>_. None, hnext = 1, errlog = [],
     world = \<lparr>lfs = \<lparr>content = cstring ''local'', pos = 0\<rparr>, peer = example_server\<rparr>,
     real = \<lambda>_. False, host_string = None, port_number = 0, sock = 0, sin_port = 0, s_addr = 0\<rparr>"

lemma example_sane: "sane example" "roomy example"
  by (simp_all add: example_def sane_def roomy_def)

lemma example_fresh: "fresh_fds example"
  by (simp add: fresh_fds_def example_def tiny_files_def)

text \<open>The epoch, and an afternoon on the twenty-ninth of February 2024.\<close>

lemma example_dates:
  "gmtime 0 = Some \<lparr>tm_sec = 0, tm_min = 0, tm_hour = 0, tm_mday = 1, tm_mon = 0, tm_year = 70, tm_wday = 4\<rparr>"
  "gmtime 1709210096 = Some \<lparr>tm_sec = 56, tm_min = 34, tm_hour = 12, tm_mday = 29, tm_mon = 1,
     tm_year = 124, tm_wday = 4\<rparr>"
  by (simp_all add: gmtime_def EPOCH_def year_of_def days_before_def month_lengths_def leap_def)

lemma example_dated: "dated_file example x"
proof -
  have "gmtime 0 \<noteq> None" by (simp add: example_dates)
  then show ?thesis
    by (simp add: dated_file_def example_def tiny_files_def st_mtime_def ld64_def sizeof_stat_def numeral_eq_Suc)
qed

lemma example_idle: "idle example_server"
  by (simp add: idle_def slots_inv_def wf_heap_def used_slots_def live_def example_server_def)

lemma example_ready: "ready example example_client"
  using example_sane example_idle by (simp add: ready_def wf_heap_def net_up_def example_client_def)

text \<open>A client on a machine that hands out no sockets.\<close>

definition offline_os :: "(tiny, tiny) lan os" where
  "offline_os = (client_os example)\<lparr>os_socket := \<lambda>w. (-1, w)\<rparr>"

lemma example_offline: "offline offline_os"
  using lb.port_ok [of example]
  by (simp add: offline_def offline_os_def rpc_port_def)

section \<open>A server with a request in its memory\<close>

text \<open>The server's process with a payload at address 1, and the argument of its thread.\<close>

definition loaded :: "byte list \<Rightarrow> tiny net proc" where
  "loaded pl = \<lparr>heap = (\<lambda>_. None)(1 \<mapsto> pl), hnext = 2, errlog = [], world = example_net\<rparr>"

definition loaded_arg :: "byte list \<Rightarrow> thread_arg" where
  "loaded_arg pl = \<lparr>payload = 1, arg_size = of_nat (length pl), client_socket = 4\<rparr>"

lemma loaded_simps [simp]:
  "heap (loaded pl) (Suc 0) = Some pl" "heap (loaded pl) (payload (loaded_arg pl)) = Some pl"
  "payload (loaded_arg pl) = 1" "arg_size (loaded_arg pl) = of_nat (length pl)"
  "client_socket (loaded_arg pl) = 4" "world (loaded pl) = example_net"
  by (simp_all add: loaded_def loaded_arg_def)

lemma loaded_wf: "wf_heap (loaded pl)"
  by (simp add: wf_heap_def loaded_def)

section \<open>A server with two clients at once\<close>

text \<open>Every connection brings the same request, to close descriptor 3.\<close>

definition busy_os :: "tiny net os" where
  "busy_os = (server_os example)
     \<lparr>os_accept := \<lambda>_ n. (4, n),
      os_recv := \<lambda>_ k n. Some ((k, if k = 8 then le64 5 else payload_of (Close 0x7FFFFFFC)), n)\<rparr>"

lemma busy_sel [simp]:
  "os_accept busy_os fd n = (4, n)" "os_malloc busy_os = grant example"
  "os_recv busy_os fd k n = Some ((k, if k = 8 then le64 5 else payload_of (Close 0x7FFFFFFC)), n)"
  "os_pthread_create busy_os n = (0, n)" "f_close busy_os fd n = f_close (server_os example) fd n"
  "os_send busy_os fd bs n = (of_nat (length bs), n\<lparr>outq := outq n @ bs\<rparr>)"
  "os_shutdown busy_os fd n = (0, n\<lparr>shut := True\<rparr>)"
  by (simp_all add: busy_os_def)

definition busy_arg :: "ptr \<Rightarrow> thread_arg" where
  "busy_arg p = \<lparr>payload = p, arg_size = 5, client_socket = 4\<rparr>"

text \<open>One turn of \<open>main\<close>: the payload in memory, the argument, the thread.\<close>

definition busy_turn :: "tiny net server \<Rightarrow> tiny net server" where
  "busy_turn sv = sv\<lparr>payload_size_buf := le64 5, hnext := Suc (hnext sv),
     heap := (heap sv)(hnext sv \<mapsto> payload_of (Close 0x7FFFFFFC)), argument := busy_arg (hnext sv),
     thread_index := Suc (thread_index sv),
     thread_id := (thread_id sv)[thread_index sv := Some (length (threads sv))],
     threads := threads sv @ [Created]\<rparr>"

lemma busy_turn_sel:
  "hnext (busy_turn sv) = Suc (hnext sv)" "thread_index (busy_turn sv) = Suc (thread_index sv)"
  "thread_id (busy_turn sv) = (thread_id sv)[thread_index sv := Some (length (threads sv))]"
  "payload_size_buf (busy_turn sv) = le64 5" "phase (busy_turn sv) = phase sv"
  "threads (busy_turn sv) = threads sv @ [Created]"
  by (simp_all add: busy_turn_def)

lemma busy_main:
  assumes "0 < hnext sv" and "thread_index sv < 49" and "length (thread_id sv) = 60"
    and "length (payload_size_buf sv) = 8"
  shows "main_iteration busy_os sv = Inr (busy_turn sv)"
  using assms
  by (simp add: main_iteration_def take_request_def sys_eq Let_def malloc_def grant_def example_def
      block_def stores_def overwrite_def spawn_def payload_of_def busy_turn_def busy_arg_def)

lemma busy_main_last:
  assumes "0 < hnext sv" and "thread_index sv = 49" and "length (thread_id sv) = 60"
    and "length (payload_size_buf sv) = 8"
  shows "main_iteration busy_os sv = Inr ((busy_turn sv)\<lparr>thread_index := 0, phase := Joining\<rparr>)"
  using assms
  by (simp add: main_iteration_def take_request_def sys_eq Let_def malloc_def grant_def example_def
      block_def stores_def overwrite_def spawn_def payload_of_def busy_turn_def busy_arg_def)

text \<open>The server as it is, and with \<open>n\<close> connections taken in.\<close>

lemma busy_start: "server_start busy_os example_server = Inr example_server"
  by (simp add: server_start_def server_port_def busy_os_def server_os_def sys_eq example_server_def Let_def)

lemma busy_turns:
  assumes "n < 50"
  defines "sv \<equiv> (busy_turn ^^ n) example_server"
  shows "reachable busy_os example_server sv \<and> 0 < hnext sv \<and> thread_index sv = n \<and>
    length (thread_id sv) = 60 \<and> length (payload_size_buf sv) = 8 \<and> phase sv = Accepting \<and>
    threads sv = replicate n Created \<and> (0 < n \<longrightarrow> thread_id sv ! 0 = Some 0)"
  using assms(1) unfolding sv_def
proof (induction n)
  case 0
  then show ?case by (simp add: reachable.start) (simp add: example_server_def)
next
  case (Suc n)
  let ?s = "(busy_turn ^^ n) example_server"
  from Suc have s: "reachable busy_os example_server ?s" "0 < hnext ?s" "thread_index ?s = n"
    "length (thread_id ?s) = 60" "length (payload_size_buf ?s) = 8" "phase ?s = Accepting"
    "threads ?s = replicate n Created" "0 < n \<longrightarrow> thread_id ?s ! 0 = Some 0"
    by auto
  have "main_iteration busy_os ?s = Inr (busy_turn ?s)" by (rule busy_main) (use s Suc in auto)
  from reachable.more [OF s(1) step.accept [OF s(6) this]]
  have "reachable busy_os example_server ((busy_turn ^^ Suc n) example_server)" by simp
  moreover have "thread_id (busy_turn ?s) ! 0 = Some 0"
    using s Suc by (cases "n = 0") (simp_all add: busy_turn_sel)
  ultimately show ?case using s by (simp add: busy_turn_sel replicate_append_same)
qed

text \<open>The fiftieth connection takes the server to the join loop.\<close>

lemma busy_joining:
  "\<exists>sv. reachable busy_os example_server sv \<and> phase sv = Joining \<and> thread_index sv = 0 \<and>
     length (thread_id sv) = 60 \<and> thread_id sv ! 0 = Some 0 \<and> thread_at 0 sv = Some Created"
proof -
  let ?s = "(busy_turn ^^ 49) example_server"
  have s: "reachable busy_os example_server ?s" "0 < hnext ?s" "thread_index ?s = 49"
    "length (thread_id ?s) = 60" "length (payload_size_buf ?s) = 8" "phase ?s = Accepting"
    "threads ?s = replicate 49 Created" "thread_id ?s ! 0 = Some 0"
    using busy_turns [of 49] by auto
  let ?t = "(busy_turn ?s)\<lparr>thread_index := 0, phase := Joining\<rparr>"
  have r: "reachable busy_os example_server ?t"
    by (rule reachable.more [OF s(1) step.accept [OF s(6) busy_main_last [OF s(2-5)]]])
  have "threads ?t = replicate 49 Created @ [Created]" by (simp only: busy_turn_def s(7)) simp
  then have "thread_at 0 ?t = Some Created" by (simp add: thread_at_def nth_append)
  moreover have "length (thread_id ?t) = 60" "thread_id ?t ! 0 = Some 0"
    using s(3,4,8) by (simp_all add: busy_turn_def)
  ultimately show ?thesis using r by (intro exI [of _ ?t]) simp
qed

lemma busy_handler:
  assumes "wf_heap st" and "heap st p = Some (payload_of (Close 0x7FFFFFFC))"
  shows "\<exists>st'. client_handler busy_os (busy_arg p) st = Inr st'"
proof -
  have "alloc_ok busy_os 1000" by (simp add: alloc_ok_def grant_def example_def)
  from client_handler_serves [OF this, of "Close 0x7FFFFFFC" st "busy_arg p"] assms
  show ?thesis by (auto simp: busy_arg_def payload_of_def)
qed

lemma busy_race:
  "\<exists>st. schedule busy_os [Main, Main, Fetch 0, Fetch 1, Run 0] example_server = Some (Inr st) \<and>
     phase st = Accepting"
proof -
  let ?s2 = "busy_turn (busy_turn example_server)"
  let ?s4 = "fetch 1 (fetch 0 ?s2)"
  have wf: "wf_heap (as_proc ?s4)"
    by (auto simp: wf_heap_def as_proc_def fetch_def busy_turn_def example_server_def)
  obtain p where p: "client_handler busy_os (busy_arg (Suc (Suc 0))) (as_proc ?s4) = Inr p"
    using busy_handler [OF wf, of "Suc (Suc 0)"]
    by (auto simp: as_proc_def fetch_def busy_turn_def example_server_def)
  then show ?thesis
    by (simp add: main_turn_def busy_main busy_turn_def example_server_def fetch_def thread_at_def
        run_thread_def with_proc_def)
qed

section \<open>A bus with one message\<close>

definition example_bus :: "(unit, unit, 64 word list) sdbus" where
  "example_bus = \<lparr>sd_open_user = \<lambda>w. ((0, ()), w), sd_add_object_vtable = \<lambda>_ _ _ _ w. (0, w),
     sd_request_name = \<lambda>_ _ w. (0, w), sd_process = \<lambda>_ w. (-1, w), sd_wait = \<lambda>_ w. (0, w),
     sd_read_xx = \<lambda>_ w. ((1, 6, 7), w), sd_reply_x = \<lambda>_ p w. (1, w @ [p]),
     sd_unref = \<lambda>_ w. w\<rparr>"

text \<open>A libsystemd that counts: the world is the references held.\<close>

definition counting_bus :: "(nat, 64 word, (nat + 64 word) multiset) sdbus_client" where
  "counting_bus =
    \<lparr>sd_open_user = \<lambda>w. ((0, size w), add_mset (Inl (size w)) w), sd_add_object_vtable = \<lambda>_ _ _ _ w. (0, w),
     sd_request_name = \<lambda>_ _ w. (0, w), sd_process = \<lambda>_ w. (-1, w), sd_wait = \<lambda>_ w. (0, w),
     sd_read_xx = \<lambda>_ w. ((1, 6, 7), w), sd_reply_x = \<lambda>_ _ w. (1, w),
     sd_unref = \<lambda>bus w. w - held Inl bus,
     sd_call_method = \<lambda>_ _ _ _ _ a b w. ((1, Some (a * b)), add_mset (Inr (a * b)) w),
     sd_read_x = \<lambda>m w. (case m of None \<Rightarrow> ((-6, 0), w) | Some v \<Rightarrow> ((1, v), w)),
     sd_error_free = \<lambda>w. w, sd_message_unref = \<lambda>m w. w - held Inr m\<rparr>"

lemma counting_counts: "counts counting_bus (\<lambda>w. w)"
  by (auto simp: counts_def counting_bus_def split: option.split)

section \<open>Kernels that let the stubs down\<close>

text \<open>A peer that hangs up without an answer, and a kernel without memory.\<close>

definition silent_os :: "(tiny, tiny) lan os" where
  "silent_os = (client_os example)\<lparr>os_recv := \<lambda>_ _ w. Some ((0, []), w)\<rparr>"

definition poor_os :: "(tiny, tiny) lan os" where
  "poor_os = (client_os example)\<lparr>os_malloc := \<lambda>_ w. (None, w)\<rparr>"

text \<open>Sending depends only on the calls it makes.\<close>

lemma send_data_cong:
  assumes "os_getenv os = os_getenv os'" "os_inet_addr os = os_inet_addr os'" "os_socket os = os_socket os'"
    "os_setsockopt os = os_setsockopt os'" "os_connect os = os_connect os'" "os_send os = os_send os'"
    "f_close os = f_close os'"
  shows "send_data os req k st = send_data os' req k st"
  by (simp only: send_data_def connect_to_server_def lookup_endpoint_def rpc_port_def assms)

lemma same_sends:
  "send_data silent_os req k st = send_data (client_os example) req k st"
  "send_data poor_os req k st = send_data (client_os example) req k st"
  by (rule send_data_cong; simp add: silent_os_def poor_os_def)+

lemma example_sends:
  assumes "carries example c" and "unat k = length (frame (payload_of c))"
  shows "\<exists>s. send_data (client_os example) (frame (payload_of c)) k (resolve f example_client) = Inr (0, s) \<and>
    sock s = 5"
proof -
  have u: "net_up example (world (resolve f example_client))" using example_ready by (simp add: ready_def)
  then have g: "net_good example (frame (payload_of c)) (world (resolve f example_client))"
    using assms(1) by (auto simp: net_good_def)
  from lb.send_data_ok [OF u g assms(2)] show ?thesis by (auto simp: example_def)
qed

section \<open>A kernel that keeps what is sent\<close>

lemma le_bytes_numeral:
  "le_bytes (numeral n) k = word_of_int k # le_bytes (pred_numeral n) (k div 256)"
  by (simp add: numeral_eq_Suc)

text \<open>The world is the list of messages handed to \<open>send\<close>; every answer is zeros.\<close>

definition logging_os :: "byte list list os" where
  "logging_os =
    \<lparr>f_open = \<lambda>_ _ _ w. (-1, w), f_close = \<lambda>_ w. (0, w), f_read = \<lambda>_ _ w. ((0, []), w),
     f_write = \<lambda>_ _ w. (0, w), f_lseek = \<lambda>_ _ _ w. (0, w), f_truncate = \<lambda>_ _ w. (0, w),
     f_ftruncate = \<lambda>_ _ w. (0, w), f_stat = \<lambda>_ w. ((-1, []), w), f_fstat = \<lambda>_ w. ((-1, []), w),
     f_fsync = \<lambda>_ w. (0, w), f_rename = \<lambda>_ _ w. (-1, w), f_unlink = \<lambda>_ w. (-1, w),
     os_malloc = \<lambda>_ w. (Some (\<lambda>_. 0), w), os_stack = \<lambda>_ _. 0, os_getenv = \<lambda>_. None,
     os_inet_addr = \<lambda>_. 0, os_socket = \<lambda>w. (5, w), os_setsockopt = \<lambda>_ w. (0, w),
     os_connect = \<lambda>_ _ _ w. (0, w), os_bind = \<lambda>_ _ _ w. (0, w), os_listen = \<lambda>_ _ w. (0, w),
     os_accept = \<lambda>_ w. (-1, w), os_send = \<lambda>_ bs w. (of_nat (length bs), w @ [bs]),
     os_recv = \<lambda>_ n w. Some ((n, replicate (unat n) 0), w), os_shutdown = \<lambda>_ w. (0, w),
     os_pthread_create = \<lambda>w. (0, w), os_pthread_join = \<lambda>w. (0, w)\<rparr>"

lemma logging_observes: "observes logging_os (\<lambda>w. w)"
  by (simp add: observes_def logging_os_def)

definition logging_client :: "byte list list stubs" where
  "logging_client = \<lparr>heap = \<lambda>_. None, hnext = 1, errlog = [], world = [], real = \<lambda>_. False,
     host_string = Some HOSTNAME, port_number = 5000, sock = 0, sin_port = 0, s_addr = 0\<rparr>"

text \<open>The same with an environment, on a network with one server.\<close>

definition picky_os :: "byte list list os" where
  "picky_os = logging_os
     \<lparr>os_getenv := \<lambda>v. if v = ''RPC_PORT'' then Some (cstring ''8080'')
        else if v = ''RPC_HOST'' then Some (cstring ''10.0.0.1'') else None,
      os_inet_addr := \<lambda>h. if h = cstring ''10.0.0.1'' then 0x0100000A else 0,
      os_connect := \<lambda>fd port a w. if port = htons 8080 \<and> a = 0x0100000A then (0, w) else (-1, w)\<rparr>"

section \<open>A directory\<close>

text \<open>On this machine \<open>.\<close> is a directory, \<open>gone\<close> is no longer there, and everything else is a
  regular file.\<close>

definition example_stat :: "cstr \<Rightarrow> byte list option" where
  "example_stat name =
     (if name = cstring ''gone'' then None
      else Some (replicate 24 0 @ le32 (if name = cstring ''.'' then 0x41ED else 0x81A4) @ replicate 116 0))"

definition dir_os :: "(tiny, tiny) lan os" where
  "dir_os = (client_os example)\<lparr>f_stat := \<lambda>name w.
     (case example_stat name of None \<Rightarrow> (-1, []) | Some bs \<Rightarrow> (0, bs), w)\<rparr>"

lemma dir_os_stats: "stats dir_os example_stat names"
  by (simp add: stats_def dir_os_def example_stat_def sizeof_stat_def)

lemma example_local_fds: "local_fds (client_os example)"
  by (simp add: local_fds_def client_os_def Let_def on_lfs_def example_def tiny_files_def is_remote_fd_def
      split: prod.split)

section \<open>A Windows machine\<close>

definition example_protect :: protect where
  "example_protect i j new im =
     (protection im i j, im\<lparr>protection := (protection im)(i := (protection im i)(j := new))\<rparr>)"

lemma example_protects: "protects example_protect"
  by (simp add: protects_def example_protect_def)

definition example_image :: image where
  "example_image = \<lparr>imports_of = [\<lparr>desc_name = KERNEL32, first_thunk = [5, 7, 8]\<rparr>],
     protection = \<lambda>_ _. 2, originalCreateFileA = 0\<rparr>"

definition example_addresses :: addresses where
  "example_addresses lib name =
     (if name = cstring ''CreateFileA'' then 7 else if name = LoadLibraryA then 8 else 0)"

text \<open>Loading the library at hand runs its \<open>DllMain\<close>; other files are no libraries.\<close>

definition example_load :: "cstr \<Rightarrow> image \<Rightarrow> image" where
  "example_load path im =
     (if path = winshim_dll then snd (DllMain example_protect example_addresses DLL_PROCESS_ATTACH 9 im) else im)"

text \<open>A machine on which blocks of at most \<open>quota\<close> bytes are granted, at the given address and one
  at a time, and remote threads are admitted or not.  The world is the child and the console.\<close>

record winworld =
  wchild :: "image childproc"
  console :: "cstr list"

record winmachine =
  quota :: nat
  admits :: bool

definition thread_ends :: "handle \<Rightarrow> winworld \<Rightarrow> winworld option" where
  "thread_ends t w =
     (case cremote (wchild w) t of
        None \<Rightarrow> None
      | Some (f, p) \<Rightarrow>
          (case cblocks (wchild w) p of
             None \<Rightarrow> Some w
           | Some bs \<Rightarrow> Some (w\<lparr>wchild := (wchild w)
               \<lparr>cimage := example_load (takeWhile (\<lambda>b. b \<noteq> 0) bs) (cimage (wchild w))\<rparr>\<rparr>)))"

definition win_api :: "winmachine \<Rightarrow> winworld winproc" where
  "win_api M =
    \<lparr>CreateProcessA = \<lambda>cmd w. ((True, 1, 2), w\<lparr>wchild := \<lparr>cprocess = 1, cthread = 2, cimage = example_image,
       cblocks = Map.empty, cremote = Map.empty, cstarted = None\<rparr>\<rparr>),
     VirtualAllocEx = \<lambda>h n w.
       (if quota M < n \<or> cblocks (wchild w) 1 \<noteq> None then (0, w)
        else (1, w\<lparr>wchild := (wchild w)\<lparr>cblocks := (cblocks (wchild w))(1 \<mapsto> replicate n 0)\<rparr>\<rparr>)),
     WriteProcessMemory = \<lambda>h p bs w.
       (case cblocks (wchild w) p of
          None \<Rightarrow> (False, w)
        | Some old \<Rightarrow>
            (True, w\<lparr>wchild := (wchild w)\<lparr>cblocks := (cblocks (wchild w))(p \<mapsto> put_prefix bs old)\<rparr>\<rparr>)),
     GetProcAddress = \<lambda>lib name w. example_addresses lib name,
     CreateRemoteThread = \<lambda>h f p w.
       (if admits M then (3, w\<lparr>wchild := (wchild w)\<lparr>cremote := (cremote (wchild w))(3 \<mapsto> (f, p))\<rparr>\<rparr>)
        else (0, w)),
     WaitForSingleObject = thread_ends,
     CloseHandle = \<lambda>h w. w,
     VirtualFreeEx = \<lambda>h p w. w\<lparr>wchild := (wchild w)\<lparr>cblocks := (cblocks (wchild w))(p := None)\<rparr>\<rparr>,
     ResumeThread = \<lambda>h w. w\<lparr>wchild := (wchild w)\<lparr>cstarted := Some (cimage (wchild w))\<rparr>\<rparr>,
     win_puts = \<lambda>s w. w\<lparr>console := console w @ [s]\<rparr>\<rparr>"

lemma takeWhile_cstr: "is_cstr s \<Longrightarrow> takeWhile (\<lambda>b. b \<noteq> 0) (s @ [0]) = s"
  by (induction s) auto

interpretation wm: loader "win_api M" wchild example_load example_addresses example_image
  for M
proof unfold_locales
  fix t w w' p
  assume "WaitForSingleObject (win_api M) t w = Some w'"
    and "cremote (wchild w) t = Some (example_addresses KERNEL32 LoadLibraryA, p)"
  then show "\<exists>im. wchild w' = (wchild w)\<lparr>cimage := im\<rparr> \<and>
      (\<forall>path. cblocks (wchild w) p = Some (path @ [0]) \<and> is_cstr path \<longrightarrow> im = example_load path (cimage (wchild w)))"
    by (cases "cblocks (wchild w) p")
       (auto simp: win_api_def thread_ends_def takeWhile_cstr intro: exI [of _ "cimage (wchild w)"])
next
  fix w n p w'
  assume "VirtualAllocEx (win_api M) (cprocess (wchild w)) n w = (p, w')" and "p \<noteq> NULL"
  then show "cblocks (wchild w) p = None \<and>
      (\<exists>bs. length bs = n \<and> wchild w' = (wchild w)\<lparr>cblocks := (cblocks (wchild w))(p \<mapsto> bs)\<rparr>)"
    by (auto simp: win_api_def split: if_splits intro!: exI [of _ "replicate n 0"])
qed (auto simp: win_api_def split: if_splits option.splits)

definition example_winworld :: winworld where
  "example_winworld = \<lparr>wchild = \<lparr>cprocess = 0, cthread = 0, cimage = example_image, cblocks = Map.empty,
     cremote = Map.empty, cstarted = None\<rparr>, console = []\<rparr>"

definition example_machine :: winmachine where
  "example_machine = \<lparr>quota = 4096, admits = True\<rparr>"

text \<open>On it the injector succeeds.\<close>

lemma winshim_dll_cstr: "is_cstr winshim_dll"
  by (simp add: winshim_dll_def cstring_def of_char_def)

lemma example_inject:
  assumes "cblocks (wchild w) 1 = None"
  shows "\<exists>w'. InjectDLL (win_api example_machine) h winshim_dll w = Inr w'"
    and "injection (win_api example_machine) h winshim_dll w = Written"
  using assms
  by (simp_all add: InjectDLL_def injection_def win_api_def example_machine_def thread_ends_def
      winshim_dll_def cstring_def example_addresses_def)

text \<open>Files of which every call is an event: the world is the number of entries of a
  directory still to be listed.\<close>

definition example_entry :: "nat \<Rightarrow> find_data" where
  "example_entry n = \<lparr>dwFileAttributes = (if n = 0 then 0x20 else 0x10), cFileName = replicate n 65\<rparr>"

definition example_winfiles :: "nat winfiles" where
  "example_winfiles =
    \<lparr>win_stat = \<lambda>_ w. ((0, 11, 0), w), CreateFileA = \<lambda>_ w. Inr (3, w),
     ReadFile = \<lambda>_ n w. ((True, of_nat n, replicate n 65), w),
     SetFilePointer = \<lambda>_ _ _ w. w, WriteFile = \<lambda>_ _ w. w, SetEndOfFile = \<lambda>_ w. w,
     FlushFileBuffers = \<lambda>_ w. w, CloseFile = \<lambda>_ w. w, MoveFileA = \<lambda>_ _ w. w,
     DeleteFileA = \<lambda>_ w. w, FindFirstFileA = \<lambda>_ w. ((4, example_entry w), w),
     FindNextFileA = \<lambda>_ ffd w. (case w of 0 \<Rightarrow> ((False, ffd), 0) | Suc n \<Rightarrow> ((True, example_entry n), n)),
     FindClose = \<lambda>_ w. w\<rparr>"

definition example_left :: "nat \<Rightarrow> find_data list" where
  "example_left n = map example_entry (rev [0..<n])"

lemma example_enumerates: "enumerates example_winfiles h example_left"
  by (auto simp: enumerates_def example_winfiles_def example_left_def split: list.split nat.split)

end
