(* ===== verification/Shim.thy ===== *)
theory Shim
  imports Prelude
begin

text \<open>
  \<open>my_puts\<close> of \<open>c/shim.c\<close>, the replacement of \<open>puts\<close>: a prefix and the
  caller's string in an array of 200 bytes.  \<open>puts\<close> itself is a parameter.
\<close>

text \<open>\<open>strcpy\<close> and \<open>strncpy\<close> into an array at an offset: the latter copies at most
  \<open>n\<close> bytes, pads with zeros and adds no terminator when the string is longer.\<close>

definition strcpy :: "byte list \<Rightarrow> nat \<Rightarrow> cstr \<Rightarrow> byte list res" where
  "strcpy dst i s = overwrite dst i (s @ [0])"

definition strncpy :: "byte list \<Rightarrow> nat \<Rightarrow> cstr \<Rightarrow> nat \<Rightarrow> byte list res" where
  "strncpy dst i s n = overwrite dst i (take n s @ replicate (n - length s) 0)"

definition hook_prefix :: cstr where
  "hook_prefix = cstring ''Hooked: ''"

definition my_puts :: "(cstr \<Rightarrow> 'w \<Rightarrow> cint \<times> 'w) \<Rightarrow> cstr \<Rightarrow> 'w \<Rightarrow> (cint \<times> 'w) res" where
  "my_puts puts s w =
     ebind (strcpy (replicate 200 0) 0 hook_prefix) (\<lambda>buf.
     ebind (strncpy buf (length hook_prefix) s (200 - length hook_prefix)) (\<lambda>buf.
     ebind (string_in buf) (\<lambda>line. Inr (puts line w))))"

lemma hook_prefix_facts: "length hook_prefix = 8" "is_cstr hook_prefix"
  by (simp_all add: hook_prefix_def cstring_def of_char_def)

lemma is_cstr_append [simp]: "is_cstr (s @ t) \<longleftrightarrow> is_cstr s \<and> is_cstr t"
  by (simp add: is_cstr_def)

text \<open>The array before \<open>puts\<close>: the prefix and the first 192 bytes of the string.\<close>

lemma my_puts_buffer:
  "my_puts puts s w =
     ebind (string_in (hook_prefix @ take 192 s @ replicate (192 - length s) 0)) (\<lambda>line. Inr (puts line w))"
proof -
  have "strcpy (replicate 200 0) 0 hook_prefix = Inr (hook_prefix @ replicate 192 0)"
    using hook_prefix_facts(1) by (simp add: strcpy_def overwrite_def) (simp add: numeral_eq_Suc)
  moreover have "strncpy (hook_prefix @ replicate 192 0) 8 s 192 =
      Inr (hook_prefix @ take 192 s @ replicate (192 - length s) 0)"
    using hook_prefix_facts(1) by (simp add: strncpy_def overwrite_def min_def)
  ultimately show ?thesis using hook_prefix_facts(1) by (simp add: my_puts_def)
qed

lemma my_puts_line:
  assumes "is_cstr s"
  shows "my_puts puts s w =
    (if length s < 192 then Inr (puts (hook_prefix @ s) w) else Inl OutOfBounds)"
proof (cases "length s < 192")
  case True
  then obtain k where "192 - length s = Suc k" by (metis Suc_diff_Suc)
  then show ?thesis
    using True string_in_append [of "hook_prefix @ s" "replicate k 0"] assms hook_prefix_facts(2)
    by (simp add: my_puts_buffer)
next
  case False
  have "(0 :: byte) \<notin> set (hook_prefix @ take 192 s)"
    using assms hook_prefix_facts(2) by (auto simp: is_cstr_def list_all_iff dest: in_set_takeD)
  then show ?thesis using False by (simp add: my_puts_buffer string_in_def)
qed

end
