(* ===== verification/Spec2Isabelle.thy ===== *)
theory Spec2Isabelle
  imports Example Shim
begin

text \<open>
  A verification library for the C implementation of a remote file service: a shared
  library of stubs that is preloaded into a client program and interposes twelve file
  functions (\<open>c/rpc_stubs.c\<close>), and the server that carries them out
  (\<open>c/server.c\<close>).  A path that starts with two slashes, or a descriptor above
  \<open>INT_MAX / 2\<close>, makes a call remote; the stub then opens a connection, sends
  \<open>[payload size || function code || arguments]\<close>, receives the results and closes
  the connection.  The server accepts connections one after the other and serves each in
  a thread of its own.

  \<^bold>\<open>Theories, in the order of imports\<close>

  \<^item> \<open>Prelude\<close>: C types of the x86-64 Linux ABI as words, the faults a C statement
    can run into, sequencing of fallible steps (\<open>ebind\<close>, \<open>holds\<close>),
    bounds-checked byte buffers, little-endian integers and the locale \<open>codec\<close>,
    C strings, signed subtraction.
  \<^item> \<open>Machine\<close>: the record \<open>os\<close> of everything the programs call that is not
    in the repository (kernel, network, environment), a parameter of all definitions; a
    process as heap, error log and world; \<open>malloc\<close>, \<open>free\<close>, loads and stores.
  \<^item> \<open>Wire\<close>: \<open>enum function\<close> of both files, the calls, their payloads and
    frames, a reference decoder, descriptor translation and the abstract server
    \<open>exec\<close> with the reply to a result.
  \<^item> \<open>Connection\<close>: the static state of \<open>c/rpc_stubs.c\<close>,
    \<open>connect_to_server\<close>, \<open>send_data\<close>, \<open>recv_data\<close>,
    \<open>recv_data_buf\<close>, and the locale \<open>transport\<close>: a kernel and a peer on which
    one exchange succeeds.
  \<^item> \<open>Stubs\<close>: the twelve interposed functions, one definition each, and
    \<open>issue\<close>, any call through its stub.
  \<^item> \<open>Stubs_Correct\<close>: local calls pass through, the heap is given back on every
    path, no undefined behaviour on valid arguments; in the locale \<open>rpc_client\<close>, which
    extends \<open>transport\<close>, each remote stub sends the frame of its call and unmarshals
    the answer.
  \<^item> \<open>Handler\<close>: \<open>client_handler\<close> of \<open>c/server.c\<close>, one definition per
    \<open>case\<close>, the dispatch, the response and the clean-up.
  \<^item> \<open>Handler_Correct\<close>: ownership of what a case allocates, the whole handler
    frees everything, and on a well-formed request it implements \<open>exec\<close>.
  \<^item> \<open>Server_Main\<close>: \<open>main\<close> and \<open>signal_handler\<close> as turns of a state
    machine with threads, the relation \<open>step\<close> of all interleavings and its executable
    form \<open>act\<close>.
  \<^item> \<open>Server_Inv\<close>: the invariant of the thread table, the faults a handler can
    have, ownership of payloads under prompt scheduling, and the race on
    \<open>argument\<close>.
  \<^item> \<open>Loopback\<close>: client and server joined by a network; the interpretation of
    \<open>rpc_client\<close> on it, whose laws are discharged by running the server's code; a
    remote call end to end.
  \<^item> \<open>Faults\<close>: a client without a server, requests no stub sends, a remote \<open>rename\<close> to
    an empty name.
  \<^item> \<open>Requests\<close>: what a stub hands to \<open>send\<close>, over any kernel.
  \<^item> \<open>Sockets\<close>: every exit of the connection layer closes its socket, \<open>read\<close>
    without memory excepted; responses that stop short.
  \<^item> \<open>Calendar\<close>: \<open>gmtime\<close>, and \<open>strftime\<close> with the format the programs use, as the C
    library documents them.
  \<^item> \<open>Programs\<close>: whole client programs over the stubs, \<open>c/remote.c\<close> and
    \<open>c/local.c\<close>, and what each of their calls comes to (\<open>behaves\<close>), the stubs' own habits
    included: a mode is dropped unless the flag word is \<open>O_CREAT\<close>, and a remote
    \<open>read\<close> overwrites the whole array.
  \<^item> \<open>Transparent\<close>: the ideal run of a program on two machines that share a name space
    (\<open>two_machines\<close>), without any of these, and the programs that get exactly that.
  \<^item> \<open>Local_Programs\<close>: programs that stay on their machine run the same with and without
    the library; the directory listing of \<open>c/local.c\<close>.
  \<^item> \<open>Shim\<close>: \<open>my_puts\<close> of \<open>c/shim.c\<close>.
  \<^item> \<open>Sd_Bus\<close>: \<open>method_multiply\<close>, \<open>my_vtable\<close>, the event loop and \<open>main\<close> of
    \<open>c/sd_bus_server.c\<close> over any libsystemd.
  \<^item> \<open>Sd_Client\<close>: \<open>main\<close> of \<open>c/sd_bus_client.c\<close> over any libsystemd, and the
    references it holds to buses and messages.
  \<^item> \<open>Win_Hook\<close>: \<open>HookIAT\<close>, \<open>DllMain\<close> and \<open>HookedCreateFileA\<close>
    of \<open>c/winshim.c\<close>.
  \<^item> \<open>Win_Inject\<close>: \<open>InjectDLL\<close> and \<open>main\<close> of \<open>c/dll_injector.c\<close>; the
    locale \<open>loader\<close> states what the Win32 calls are documented to do to a child process when
    they succeed and when they fail.
  \<^item> \<open>Win_Local\<close>: \<open>main\<close> of \<open>c/winlocal.c\<close>, its listing loop, and the program
    with \<open>CreateFileA\<close> called through an import table.
  \<^item> \<open>Example\<close>: concrete instances of what the other theories take as parameters (two
    machines with one file each, kernels, a libsystemd, a Windows machine on which
    \<open>loader\<close> is interpreted).  They serve the witnesses only: no property is about them.

  \<^bold>\<open>How state and operations correspond to the code\<close>

  The record \<open>stubs\<close> extends a process by the file-scope variables of
  \<open>c/rpc_stubs.c\<close>; \<open>server\<close> extends it by \<open>server_socket\<close>, the locals of
  \<open>main\<close> that live across iterations and the threads.  A pointer to a malloc'ed block
  is an address of the heap, with \<open>NULL = 0\<close>; every \<open>memcpy\<close> is checked against
  the size of its block, and fresh memory has arbitrary content.  Early returns and
  \<open>goto cleanup\<close> are branches; undefined behaviour is a value of the type
  \<open>fault\<close>.  A handler that has copied its argument runs to its end in one turn:
  handlers share no memory but the heap's free store, so what is left out is the
  interleaving of their system calls.  Copying the argument is one turn as well: the three
  fields are read one after the other (\<open>c/server.c\<close>, lines 67 to 69), and copies torn by an
  assignment of \<open>main\<close> between two of these reads are left out.  A stub's call is one step of its process; the
  stubs' static variables make no provision for threads of the client and none are
  modelled.

  \<^bold>\<open>Bounds\<close>

  No fuel is used: the loops of the server are turns of the state machine, those of
  \<open>HookIAT\<close> and of \<open>c/local.c\<close> follow a list, and the event loop of
  \<open>c/sd_bus_server.c\<close> and the search of \<open>c/winlocal.c\<close> are partial functions whose
  value is \<open>None\<close> when they run for ever.
  Objects are smaller than \<open>2 ^ 60\<close> bytes, so that size computations on
  \<open>size_t\<close> do not wrap.  The end-to-end theorems ask that a request and its reply fit
  into one piece of the network (\<open>seg\<close>), because neither program loops over
  \<open>recv\<close>, and into the memory that can be had (\<open>avail\<close>).

  \<^bold>\<open>Not modelled\<close>

  Torn copies of \<open>argument\<close> (above); \<open>errno\<close> and the text of error messages beyond the name of the failing call; the log
  lines of the D-Bus programs; a failing \<open>dlsym\<close>; the registration of the signal handler, which
  is in place from start-up on; the bus daemon between the two D-Bus programs, so that nothing is
  said about the two together; the memory \<open>scandir\<close> allocates; the interpose table of
  \<open>c/shim.c\<close> and the headers of the executable that \<open>HookIAT\<close> steps over, which the
  dynamic linker lays out.  The other languages of the repository reach the same stubs or
  repeat \<open>c/local.c\<close>.
\<close>

section \<open>Client, network and server together\<close>



text \<open>
  C2.  \<open>c/remote.c\<close> as a whole, on every server that holds \<open>test_file.txt\<close> with a
  modification time \<open>gmtime\<close> can represent and whose \<open>open\<close> hands out fresh
  descriptors: the program runs to its end through the stubs, and its lines and both final
  file systems are those of its calls made on the two machines.  Where the file is shorter
  than what is read, the bytes behind its end are what the server's buffer happened to hold.
\<close>

theorem remote_c_runs:
  assumes "roomy S" and "fresh_fds S" and "length sb = sizeof_stat" and "dated_file S (server_fs st)"
    and "ready S st"
  shows "\<exists>vs st'. run (client_os S) (remote_main sb) st = Inr (vs, st') \<and> ready S st' \<and>
    heap st' = heap st \<and>
    behaves S (remote_main sb) (lfs (world st)) (server_fs st) vs (lfs (world st')) (server_fs st')"
  using run_behaves [OF assms(5) remote_main_valid [OF assms(1-4)]] .

theorem remote_c_runs_witness:
  "\<exists>vs st'. run (client_os example) (remote_main (replicate 144 0)) example_client = Inr (vs, st')"
  using remote_c_runs [OF example_sane(2) example_fresh _ example_dated example_ready, of "replicate 144 0"]
  by (auto simp: sizeof_stat_def)

text \<open>
  C3.  One remote call through its stub, the network and the server is the call itself on
  the server's files: paths lose their two slashes, descriptors are translated in both
  directions, the server's files change as the call changes them and nothing else does
  (client files, client heap, client error log), and client and server are ready for the
  next call.  The caller's array is overwritten in full, behind the bytes read with what
  the server's buffer happened to hold (\<open>old\<close>).
\<close>

theorem remote_call_transparency:
  assumes "ready S st" and "remote_call c" and "wf_args ub c" and "fits S (server_call c)"
  shows "\<exists>old st'. length old = result_buf c \<and>
    (let (r, x) = direct (remote_files S) (localise (server_call c)) (server_fs st) in
     issue (client_os S) ub c st = Inr (delivered old (globalise c r), st') \<and> server_fs st' = x) \<and>
    ready S st' \<and> heap st' = heap st \<and> errlog st' = errlog st \<and> lfs (world st') = lfs (world st)"
  by (rule remote_issue [OF assms])

theorem remote_call_transparency_witness:
  "\<exists>st'. issue (client_os example) [] (Write 0x7FFFFFFC (cstring ''HELLO'')) example_client =
      Inr (RLong 5, st') \<and>
    content (server_fs st') = cstring ''HELLO world'' \<and> content (lfs (world st')) = cstring ''local''"
proof -
  let ?c = "Write 0x7FFFFFFC (cstring ''HELLO'')"
  have "remote_call ?c" "wf_args [] ?c" "fits example (server_call ?c)"
    by (simp_all add: is_remote_fd_def cstring_def addressable_def fits_def to_local_def example_def
        payload_of_def frame_def)
  from remote_call_transparency [OF example_ready this] show ?thesis
    by (auto simp: example_def tiny_files_def example_client_def example_server_def example_net_def
        server_fs_def cstring_def of_char_def to_local_def)
qed

text \<open>
  C4.  A server between two connections takes in a well-formed request, makes exactly the
  call it encodes on its files, answers with the reply to that call, closes the connection
  and is between two connections again, its heap as before; this includes the fiftieth
  connection, after which \<open>main\<close> joins all threads.
\<close>

theorem connection_served:
  assumes "sane S" and "idle sv" and "waiting (world sv)" and "inq (world sv) = frame (payload_of c)"
    and "carries S c"
  shows "\<exists>old sv'. length old = result_buf c \<and> serve_connection (server_os S) sv = Inr sv' \<and>
    idle sv' \<and> heap sv' = heap sv \<and>
    (let (r, x) = exec (remote_files S) c (fs (world sv)) in
     world sv' = (world sv)\<lparr>fs := x, waiting := False, inq := [],
       outq := outq (world sv) @ reply old r, shut := True\<rparr>)"
  by (rule serve_connection_ok [OF assms])

theorem connection_served_witness:
  "\<exists>sv'. serve_connection (server_os example) (example_server
      \<lparr>world := example_net\<lparr>waiting := True, inq := frame (payload_of (Close 0x7FFFFFFC))\<rparr>\<rparr>) = Inr sv' \<and>
    idle sv' \<and> outq (world sv') = le32 0"
proof -
  let ?sv = "example_server\<lparr>world := example_net\<lparr>waiting := True, inq := frame (payload_of (Close 0x7FFFFFFC))\<rparr>\<rparr>"
  have "idle ?sv"
    by (simp add: idle_def slots_inv_def wf_heap_def used_slots_def live_def example_server_def)
  moreover have "carries example (Close 0x7FFFFFFC)"
    by (simp add: carries_def fits_def to_local_def example_def payload_of_def frame_def)
  ultimately show ?thesis
    using connection_served [OF example_sane(1), of ?sv "Close 0x7FFFFFFC"]
    by (auto simp: example_def tiny_files_def to_local_def example_net_def)
qed

section \<open>The request handler\<close>

text \<open>
  C5.  \<open>client_handler\<close> implements the abstract server: given memory, on the payload of
  a well-formed call it makes that call, sends the reply to its result, shuts the
  connection down and closes it, and leaves the heap as it was without the payload.
\<close>

theorem handler_refines_exec:
  assumes "alloc_ok os lim" and "length (payload_of c) \<le> lim" "reply_size c \<le> lim" "148 \<le> lim"
    and "lim < 2 ^ 63" and "wf_heap st" and "heap st (payload args) = Some (payload_of c)"
    and "arg_size args = of_nat (length (payload_of c))"
    and "wf_call c" and "\<forall>fd. call_fd c = Some fd \<longrightarrow> 0 \<le> sint fd"
  shows "\<exists>old st'. length old = result_buf c \<and> client_handler os args st = Inr st' \<and>
    heap st' = (heap st)(payload args := None) \<and>
    (let (r, w) = exec os c (world st) in
     world st' = conclude os (client_socket args) (reply old r) w)"
  using client_handler_serves [OF assms] by auto

theorem handler_refines_exec_witness:
  "\<exists>st'. client_handler (server_os example) (loaded_arg (payload_of (Lseek 0x7FFFFFFC 6 0)))
      (loaded (payload_of (Lseek 0x7FFFFFFC 6 0))) = Inr st' \<and>
    outq (world st') = le64 6 \<and> pos (fs (world st')) = 6 \<and> shut (world st')"
proof -
  let ?c = "Lseek 0x7FFFFFFC 6 0"
  have a: "alloc_ok (server_os example) 1000" using grant_ok(1) [of example] by (simp add: example_def)
  have e: "exec (server_os example) ?c example_net =
      (RLong 6, example_net\<lparr>fs := (fs example_net)\<lparr>pos := 6\<rparr>\<rparr>)"
    using exec_server_os [where c = ?c and S = example and n = example_net]
    by (simp add: example_def tiny_files_def to_local_def)
  have s: "ssk example = 4" by (simp add: example_def)
  show ?thesis
    using handler_refines_exec [OF a, of ?c "loaded (payload_of ?c)" "loaded_arg (payload_of ?c)"]
      loaded_wf conclude_server_os [of "le64 6" example] e
    by (auto simp: s) (auto simp: payload_of_def example_net_def)
qed

text \<open>
  C6.  Whatever the payload holds and whatever fails on the way, a handler that returns has
  given back all it allocated and the payload itself: no leak, and no other block touched.
\<close>

theorem handler_frees_everything:
  assumes "wf_heap st" and "client_handler os args st = Inr st'"
  shows "heap st' = (heap st)(payload args := None) \<and> wf_heap st'"
  by (rule holdsD [OF client_handler_heap [OF assms(1)] assms(2)])

theorem handler_frees_everything_witness:
  "\<exists>st'. client_handler (server_os example) (loaded_arg [99]) (loaded [99]) = Inr st' \<and>
    heap st' = (\<lambda>_. None)"
proof -
  have "func_of_code 99 = None" by (rule func_of_code_default) simp
  then have h: "client_handler (server_os example) (loaded_arg [99]) (loaded [99]) =
      Inr ((loaded [99])\<lparr>errlog := errlog (loaded [99]) @ [''Unsupported function''],
        heap := (heap (loaded [99]))(payload (loaded_arg [99]) := None)\<rparr>)"
    by (intro unsupported_code [OF loaded_wf]) simp_all
  from handler_frees_everything [OF loaded_wf h] h show ?thesis
    by (auto simp: loaded_def fun_eq_iff)
qed

text \<open>
  C7.  With its payload in memory a handler never frees twice, never frees what it does not
  own and never hangs in its own code: on arbitrary input bytes the only faults left are
  reads and writes out of bounds and the overflow of \<open>INT_MAX - fildes\<close>.
\<close>

theorem handler_faults:
  assumes "wf_heap st" and "heap st (payload args) = Some b"
  shows "(\<exists>st'. client_handler os args st = Inr st') \<or>
    client_handler os args st \<in> {Inl OutOfBounds, Inl SignedOverflow}"
  using client_handler_faults [OF assms, of os]
  by (cases "client_handler os args st") (auto simp: input_fault_def)

theorem handler_faults_witness:
  "client_handler (server_os example) (loaded_arg [1, 0, 0, 0, 128]) (loaded [1, 0, 0, 0, 128]) =
     Inl SignedOverflow"
proof -
  have "client_handler (server_os example) (loaded_arg [1, 0, 0, 0, 128]) (loaded [1, 0, 0, 0, 128]) \<noteq> Inl OutOfBounds \<and>
    (\<forall>st'. client_handler (server_os example) (loaded_arg [1, 0, 0, 0, 128]) (loaded [1, 0, 0, 0, 128]) \<noteq> Inr st')"
    by (simp add: client_handler_def load_def block_def loaded_def slice_def func_of_code_def all_funcs_def handle_case_def
        handle_close_def load_fd_def ld32_def int_sub_INT_MAX_neg)
  with handler_faults [where st = "loaded [1, 0, 0, 0, 128]" and args = "loaded_arg [1, 0, 0, 0, 128]"
      and os = "server_os example", OF loaded_wf loaded_simps(2)]
  show ?thesis by auto
qed

section \<open>The stubs\<close>

text \<open>
  C8.  Every stub gives back what it allocates: on every path, errors included, the heap
  of a call that returns is the heap it started with.
\<close>

theorem stubs_give_back_heap:
  assumes "wf_heap st" and "issue os ub c st = Inr (r, st')"
  shows "heap st' = heap st"
  using holdsD [OF issue_heap [OF assms(1)] assms(2)] by simp

theorem stubs_give_back_heap_witness:
  "\<exists>r st'. issue offline_os [] (Unlink (cstring ''//f'')) example_client = Inr (r, st') \<and>
    heap st' = (\<lambda>_. None)"
proof -
  have wf: "wf_heap example_client" using example_ready by (simp add: ready_def)
  have "remote_call (Unlink (cstring ''//f''))" "wf_args [] (Unlink (cstring ''//f''))"
    by (simp_all add: cstring_def of_char_def remote_path_def char_at_def addressable_def)
  from issue_offline [OF example_offline wf this] obtain st' where
    i: "issue offline_os [] (Unlink (cstring ''//f'')) example_client = Inr (RInt (-1), st')"
    by auto
  from stubs_give_back_heap [OF wf i] i show ?thesis by (auto simp: example_client_def)
qed

text \<open>
  C9.  No stub runs into undefined behaviour on valid arguments (\<open>wf_args\<close>: C strings and
  arrays of the sizes the calls need, a mode with \<open>O_CREAT\<close>, and for a remote
  \<open>rename\<close> a new name of two characters or more) when the port of the environment is an
  \<open>int\<close>: no access out of bounds, no call through a null pointer, no bad \<open>free\<close>, no
  missing variadic argument, no overflow.  It returns, or waits for a server that does not
  answer.
\<close>

theorem stubs_safe:
  assumes "wf_heap st" and "wf_args ub c" and "rpc_port os = Inr port"
  shows "(\<exists>r st'. issue os ub c st = Inr (r, st')) \<or> issue os ub c st = Inl Hang"
  using issue_safe [OF assms(1,2), of os] assms(3) by (cases "issue os ub c st") (auto simp: safe_def)

theorem stubs_safe_witness:
  "issue (client_os example) [] (Fsync 0x7FFFFFFC) example_client \<notin> {Inl OutOfBounds, Inl NullCall}"
proof -
  have wf: "wf_heap example_client" using example_ready by (simp add: ready_def)
  have a: "wf_args [] (Fsync 0x7FFFFFFC)" by simp
  obtain port where "rpc_port (client_os example) = Inr port" using lb.port_ok [of example] by blast
  from stubs_safe [OF wf a this] show ?thesis by auto
qed

text \<open>
  C10.  A call with a local path or descriptor goes straight to the real function, with the
  arguments the program passed: the server is not contacted, no memory is allocated, and the
  result is the real function's.  An \<open>open\<close> that passes a mode is one with the flag word
  \<open>O_CREAT\<close> alone.
\<close>

theorem local_calls_pass_through:
  assumes "\<not> remote_call c" and "wf_args ub c" and "mode_kept c"
  shows "issue os ub c st =
    (let (r, w) = direct os c (world st) in
     Inr (into_buffer ub c r, (resolve (call_func c) st)\<lparr>world := w\<rparr>))"
  using issue_local [OF assms(1,2)] passed_kept [OF assms(3)] by simp

theorem local_calls_pass_through_witness:
  "\<exists>st'. issue (client_os example) [0, 0, 0] (Read 3 3) example_client =
     Inr (RRead 3 (cstring ''loc''), st') \<and> peer (world st') = example_server"
proof -
  have "\<not> remote_call (Read 3 3)" "wf_args [0, 0, 0] (Read 3 3)" "mode_kept (Read 3 3)"
    by (simp_all add: is_remote_fd_def addressable_def)
  note local_calls_pass_through [OF this, of "client_os example" example_client]
  moreover have "direct (client_os example) (Read 3 3) (world example_client) =
      (RRead 3 (cstring ''loc''),
       (world example_client)\<lparr>lfs := \<lparr>content = cstring ''local'', pos = 3\<rparr>\<rparr>)"
    by (subst direct_client_os)
       (simp_all add: example_def tiny_files_def example_client_def cstring_def of_char_def)
  ultimately show ?thesis
    by (simp add: put_prefix_def cstring_def example_client_def del: issue.simps direct.simps)
qed

text \<open>
  C11.  When no socket can be had, every remote call returns \<open>-1\<close>, with the caller's
  array untouched.
\<close>

theorem offline_calls_fail:
  assumes "offline os" and "wf_heap st" and "remote_call c" and "wf_args ub c"
  shows "\<exists>st'. issue os ub c st = Inr (failure ub c, st')"
  by (rule issue_offline [OF assms])

theorem offline_calls_fail_witness:
  "\<exists>st'. issue offline_os [7, 8] (Read 0x7FFFFFFC 2) example_client = Inr (RRead (-1) [7, 8], st')"
proof -
  have "wf_heap example_client" using example_ready by (simp add: ready_def)
  from offline_calls_fail [OF example_offline this, of "Read 0x7FFFFFFC 2" "[7, 8]"] show ?thesis
    by (simp add: is_remote_fd_def addressable_def)
qed

text \<open>
  C12.  A mode given to \<open>open\<close> together with any flag word other than exactly
  \<open>O_CREAT\<close> is ignored, for local and remote files alike: the call is the one without
  a mode.
\<close>

theorem mode_dropped:
  assumes "oflag \<noteq> O_CREAT"
  shows "issue os ub (Open path oflag (Some m)) st = issue os ub (Open path oflag None) st"
  using assms by (simp add: open_stub_def)

theorem mode_dropped_witness:
  "issue (client_os example) [] (Open (cstring ''new'') 0x41 (Some 0x1A4)) example_client =
   issue (client_os example) [] (Open (cstring ''new'') 0x41 None) example_client"
  by (rule mode_dropped) (simp add: O_CREAT_def)

section \<open>The wire format\<close>

text \<open>
  C13.  What a stub puts on the wire, over any kernel: whatever happens, a remote call hands at
  most one message to \<open>send\<close>, the frame of its request, and a call that returns anything but
  its failure value has handed it over.  The request carries the call with its path stripped of
  the two slashes (and a mode only with the flag word \<open>O_CREAT\<close>): decoding its payload gives
  exactly that call.
\<close>

theorem request_roundtrip:
  assumes "observes os out" and "remote_call c" and "wf_args ub c" and "issue os ub c st = Inr (r, st')"
    and "request = payload_of (server_call c)"
  shows "(out (world st') = out (world st) \<or> out (world st') = out (world st) @ [frame request]) \<and>
    (r \<noteq> failure ub c \<longrightarrow> out (world st') = out (world st) @ [frame request]) \<and>
    parse request = Some (server_call c)"
  using holdsD [OF issue_posts [OF assms(1-3)] assms(4)] parse_payload_of [OF wf_server_call [OF assms(3)]]
    assms(5)
  by (auto simp: posted_def)

theorem request_roundtrip_witness:
  "\<exists>st'. issue logging_os [] (Fsync 0x7FFFFFFC) logging_client = Inr (RInt 0, st') \<and>
     world st' = [[5, 0, 0, 0, 0, 0, 0, 0, 9, 0xFC, 0xFF, 0xFF, 0x7F]]"
proof -
  let ?c = "Fsync 0x7FFFFFFC"
  have rc: "remote_call ?c" and wf: "wf_args [] ?c" by (simp_all add: is_remote_fd_def)
  obtain st' where i: "issue logging_os [] ?c logging_client = Inr (RInt 0, st')"
    using rc
    by (auto simp: lift_result_def fsync_stub_def array_requests transact_def send_data_def connect_to_server_def
        lookup_endpoint_def logging_os_def logging_client_def recv_data_buf_def sys_eq call_real_def int_result_def
        frame_def payload_of_def slice_def put_prefix_def stack_array_def ld32_def Let_def upt_rec)
  have f: "frame (payload_of ?c) = [5, 0, 0, 0, 0, 0, 0, 0, 9, 0xFC, 0xFF, 0xFF, 0x7F]"
    by (simp add: payload_of_def frame_def le32_def le64_def le_bytes_numeral)
  have "world logging_client = []" by (simp add: logging_client_def)
  with request_roundtrip [OF logging_observes rc wf i refl] i f show ?thesis by auto
qed

text \<open>
  C14.  Descriptors: a descriptor of the server is recovered from the number the client is
  shown, the client takes that number for a remote descriptor as long as the server's one
  is at most 1073741823, and takes no smaller number for one.
\<close>

theorem descriptor_translation:
  assumes "0 \<le> sint fd"
  shows "to_local (to_remote fd) = fd \<and> 0 \<le> sint (to_remote fd) \<and>
    (is_remote_fd (to_remote fd) \<longleftrightarrow> sint fd \<le> 1073741823) \<and>
    (is_remote_fd fd \<longleftrightarrow> 1073741823 < sint fd)"
  using assms to_local_to_remote to_remote_is_remote uint_INT_MAX_minus [OF assms] sint_lt [of fd]
  by (auto simp: to_remote_def is_remote_fd_def)

theorem descriptor_translation_witness:
  "to_local (to_remote 3) = 3 \<and> is_remote_fd (to_remote 3) \<and> \<not> is_remote_fd 3"
  using descriptor_translation [of 3] by simp

section \<open>The server's threads\<close>

text \<open>
  C15.  Under every interleaving of \<open>main\<close>, the handlers and \<open>SIGINT\<close>, from
  start-up on: as long as the process lives, the next slot of \<open>thread_id\<close> is within
  its 60 entries, at most 50 threads are alive, and each of them is in a slot that
  \<open>main\<close> has still to join.
\<close>

theorem threads_bounded:
  assumes "server_start os st0 = Inr st1" and "wf_heap st0" and "live st0 = {}"
    and "length (thread_id st0) = 60" and "length (payload_size_buf st0) = 8"
    and "reachable os st1 st" and "phase st \<noteq> Exited"
  shows "length (thread_id st) = 60 \<and> thread_index st < 50 \<and> card (live st) \<le> 50 \<and>
    (\<forall>t \<in> live st. \<exists>i \<in> used_slots st. thread_id st ! i = Some t)"
proof -
  have "slots_inv st" using reachable_inv [OF assms(6) start_inv [OF assms(1-5)]] .
  then show ?thesis using live_bounded [OF _ assms(7)] assms(7) by (simp add: slots_inv_def)
qed

theorem threads_bounded_witness:
  "card (live (busy_turn example_server)) \<le> 50 \<and> live (busy_turn example_server) = {0}"
proof -
  let ?st0 = "example_server"
  have s: "server_start busy_os ?st0 = Inr ?st0"
    by (simp add: server_start_def server_port_def busy_os_def server_os_def sys_eq example_server_def Let_def)
  have "wf_heap ?st0" "live ?st0 = {}" using example_idle by (simp_all add: idle_def slots_inv_def)
  moreover have "main_iteration busy_os ?st0 = Inr (busy_turn ?st0)"
    by (rule busy_main) (simp_all add: example_server_def)
  then have "reachable busy_os ?st0 (busy_turn ?st0)"
    by (intro reachable.more [OF reachable.start] step.accept) (simp_all add: example_server_def)
  moreover have "phase (busy_turn ?st0) \<noteq> Exited" by (simp add: busy_turn_def example_server_def)
  ultimately have "card (live (busy_turn ?st0)) \<le> 50"
    using threads_bounded [OF s] by (simp add: example_server_def)
  moreover have "live (busy_turn ?st0) = {0}"
    by (auto simp: live_def busy_turn_def example_server_def)
  ultimately show ?thesis by simp
qed

text \<open>
  C16.  \<open>main\<close> itself never runs into undefined behaviour in a reachable state: its
  next turn succeeds, or it waits for a thread, or it blocks in \<open>recv\<close> on a client
  that sends nothing.
\<close>

theorem main_never_faults:
  assumes "server_start os st0 = Inr st1" and "wf_heap st0" and "live st0 = {}"
    and "length (thread_id st0) = 60" and "length (payload_size_buf st0) = 8"
    and "reachable os st1 st"
  shows "main_turn os st \<in> {None, Some (Inl Hang)} \<or> (\<exists>st'. main_turn os st = Some (Inr st'))"
proof -
  have "slots_inv st" using reachable_inv [OF assms(6) start_inv [OF assms(1-5)]] .
  from main_turn_faults [OF this, of os] show ?thesis
    by (cases "main_turn os st"; cases "the (main_turn os st)") auto
qed

theorem main_never_faults_witness:
  "main_turn (server_os example) example_server \<noteq> Some (Inl OutOfBounds)"
proof -
  have s: "server_start (server_os example) example_server = Inr example_server"
    by (simp add: server_start_def server_port_def server_os_def sys_eq example_server_def Let_def)
  have "wf_heap example_server" "live example_server = {}"
    using example_idle by (simp_all add: idle_def slots_inv_def)
  from main_never_faults [OF s this _ _ reachable.start] show ?thesis
    by (auto simp: example_server_def)
qed

text \<open>
  C17.  The join loop cannot get stuck on its own: in every state in which \<open>main\<close> waits for
  a thread, reached from start-up under any interleaving, the slot it looks at holds a thread
  of the process, and that thread has returned, so that the join succeeds, or has a turn to
  take.
\<close>

theorem join_loop_progress:
  assumes "server_start os st0 = Inr st1" and "wf_heap st0" and "live st0 = {}"
    and "length (thread_id st0) = 60" and "length (payload_size_buf st0) = 8"
    and "reachable os st1 st" and "phase st = Joining"
  shows "(\<exists>st'. main_turn os st = Some (Inr st')) \<or>
    (\<exists>t. thread_id st ! thread_index st = Some t \<and>
       (act os (Fetch t) st \<noteq> None \<or> act os (Run t) st \<noteq> None))"
  by (rule join_progress [OF reachable_inv [OF assms(6) start_inv [OF assms(1-5)]] assms(7)])

theorem join_loop_progress_witness:
  "\<exists>sv. reachable busy_os example_server sv \<and> phase sv = Joining \<and> act busy_os (Fetch 0) sv \<noteq> None"
proof -
  obtain sv where sv: "reachable busy_os example_server sv" "phase sv = Joining" "thread_index sv = 0"
    "length (thread_id sv) = 60" "thread_id sv ! 0 = Some 0" "thread_at 0 sv = Some Created"
    using busy_joining by blast
  have i: "wf_heap example_server" "live example_server = {}"
    using example_idle by (simp_all add: idle_def slots_inv_def)
  have "join_target sv = Inr (Some Created)"
    using sv by (auto simp: join_target_def thread_at_def split: if_splits)
  then have "main_turn busy_os sv = None" using sv(2) by (simp add: main_turn_def)
  moreover have "act busy_os (Run 0) sv = None" using sv(6) by simp
  ultimately have "act busy_os (Fetch 0) sv \<noteq> None"
    using join_loop_progress [OF busy_start i _ _ sv(1,2)] sv(3,5) by (auto simp: example_server_def)
  with sv(1,2) show ?thesis by blast
qed

text \<open>
  C18.  When no connection is accepted while a thread has still to copy its argument, the
  server's heap holds exactly one payload for each live thread, no two threads share one,
  and once all threads have returned the heap is empty: no leak, no use after free.
\<close>

theorem prompt_threads_own_payloads:
  assumes "slots_inv st0" and "payloads_inv st0" and "prompt_reachable os st0 st"
    and "phase st \<noteq> Exited"
  shows "inj_on (pending st) (live st) \<and> dom (heap st) = pending st ` live st \<and>
    (live st = {} \<longrightarrow> heap st = (\<lambda>_. None))"
  using prompt_reachable_payloads [OF assms(3,1,2)] assms(4) by (auto simp: payloads_inv_def)

theorem prompt_threads_own_payloads_witness:
  "dom (heap (busy_turn example_server)) = {1}"
proof -
  have i: "slots_inv example_server" using example_idle by (simp add: idle_def)
  have p: "payloads_inv example_server"
    using example_idle by (simp add: payloads_inv_def idle_def) (simp add: example_server_def)
  have "main_iteration busy_os example_server = Inr (busy_turn example_server)"
    by (rule busy_main) (simp_all add: example_server_def)
  then have "prompt_step busy_os example_server (busy_turn example_server)"
    by (simp add: prompt_step_def step.accept example_server_def)
  then have "prompt_reachable busy_os example_server (busy_turn example_server)"
    by (rule prompt_reachable.more [OF prompt_reachable.start])
  moreover have "phase (busy_turn example_server) \<noteq> Exited" by (simp add: busy_turn_def example_server_def)
  ultimately have "dom (heap (busy_turn example_server)) =
      pending (busy_turn example_server) ` live (busy_turn example_server)"
    using prompt_threads_own_payloads [OF i p] by blast
  also have "live (busy_turn example_server) = {0}"
    by (auto simp: live_def busy_turn_def example_server_def)
  finally show ?thesis by (simp add: pending_def busy_turn_def example_server_def busy_arg_def)
qed

text \<open>
  C19.  Without that, \<open>argument\<close> is a race: when \<open>main\<close> accepts two connections
  before the first thread copies its argument, both threads get the second request, and
  once the first thread has returned the other one reads a payload that has been freed.
\<close>

theorem argument_race:
  assumes "slots_inv st"
    and "schedule os [Main, Main, Fetch t, Fetch (Suc t), Run t] st = Some (Inr st')"
  shows "act os (Run (Suc t)) st' = Some (Inl OutOfBounds)"
  by (rule race_after_two_accepts [OF assms])

theorem argument_race_witness:
  "\<exists>st. schedule busy_os [Main, Main, Fetch 0, Fetch 1, Run 0] example_server = Some (Inr st) \<and>
     act busy_os (Run 1) st = Some (Inl OutOfBounds)"
proof -
  have i: "slots_inv example_server" using example_idle by (simp add: idle_def)
  obtain st where st: "schedule busy_os [Main, Main, Fetch 0, Fetch 1, Run 0] example_server = Some (Inr st)"
    using busy_race by blast
  have "act busy_os (Run (Suc 0)) st = Some (Inl OutOfBounds)"
    by (rule argument_race [OF i]) (use st in simp)
  with st show ?thesis by auto
qed

section \<open>Requests no stub sends\<close>

text \<open>
  C20.  A \<open>WRITE\<close> request whose byte count is larger than the data it carries makes
  the server read or write outside its buffers.
\<close>

theorem write_count_trusted:
  assumes "alloc_ok os (length bs)" and "wf_heap st" and "length bs < 2 ^ 60" and "length bs < unat n"
    and "heap st (payload args) = Some (func_code WRITE # le32 fd @ bs @ le64 n)"
    and "arg_size args = of_nat (13 + length bs)"
  shows "client_handler os args st = Inl OutOfBounds"
  using assms(5) write_overflow [OF assms(1,2,5,6,3,4)]
  by (simp add: client_handler_def load_live slice_def handle_case_def func_of_code_def all_funcs_def Let_def)

theorem write_count_trusted_witness:
  "client_handler (server_os example) (loaded_arg (3 # le32 0x7FFFFFFC @ [65] @ le64 2))
     (loaded (3 # le32 0x7FFFFFFC @ [65] @ le64 2)) = Inl OutOfBounds"
proof -
  have "alloc_ok (server_os example) (length [65 :: byte])"
    using grant_ok(1) [of example] by (simp add: alloc_ok_def example_def)
  from write_count_trusted [OF this loaded_wf, of 2] show ?thesis by simp
qed

text \<open>
  C21.  A request with a function code the server does not know is dropped without a
  reply and without closing the connection: the world outside the process is untouched,
  so the client that sent it waits for ever.
\<close>

theorem unsupported_unanswered:
  assumes "wf_heap st" and "heap st (payload args) = Some (b # bs)" and "11 < uint b"
  shows "\<exists>st'. client_handler os args st = Inr st' \<and> world st' = world st \<and>
    errlog st' = errlog st @ [''Unsupported function''] \<and> heap st' = (heap st)(payload args := None)"
  using unsupported_code [OF assms(1,2) func_of_code_default [OF assms(3)]] by simp

theorem unsupported_unanswered_witness:
  "\<exists>st'. client_handler (server_os example) (loaded_arg [12]) (loaded [12]) = Inr st' \<and>
    world st' = example_net"
  using unsupported_unanswered [where os = "server_os example", OF loaded_wf loaded_simps(2), of 12 "[]"]
  by auto

text \<open>
  C22.  A client that announces a payload the server gets no memory for ends the whole
  server, whatever its other threads are doing.
\<close>

theorem oversized_request_ends_server:
  assumes "os_accept os (server_socket st) (world st) = (sk, w1)" and "0 \<le> sint sk"
    and "os_recv os sk 8 w1 = Some ((8, le64 k), w2)" and "length (payload_size_buf st) = 8"
    and "fst (os_malloc os k w2) = None"
  shows "\<exists>st'. main_iteration os st = Inr st' \<and> phase st' = Exited"
  using assms take_request_no_memory [where st = "st\<lparr>world := w2, payload_size_buf := le64 k\<rparr>"]
  by (simp add: main_iteration_def sys_eq)

theorem oversized_request_ends_server_witness:
  "\<exists>st'. main_iteration (server_os example) (example_server
      \<lparr>world := example_net\<lparr>waiting := True, inq := le64 0x10000\<rparr>\<rparr>) = Inr st' \<and> phase st' = Exited"
  by (rule oversized_request_ends_server [of _ _ 4 "example_net\<lparr>inq := le64 0x10000\<rparr>" "0x10000" example_net])
     (simp_all add: example_server_def example_def example_net_def piece_def grant_def)

section \<open>The other C programs\<close>

text \<open>
  C23.  \<open>my_puts\<close> prints the prefix and the whole string when the string has at most
  191 characters; on a longer one the array has no terminator left and \<open>puts\<close> reads
  past its end.
\<close>

theorem my_puts_prefixes:
  assumes "is_cstr s"
  shows "my_puts puts s w =
    (if length s < 192 then Inr (puts (cstring ''Hooked: '' @ s) w) else Inl OutOfBounds)"
  by (simp only: my_puts_line [OF assms] hook_prefix_def)

theorem my_puts_prefixes_witness:
  "my_puts (\<lambda>line w. (0, w @ [line])) (cstring ''hi'') [] = Inr (0, [cstring ''Hooked: hi'']) \<and>
   my_puts (\<lambda>line w. (0, w @ [line])) (replicate 192 65) [] = Inl OutOfBounds"
  using my_puts_prefixes [of "cstring ''hi''" "\<lambda>line w. (0, w @ [line])" "[]"]
    my_puts_prefixes [of "replicate 192 65" "\<lambda>line w. (0, w @ [line])" "[]"]
  by (simp add: cstring_def of_char_def is_cstr_def list_all_iff)

text \<open>
  C24.  Attaching \<open>winshim.dll\<close> to a process that imports \<open>CreateFileA\<close> from
  \<open>KERNEL32.dll\<close> redirects exactly that entry of the import table, leaves every other
  entry and every protection as they were, and makes the hook lead to the real function;
  the saved pointer is not null when the hook is called.
\<close>

theorem hook_installed:
  assumes "protects vp" and "createFileA = gp KERNEL32 (cstring ''CreateFileA'')"
    and "entry_at createFileA (imports_of im) = Some (i, j)"
    and "DllMain vp gp DLL_PROCESS_ATTACH hooked im = (ok, im')"
  shows "i < length (imports_of im) \<and> desc_name (imports_of im ! i) = KERNEL32 \<and>
    first_thunk (imports_of im ! i) ! j = createFileA \<and>
    imports_of im' = (imports_of im)[i := (imports_of im ! i)
      \<lparr>first_thunk := (first_thunk (imports_of im ! i))[j := hooked]\<rparr>] \<and>
    protection im' = protection im \<and>
    HookedCreateFileA puts invoke im' args w =
      Inr (invoke createFileA args (snd (puts (cstring ''Hooked CreateFileA!'') w)))"
  using assms entry_at_Some [OF assms(3)]
  by (auto simp: DllMain_def HookIAT_eq set_thunk_def HookedCreateFileA_def Let_def split: prod.split)

theorem hook_installed_witness:
  "\<exists>im'. DllMain (\<lambda>i j new im. (protection im i j,
        im\<lparr>protection := (protection im)(i := (protection im i)(j := new))\<rparr>)) example_addresses 1 9
      \<lparr>imports_of = [\<lparr>desc_name = cstring ''USER32.dll'', first_thunk = [7]\<rparr>,
         \<lparr>desc_name = cstring ''KERNEL32.dll'', first_thunk = [5, 7, 8]\<rparr>],
       protection = \<lambda>_ _. 2, originalCreateFileA = 0\<rparr> = (True, im') \<and>
    map first_thunk (imports_of im') = [[7], [5, 9, 8]]"
proof -
  let ?vp = "\<lambda>i j new im. (protection im i j,
        im\<lparr>protection := (protection im)(i := (protection im i)(j := new))\<rparr>)"
  let ?im = "\<lparr>imports_of = [\<lparr>desc_name = cstring ''USER32.dll'', first_thunk = [7]\<rparr>,
         \<lparr>desc_name = cstring ''KERNEL32.dll'', first_thunk = [5, 7, 8]\<rparr>],
       protection = \<lambda>_ _. 2, originalCreateFileA = 0\<rparr>"
  have e: "entry_at 7 (imports_of ?im) = Some (1, 1)"
    by (simp add: KERNEL32_def cstring_def of_char_def)
  have p: "protects ?vp" by (simp add: protects_def)
  obtain ok im' where d: "DllMain ?vp example_addresses DLL_PROCESS_ATTACH 9 ?im = (ok, im')"
    by fastforce
  have a: "7 = example_addresses KERNEL32 (cstring ''CreateFileA'')" by (simp add: example_addresses_def)
  from hook_installed [OF p a e d, where puts = "\<lambda>_ w. (0, w)" and invoke = "\<lambda>_ _ w. ((), w)"
      and args = "()" and w = "()"] have "map first_thunk (imports_of im') = [[7], [5, 9, 8]]" by simp
  moreover have "ok" using d by (simp add: DllMain_def)
  ultimately show ?thesis using d by (auto simp: DLL_PROCESS_ATTACH_def)
qed

text \<open>
  C25.  \<open>Multiply\<close> answers with the product of its arguments whenever the product is
  an \<open>int64_t\<close>; otherwise the multiplication overflows.  A message that cannot be read
  is answered with the error of reading it.
\<close>

theorem multiply_replies_product:
  assumes "sd_read_xx lib m w = ((r, a, b), w')" and "0 \<le> sint r"
  shows "(\<exists>p. sint p = sint a * sint b \<and> method_multiply lib m w = Inr (sd_reply_x lib m p w')) \<or>
    sint a * sint b \<notin> {- (2 ^ 63) ..< 2 ^ 63} \<and> method_multiply lib m w = Inl SignedOverflow"
proof (cases "int64_mul a b")
  case (Inl e)
  then have "sint a * sint b \<notin> {- (2 ^ 63) ..< 2 ^ 63} \<and> e = SignedOverflow"
    by (auto simp: int64_mul_def split: if_splits)
  then show ?thesis using assms Inl by (simp add: method_multiply_def)
next
  case (Inr p)
  then show ?thesis using assms sint_int64_mul [OF Inr] by (auto simp: method_multiply_def)
qed

theorem multiply_replies_product_witness:
  "method_multiply example_bus () [] = Inr (1, [42])"
proof -
  have r: "sd_read_xx example_bus () [] = ((1, 6, 7), [])" by (simp add: example_bus_def)
  have one: "0 \<le> sint (1 :: cint)" by simp
  from multiply_replies_product [OF r one] obtain p where
    p: "sint p = 42" "method_multiply example_bus () [] = Inr (sd_reply_x example_bus () p [])"
    by auto
  have "p = word_of_int (sint p)" by simp
  then have "p = 42" unfolding p(1) by simp
  with p(2) show ?thesis by (simp add: example_bus_def)
qed

text \<open>
  C26.  The D-Bus server never reports success: when its \<open>main\<close> returns at all, it
  returns \<open>EXIT_FAILURE\<close>.
\<close>

theorem sd_server_never_succeeds:
  assumes "sd_server_main lib w = Some (status, w')"
  shows "status = EXIT_FAILURE"
  using assms
  by (auto simp: sd_server_main_def exit_status_def dest!: event_loop_negative sd_server_start_fails
      split: prod.splits sum.splits if_splits)

theorem sd_server_never_succeeds_witness:
  "sd_server_main example_bus [] = Some (EXIT_FAILURE, [])"
proof -
  have "\<exists>s. sd_server_main example_bus [] = Some (s, [])"
    by (simp add: sd_server_main_def sd_server_start_def event_loop.simps example_bus_def)
  then obtain s where s: "sd_server_main example_bus [] = Some (s, [])" ..
  from sd_server_never_succeeds [OF s] s show ?thesis by simp
qed

section \<open>Sockets and answers\<close>

text \<open>
  C27.  A remote call other than \<open>read\<close> that returns leaves no socket open, whatever
  the kernel and the server did: the last thing it did to the world was to close its
  socket, or it got none, or it got no memory before it asked for one.
\<close>

theorem sockets_released:
  assumes "wf_heap st" and "remote_call c" and "\<And>fd n. c \<noteq> Read fd n"
    and "issue os ub c st = Inr (r, st')"
  shows "sint (sock st') < 0 \<or> (\<exists>w. world st' = snd (f_close os (sock st') w)) \<or>
    (\<exists>k. os_malloc os k (world st) = (None, world st'))"
  using holdsD [OF issue_settled [OF assms(1-3), of os ub] assms(4)]
  by (auto simp: settled_def released_def)

theorem sockets_released_witness:
  "\<exists>r st'. issue (client_os example) [] (Fsync 0x7FFFFFFC) example_client = Inr (r, st') \<and>
     (sint (sock st') < 0 \<or> (\<exists>w. world st' = snd (f_close (client_os example) (sock st') w)) \<or>
      (\<exists>k. os_malloc (client_os example) k (world example_client) = (None, world st')))"
proof -
  let ?c = "Fsync 0x7FFFFFFC"
  have c: "remote_call ?c" "wf_args [] ?c" "fits example (server_call ?c)"
    by (simp_all add: is_remote_fd_def fits_def to_local_def example_def payload_of_def frame_def)
  have wf: "wf_heap example_client" using example_ready by (simp add: ready_def)
  obtain r st' where i: "issue (client_os example) [] ?c example_client = Inr (r, st')"
    using remote_issue [OF example_ready c] by (auto simp: Let_def split: prod.splits)
  from sockets_released [OF wf c(1) _ i] i show ?thesis by blast
qed

text \<open>
  C28.  \<open>read\<close> is the exception: when there is no memory for the response, it returns
  \<open>-1\<close> after the request has been sent, and the world is left as the failed
  \<open>malloc\<close> left it, with the socket \<open>sock s\<close> open.
\<close>

theorem read_leaks_socket:
  assumes "is_remote_fd fd"
    and "send_data os (frame (payload_of (Read fd n))) 21 (resolve READ st) = Inr (0, s)"
    and "os_malloc os (8 + n) (world s) = (None, w)"
  shows "\<exists>st'. issue os ub (Read fd n) st = Inr (RRead (-1) ub, st') \<and> world st' = w \<and> sock st' = sock s"
  using read_no_memory [OF assms] by simp

theorem read_leaks_socket_witness:
  "\<exists>st'. issue poor_os [1, 2] (Read 0x7FFFFFFC 2) example_client = Inr (RRead (-1) [1, 2], st') \<and> sock st' = 5"
proof -
  let ?c = "Read 0x7FFFFFFC 2"
  have "carries example ?c" "unat (21 :: size_t) = length (frame (payload_of ?c))"
    by (simp_all add: carries_def fits_def to_local_def example_def payload_of_def frame_def)
  then obtain s where s: "send_data poor_os (frame (payload_of ?c)) 21 (resolve READ example_client) = Inr (0, s)"
    "sock s = 5"
    using example_sends [of ?c 21 READ] by (auto simp: same_sends)
  have m: "os_malloc poor_os (8 + 2) (world s) = (None, world s)" by (simp add: poor_os_def)
  have fd: "is_remote_fd 0x7FFFFFFC" by (simp add: is_remote_fd_def)
  from read_leaks_socket [OF fd s(1) m] s(2) show ?thesis by auto
qed

text \<open>
  C29.  A response that stops short is taken for a complete one.  \<open>fsync\<close>, for one,
  returns the four bytes of its array whatever number of them has arrived; when the server
  hangs up without a word the result is the array's indeterminate content.
\<close>

theorem short_answer_accepted:
  assumes "is_remote_fd fd"
    and "send_data os (frame (payload_of (Fsync fd))) 13 (resolve FSYNC st) = Inr (0, s)"
    and "os_recv os (sock s) 4 (world s) = Some ((got, bs), w)" and "0 \<le> sint got"
    and "f_close os (sock s) w = (rc, w')" and "0 \<le> sint rc"
  shows "issue os ub (Fsync fd) st =
    Inr (RInt (ld32 (put_prefix (take 4 bs) (stack_array os 4 s))), s\<lparr>world := w'\<rparr>)"
  by (rule fsync_cut_off [OF assms])

theorem short_answer_accepted_witness:
  "\<exists>st'. issue silent_os [] (Fsync 0x7FFFFFFC) example_client = Inr (RInt 0xAAAAAAAA, st')"
proof -
  let ?c = "Fsync 0x7FFFFFFC"
  have "carries example ?c" "unat (13 :: size_t) = length (frame (payload_of ?c))"
    by (simp_all add: carries_def fits_def to_local_def example_def payload_of_def frame_def)
  then obtain s where s: "send_data silent_os (frame (payload_of ?c)) 13 (resolve FSYNC example_client) = Inr (0, s)"
    "sock s = 5"
    using example_sends [of ?c 13 FSYNC] by (auto simp: same_sends)
  have r: "os_recv silent_os (sock s) 4 (world s) = Some ((0, []), world s)" by (simp add: silent_os_def)
  have k: "f_close silent_os (sock s) (world s) = (0, world s)"
    using s(2) by (simp add: silent_os_def client_os_def Let_def example_def)
  have fd: "is_remote_fd 0x7FFFFFFC" by (simp add: is_remote_fd_def)
  have g: "stack_array silent_os 4 s = [170, 170, 170, 170]"
    by (simp add: stack_array_def silent_os_def client_os_def Let_def example_def upt_rec)
  from short_answer_accepted [OF fd s(1) r _ k] show ?thesis
    by (simp add: g ld32_def)
qed

text \<open>
  C30.  The two kinds of descriptors never get mixed up: a descriptor \<open>open\<close> hands to the
  client counts as remote exactly when the path was remote, and translated back it is the one
  the server's \<open>open\<close> returned.  The server's \<open>open\<close> hands out descriptors up to
  1073741823, the client's only ones that do not count as remote.
\<close>

theorem descriptors_typed:
  assumes "ready S st" and "valid_call S ub (Open path oflag m)" and "fresh_fds S"
    and "\<And>p fl md l. \<not> is_remote_fd (fst (f_open (local_files S) p fl md l))"
    and "issue (client_os S) ub (Open path oflag m) st = Inr (r, st')"
  shows "\<exists>fd. r = RInt fd \<and> (0 \<le> sint fd \<longrightarrow> (is_remote_fd fd \<longleftrightarrow> remote_path path) \<and>
    (remote_path path \<longrightarrow> to_local fd = fst (f_open (remote_files S) (drop 2 path) oflag
       (if oflag = O_CREAT then m else None) (server_fs st))))"
  using issue_outcome [OF assms(1,2)] open_outcome_typed [OF assms(3,4)] assms(5) by fastforce

theorem descriptors_typed_witness:
  "\<exists>st'. issue (client_os example) [] (Open (cstring ''//test_file.txt'') O_RDWR None) example_client =
     Inr (RInt 0x7FFFFFFC, st') \<and> is_remote_fd 0x7FFFFFFC"
proof -
  let ?c = "Open (cstring ''//test_file.txt'') O_RDWR None"
  have v: "valid_call example [] ?c"
    using remote_main_paths(2) [OF example_sane(2), of "replicate sizeof_stat 0"] by simp
  obtain r st' where i: "issue (client_os example) [] ?c example_client = Inr (r, st')"
    using issue_outcome [OF example_ready v] by blast
  have l: "\<not> is_remote_fd (fst (f_open (local_files example) p fl md l))" for p fl md l
    by (simp add: example_def tiny_files_def is_remote_fd_def)
  have o: "f_open (remote_files example) (cstring ''test_file.txt'') O_RDWR md x = (3, x\<lparr>pos := 0\<rparr>)" for md x
    by (simp add: example_def tiny_files_def tiny_name_def)
  have p: "remote_path (cstring ''//test_file.txt'')" "drop 2 (cstring ''//test_file.txt'') = cstring ''test_file.txt''"
    by (simp_all add: cstring_def of_char_def remote_path_def char_at_def)
  obtain fd where fd: "r = RInt fd" "0 \<le> sint fd \<Longrightarrow> to_local fd = 3"
    using descriptors_typed [OF example_ready v example_fresh l i] p o by auto
  have "\<exists>fd. r = RInt fd \<and> fd = to_remote 3"
    using issue_outcome [OF example_ready v] i p o by (auto simp: outcome_def split: prod.splits)
  with fd i show ?thesis by (auto simp: to_remote_def is_remote_fd_def)
qed

text \<open>
  C31.  What any program with valid calls gets, also one that can tell the stubs from the real
  functions: it runs to its end,
  each call having the outcome the stubs give it.  A remote call is made on the server's files
  with the server's path and descriptor; a mode passed with other flags than \<open>O_CREAT\<close> alone
  is dropped, on both machines; and a remote \<open>read\<close>, \<open>stat\<close> or \<open>fstat\<close> overwrites
  the caller's whole array, behind what the server stored with arbitrary bytes.
\<close>

theorem program_behaviour:
  assumes "ready S st" and "valid S p (lfs (world st)) (server_fs st)"
  shows "\<exists>vs st'. run (client_os S) p st = Inr (vs, st') \<and> ready S st' \<and> heap st' = heap st \<and>
    behaves S p (lfs (world st)) (server_fs st) vs (lfs (world st')) (server_fs st')"
  by (rule run_behaves [OF assms])

theorem program_behaviour_witness:
  "\<exists>bs st'. run (client_os example)
     (Call [] (Open (cstring ''//test_file.txt'') O_RDWR None) (\<lambda>r.
      Call (replicate 12 0) (Read (int_of r) 12) (\<lambda>r.
      Print (Status_line (read_status r) (buffer_of r)) Return))) example_client =
     Inr ([Status_line 11 (cstring ''hello world'' @ bs)], st') \<and> length bs = 1"
proof -
  let ?p = "Call [] (Open (cstring ''//test_file.txt'') O_RDWR None) (\<lambda>r.
      Call (replicate 12 0) (Read (int_of r) 12) (\<lambda>r.
      Print (Status_line (read_status r) (buffer_of r)) Return))"
  let ?c = example_client
  have op: "remote_call (Open (cstring ''//test_file.txt'') O_RDWR None)"
    by (simp add: cstring_def of_char_def remote_path_def char_at_def)
  have "valid_call example [] (Open (cstring ''//test_file.txt'') O_RDWR None)"
    using remote_main_paths(2) [OF example_sane(2), of "replicate sizeof_stat 0"] by simp
  then have "valid example ?p (lfs (world ?c)) (server_fs ?c)"
    using session_open [OF example_sane(2) example_fresh op] session_fd_calls(1) [OF example_sane(2)]
    by (auto simp del: remote_call.simps)
  from program_behaviour [OF example_ready this]
  obtain vs st' where r: "run (client_os example) ?p ?c = Inr (vs, st')"
    and b: "behaves example ?p (lfs (world ?c)) (server_fs ?c) vs (lfs (world st')) (server_fs st')"
    by blast
  have fd: "is_remote_fd (to_remote 3)" "to_local (to_remote 3) = 3" "to_remote 3 = 0x7FFFFFFC"
    by (simp_all add: is_remote_fd_def to_remote_def to_local_def)
  have "\<exists>bs. vs = [Status_line 11 (cstring ''hello world'' @ bs)] \<and> length bs = 1"
    using b fd
    by (auto simp: behaves_simps outcome_def example_def tiny_files_def tiny_name_def example_client_def
        example_server_def example_net_def server_fs_def cstring_def of_char_def remote_path_def char_at_def
        put_prefix_def)
  with r show ?thesis by blast
qed

text \<open>
  C32.  Where the stubs connect to: the first connection of a process goes through
  \<open>connect\<close> to the address of the host \<open>RPC_HOST\<close> names, or of 127.0.0.1 without it,
  and to the port \<open>RPC_PORT\<close> gives in decimal, or to 5000 without it, in network byte order;
  when the calls on the way succeed so does the connection, and later ones of the process keep
  that endpoint, whatever becomes of the environment.
\<close>

theorem endpoint_chosen:
  assumes "host_string st = None"
    and "case os_getenv os ''RPC_PORT'' of None \<Rightarrow> n = 5000 | Some s \<Rightarrow> s = decimal n"
    and "0 < n" and "n < 65536"
    and "os_socket os (world st) = (fd, w1)" and "0 \<le> sint fd"
    and "os_setsockopt os fd w1 = (rc, w2)" and "0 \<le> sint rc"
    and "os_connect os fd (htons (of_nat n)) (os_inet_addr os
           (case os_getenv os ''RPC_HOST'' of None \<Rightarrow> HOSTNAME | Some h \<Rightarrow> h)) w2 = (rc', w3)"
    and "0 \<le> sint rc'"
  shows "\<exists>st'. connect_to_server os st = Inr (0, st') \<and> world st' = w3 \<and> sock st' = fd \<and>
    (\<forall>os'. lookup_endpoint os' st' = Inr st')"
  by (rule connect_endpoint [OF assms])

theorem endpoint_chosen_witness:
  "\<exists>st'. connect_to_server picky_os (logging_client\<lparr>host_string := None\<rparr>) = Inr (0, st') \<and> sock st' = 5"
proof -
  let ?st = "logging_client\<lparr>host_string := None\<rparr>"
  have p: "case os_getenv picky_os ''RPC_PORT'' of None \<Rightarrow> 8080 = (5000 :: nat) | Some s \<Rightarrow> s = decimal 8080"
    by (simp add: picky_os_def cstring_def of_char_def decimal.simps digit_def)
  have "os_connect picky_os 5 (htons (of_nat 8080)) (os_inet_addr picky_os
      (case os_getenv picky_os ''RPC_HOST'' of None \<Rightarrow> HOSTNAME | Some h \<Rightarrow> h)) w = (0, w)" for w
    by (simp add: picky_os_def logging_os_def)
  from endpoint_chosen [of ?st, OF _ p _ _ _ _ _ _ this, of "[]" 0 "[]"] show ?thesis
    by (auto simp: picky_os_def logging_os_def logging_client_def)
qed

section \<open>Local programs\<close>

text \<open>
  C33.  Preloading the library changes nothing for a program whose calls are all local, with
  valid arguments, and that passes a mode only with the flag word \<open>O_CREAT\<close> alone: over any
  kernel it prints the same lines, leaves the same world and runs into the same faults as
  without the library, and all the library does to the process is to resolve pointers.
\<close>

theorem preload_invisible:
  assumes "local_prog os p (world st)"
  shows "case run_plain os p (world st) of
      Inl e \<Rightarrow> run os p st = Inl e
    | Inr (vs, w) \<Rightarrow> \<exists>st'. run os p st = Inr (vs, st') \<and> world st' = w \<and> same_process st st'"
  by (rule run_local [OF assms])

theorem preload_invisible_witness:
  "case run_plain (client_os example) (local_main (Some [cstring ''a'']) (replicate 144 0)) (world example_client) of
      Inl e \<Rightarrow> run (client_os example) (local_main (Some [cstring ''a'']) (replicate 144 0)) example_client = Inl e
    | Inr (vs, w) \<Rightarrow> \<exists>st'. run (client_os example) (local_main (Some [cstring ''a'']) (replicate 144 0))
        example_client = Inr (vs, st') \<and> world st' = w \<and> same_process example_client st'"
proof -
  have "local_prog (client_os example) (local_main (Some [cstring ''a'']) (replicate 144 0)) (world example_client)"
    by (rule local_main_local [OF example_local_fds])
       (simp_all add: sizeof_stat_def entry_name_def cstring_def of_char_def addressable_def)
  then show ?thesis by (rule preload_invisible)
qed

text \<open>
  C34.  The listing at the end of \<open>c/local.c\<close>, made through the library: the lines for an
  entry go by what the last \<open>stat\<close> that succeeded found, up to and including the entry's
  own (\<open>listing\<close>).  So when every \<open>stat\<close> succeeds there is one line for every entry that
  is a directory or a regular file, in the order of the entries, and nothing else; an entry
  whose \<open>stat\<close> fails is listed as what an earlier one was.
\<close>

theorem local_listing:
  assumes "stats os stat_of names" and "\<forall>name \<in> set names. entry_name name" and "length sb = sizeof_stat"
  shows "\<exists>st'. run os (list_entries sb names) st = Inr (listing stat_of sb names, st') \<and>
    world st' = world st \<and>
    ((\<forall>name \<in> set names. stat_of name \<noteq> None) \<longrightarrow>
       listing stat_of sb names = concat (map (\<lambda>name. entry_lines (the (stat_of name)) name) names))"
proof -
  have "local_prog os (list_entries sb names) (world st)"
    by (rule list_entries_local [OF assms(3)]) (use assms(2) in blast)
  from run_local [OF this] show ?thesis
    using list_entries_prints [OF assms(1,3), where w = "world st"] listing_all_found by auto
qed

theorem local_listing_witness:
  "\<exists>st'. run dir_os (list_entries (replicate 144 0) [cstring ''f'', cstring ''.'', cstring ''gone'']) example_client =
     Inr ([Regular (cstring ''f''), Directory (cstring ''.''), Directory (cstring ''gone'')], st')"
proof -
  let ?names = "[cstring ''f'', cstring ''.'', cstring ''gone'']"
  have e: "\<forall>name \<in> set ?names. entry_name name"
    by (simp add: entry_name_def cstring_def of_char_def addressable_def)
  have s: "length (replicate 144 (0 :: byte)) = sizeof_stat" by (simp add: sizeof_stat_def)
  have "listing example_stat (replicate 144 0) ?names =
      [Regular (cstring ''f''), Directory (cstring ''.''), Directory (cstring ''gone'')]"
    by (simp add: listing_Cons listing_Nil entry_lines_def st_mode_def example_stat_def S_ISDIR_def S_ISREG_def
        cstring_def of_char_def Let_def)
  with local_listing [OF dir_os_stats e s, of example_client] show ?thesis by auto
qed

text \<open>
  C35.  \<open>rename\<close> of a remote file to an empty name runs out of bounds: with memory for its
  request the stub copies from behind the end of the name, over any kernel.
\<close>

theorem rename_overrun:
  assumes "wf_heap st" and "remote_path old"
    and "os_malloc os (8 + (strlen old - 1)) (world st) = (Some g, w)"
  shows "issue os ub (Rename old []) st = Inl OutOfBounds"
  by (rule rename_empty [OF assms])

theorem rename_overrun_witness:
  "issue logging_os [] (Rename (cstring ''//a'') []) logging_client = Inl OutOfBounds"
proof -
  have wf: "wf_heap logging_client" by (simp add: wf_heap_def logging_client_def)
  have p: "remote_path (cstring ''//a'')" by (simp add: cstring_def of_char_def remote_path_def char_at_def)
  have m: "os_malloc logging_os (8 + (strlen (cstring ''//a'') - 1)) (world logging_client) = (Some (\<lambda>_. 0), [])"
    by (simp add: logging_os_def logging_client_def)
  from rename_overrun [OF wf p m] show ?thesis by simp
qed

section \<open>D-Bus and Windows programs\<close>

text \<open>
  C36.  Whatever libsystemd does, the D-Bus client prints a result exactly when it reports
  success, the result is what the answer to its call of \<open>Multiply\<close> with 6 and 7 holds, and on
  every way out it has released every bus and every message it got: the references it holds are
  those it started with.
\<close>

theorem bus_client_reports:
  assumes "sd_client_main lib w = (printed, status, w')" and "counts lib refs"
  shows "(status = EXIT_SUCCESS \<longleftrightarrow> printed \<noteq> None) \<and> refs w' = refs w \<and>
    (\<forall>v. printed = Some v \<longrightarrow> (\<exists>bus r m w1 w2.
       sd_call_method lib bus SERVICE_NAME OBJECT_PATH SERVICE_NAME MULTIPLY 6 7 w1 = ((r, m), w2) \<and>
       0 \<le> sint r \<and> v = snd (fst (sd_read_x lib m w2))))"
  using sd_client_reports [OF assms(1)] sd_client_refs [OF assms(2,1)] by auto

theorem bus_client_reports_witness:
  "\<exists>w'. sd_client_main counting_bus {#} = (Some 42, EXIT_SUCCESS, w') \<and> w' = {#}"
proof -
  obtain status w' where r: "sd_client_main counting_bus {#} = (Some 42, status, w')"
    by (simp add: sd_client_main_def sd_client_finish_def counting_bus_def)
  from bus_client_reports [OF r counting_counts] r show ?thesis by auto
qed

text \<open>
  C37.  \<open>InjectDLL\<close> leaves no memory behind in the child: when it returns, either it
  got none or the last thing it did was to free what it got, whether the thread was created
  or not.
\<close>

theorem injection_frees:
  assumes "InjectDLL api h path w = Inr w'" and "VirtualAllocEx api h (length path + 1) w = (p, w0)"
  shows "p = NULL \<and> w' = win_puts api (cstring ''VirtualAllocEx failed'') w0 \<or>
    p \<noteq> NULL \<and> (\<exists>w1. w' = VirtualFreeEx api h p w1)"
  by (rule InjectDLL_frees [OF assms])

theorem injection_frees_witness:
  "\<exists>w' w1. InjectDLL (win_api example_machine) 1 winshim_dll example_winworld = Inr w' \<and>
     w' = VirtualFreeEx (win_api example_machine) 1 1 w1"
proof -
  obtain w' where w': "InjectDLL (win_api example_machine) 1 winshim_dll example_winworld = Inr w'"
    using example_inject(1) [of example_winworld 1] by (auto simp: example_winworld_def)
  obtain w0 where a: "VirtualAllocEx (win_api example_machine) 1 (length winshim_dll + 1) example_winworld = (1, w0)"
    by (simp add: win_api_def example_winworld_def example_machine_def winshim_dll_def cstring_def)
  from injection_frees [OF w' a] w' show ?thesis by auto
qed





text \<open>
  C40.  \<open>c/winlocal.c\<close> comes to its end and prints what it should: when the search it
  opens hands out finitely many entries, the loop ends, every entry that is a directory or
  has the archive attribute is listed, in order and by its name, behind the lines of the
  first part, and the search is closed.
\<close>

theorem winlocal_ends:
  assumes "winlocal_session api w = Inr (ls, w1)"
    and "FindFirstFileA api search_pattern w1 = ((h, e), w2)" and "h \<noteq> INVALID_HANDLE_VALUE"
    and "enumerates api h left"
  shows "\<exists>w3. winlocal_main api w =
    Some (Inr (ls @ concat (map win_entry (e # left w2)), FindClose api h w3))"
  by (rule winlocal_lists [OF assms])

theorem winlocal_ends_witness:
  "\<exists>w'. winlocal_main example_winfiles 1 =
     Some (Inr ([Win_size 11, Win_modified (cstring ''Thu, 01 Jan 1970 00:00:00 GMT''),
       Win_status 5 (replicate 5 65), Win_status 6 (replicate 11 65), Win_dir [65], Win_file []], w'))"
proof -
  have t: "win_date_line 0 = Inr (cstring ''Thu, 01 Jan 1970 00:00:00 GMT'')"
    by (simp add: win_date_line_def date_line_eq example_dates format_date_def day_names_def month_names_def
        two_digits_def digit_def signed_decimal_def decimal.simps cstring_def of_char_def)
  have s: "winlocal_session example_winfiles 1 =
      Inr ([Win_size 11, Win_modified (cstring ''Thu, 01 Jan 1970 00:00:00 GMT''), Win_status 5 (replicate 5 65), Win_status 6 (replicate 11 65)], 1)"
    by (simp add: winlocal_session_def example_winfiles_def t put_prefix_def takeWhile_replicate takeWhile_append
        replicate_append_same flip: replicate_add)
  have f: "FindFirstFileA example_winfiles search_pattern 1 = ((4, example_entry 1), 1)"
    by (simp add: example_winfiles_def)
  have i: "4 \<noteq> INVALID_HANDLE_VALUE" by (simp add: INVALID_HANDLE_VALUE_def)
  from winlocal_ends [OF s f i example_enumerates] show ?thesis
    by (auto simp: example_left_def example_entry_def win_entry_def FILE_ATTRIBUTE_DIRECTORY_def
        FILE_ATTRIBUTE_ARCHIVE_def)
qed

end
